(* ===== verification/Prelude.thy ===== *)
theory Prelude
  imports Complex_Main "HOL-Library.Word"
begin

section \<open>Prelude: actions with errors, table operations, shared automation\<close>

text \<open>
  What every component theory shares.  Request handlers and background tasks of the
  program are \<^emph>\<open>actions\<close>: functions of the state that return an error or a value, and
  the next state.  The combinators follow the shapes the Rust code uses: \<open>and_then\<close> is
  the \<open>?\<close> operator followed by the rest of the function, \<open>ignore\<close> is \<open>let _ = \<dots>\<close>,
  \<open>or_default\<close> is \<open>.unwrap_or(\<dots>)\<close>, \<open>ok_or\<close> is \<open>.ok_or_else(\<dots>)?\<close> and \<open>for_each\<close> is
  a \<open>for\<close> loop.  \<open>keeps\<close> states that an action preserves an invariant whatever it
  returns; its rules are collected in \<open>keeps_intro\<close>.  \<open>ok_simps\<close> turn "this action returned
  a value" into the conditions its guards tested.
\<close>

named_theorems keeps_intro
named_theorems action_simps
named_theorems codec_simps
named_theorems ok_simps

type_synonym ('s, 'e, 'a) action = "'s \<Rightarrow> ('e + 'a) \<times> 's"

definition ret :: "'a \<Rightarrow> ('s, 'e, 'a) action" where
  "ret x s = (Inr x, s)"

definition raise :: "'e \<Rightarrow> ('s, 'e, 'a) action" where
  "raise e s = (Inl e, s)"

definition and_then ::
  "('s, 'e, 'a) action \<Rightarrow> ('a \<Rightarrow> ('s, 'e, 'b) action) \<Rightarrow> ('s, 'e, 'b) action" where
  "and_then m k s = (case m s of (Inl e, t) \<Rightarrow> (Inl e, t) | (Inr x, t) \<Rightarrow> k x t)"

definition gets :: "('s \<Rightarrow> 'a) \<Rightarrow> ('s, 'e, 'a) action" where
  "gets f s = (Inr (f s), s)"

definition modify :: "('s \<Rightarrow> 's) \<Rightarrow> ('s, 'e, unit) action" where
  "modify f s = (Inr (), f s)"

definition ignore :: "('s, 'e, 'a) action \<Rightarrow> ('s, 'e, unit) action" where
  "ignore m s = (Inr (), snd (m s))"

definition or_default :: "'a \<Rightarrow> ('s, 'e, 'a) action \<Rightarrow> ('s, 'e, 'a) action" where
  "or_default d m s = (case m s of (Inl e, t) \<Rightarrow> (Inr d, t) | (Inr x, t) \<Rightarrow> (Inr x, t))"

definition ok_or :: "'e \<Rightarrow> 'a option \<Rightarrow> ('s, 'e, 'a) action" where
  "ok_or e x = (case x of None \<Rightarrow> raise e | Some y \<Rightarrow> ret y)"

definition lift_result :: "('e + 'a) \<Rightarrow> ('s, 'e, 'a) action" where
  "lift_result r s = (r, s)"

definition guard :: "bool \<Rightarrow> 'e \<Rightarrow> ('s, 'e, unit) action" where
  "guard b e = (if b then ret () else raise e)"

definition when_do :: "bool \<Rightarrow> ('s, 'e, unit) action \<Rightarrow> ('s, 'e, unit) action" where
  "when_do b m = (if b then m else ret ())"

primrec for_each ::
  "'a list \<Rightarrow> ('a \<Rightarrow> ('s, 'e, unit) action) \<Rightarrow> ('s, 'e, unit) action" where
  "for_each [] f = ret ()"
| "for_each (x # xs) f = and_then (f x) (\<lambda>_. for_each xs f)"

lemmas action_defs = ret_def raise_def gets_def modify_def ok_or_def lift_result_def
  guard_def when_do_def

lemma and_then_ret [simp]: "and_then (ret x) k = k x"
  by (rule ext) (simp add: and_then_def ret_def)

lemma and_then_raise [simp]: "and_then (raise e) k = raise e"
  by (rule ext) (simp add: and_then_def raise_def)

lemma and_then_assoc: "and_then (and_then m k) l = and_then m (\<lambda>x. and_then (k x) l)"
  by (rule ext) (simp add: and_then_def split: prod.splits sum.splits)

lemma and_then_gets [simp]: "and_then (gets f) k s = k (f s) s"
  by (simp add: and_then_def gets_def)

lemma and_then_modify [simp]: "and_then (modify f) k s = k () (f s)"
  by (simp add: and_then_def modify_def)

lemma and_then_ignore [simp]: "and_then (ignore m) k s = k () (snd (m s))"
  by (simp add: and_then_def ignore_def)

lemma and_then_Inr: "m s = (Inr x, t) \<Longrightarrow> and_then m k s = k x t"
  by (simp add: and_then_def)

lemma and_then_Inl: "m s = (Inl e, t) \<Longrightarrow> and_then m k s = (Inl e, t)"
  by (simp add: and_then_def)

lemma and_then_eq_Inr:
  "and_then m k s = (Inr y, t) \<longleftrightarrow> (\<exists>x u. m s = (Inr x, u) \<and> k x u = (Inr y, t))"
  by (auto simp: and_then_def split: prod.splits sum.splits)

lemma guard_simps [simp]: "guard True e = ret ()" "guard False e = raise e"
  by (simp_all add: guard_def)

lemma when_do_simps [simp]: "when_do True m = m" "when_do False m = ret ()"
  by (simp_all add: when_do_def)

lemma ok_or_simps [simp]: "ok_or e (Some x) = ret x" "ok_or e None = raise e"
  by (simp_all add: ok_or_def)

lemma ret_apply [action_simps]: "ret x s = (Inr x, s)"
  by (simp add: ret_def)

lemma raise_apply [action_simps]: "raise e s = (Inl e, s)"
  by (simp add: raise_def)

lemma snd_ret [simp]: "snd (ret x s) = s"
  by (simp add: ret_def)

lemma snd_raise [simp]: "snd (raise e s) = s"
  by (simp add: raise_def)

lemma snd_gets [simp]: "snd (gets f s) = s"
  by (simp add: gets_def)

text \<open>\<^verbatim>\<open>.map_err(f)?\<close> on a plain result, and \<^verbatim>\<open>Iterator::find_map\<close>.\<close>

definition map_err :: "('x \<Rightarrow> 'e) \<Rightarrow> ('x + 'a) \<Rightarrow> ('s, 'e, 'a) action" where
  "map_err f r = (case r of Inl x \<Rightarrow> raise (f x) | Inr y \<Rightarrow> ret y)"

fun find_map :: "('a \<Rightarrow> 'b option) \<Rightarrow> 'a list \<Rightarrow> 'b option" where
  "find_map f [] = None"
| "find_map f (x # xs) = (case f x of Some y \<Rightarrow> Some y | None \<Rightarrow> find_map f xs)"

lemma map_err_simps [simp]: "map_err f (Inl x) = raise (f x)" "map_err f (Inr y) = ret y"
  by (simp_all add: map_err_def)

lemmas and_then_ok [ok_simps] = and_then_eq_Inr

lemma ret_ok [ok_simps]: "ret x s = (Inr y, t) \<longleftrightarrow> x = y \<and> t = s"
  by (auto simp: ret_def)

lemma raise_ok [ok_simps]: "raise e s = (Inr y, t) \<longleftrightarrow> False"
  by (simp add: raise_def)

lemma gets_ok [ok_simps]: "gets f s = (Inr y, t) \<longleftrightarrow> f s = y \<and> t = s"
  by (auto simp: gets_def)

lemma modify_ok [ok_simps]: "modify f s = (Inr y, t) \<longleftrightarrow> t = f s"
  by (auto simp: modify_def)

lemma ok_or_ok [ok_simps]: "ok_or e x s = (Inr y, t) \<longleftrightarrow> x = Some y \<and> t = s"
  by (cases x) (auto simp: ret_def raise_def)

lemma guard_ok [ok_simps]: "guard b e s = (Inr y, t) \<longleftrightarrow> b \<and> t = s"
  by (cases b) (auto simp: ret_def raise_def)

lemma lift_result_ok [ok_simps]: "lift_result r s = (Inr y, t) \<longleftrightarrow> r = Inr y \<and> t = s"
  by (auto simp: lift_result_def)

lemma ignore_ok [ok_simps]: "ignore m s = (Inr y, t) \<longleftrightarrow> t = snd (m s)"
  by (auto simp: ignore_def)

lemma map_err_ok [ok_simps]: "map_err f r s = (Inr y, t) \<longleftrightarrow> r = Inr y \<and> t = s"
  by (cases r) (auto simp: ret_def raise_def)

subsection \<open>Invariants kept by actions\<close>

definition keeps :: "('s \<Rightarrow> bool) \<Rightarrow> ('s, 'e, 'a) action \<Rightarrow> bool" where
  "keeps I m \<longleftrightarrow> (\<forall>s. I s \<longrightarrow> I (snd (m s)))"

lemma keepsD: "keeps I m \<Longrightarrow> I s \<Longrightarrow> I (snd (m s))"
  by (simp add: keeps_def)

lemma keepsI: "(\<And>s. I s \<Longrightarrow> I (snd (m s))) \<Longrightarrow> keeps I m"
  by (simp add: keeps_def)

lemma keeps_ret [keeps_intro]: "keeps I (ret x)"
  by (simp add: keeps_def)

lemma keeps_raise [keeps_intro]: "keeps I (raise e)"
  by (simp add: keeps_def)

lemma keeps_gets [keeps_intro]: "keeps I (gets f)"
  by (simp add: keeps_def)

lemma keeps_lift_result [keeps_intro]: "keeps I (lift_result r)"
  by (simp add: keeps_def lift_result_def)

lemma keeps_map_err [keeps_intro]: "keeps I (map_err f r)"
  by (cases r) (simp_all add: keeps_def)

lemma keeps_and_then [keeps_intro]:
  "keeps I m \<Longrightarrow> (\<And>x. keeps I (k x)) \<Longrightarrow> keeps I (and_then m k)"
  by (fastforce simp: keeps_def and_then_def split: prod.splits sum.splits)

lemma keeps_ignore [keeps_intro]: "keeps I m \<Longrightarrow> keeps I (ignore m)"
  by (simp add: keeps_def ignore_def)

lemma keeps_or_default [keeps_intro]: "keeps I m \<Longrightarrow> keeps I (or_default d m)"
  by (fastforce simp: keeps_def or_default_def split: prod.splits sum.splits)

lemma keeps_ok_or [keeps_intro]: "keeps I (ok_or e x)"
  by (cases x) (simp_all add: keeps_def)

lemma keeps_guard [keeps_intro]: "keeps I (guard b e)"
  by (cases b) (simp_all add: keeps_def)

lemma keeps_when_do [keeps_intro]: "keeps I m \<Longrightarrow> keeps I (when_do b m)"
  by (cases b) (simp_all add: keeps_def)

lemma keeps_modify [keeps_intro]: "(\<And>s. I s \<Longrightarrow> I (f s)) \<Longrightarrow> keeps I (modify f)"
  by (simp add: keeps_def modify_def)

lemma keeps_for_each [keeps_intro]:
  "(\<And>x. x \<in> set xs \<Longrightarrow> keeps I (f x)) \<Longrightarrow> keeps I (for_each xs f)"
  by (induction xs) (auto intro: keeps_intro)

lemma keeps_if [keeps_intro]: "keeps I m \<Longrightarrow> keeps I n \<Longrightarrow> keeps I (if b then m else n)"
  by simp

lemma keeps_case_option [keeps_intro]:
  "keeps I m \<Longrightarrow> (\<And>x. keeps I (k x)) \<Longrightarrow> keeps I (case v of None \<Rightarrow> m | Some x \<Rightarrow> k x)"
  by (cases v) simp_all

lemma keeps_case_sum [keeps_intro]:
  "(\<And>x. keeps I (f x)) \<Longrightarrow> (\<And>x. keeps I (g x)) \<Longrightarrow> keeps I (case v of Inl x \<Rightarrow> f x | Inr x \<Rightarrow> g x)"
  by (cases v) simp_all

lemma keeps_case_prod [keeps_intro]:
  "(\<And>x y. keeps I (f x y)) \<Longrightarrow> keeps I (case v of (x, y) \<Rightarrow> f x y)"
  by (cases v) simp

lemma for_each_append:
  "for_each (xs @ ys) f = and_then (for_each xs f) (\<lambda>_. for_each ys f)"
  by (induction xs) (simp_all add: and_then_assoc)

text \<open>A loop whose body never fails is a fold over the state.\<close>

lemma for_each_fold:
  assumes "\<And>x s. x \<in> set xs \<Longrightarrow> f x s = (Inr (), g x s)"
  shows "for_each xs f s = (Inr (), fold g xs s)"
  using assms by (induction xs arbitrary: s) (simp_all add: action_simps and_then_def)

subsection \<open>Rows of a table\<close>

text \<open>
  A table is the list of its rows in insertion order.  \<open>upd_where\<close> is
  \<^verbatim>\<open>UPDATE \<dots> SET f WHERE p\<close>, \<open>del_where\<close> is \<^verbatim>\<open>DELETE \<dots> WHERE p\<close>, \<open>List.find\<close> the
  fetch of one row, \<open>count_where\<close> is \<^verbatim>\<open>SELECT COUNT(*) \<dots> WHERE p\<close>.  \<open>order_desc\<close> is
  \<^verbatim>\<open>ORDER BY k DESC\<close> (stable), \<open>order_asc\<close> the ascending one.
\<close>

definition upd_where :: "('r \<Rightarrow> bool) \<Rightarrow> ('r \<Rightarrow> 'r) \<Rightarrow> 'r list \<Rightarrow> 'r list" where
  "upd_where p f rows = map (\<lambda>r. if p r then f r else r) rows"

definition del_where :: "('r \<Rightarrow> bool) \<Rightarrow> 'r list \<Rightarrow> 'r list" where
  "del_where p rows = filter (\<lambda>r. \<not> p r) rows"

definition exists_where :: "('r \<Rightarrow> bool) \<Rightarrow> 'r list \<Rightarrow> bool" where
  "exists_where p rows \<longleftrightarrow> list_ex p rows"

definition count_where :: "('r \<Rightarrow> bool) \<Rightarrow> 'r list \<Rightarrow> nat" where
  "count_where p rows = length (filter p rows)"

definition order_asc :: "('r \<Rightarrow> 'k::linorder) \<Rightarrow> 'r list \<Rightarrow> 'r list" where
  "order_asc k rows = sort_key k rows"

definition order_desc :: "('r \<Rightarrow> int) \<Rightarrow> 'r list \<Rightarrow> 'r list" where
  "order_desc k rows = sort_key (\<lambda>r. - k r) rows"

text \<open>The same on a nullable column: PostgreSQL puts NULLs first in DESC order, last in ASC order.\<close>

definition order_desc_nulls :: "('r \<Rightarrow> int option) \<Rightarrow> 'r list \<Rightarrow> 'r list" where
  "order_desc_nulls k rows = filter (\<lambda>r. k r = None) rows
     @ sort_key (\<lambda>r. case k r of None \<Rightarrow> 0 | Some t \<Rightarrow> - t) (filter (\<lambda>r. k r \<noteq> None) rows)"

definition order_asc_nulls :: "('r \<Rightarrow> int option) \<Rightarrow> 'r list \<Rightarrow> 'r list" where
  "order_asc_nulls k rows =
     sort_key (\<lambda>r. case k r of None \<Rightarrow> 0 | Some t \<Rightarrow> t) (filter (\<lambda>r. k r \<noteq> None) rows)
     @ filter (\<lambda>r. k r = None) rows"

lemma set_order_desc_nulls [simp]: "set (order_desc_nulls k rows) = set rows"
  by (auto simp: order_desc_nulls_def)

lemma set_order_asc_nulls [simp]: "set (order_asc_nulls k rows) = set rows"
  by (auto simp: order_asc_nulls_def)

lemma exists_where_iff [simp]: "exists_where p rows \<longleftrightarrow> (\<exists>r \<in> set rows. p r)"
  by (simp add: exists_where_def list_ex_iff)

lemma length_upd_where [simp]: "length (upd_where p f rows) = length rows"
  by (simp add: upd_where_def)

lemma upd_where_Nil [simp]: "upd_where p f [] = []"
  by (simp add: upd_where_def)

lemma upd_where_Cons [simp]:
  "upd_where p f (r # rows) = (if p r then f r else r) # upd_where p f rows"
  by (simp add: upd_where_def)

lemma upd_where_append [simp]: "upd_where p f (xs @ ys) = upd_where p f xs @ upd_where p f ys"
  by (simp add: upd_where_def)

lemma set_upd_where:
  "r \<in> set (upd_where p f rows) \<longleftrightarrow> (\<exists>q \<in> set rows. r = (if p q then f q else q))"
  by (auto simp: upd_where_def)

lemma map_upd_where: "(\<And>r. k (f r) = k r) \<Longrightarrow> map k (upd_where p f rows) = map k rows"
  by (simp add: upd_where_def)

lemma upd_where_none: "(\<And>r. r \<in> set rows \<Longrightarrow> \<not> p r) \<Longrightarrow> upd_where p f rows = rows"
  by (induction rows) auto

lemma del_where_Nil [simp]: "del_where p [] = []"
  by (simp add: del_where_def)

lemma del_where_Cons [simp]:
  "del_where p (r # rows) = (if p r then del_where p rows else r # del_where p rows)"
  by (simp add: del_where_def)

lemma set_del_where [simp]: "set (del_where p rows) = {r \<in> set rows. \<not> p r}"
  by (auto simp: del_where_def)

lemma distinct_map_del_where: "distinct (map k rows) \<Longrightarrow> distinct (map k (del_where p rows))"
  by (simp add: del_where_def distinct_map_filter)

lemma find_upd_where:
  assumes "\<And>r. p (f r) = p r"
  shows "List.find p (upd_where p f rows) = map_option f (List.find p rows)"
  using assms by (induction rows) auto

lemma find_upd_other:
  assumes "\<And>r. q r \<Longrightarrow> p (f r) = p r"
  shows "List.find p (upd_where q f rows) =
    map_option (\<lambda>r. if q r then f r else r) (List.find p rows)"
  using assms by (induction rows) auto

lemma find_append: "List.find p (xs @ ys) =
    (case List.find p xs of None \<Rightarrow> List.find p ys | Some r \<Rightarrow> Some r)"
  by (induction xs) auto

lemma find_del_where_same: "List.find p (del_where p rows) = None"
  by (induction rows) auto

lemma find_SomeD: "List.find p rows = Some r \<Longrightarrow> r \<in> set rows \<and> p r"
  by (induction rows) (auto split: if_splits)

lemma find_None_iff_all: "List.find p rows = None \<longleftrightarrow> (\<forall>r \<in> set rows. \<not> p r)"
  by (induction rows) auto

lemma set_order_asc [simp]: "set (order_asc k rows) = set rows"
  by (simp add: order_asc_def)

lemma set_order_desc [simp]: "set (order_desc k rows) = set rows"
  by (simp add: order_desc_def)

lemma sorted_order_asc: "sorted (map k (order_asc k rows))"
  by (simp add: order_asc_def)

end
