(* ===== verification/Text.thy ===== *)
theory Text
  imports Prelude
begin

section \<open>Strings, formatted text, floating point\<close>

text \<open>
  The operations of Rust's \<^verbatim>\<open>str\<close> the program uses, on \<open>string\<close> (a list of bytes: a
  UTF-8 string is its bytes, case mapping and white space are those of ASCII).  Error
  and log texts built with \<^verbatim>\<open>format!\<close> are lists of pieces, one per literal part and
  per interpolated value, so that the value and not its rendering is compared.
  \<^verbatim>\<open>f64\<close> is modelled with NaN, the infinities and the finite values as rationals;
  arithmetic rounds to the nearest value with 53 significant bits, ties to even (the
  sign of zero is not kept).
\<close>

subsection \<open>Strings\<close>

definition code :: "char \<Rightarrow> nat" where
  "code c = of_char c"

definition to_lower_char :: "char \<Rightarrow> char" where
  "to_lower_char c = (if 65 \<le> code c \<and> code c \<le> 90 then char_of (code c + 32) else c)"

definition to_lowercase :: "string \<Rightarrow> string" where
  "to_lowercase s = map to_lower_char s"

definition to_uppercase :: "string \<Rightarrow> string" where
  "to_uppercase s = map (\<lambda>c. if 97 \<le> code c \<and> code c \<le> 122 then char_of (code c - 32) else c) s"

definition is_ws :: "char \<Rightarrow> bool" where
  "is_ws c \<longleftrightarrow> code c = 32 \<or> (9 \<le> code c \<and> code c \<le> 13)"

text \<open>The apostrophe the message texts quote values with, and the dash (three bytes of UTF-8).\<close>

definition apos :: string where
  "apos = [CHR 0x27]"

definition em_dash :: string where
  "em_dash = [CHR 0xE2, CHR 0x80, CHR 0x94]"

definition trim_start :: "string \<Rightarrow> string" where
  "trim_start s = dropWhile is_ws s"

definition trim_end :: "string \<Rightarrow> string" where
  "trim_end s = rev (dropWhile is_ws (rev s))"

definition trim :: "string \<Rightarrow> string" where
  "trim s = trim_end (trim_start s)"

definition starts_with :: "string \<Rightarrow> string \<Rightarrow> bool" where
  "starts_with p s \<longleftrightarrow> take (length p) s = p"

definition strip_prefix :: "string \<Rightarrow> string \<Rightarrow> string option" where
  "strip_prefix p s = (if starts_with p s then Some (drop (length p) s) else None)"

fun contains :: "string \<Rightarrow> string \<Rightarrow> bool" where
  "contains sub [] = (sub = [])"
| "contains sub (c # s) = (starts_with sub (c # s) \<or> contains sub s)"

fun split_on :: "char \<Rightarrow> string \<Rightarrow> string list" where
  "split_on d [] = [[]]"
| "split_on d (c # s) =
     (if c = d then [] # split_on d s
      else case split_on d s of [] \<Rightarrow> [[c]] | w # ws \<Rightarrow> (c # w) # ws)"

fun words_acc :: "string \<Rightarrow> string \<Rightarrow> string list" where
  "words_acc w [] = (if w = [] then [] else [rev w])"
| "words_acc w (c # s) =
     (if is_ws c then (if w = [] then words_acc [] s else rev w # words_acc [] s)
      else words_acc (c # w) s)"

definition split_whitespace :: "string \<Rightarrow> string list" where
  "split_whitespace s = words_acc [] s"

definition strip_cr :: "string \<Rightarrow> string" where
  "strip_cr s = (if s \<noteq> [] \<and> last s = CHR 0x0D then butlast s else s)"

definition lines_of :: "string \<Rightarrow> string list" where
  "lines_of s = (let ls = split_on CHR 0x0A s in
     map strip_cr (if last ls = [] then butlast ls else ls))"

definition replace_char :: "char \<Rightarrow> string \<Rightarrow> string \<Rightarrow> string" where
  "replace_char c r s = concat (map (\<lambda>d. if d = c then r else [d]) s)"

fun join :: "string \<Rightarrow> string list \<Rightarrow> string" where
  "join sep [] = []"
| "join sep [w] = w"
| "join sep (w # ws) = w @ sep @ join sep ws"

definition is_digit :: "char \<Rightarrow> bool" where
  "is_digit c \<longleftrightarrow> 48 \<le> code c \<and> code c \<le> 57"

definition is_alnum :: "char \<Rightarrow> bool" where
  "is_alnum c \<longleftrightarrow> is_digit c \<or> (65 \<le> code c \<and> code c \<le> 90) \<or> (97 \<le> code c \<and> code c \<le> 122)"

definition hex_digit :: "char \<Rightarrow> nat option" where
  "hex_digit c =
     (if is_digit c then Some (code c - 48)
      else if 65 \<le> code c \<and> code c \<le> 70 then Some (code c - 55)
      else if 97 \<le> code c \<and> code c \<le> 102 then Some (code c - 87)
      else None)"

fun digits_value :: "(char \<Rightarrow> nat option) \<Rightarrow> nat \<Rightarrow> nat \<Rightarrow> string \<Rightarrow> nat option" where
  "digits_value dv base acc [] = Some acc"
| "digits_value dv base acc (c # s) =
     (case dv c of None \<Rightarrow> None | Some d \<Rightarrow> digits_value dv base (acc * base + d) s)"

definition strip_plus :: "string \<Rightarrow> string" where
  "strip_plus s = (case s of c # r \<Rightarrow> if c = CHR ''+'' then r else s | [] \<Rightarrow> [])"

text \<open>\<^verbatim>\<open>str::parse\<close> and \<^verbatim>\<open>from_str_radix(_, 16)\<close> of an unsigned type with \<open>2 ^ w\<close> values.\<close>

definition parse_uint :: "nat \<Rightarrow> string \<Rightarrow> nat option" where
  "parse_uint w s = (let r = strip_plus s in
     if r = [] then None
     else case digits_value (\<lambda>c. if is_digit c then Some (code c - 48) else None) 10 0 r of
       None \<Rightarrow> None
     | Some n \<Rightarrow> if n < 2 ^ w then Some n else None)"

definition parse_hex :: "nat \<Rightarrow> string \<Rightarrow> nat option" where
  "parse_hex w s = (let r = strip_plus s in
     if r = [] then None
     else case digits_value hex_digit 16 0 r of
       None \<Rightarrow> None
     | Some n \<Rightarrow> if n < 2 ^ w then Some n else None)"

fun show_nat :: "nat \<Rightarrow> string" where
  "show_nat n = (if n < 10 then [char_of (48 + n)] else show_nat (n div 10) @ [char_of (48 + n mod 10)])"

declare show_nat.simps [simp del]

lemma code_char_of [simp]: "n < 256 \<Longrightarrow> code (char_of n) = n"
  by (simp add: code_def)

lemma code_inj: "code c = code d \<longleftrightarrow> c = d"
  by (simp add: code_def)

lemma digits_value_append:
  "digits_value dv b acc (xs @ ys) =
     (case digits_value dv b acc xs of None \<Rightarrow> None | Some n \<Rightarrow> digits_value dv b n ys)"
  by (induction xs arbitrary: acc) (auto split: option.splits)

lemma show_nat_not_Nil [simp]: "show_nat n \<noteq> []"
  by (subst show_nat.simps) simp

lemma show_nat_digits: "c \<in> set (show_nat n) \<Longrightarrow> is_digit c"
proof (induction n rule: show_nat.induct)
  case (1 n)
  show ?case
  proof (cases "n < 10")
    case True
    with "1.prems" show ?thesis by (simp add: show_nat.simps [of n] is_digit_def)
  next
    case False
    with 1 show ?thesis by (auto simp: show_nat.simps [of n] is_digit_def)
  qed
qed

lemma digits_value_show_nat:
  "digits_value (\<lambda>c. if is_digit c then Some (code c - 48) else None) 10 0 (show_nat n) = Some n"
proof (induction n rule: show_nat.induct)
  case (1 n)
  show ?case
  proof (cases "n < 10")
    case True
    then show ?thesis by (simp add: show_nat.simps [of n] is_digit_def)
  next
    case False
    with 1 show ?thesis
      by (simp add: show_nat.simps [of n] digits_value_append is_digit_def)
  qed
qed

lemma strip_plus_show_nat [simp]: "strip_plus (show_nat n) = show_nat n"
proof (cases "show_nat n")
  case Nil
  then show ?thesis by (simp add: strip_plus_def)
next
  case (Cons c s)
  then have "is_digit c" using show_nat_digits [of c n] by simp
  then have "c \<noteq> CHR ''+''" by (auto simp: is_digit_def code_def)
  with Cons show ?thesis by (simp add: strip_plus_def)
qed

lemma parse_uint_show_nat: "n < 2 ^ w \<Longrightarrow> parse_uint w (show_nat n) = Some n"
  by (simp add: parse_uint_def digits_value_show_nat)

lemma parse_uint_bound: "parse_uint w s = Some n \<Longrightarrow> n < 2 ^ w"
  by (auto simp: parse_uint_def Let_def split: if_splits option.splits)

lemma parse_hex_bound: "parse_hex w s = Some n \<Longrightarrow> n < 2 ^ w"
  by (auto simp: parse_hex_def Let_def split: if_splits option.splits)

lemma starts_with_append [simp]: "starts_with p (p @ s)"
  by (simp add: starts_with_def)

lemma strip_prefix_append [simp]: "strip_prefix p (p @ s) = Some s"
  by (simp add: strip_prefix_def)

lemma strip_prefix_SomeD: "strip_prefix p s = Some r \<Longrightarrow> s = p @ r"
  by (auto simp: strip_prefix_def starts_with_def split: if_splits)
    (metis append_take_drop_id)

lemma to_lower_char_idem: "to_lower_char (to_lower_char c) = to_lower_char c"
  by (auto simp: to_lower_char_def code_def)

lemma to_lowercase_idem [simp]: "to_lowercase (to_lowercase s) = to_lowercase s"
  by (simp add: to_lowercase_def to_lower_char_idem)

lemma split_on_not_Nil [simp]: "split_on d s \<noteq> []"
  by (induction s) (auto split: list.splits)

lemma split_on_no_sep: "d \<notin> set s \<Longrightarrow> split_on d s = [s]"
  by (induction s) auto

lemma split_on_append: "d \<notin> set s \<Longrightarrow> split_on d (s @ d # t) = s # split_on d t"
  by (induction s) auto

lemma words_acc_no_ws: "\<forall>c \<in> set a. \<not> is_ws c \<Longrightarrow>
    \<forall>w \<in> set (words_acc a s). w \<noteq> [] \<and> (\<forall>c \<in> set w. \<not> is_ws c)"
proof (induction s arbitrary: a)
  case Nil
  then show ?case by simp
next
  case (Cons c s)
  have nil: "\<forall>w \<in> set (words_acc [] s). w \<noteq> [] \<and> (\<forall>c \<in> set w. \<not> is_ws c)"
    by (rule Cons.IH) simp
  show ?case
  proof (cases "is_ws c")
    case True
    with nil Cons.prems show ?thesis by simp
  next
    case False
    with Cons.prems have "\<forall>d \<in> set (c # a). \<not> is_ws d" by simp
    then have "\<forall>w \<in> set (words_acc (c # a) s). w \<noteq> [] \<and> (\<forall>c \<in> set w. \<not> is_ws c)"
      by (rule Cons.IH)
    with False show ?thesis by simp
  qed
qed

lemma split_whitespace_words:
  "w \<in> set (split_whitespace s) \<Longrightarrow> w \<noteq> [] \<and> (\<forall>c \<in> set w. \<not> is_ws c)"
  using words_acc_no_ws [of "[]" s] by (simp add: split_whitespace_def)

subsection \<open>Floating point\<close>

datatype f64 = F_nan | F_inf bool | F_fin rat

type_synonym uuid = "128 word"

text \<open>
  The pieces of a formatted text: a literal or string value, a UUID, an integer, a float
  with \<^verbatim>\<open>{}\<close>, a float with \<^verbatim>\<open>{:.1}\<close>.
\<close>

datatype piece = Str string | Uid uuid | Num int | Flt f64 | Flt1 f64

type_synonym fmt = "piece list"

definition pow2 :: "int \<Rightarrow> rat" where
  "pow2 e = (if 0 \<le> e then 2 ^ nat e else 1 / 2 ^ nat (- e))"

text \<open>The exponent of the leading bit of a positive rational.\<close>

fun bit_len :: "nat \<Rightarrow> nat" where
  "bit_len n = (if n = 0 then 0 else Suc (bit_len (n div 2)))"

declare bit_len.simps [simp del]

definition ilog2 :: "rat \<Rightarrow> int" where
  "ilog2 q = (let (a, b) = quotient_of q;
                  e = int (bit_len (nat a)) - int (bit_len (nat b))
              in if pow2 e \<le> q then e else e - 1)"

definition round_even :: "rat \<Rightarrow> int" where
  "round_even x = (let f = \<lfloor>x\<rfloor>; d = x - of_int f in
     if d < 1 / 2 then f else if 1 / 2 < d then f + 1 else if even f then f else f + 1)"

definition f64_round :: "rat \<Rightarrow> f64" where
  "f64_round q =
     (if q = 0 then F_fin 0
      else let u = pow2 (max (ilog2 \<bar>q\<bar> - 52) (- 1074));
               r = of_int (round_even (\<bar>q\<bar> / u)) * u
           in if 2 ^ 1024 \<le> r then F_inf (q < 0) else F_fin (if q < 0 then - r else r))"

definition f64_of_int :: "int \<Rightarrow> f64" where
  "f64_of_int i = f64_round (of_int i)"

fun f64_lt :: "f64 \<Rightarrow> f64 \<Rightarrow> bool" where
  "f64_lt (F_fin a) (F_fin b) = (a < b)"
| "f64_lt (F_fin a) (F_inf neg) = (\<not> neg)"
| "f64_lt (F_inf neg) (F_fin b) = neg"
| "f64_lt (F_inf m) (F_inf n) = (m \<and> \<not> n)"
| "f64_lt _ _ = False"

fun f64_le :: "f64 \<Rightarrow> f64 \<Rightarrow> bool" where
  "f64_le (F_fin a) (F_fin b) = (a \<le> b)"
| "f64_le (F_fin a) (F_inf neg) = (\<not> neg)"
| "f64_le (F_inf neg) (F_fin b) = neg"
| "f64_le (F_inf m) (F_inf n) = (m \<or> \<not> n)"
| "f64_le _ _ = False"

fun f64_neg :: "f64 \<Rightarrow> f64" where
  "f64_neg (F_fin a) = F_fin (- a)"
| "f64_neg (F_inf n) = F_inf (\<not> n)"
| "f64_neg F_nan = F_nan"

fun f64_add :: "f64 \<Rightarrow> f64 \<Rightarrow> f64" where
  "f64_add (F_fin a) (F_fin b) = f64_round (a + b)"
| "f64_add (F_inf m) (F_inf n) = (if m = n then F_inf m else F_nan)"
| "f64_add (F_inf m) (F_fin b) = F_inf m"
| "f64_add (F_fin a) (F_inf n) = F_inf n"
| "f64_add _ _ = F_nan"

definition f64_sub :: "f64 \<Rightarrow> f64 \<Rightarrow> f64" where
  "f64_sub x y = f64_add x (f64_neg y)"

fun f64_abs :: "f64 \<Rightarrow> f64" where
  "f64_abs (F_fin a) = F_fin \<bar>a\<bar>"
| "f64_abs (F_inf n) = F_inf False"
| "f64_abs F_nan = F_nan"

fun f64_mul :: "f64 \<Rightarrow> f64 \<Rightarrow> f64" where
  "f64_mul (F_fin a) (F_fin b) = f64_round (a * b)"
| "f64_mul (F_inf m) (F_inf n) = F_inf (m \<noteq> n)"
| "f64_mul (F_inf m) (F_fin b) = (if b = 0 then F_nan else F_inf (m \<noteq> (b < 0)))"
| "f64_mul (F_fin a) (F_inf n) = (if a = 0 then F_nan else F_inf (n \<noteq> (a < 0)))"
| "f64_mul _ _ = F_nan"

fun f64_div :: "f64 \<Rightarrow> f64 \<Rightarrow> f64" where
  "f64_div (F_fin a) (F_fin b) =
     (if b = 0 then (if a = 0 then F_nan else F_inf (a < 0)) else f64_round (a / b))"
| "f64_div (F_inf m) (F_fin b) = F_inf (m \<noteq> (b < 0))"
| "f64_div (F_fin a) (F_inf n) = F_fin 0"
| "f64_div _ _ = F_nan"

definition f64_epsilon :: f64 where
  "f64_epsilon = F_fin (1 / 2 ^ 52)"

lemma f64_lt_nan [simp]: "\<not> f64_lt F_nan x" "\<not> f64_lt x F_nan"
  by (cases x; simp)+

lemma f64_le_nan [simp]: "\<not> f64_le F_nan x" "\<not> f64_le x F_nan"
  by (cases x; simp)+

lemma f64_add_nan [simp]: "f64_add F_nan x = F_nan" "f64_add x F_nan = F_nan"
  by (cases x; simp)+

lemma f64_lt_irrefl [simp]: "\<not> f64_lt x x"
  by (cases x) simp_all

lemma f64_le_iff: "x \<noteq> F_nan \<Longrightarrow> y \<noteq> F_nan \<Longrightarrow> f64_le x y \<longleftrightarrow> \<not> f64_lt y x"
  by (cases x; cases y) auto

end
