(* ===== verification/Json.thy ===== *)
theory Json
  imports Text "HOL-Library.Monad_Syntax"
begin

section \<open>JSON values and codecs\<close>

text \<open>
  The values of \<^verbatim>\<open>serde_json::Value\<close> and the conversions that the derived
  \<^verbatim>\<open>Serialize\<close>/\<^verbatim>\<open>Deserialize\<close> implementations perform on the field types the program
  uses: strings, booleans, unsigned and signed integers at their width, \<^verbatim>\<open>f64\<close> (a
  non-finite number is written as null), options (None is null, a missing field is None)
  and vectors.  The locale \<open>codec\<close> is the contract between an encoder and a decoder;
  it is interpreted for every type that crosses the wire.
\<close>

datatype json =
    JNull
  | JBool bool
  | JInt int
  | JFloat f64
  | JStr string
  | JArr "json list"
  | JObj "(string \<times> json) list"

type_synonym obj = "(string \<times> json) list"

definition fld :: "(json \<Rightarrow> 'a option) \<Rightarrow> string \<Rightarrow> obj \<Rightarrow> 'a option" where
  "fld dec k ob = (case map_of ob k of None \<Rightarrow> None | Some v \<Rightarrow> dec v)"

definition opt_fld :: "(json \<Rightarrow> 'a option) \<Rightarrow> string \<Rightarrow> obj \<Rightarrow> 'a option option" where
  "opt_fld dec k ob = (case map_of ob k of None \<Rightarrow> Some None
     | Some v \<Rightarrow> if v = JNull then Some None else map_option Some (dec v))"

fun enc_opt :: "('a \<Rightarrow> json) \<Rightarrow> 'a option \<Rightarrow> json" where
  "enc_opt enc None = JNull"
| "enc_opt enc (Some x) = enc x"

definition dec_opt :: "(json \<Rightarrow> 'a option) \<Rightarrow> json \<Rightarrow> 'a option option" where
  "dec_opt dec v = (if v = JNull then Some None else map_option Some (dec v))"

definition enc_list :: "('a \<Rightarrow> json) \<Rightarrow> 'a list \<Rightarrow> json" where
  "enc_list enc xs = JArr (map enc xs)"

fun dec_list :: "(json \<Rightarrow> 'a option) \<Rightarrow> json \<Rightarrow> 'a list option" where
  "dec_list dec (JArr vs) = those (map dec vs)"
| "dec_list dec _ = None"

fun dec_obj :: "json \<Rightarrow> obj option" where
  "dec_obj (JObj ob) = Some ob"
| "dec_obj _ = None"

fun enc_str :: "string \<Rightarrow> json" where
  "enc_str s = JStr s"

fun dec_str :: "json \<Rightarrow> string option" where
  "dec_str (JStr s) = Some s"
| "dec_str _ = None"

fun enc_bool :: "bool \<Rightarrow> json" where
  "enc_bool b = JBool b"

fun dec_bool :: "json \<Rightarrow> bool option" where
  "dec_bool (JBool b) = Some b"
| "dec_bool _ = None"

definition enc_u :: "'a::len word \<Rightarrow> json" where
  "enc_u w = JInt (uint w)"

fun dec_u :: "json \<Rightarrow> 'a::len word option" where
  "dec_u (JInt i) = (if 0 \<le> i \<and> i < 2 ^ LENGTH('a) then Some (word_of_int i) else None)"
| "dec_u _ = None"

definition enc_i :: "'a::len word \<Rightarrow> json" where
  "enc_i w = JInt (sint w)"

fun dec_i :: "json \<Rightarrow> 'a::len word option" where
  "dec_i (JInt i) = (if - (2 ^ (LENGTH('a) - 1)) \<le> i \<and> i < 2 ^ (LENGTH('a) - 1)
     then Some (word_of_int i) else None)"
| "dec_i _ = None"

fun enc_f64 :: "f64 \<Rightarrow> json" where
  "enc_f64 (F_fin q) = JFloat (F_fin q)"
| "enc_f64 _ = JNull"

fun dec_f64 :: "json \<Rightarrow> f64 option" where
  "dec_f64 (JFloat x) = Some x"
| "dec_f64 (JInt i) = Some (f64_of_int i)"
| "dec_f64 _ = None"

subsection \<open>The codec contract\<close>

locale codec =
  fixes enc :: "'a \<Rightarrow> json" and dec :: "json \<Rightarrow> 'a option" and ok :: "'a \<Rightarrow> bool"
  assumes dec_enc: "ok x \<Longrightarrow> dec (enc x) = Some x"
begin

lemma enc_inj: "ok x \<Longrightarrow> ok y \<Longrightarrow> enc x = enc y \<Longrightarrow> x = y"
  by (metis dec_enc option.inject)

lemma dec_list_enc: "list_all ok xs \<Longrightarrow> dec_list dec (enc_list enc xs) = Some xs"
  by (induction xs) (simp_all add: enc_list_def dec_enc)

lemma enc_list_inj:
  "list_all ok xs \<Longrightarrow> list_all ok ys \<Longrightarrow> enc_list enc xs = enc_list enc ys \<Longrightarrow> xs = ys"
  by (metis dec_list_enc option.inject)

lemma fld_enc: "ok x \<Longrightarrow> map_of ob k = Some (enc x) \<Longrightarrow> fld dec k ob = Some x"
  by (simp add: fld_def dec_enc)

lemma fld_list_enc:
  "list_all ok xs \<Longrightarrow> map_of ob k = Some (enc_list enc xs) \<Longrightarrow> fld (dec_list dec) k ob = Some xs"
  by (simp add: fld_def dec_list_enc)

end

text \<open>A codec that never writes null can also be used under an option.\<close>

locale nonnull_codec = codec +
  assumes enc_nonnull: "ok x \<Longrightarrow> enc x \<noteq> JNull"
begin

lemma dec_opt_enc: "pred_option ok v \<Longrightarrow> dec_opt dec (enc_opt enc v) = Some v"
  by (cases v) (simp_all add: dec_opt_def dec_enc enc_nonnull)

lemma opt_fld_enc:
  "pred_option ok v \<Longrightarrow> map_of ob k = Some (enc_opt enc v) \<Longrightarrow> opt_fld dec k ob = Some v"
  by (cases v) (simp_all add: opt_fld_def dec_enc enc_nonnull)

end

interpretation str_codec: nonnull_codec enc_str dec_str "\<lambda>_. True"
  by unfold_locales simp_all

interpretation bool_codec: nonnull_codec enc_bool dec_bool "\<lambda>_. True"
  by unfold_locales simp_all

lemma uint_below: "uint (w :: 'a::len word) < 2 ^ LENGTH('a)"
  by (rule uint_lt2p)

interpretation u_codec: nonnull_codec enc_u "dec_u :: json \<Rightarrow> 'a::len word option" "\<lambda>_. True"
  by unfold_locales (simp_all add: enc_u_def uint_below)

interpretation i_codec: nonnull_codec enc_i "dec_i :: json \<Rightarrow> 'a::len word option" "\<lambda>_. True"
  by unfold_locales
    (simp_all add: enc_i_def sint_ge [simplified] sint_lt [simplified])

definition f64_finite :: "f64 \<Rightarrow> bool" where
  "f64_finite x \<longleftrightarrow> (\<exists>q. x = F_fin q)"

interpretation f64_codec: nonnull_codec enc_f64 dec_f64 f64_finite
  by unfold_locales (auto simp: f64_finite_def)

text \<open>A float that is not finite does not survive the wire.\<close>

lemma dec_f64_nonfinite: "\<not> f64_finite x \<Longrightarrow> dec_f64 (enc_f64 x) = None"
  by (cases x) (simp_all add: f64_finite_def)

text \<open>The facts that evaluate field accesses on a concrete object.\<close>

lemma fld_str_simp [codec_simps]: "fld dec_str k ((k', JStr s) # ob) =
    (if k = k' then Some s else fld dec_str k ob)"
  by (simp add: fld_def)

lemmas field_codecs [codec_simps] =
  str_codec.fld_enc bool_codec.fld_enc u_codec.fld_enc i_codec.fld_enc f64_codec.fld_enc
  str_codec.fld_list_enc str_codec.opt_fld_enc u_codec.opt_fld_enc i_codec.opt_fld_enc

end
