(* ===== verification/Protocol.thy ===== *)
theory Protocol
  imports Json
begin

section \<open>The wire protocol (crate osfm-edm-common)\<close>

text \<open>
  The data types shared by server and agent and the JSON that their derived serde
  implementations read and write: externally named enums (\<^verbatim>\<open>rename_all = "snake_case"\<close>),
  internally tagged enums (\<^verbatim>\<open>tag = "type"\<close> and \<^verbatim>\<open>tag = "msg_type"\<close>) and structs.  The
  text form of a UUID belongs to the uuid crate: \<open>us\<close> prints and \<open>up\<close> parses it.
\<close>

type_synonym u8 = "8 word"
type_synonym u16 = "16 word"
type_synonym u32 = "32 word"
type_synonym u64 = "64 word"
type_synonym i32 = "32 word"
type_synonym i64 = "64 word"

subsection \<open>device.rs\<close>

datatype os_type = Windows | Linux | Macos

datatype device_status = Online | Offline | Stale

fun show_os_type :: "os_type \<Rightarrow> string" where
  "show_os_type Windows = ''windows''"
| "show_os_type Linux = ''linux''"
| "show_os_type Macos = ''macos''"

fun show_device_status :: "device_status \<Rightarrow> string" where
  "show_device_status Online = ''online''"
| "show_device_status Offline = ''offline''"
| "show_device_status Stale = ''stale''"

definition enc_os_type :: "os_type \<Rightarrow> json" where
  "enc_os_type t = JStr (show_os_type t)"

definition dec_os_type :: "json \<Rightarrow> os_type option" where
  "dec_os_type v = do { s \<leftarrow> dec_str v;
     if s = ''windows'' then Some Windows else if s = ''linux'' then Some Linux
     else if s = ''macos'' then Some Macos else None }"

definition enc_device_status :: "device_status \<Rightarrow> json" where
  "enc_device_status t = JStr (show_device_status t)"

definition dec_device_status :: "json \<Rightarrow> device_status option" where
  "dec_device_status v = do { s \<leftarrow> dec_str v;
     if s = ''online'' then Some Online else if s = ''offline'' then Some Offline
     else if s = ''stale'' then Some Stale else None }"

interpretation os_codec: nonnull_codec enc_os_type dec_os_type "\<lambda>_. True"
proof (unfold_locales, goal_cases)
  case (1 x) then show ?case by (cases x) (simp_all add: enc_os_type_def dec_os_type_def)
next
  case (2 x) then show ?case by (simp add: enc_os_type_def)
qed

interpretation status_codec: nonnull_codec enc_device_status dec_device_status "\<lambda>_. True"
proof (unfold_locales, goal_cases)
  case (1 x) then show ?case by (cases x) (simp_all add: enc_device_status_def dec_device_status_def)
next
  case (2 x) then show ?case by (simp add: enc_device_status_def)
qed

subsection \<open>jobs.rs\<close>

datatype shell_type = Bash | Powershell | Sh | Cmd

datatype package_manager = Winget | Chocolatey | Homebrew | Apt | Dnf | Pacman

datatype job_payload =
    RunScript shell_type string
  | InstallPackage package_manager string "string option"
  | UninstallPackage package_manager string
  | PushFile string string "string option"
  | Reboot u32
  | CollectInventory
  | RunPatchUpdate "string list"

datatype job_status = Pending | Running | Done | Failed | Cancelled

fun show_job_status :: "job_status \<Rightarrow> string" where
  "show_job_status Pending = ''pending''"
| "show_job_status Running = ''running''"
| "show_job_status Done = ''done''"
| "show_job_status Failed = ''failed''"
| "show_job_status Cancelled = ''cancelled''"

fun enc_shell :: "shell_type \<Rightarrow> json" where
  "enc_shell Bash = JStr ''bash''"
| "enc_shell Powershell = JStr ''powershell''"
| "enc_shell Sh = JStr ''sh''"
| "enc_shell Cmd = JStr ''cmd''"

definition dec_shell :: "json \<Rightarrow> shell_type option" where
  "dec_shell v = do { s \<leftarrow> dec_str v;
     if s = ''bash'' then Some Bash else if s = ''powershell'' then Some Powershell
     else if s = ''sh'' then Some Sh else if s = ''cmd'' then Some Cmd else None }"

fun enc_manager :: "package_manager \<Rightarrow> json" where
  "enc_manager Winget = JStr ''winget''"
| "enc_manager Chocolatey = JStr ''chocolatey''"
| "enc_manager Homebrew = JStr ''homebrew''"
| "enc_manager Apt = JStr ''apt''"
| "enc_manager Dnf = JStr ''dnf''"
| "enc_manager Pacman = JStr ''pacman''"

definition dec_manager :: "json \<Rightarrow> package_manager option" where
  "dec_manager v = do { s \<leftarrow> dec_str v;
     if s = ''winget'' then Some Winget else if s = ''chocolatey'' then Some Chocolatey
     else if s = ''homebrew'' then Some Homebrew else if s = ''apt'' then Some Apt
     else if s = ''dnf'' then Some Dnf else if s = ''pacman'' then Some Pacman else None }"

interpretation shell_codec: nonnull_codec enc_shell dec_shell "\<lambda>_. True"
proof (unfold_locales, goal_cases)
  case (1 x) then show ?case by (cases x) (simp_all add: dec_shell_def)
next
  case (2 x) then show ?case by (cases x) simp_all
qed

interpretation manager_codec: nonnull_codec enc_manager dec_manager "\<lambda>_. True"
proof (unfold_locales, goal_cases)
  case (1 x) then show ?case by (cases x) (simp_all add: dec_manager_def)
next
  case (2 x) then show ?case by (cases x) simp_all
qed

fun enc_payload :: "job_payload \<Rightarrow> json" where
  "enc_payload (RunScript shell script) = JObj [(''type'', JStr ''run_script''),
     (''shell'', enc_shell shell), (''script'', enc_str script)]"
| "enc_payload (InstallPackage manager package version) =
     JObj [(''type'', JStr ''install_package''), (''manager'', enc_manager manager),
     (''package'', enc_str package), (''version'', enc_opt enc_str version)]"
| "enc_payload (UninstallPackage manager package) =
     JObj [(''type'', JStr ''uninstall_package''), (''manager'', enc_manager manager),
     (''package'', enc_str package)]"
| "enc_payload (PushFile destination content permissions) =
     JObj [(''type'', JStr ''push_file''), (''destination'', enc_str destination),
     (''content_b64'', enc_str content), (''permissions'', enc_opt enc_str permissions)]"
| "enc_payload (Reboot delay) = JObj [(''type'', JStr ''reboot''), (''delay_seconds'', enc_u delay)]"
| "enc_payload CollectInventory = JObj [(''type'', JStr ''collect_inventory'')]"
| "enc_payload (RunPatchUpdate ids) = JObj [(''type'', JStr ''run_patch_update''),
     (''patch_ids'', enc_list enc_str ids)]"

definition dec_payload :: "json \<Rightarrow> job_payload option" where
  "dec_payload v = do { ob \<leftarrow> dec_obj v; t \<leftarrow> fld dec_str ''type'' ob;
     if t = ''run_script'' then do {
       shell \<leftarrow> fld dec_shell ''shell'' ob; script \<leftarrow> fld dec_str ''script'' ob;
       Some (RunScript shell script) }
     else if t = ''install_package'' then do {
       m \<leftarrow> fld dec_manager ''manager'' ob; p \<leftarrow> fld dec_str ''package'' ob;
       w \<leftarrow> opt_fld dec_str ''version'' ob; Some (InstallPackage m p w) }
     else if t = ''uninstall_package'' then do {
       m \<leftarrow> fld dec_manager ''manager'' ob; p \<leftarrow> fld dec_str ''package'' ob;
       Some (UninstallPackage m p) }
     else if t = ''push_file'' then do {
       d \<leftarrow> fld dec_str ''destination'' ob; c \<leftarrow> fld dec_str ''content_b64'' ob;
       p \<leftarrow> opt_fld dec_str ''permissions'' ob; Some (PushFile d c p) }
     else if t = ''reboot'' then do {
       n \<leftarrow> fld dec_u ''delay_seconds'' ob; Some (Reboot n) }
     else if t = ''collect_inventory'' then Some CollectInventory
     else if t = ''run_patch_update'' then do {
       ids \<leftarrow> fld (dec_list dec_str) ''patch_ids'' ob; Some (RunPatchUpdate ids) }
     else None }"

lemma list_all_True [simp]: "list_all (\<lambda>_. True) xs"
  by (induction xs) simp_all

lemma pred_option_True [simp]: "pred_option (\<lambda>_. True) v"
  by (cases v) simp_all

lemmas field_simps_of = shell_codec.fld_enc manager_codec.fld_enc os_codec.fld_enc
  field_codecs

interpretation payload_codec: nonnull_codec enc_payload dec_payload "\<lambda>_. True"
proof (unfold_locales, goal_cases)
  case (1 x) then show ?case
    by (cases x) (simp_all add: dec_payload_def fld_str_simp field_simps_of del: enc_str.simps)
next
  case (2 x) then show ?case by (cases x) simp_all
qed

text \<open>
  \<^verbatim>\<open>canonical_job_signing_bytes\<close>: the domain separator, the 16 bytes of the job id, then
  the JSON text of the payload.  The text (\<^verbatim>\<open>serde_json::to_vec\<close>) is the parameter
  \<open>to_vec\<close>; None is a failed serialisation, for which the code takes the empty vector.
\<close>

definition JOB_SIGN_DOMAIN :: "u8 list" where
  "JOB_SIGN_DOMAIN = map (\<lambda>c. of_nat (code c)) ''OSFM-EDM-JOB-SIGN-v1'' @ [0]"

definition uuid_bytes :: "uuid \<Rightarrow> u8 list" where
  "uuid_bytes u = map (\<lambda>i. ucast (drop_bit (8 * (15 - i)) u)) [0..<16]"

definition canonical_job_signing_bytes ::
  "(json \<Rightarrow> u8 list option) \<Rightarrow> uuid \<Rightarrow> job_payload \<Rightarrow> u8 list" where
  "canonical_job_signing_bytes to_vec job_id payload =
     JOB_SIGN_DOMAIN @ uuid_bytes job_id @
     (case to_vec (enc_payload payload) of None \<Rightarrow> [] | Some bs \<Rightarrow> bs)"

lemma length_uuid_bytes [simp]: "length (uuid_bytes u) = 16"
  by (simp add: uuid_bytes_def)

lemma uuid_bytes_nth: "i < 16 \<Longrightarrow> uuid_bytes u ! i = ucast (drop_bit (8 * (15 - i)) u)"
  by (simp add: uuid_bytes_def del: upt_rec_numeral)

lemma bit_byte: "bit (ucast (w :: uuid) :: u8) m \<longleftrightarrow> bit w m \<and> m < 8"
proof -
  have "LENGTH(8) = (8 :: nat)" by simp
  then show ?thesis unfolding bit_ucast_iff by (simp add: ac_simps del: len_bit0)
qed

lemma uuid_bytes_bit:
  assumes "n < 128"
  shows "bit u n = bit (uuid_bytes u ! (15 - n div 8)) (n mod 8)"
proof -
  have i: "15 - n div 8 < 16" by simp
  have e: "8 * (15 - (15 - n div 8)) + n mod 8 = n" using assms by simp
  show ?thesis
    unfolding uuid_bytes_nth [OF i] bit_byte bit_drop_bit_eq comp_def e by simp
qed

lemma uuid_bytes_inj: "uuid_bytes u = uuid_bytes v \<Longrightarrow> u = v"
  by (rule bit_word_eqI) (simp add: uuid_bytes_bit)



end
