(* ===== verification/Messages.thy ===== *)
theory Messages
  imports Protocol
begin

section \<open>Policies, system events and the message envelopes\<close>

text \<open>
  \<^verbatim>\<open>policy.rs\<close>, \<^verbatim>\<open>events.rs\<close> and \<^verbatim>\<open>protocol.rs\<close>: the records and tagged enums with their
  JSON encoders and decoders, ending in \<open>ServerMessage\<close> and \<open>AgentMessage\<close>.
\<close>

subsection \<open>policy.rs\<close>

datatype update_policy = Disabled | SecurityOnly | AllUpdates

datatype policy_rule =
    ScreenLock u32 bool
  | Firewall bool
  | OsUpdate update_policy "string option"
  | ProcessBlacklist "string list"
  | UsbStorage bool
  | SystemEvents "string list" "string list option" "u64 option"

record policy_definition =
  pd_id :: uuid
  pd_name :: string
  pd_rules :: "policy_rule list"

record compliance_violation =
  cv_rule_type :: string
  cv_message :: string

record compliance_report =
  rep_device_id :: uuid
  rep_policy_id :: uuid
  rep_compliant :: bool
  rep_violations :: "compliance_violation list"
  rep_checked_at :: i64

fun enc_update_policy :: "update_policy \<Rightarrow> json" where
  "enc_update_policy Disabled = JStr ''disabled''"
| "enc_update_policy SecurityOnly = JStr ''security_only''"
| "enc_update_policy AllUpdates = JStr ''all''"

definition dec_update_policy :: "json \<Rightarrow> update_policy option" where
  "dec_update_policy v = do { s \<leftarrow> dec_str v;
     if s = ''disabled'' then Some Disabled else if s = ''security_only'' then Some SecurityOnly
     else if s = ''all'' then Some AllUpdates else None }"

interpretation update_codec: nonnull_codec enc_update_policy dec_update_policy "\<lambda>_. True"
proof (unfold_locales, goal_cases)
  case (1 x) then show ?case by (cases x) (simp_all add: dec_update_policy_def)
next
  case (2 x) then show ?case by (cases x) simp_all
qed

interpretation strings_codec: nonnull_codec "enc_list enc_str" "dec_list dec_str" "\<lambda>_. True"
  by unfold_locales (simp add: str_codec.dec_list_enc, simp add: enc_list_def)

fun enc_rule :: "policy_rule \<Rightarrow> json" where
  "enc_rule (ScreenLock t p) = JObj [(''type'', JStr ''screen_lock''),
     (''timeout_minutes'', enc_u t), (''require_password'', enc_bool p)]"
| "enc_rule (Firewall e) = JObj [(''type'', JStr ''firewall''), (''enabled'', enc_bool e)]"
| "enc_rule (OsUpdate a w) = JObj [(''type'', JStr ''os_update''),
     (''auto_install'', enc_update_policy a), (''reboot_window'', enc_opt enc_str w)]"
| "enc_rule (ProcessBlacklist d) = JObj [(''type'', JStr ''process_blacklist''),
     (''deny'', enc_list enc_str d)]"
| "enc_rule (UsbStorage a) = JObj [(''type'', JStr ''usb_storage''), (''allow'', enc_bool a)]"
| "enc_rule (SystemEvents c m b) = JObj [(''type'', JStr ''system_events''),
     (''collect'', enc_list enc_str c), (''monitor_paths'', enc_opt (enc_list enc_str) m),
     (''batch_interval_secs'', enc_opt enc_u b)]"

definition dec_rule :: "json \<Rightarrow> policy_rule option" where
  "dec_rule v = do { ob \<leftarrow> dec_obj v; t \<leftarrow> fld dec_str ''type'' ob;
     if t = ''screen_lock'' then do {
       n \<leftarrow> fld dec_u ''timeout_minutes'' ob; p \<leftarrow> fld dec_bool ''require_password'' ob;
       Some (ScreenLock n p) }
     else if t = ''firewall'' then do { e \<leftarrow> fld dec_bool ''enabled'' ob; Some (Firewall e) }
     else if t = ''os_update'' then do {
       a \<leftarrow> fld dec_update_policy ''auto_install'' ob; w \<leftarrow> opt_fld dec_str ''reboot_window'' ob;
       Some (OsUpdate a w) }
     else if t = ''process_blacklist'' then do {
       d \<leftarrow> fld (dec_list dec_str) ''deny'' ob; Some (ProcessBlacklist d) }
     else if t = ''usb_storage'' then do { a \<leftarrow> fld dec_bool ''allow'' ob; Some (UsbStorage a) }
     else if t = ''system_events'' then do {
       c \<leftarrow> fld (dec_list dec_str) ''collect'' ob;
       m \<leftarrow> opt_fld (dec_list dec_str) ''monitor_paths'' ob;
       b \<leftarrow> opt_fld dec_u ''batch_interval_secs'' ob; Some (SystemEvents c m b) }
     else None }"

interpretation rule_codec: nonnull_codec enc_rule dec_rule "\<lambda>_. True"
proof (unfold_locales, goal_cases)
  case (1 x) then show ?case
    by (cases x) (simp_all add: dec_rule_def fld_str_simp field_simps_of update_codec.fld_enc
      strings_codec.opt_fld_enc del: enc_str.simps enc_bool.simps)
next
  case (2 x) then show ?case by (cases x) simp_all
qed

interpretation rules_codec: nonnull_codec "enc_list enc_rule" "dec_list dec_rule" "\<lambda>_. True"
  by unfold_locales (simp add: rule_codec.dec_list_enc, simp add: enc_list_def)

definition enc_uuid :: "(uuid \<Rightarrow> string) \<Rightarrow> uuid \<Rightarrow> json" where
  "enc_uuid us u = JStr (us u)"

definition dec_uuid :: "(string \<Rightarrow> uuid option) \<Rightarrow> json \<Rightarrow> uuid option" where
  "dec_uuid up v = Option.bind (dec_str v) up"

lemma uuid_codec: "(\<And>u. up (us u) = Some u) \<Longrightarrow> nonnull_codec (enc_uuid us) (dec_uuid up) (\<lambda>_. True)"
  by unfold_locales (simp_all add: enc_uuid_def dec_uuid_def)

definition enc_policy :: "(uuid \<Rightarrow> string) \<Rightarrow> policy_definition \<Rightarrow> json" where
  "enc_policy us p = JObj [(''id'', enc_uuid us (pd_id p)), (''name'', enc_str (pd_name p)),
     (''rules'', enc_list enc_rule (pd_rules p))]"

definition dec_policy :: "(string \<Rightarrow> uuid option) \<Rightarrow> json \<Rightarrow> policy_definition option" where
  "dec_policy up v = do { ob \<leftarrow> dec_obj v; i \<leftarrow> fld (dec_uuid up) ''id'' ob;
     n \<leftarrow> fld dec_str ''name'' ob; r \<leftarrow> fld (dec_list dec_rule) ''rules'' ob;
     Some \<lparr>pd_id = i, pd_name = n, pd_rules = r\<rparr> }"

definition enc_violation :: "compliance_violation \<Rightarrow> json" where
  "enc_violation c = JObj [(''rule_type'', enc_str (cv_rule_type c)),
     (''message'', enc_str (cv_message c))]"

definition dec_violation :: "json \<Rightarrow> compliance_violation option" where
  "dec_violation v = do { ob \<leftarrow> dec_obj v; t \<leftarrow> fld dec_str ''rule_type'' ob;
     m \<leftarrow> fld dec_str ''message'' ob; Some \<lparr>cv_rule_type = t, cv_message = m\<rparr> }"

interpretation violation_codec: nonnull_codec enc_violation dec_violation "\<lambda>_. True"
proof (unfold_locales, goal_cases)
  case (1 x) then show ?case
    by (simp add: dec_violation_def enc_violation_def fld_def)
next
  case (2 x) then show ?case by (simp add: enc_violation_def)
qed

definition enc_report :: "(uuid \<Rightarrow> string) \<Rightarrow> compliance_report \<Rightarrow> json" where
  "enc_report us r = JObj [(''device_id'', enc_uuid us (rep_device_id r)),
     (''policy_id'', enc_uuid us (rep_policy_id r)), (''compliant'', enc_bool (rep_compliant r)),
     (''violations'', enc_list enc_violation (rep_violations r)),
     (''checked_at'', enc_i (rep_checked_at r))]"

definition dec_report :: "(string \<Rightarrow> uuid option) \<Rightarrow> json \<Rightarrow> compliance_report option" where
  "dec_report up v = do { ob \<leftarrow> dec_obj v; d \<leftarrow> fld (dec_uuid up) ''device_id'' ob;
     p \<leftarrow> fld (dec_uuid up) ''policy_id'' ob; c \<leftarrow> fld dec_bool ''compliant'' ob;
     vs \<leftarrow> fld (dec_list dec_violation) ''violations'' ob; t \<leftarrow> fld dec_i ''checked_at'' ob;
     Some \<lparr>rep_device_id = d, rep_policy_id = p, rep_compliant = c, rep_violations = vs,
       rep_checked_at = t\<rparr> }"

subsection \<open>events.rs\<close>

datatype file_operation = OpRead | OpWrite | OpCreate | OpDelete | OpRename

datatype network_protocol = Tcp | Udp

datatype registry_operation = RegCreate | RegModify | RegDelete

datatype system_event =
    ProcessStarted u32 u32 string string "string option" i64
  | ProcessExited u32 i32 i64
  | FileAccessed u32 string file_operation i64
  | NetworkConnected u32 string string network_protocol i64
  | RegistryChanged u32 string registry_operation i64

fun enc_file_op :: "file_operation \<Rightarrow> json" where
  "enc_file_op OpRead = JStr ''read''"
| "enc_file_op OpWrite = JStr ''write''"
| "enc_file_op OpCreate = JStr ''create''"
| "enc_file_op OpDelete = JStr ''delete''"
| "enc_file_op OpRename = JStr ''rename''"

definition dec_file_op :: "json \<Rightarrow> file_operation option" where
  "dec_file_op v = do { s \<leftarrow> dec_str v;
     if s = ''read'' then Some OpRead else if s = ''write'' then Some OpWrite
     else if s = ''create'' then Some OpCreate else if s = ''delete'' then Some OpDelete
     else if s = ''rename'' then Some OpRename else None }"

fun enc_net :: "network_protocol \<Rightarrow> json" where
  "enc_net Tcp = JStr ''tcp''"
| "enc_net Udp = JStr ''udp''"

definition dec_net :: "json \<Rightarrow> network_protocol option" where
  "dec_net v = do { s \<leftarrow> dec_str v;
     if s = ''tcp'' then Some Tcp else if s = ''udp'' then Some Udp else None }"

fun enc_reg_op :: "registry_operation \<Rightarrow> json" where
  "enc_reg_op RegCreate = JStr ''create''"
| "enc_reg_op RegModify = JStr ''modify''"
| "enc_reg_op RegDelete = JStr ''delete''"

definition dec_reg_op :: "json \<Rightarrow> registry_operation option" where
  "dec_reg_op v = do { s \<leftarrow> dec_str v;
     if s = ''create'' then Some RegCreate else if s = ''modify'' then Some RegModify
     else if s = ''delete'' then Some RegDelete else None }"

interpretation file_op_codec: nonnull_codec enc_file_op dec_file_op "\<lambda>_. True"
proof (unfold_locales, goal_cases)
  case (1 x) then show ?case by (cases x) (simp_all add: dec_file_op_def)
next
  case (2 x) then show ?case by (cases x) simp_all
qed

interpretation net_codec: nonnull_codec enc_net dec_net "\<lambda>_. True"
proof (unfold_locales, goal_cases)
  case (1 x) then show ?case by (cases x) (simp_all add: dec_net_def)
next
  case (2 x) then show ?case by (cases x) simp_all
qed

interpretation reg_op_codec: nonnull_codec enc_reg_op dec_reg_op "\<lambda>_. True"
proof (unfold_locales, goal_cases)
  case (1 x) then show ?case by (cases x) (simp_all add: dec_reg_op_def)
next
  case (2 x) then show ?case by (cases x) simp_all
qed

fun enc_event :: "system_event \<Rightarrow> json" where
  "enc_event (ProcessStarted pid ppid path cmdline user t) =
     JObj [(''type'', JStr ''process_started''), (''pid'', enc_u pid), (''ppid'', enc_u ppid),
     (''path'', enc_str path), (''cmdline'', enc_str cmdline), (''user'', enc_opt enc_str user),
     (''timestamp'', enc_i t)]"
| "enc_event (ProcessExited pid c t) = JObj [(''type'', JStr ''process_exited''),
     (''pid'', enc_u pid), (''exit_code'', enc_i c), (''timestamp'', enc_i t)]"
| "enc_event (FileAccessed pid path oper t) = JObj [(''type'', JStr ''file_accessed''),
     (''pid'', enc_u pid), (''path'', enc_str path), (''operation'', enc_file_op oper),
     (''timestamp'', enc_i t)]"
| "enc_event (NetworkConnected pid src dst proto t) =
     JObj [(''type'', JStr ''network_connected''), (''pid'', enc_u pid), (''src'', enc_str src),
     (''dst'', enc_str dst), (''protocol'', enc_net proto), (''timestamp'', enc_i t)]"
| "enc_event (RegistryChanged pid key oper t) = JObj [(''type'', JStr ''registry_changed''),
     (''pid'', enc_u pid), (''key'', enc_str key), (''operation'', enc_reg_op oper),
     (''timestamp'', enc_i t)]"

definition dec_event :: "json \<Rightarrow> system_event option" where
  "dec_event v = do { ob \<leftarrow> dec_obj v; t \<leftarrow> fld dec_str ''type'' ob;
     if t = ''process_started'' then do {
       pid \<leftarrow> fld dec_u ''pid'' ob; ppid \<leftarrow> fld dec_u ''ppid'' ob; path \<leftarrow> fld dec_str ''path'' ob;
       cmd \<leftarrow> fld dec_str ''cmdline'' ob; user \<leftarrow> opt_fld dec_str ''user'' ob;
       ts \<leftarrow> fld dec_i ''timestamp'' ob; Some (ProcessStarted pid ppid path cmd user ts) }
     else if t = ''process_exited'' then do {
       pid \<leftarrow> fld dec_u ''pid'' ob; c \<leftarrow> fld dec_i ''exit_code'' ob;
       ts \<leftarrow> fld dec_i ''timestamp'' ob; Some (ProcessExited pid c ts) }
     else if t = ''file_accessed'' then do {
       pid \<leftarrow> fld dec_u ''pid'' ob; path \<leftarrow> fld dec_str ''path'' ob;
       oper \<leftarrow> fld dec_file_op ''operation'' ob; ts \<leftarrow> fld dec_i ''timestamp'' ob;
       Some (FileAccessed pid path oper ts) }
     else if t = ''network_connected'' then do {
       pid \<leftarrow> fld dec_u ''pid'' ob; src \<leftarrow> fld dec_str ''src'' ob; dst \<leftarrow> fld dec_str ''dst'' ob;
       proto \<leftarrow> fld dec_net ''protocol'' ob; ts \<leftarrow> fld dec_i ''timestamp'' ob;
       Some (NetworkConnected pid src dst proto ts) }
     else if t = ''registry_changed'' then do {
       pid \<leftarrow> fld dec_u ''pid'' ob; key \<leftarrow> fld dec_str ''key'' ob;
       oper \<leftarrow> fld dec_reg_op ''operation'' ob; ts \<leftarrow> fld dec_i ''timestamp'' ob;
       Some (RegistryChanged pid key oper ts) }
     else None }"

interpretation event_codec: nonnull_codec enc_event dec_event "\<lambda>_. True"
proof (unfold_locales, goal_cases)
  case (1 x) then show ?case
    by (cases x) (simp_all add: dec_event_def fld_str_simp field_simps_of file_op_codec.fld_enc
      net_codec.fld_enc reg_op_codec.fld_enc del: enc_str.simps)
next
  case (2 x) then show ?case by (cases x) simp_all
qed

subsection \<open>protocol.rs\<close>

record telemetry_snapshot =
  cpu_pct :: f64
  ram_used_mb :: u64
  ram_total_mb :: u64
  disk_used_gb :: f64
  disk_total_gb :: f64
  uptime_secs :: u64
  snap_timestamp :: i64

record software_item =
  si_name :: string
  si_version :: "string option"
  si_publisher :: "string option"
  si_install_date :: "string option"

record patch_item =
  pi_patch_id :: string
  pi_title :: "string option"
  pi_severity :: "string option"
  pi_status :: string

datatype server_message =
    SHeartbeat
  | PushPolicy "policy_definition list"
  | DispatchJob uuid job_payload string
  | RevokeJob uuid
  | RequestTelemetry
  | RequestInventory
  | OpenShell uuid
  | ShellInput uuid string
  | CloseShell uuid

datatype agent_message =
    AHeartbeat string
  | TelemetryReport telemetry_snapshot
  | SystemEventBatch "system_event list"
  | JobLog uuid string string
  | JobCompleted uuid i32
  | ComplianceReport "compliance_report list"
  | InventoryReport "software_item list" "patch_item list"
  | ShellOutput uuid string
  | ShellClosed uuid "i32 option"

definition enc_snapshot :: "telemetry_snapshot \<Rightarrow> json" where
  "enc_snapshot t = JObj [(''cpu_pct'', enc_f64 (cpu_pct t)),
     (''ram_used_mb'', enc_u (ram_used_mb t)), (''ram_total_mb'', enc_u (ram_total_mb t)),
     (''disk_used_gb'', enc_f64 (disk_used_gb t)), (''disk_total_gb'', enc_f64 (disk_total_gb t)),
     (''uptime_secs'', enc_u (uptime_secs t)), (''timestamp'', enc_i (snap_timestamp t))]"

definition dec_snapshot :: "json \<Rightarrow> telemetry_snapshot option" where
  "dec_snapshot v = do { ob \<leftarrow> dec_obj v; c \<leftarrow> fld dec_f64 ''cpu_pct'' ob;
     ru \<leftarrow> fld dec_u ''ram_used_mb'' ob; rt \<leftarrow> fld dec_u ''ram_total_mb'' ob;
     du \<leftarrow> fld dec_f64 ''disk_used_gb'' ob; dt \<leftarrow> fld dec_f64 ''disk_total_gb'' ob;
     up \<leftarrow> fld dec_u ''uptime_secs'' ob; ts \<leftarrow> fld dec_i ''timestamp'' ob;
     Some \<lparr>cpu_pct = c, ram_used_mb = ru, ram_total_mb = rt, disk_used_gb = du,
       disk_total_gb = dt, uptime_secs = up, snap_timestamp = ts\<rparr> }"

definition snapshot_finite :: "telemetry_snapshot \<Rightarrow> bool" where
  "snapshot_finite t \<longleftrightarrow> f64_finite (cpu_pct t) \<and> f64_finite (disk_used_gb t)
     \<and> f64_finite (disk_total_gb t)"

definition enc_software :: "software_item \<Rightarrow> json" where
  "enc_software s = JObj [(''name'', enc_str (si_name s)), (''version'', enc_opt enc_str (si_version s)),
     (''publisher'', enc_opt enc_str (si_publisher s)),
     (''install_date'', enc_opt enc_str (si_install_date s))]"

definition dec_software :: "json \<Rightarrow> software_item option" where
  "dec_software v = do { ob \<leftarrow> dec_obj v; n \<leftarrow> fld dec_str ''name'' ob;
     w \<leftarrow> opt_fld dec_str ''version'' ob; p \<leftarrow> opt_fld dec_str ''publisher'' ob;
     d \<leftarrow> opt_fld dec_str ''install_date'' ob;
     Some \<lparr>si_name = n, si_version = w, si_publisher = p, si_install_date = d\<rparr> }"

definition enc_patch :: "patch_item \<Rightarrow> json" where
  "enc_patch p = JObj [(''patch_id'', enc_str (pi_patch_id p)), (''title'', enc_opt enc_str (pi_title p)),
     (''severity'', enc_opt enc_str (pi_severity p)), (''status'', enc_str (pi_status p))]"

definition dec_patch :: "json \<Rightarrow> patch_item option" where
  "dec_patch v = do { ob \<leftarrow> dec_obj v; i \<leftarrow> fld dec_str ''patch_id'' ob;
     t \<leftarrow> opt_fld dec_str ''title'' ob; s \<leftarrow> opt_fld dec_str ''severity'' ob;
     st \<leftarrow> fld dec_str ''status'' ob;
     Some \<lparr>pi_patch_id = i, pi_title = t, pi_severity = s, pi_status = st\<rparr> }"

interpretation snapshot_codec: nonnull_codec enc_snapshot dec_snapshot snapshot_finite
proof (unfold_locales, goal_cases)
  case (1 x) then show ?case
    by (simp add: dec_snapshot_def enc_snapshot_def snapshot_finite_def fld_def
      f64_codec.dec_enc u_codec.dec_enc i_codec.dec_enc)
next
  case (2 x) then show ?case by (simp add: enc_snapshot_def)
qed

interpretation software_codec: nonnull_codec enc_software dec_software "\<lambda>_. True"
proof (unfold_locales, goal_cases)
  case (1 x) then show ?case
    by (simp add: dec_software_def enc_software_def field_codecs del: enc_str.simps)
next
  case (2 x) then show ?case by (simp add: enc_software_def)
qed

interpretation patch_codec: nonnull_codec enc_patch dec_patch "\<lambda>_. True"
proof (unfold_locales, goal_cases)
  case (1 x) then show ?case
    by (simp add: dec_patch_def enc_patch_def field_codecs del: enc_str.simps)
next
  case (2 x) then show ?case by (simp add: enc_patch_def)
qed

fun enc_server_message :: "(uuid \<Rightarrow> string) \<Rightarrow> server_message \<Rightarrow> json" where
  "enc_server_message us SHeartbeat = JObj [(''msg_type'', JStr ''heartbeat'')]"
| "enc_server_message us (PushPolicy ps) = JObj [(''msg_type'', JStr ''push_policy''),
     (''policies'', enc_list (enc_policy us) ps)]"
| "enc_server_message us (DispatchJob i p sig) = JObj [(''msg_type'', JStr ''dispatch_job''),
     (''job_id'', enc_uuid us i), (''payload'', enc_payload p), (''signature'', enc_str sig)]"
| "enc_server_message us (RevokeJob i) = JObj [(''msg_type'', JStr ''revoke_job''),
     (''job_id'', enc_uuid us i)]"
| "enc_server_message us RequestTelemetry = JObj [(''msg_type'', JStr ''request_telemetry'')]"
| "enc_server_message us RequestInventory = JObj [(''msg_type'', JStr ''request_inventory'')]"
| "enc_server_message us (OpenShell i) = JObj [(''msg_type'', JStr ''open_shell''),
     (''session_id'', enc_uuid us i)]"
| "enc_server_message us (ShellInput i d) = JObj [(''msg_type'', JStr ''shell_input''),
     (''session_id'', enc_uuid us i), (''data'', enc_str d)]"
| "enc_server_message us (CloseShell i) = JObj [(''msg_type'', JStr ''close_shell''),
     (''session_id'', enc_uuid us i)]"

definition dec_server_message :: "(string \<Rightarrow> uuid option) \<Rightarrow> json \<Rightarrow> server_message option" where
  "dec_server_message up v = do { ob \<leftarrow> dec_obj v; t \<leftarrow> fld dec_str ''msg_type'' ob;
     if t = ''heartbeat'' then Some SHeartbeat
     else if t = ''push_policy'' then do {
       ps \<leftarrow> fld (dec_list (dec_policy up)) ''policies'' ob; Some (PushPolicy ps) }
     else if t = ''dispatch_job'' then do {
       i \<leftarrow> fld (dec_uuid up) ''job_id'' ob; p \<leftarrow> fld dec_payload ''payload'' ob;
       sig \<leftarrow> fld dec_str ''signature'' ob; Some (DispatchJob i p sig) }
     else if t = ''revoke_job'' then do { i \<leftarrow> fld (dec_uuid up) ''job_id'' ob; Some (RevokeJob i) }
     else if t = ''request_telemetry'' then Some RequestTelemetry
     else if t = ''request_inventory'' then Some RequestInventory
     else if t = ''open_shell'' then do { i \<leftarrow> fld (dec_uuid up) ''session_id'' ob; Some (OpenShell i) }
     else if t = ''shell_input'' then do {
       i \<leftarrow> fld (dec_uuid up) ''session_id'' ob; d \<leftarrow> fld dec_str ''data'' ob; Some (ShellInput i d) }
     else if t = ''close_shell'' then do { i \<leftarrow> fld (dec_uuid up) ''session_id'' ob; Some (CloseShell i) }
     else None }"

fun enc_agent_message :: "(uuid \<Rightarrow> string) \<Rightarrow> agent_message \<Rightarrow> json" where
  "enc_agent_message us (AHeartbeat v) = JObj [(''msg_type'', JStr ''heartbeat''),
     (''agent_version'', enc_str v)]"
| "enc_agent_message us (TelemetryReport t) = JObj [(''msg_type'', JStr ''telemetry_report''),
     (''snapshot'', enc_snapshot t)]"
| "enc_agent_message us (SystemEventBatch es) = JObj [(''msg_type'', JStr ''system_event_batch''),
     (''events'', enc_list enc_event es)]"
| "enc_agent_message us (JobLog i l s) = JObj [(''msg_type'', JStr ''job_log''),
     (''job_id'', enc_uuid us i), (''line'', enc_str l), (''stream'', enc_str s)]"
| "enc_agent_message us (JobCompleted i c) = JObj [(''msg_type'', JStr ''job_completed''),
     (''job_id'', enc_uuid us i), (''exit_code'', enc_i c)]"
| "enc_agent_message us (ComplianceReport rs) = JObj [(''msg_type'', JStr ''compliance_report''),
     (''reports'', enc_list (enc_report us) rs)]"
| "enc_agent_message us (InventoryReport sw ps) = JObj [(''msg_type'', JStr ''inventory_report''),
     (''software'', enc_list enc_software sw), (''patches'', enc_list enc_patch ps)]"
| "enc_agent_message us (ShellOutput i d) = JObj [(''msg_type'', JStr ''shell_output''),
     (''session_id'', enc_uuid us i), (''data'', enc_str d)]"
| "enc_agent_message us (ShellClosed i c) = JObj [(''msg_type'', JStr ''shell_closed''),
     (''session_id'', enc_uuid us i), (''exit_code'', enc_opt enc_i c)]"

definition dec_agent_message :: "(string \<Rightarrow> uuid option) \<Rightarrow> json \<Rightarrow> agent_message option" where
  "dec_agent_message up v = do { ob \<leftarrow> dec_obj v; t \<leftarrow> fld dec_str ''msg_type'' ob;
     if t = ''heartbeat'' then do { w \<leftarrow> fld dec_str ''agent_version'' ob; Some (AHeartbeat w) }
     else if t = ''telemetry_report'' then do {
       s \<leftarrow> fld dec_snapshot ''snapshot'' ob; Some (TelemetryReport s) }
     else if t = ''system_event_batch'' then do {
       es \<leftarrow> fld (dec_list dec_event) ''events'' ob; Some (SystemEventBatch es) }
     else if t = ''job_log'' then do {
       i \<leftarrow> fld (dec_uuid up) ''job_id'' ob; l \<leftarrow> fld dec_str ''line'' ob;
       s \<leftarrow> fld dec_str ''stream'' ob; Some (JobLog i l s) }
     else if t = ''job_completed'' then do {
       i \<leftarrow> fld (dec_uuid up) ''job_id'' ob; c \<leftarrow> fld dec_i ''exit_code'' ob; Some (JobCompleted i c) }
     else if t = ''compliance_report'' then do {
       rs \<leftarrow> fld (dec_list (dec_report up)) ''reports'' ob; Some (ComplianceReport rs) }
     else if t = ''inventory_report'' then do {
       sw \<leftarrow> fld (dec_list dec_software) ''software'' ob;
       ps \<leftarrow> fld (dec_list dec_patch) ''patches'' ob; Some (InventoryReport sw ps) }
     else if t = ''shell_output'' then do {
       i \<leftarrow> fld (dec_uuid up) ''session_id'' ob; d \<leftarrow> fld dec_str ''data'' ob; Some (ShellOutput i d) }
     else if t = ''shell_closed'' then do {
       i \<leftarrow> fld (dec_uuid up) ''session_id'' ob; c \<leftarrow> opt_fld dec_i ''exit_code'' ob;
       Some (ShellClosed i c) }
     else None }"

text \<open>A message survives the wire unless it carries a float that is not finite.\<close>

fun agent_message_ok :: "agent_message \<Rightarrow> bool" where
  "agent_message_ok (TelemetryReport t) = snapshot_finite t"
| "agent_message_ok _ = True"

lemma policy_codec:
  assumes "\<And>u. up (us u) = Some u"
  shows "nonnull_codec (enc_policy us) (dec_policy up) (\<lambda>_. True)"
proof -
  from assms have u: "nonnull_codec (enc_uuid us) (dec_uuid up) (\<lambda>_. True)" by (rule uuid_codec)
  note uf = codec.fld_enc [OF nonnull_codec.axioms(1) [OF u]]
  show ?thesis
    by unfold_locales (simp_all add: enc_policy_def dec_policy_def uf field_codecs
      rule_codec.fld_list_enc del: enc_str.simps)
qed

lemma report_codec:
  assumes "\<And>u. up (us u) = Some u"
  shows "nonnull_codec (enc_report us) (dec_report up) (\<lambda>_. True)"
proof -
  from assms have u: "nonnull_codec (enc_uuid us) (dec_uuid up) (\<lambda>_. True)" by (rule uuid_codec)
  note uf = codec.fld_enc [OF nonnull_codec.axioms(1) [OF u]]
  show ?thesis
    by unfold_locales (simp_all add: enc_report_def dec_report_def uf field_codecs
      violation_codec.fld_list_enc del: enc_str.simps enc_bool.simps)
qed

lemma server_message_decodes:
  assumes "\<And>u. up (us u) = Some u"
  shows "dec_server_message up (enc_server_message us m) = Some m"
proof -
  from assms have u: "nonnull_codec (enc_uuid us) (dec_uuid up) (\<lambda>_. True)" by (rule uuid_codec)
  from assms have p: "nonnull_codec (enc_policy us) (dec_policy up) (\<lambda>_. True)" by (rule policy_codec)
  note uf = codec.fld_enc [OF nonnull_codec.axioms(1) [OF u]]
  note pf = codec.fld_list_enc [OF nonnull_codec.axioms(1) [OF p]]
  show ?thesis
    by (cases m) (simp_all add: dec_server_message_def fld_str_simp uf pf field_codecs
      payload_codec.fld_enc del: enc_str.simps)
qed

text \<open>C24.  Every server message decodes, on the agent, to the message that was sent.\<close>

theorem server_message_roundtrip:
  assumes "\<And>u. up (us u) = Some u"
  shows "dec_server_message up (enc_server_message us m) = Some m"
  using assms by (rule server_message_decodes)

theorem server_message_roundtrip_witness:
  "dec_server_message (\<lambda>s. Some (of_nat (length s)))
     (enc_server_message (\<lambda>u. replicate (unat u) CHR ''u'')
       (DispatchJob 2 (RunScript Bash ''ls'') ''sig'')) = Some (DispatchJob 2 (RunScript Bash ''ls'') ''sig'')"
  by (rule server_message_roundtrip) simp

lemma agent_message_decodes:
  assumes "\<And>u. up (us u) = Some u"
  shows "dec_agent_message up (enc_agent_message us m) = (if agent_message_ok m then Some m else None)"
proof -
  from assms have u: "nonnull_codec (enc_uuid us) (dec_uuid up) (\<lambda>_. True)" by (rule uuid_codec)
  from assms have r: "nonnull_codec (enc_report us) (dec_report up) (\<lambda>_. True)" by (rule report_codec)
  note uf = codec.fld_enc [OF nonnull_codec.axioms(1) [OF u]]
  note rf = codec.fld_list_enc [OF nonnull_codec.axioms(1) [OF r]]
  have bad: "\<not> snapshot_finite t \<Longrightarrow> dec_snapshot (enc_snapshot t) = None" for t
    by (auto simp: snapshot_finite_def dec_snapshot_def enc_snapshot_def fld_def
      dec_f64_nonfinite split: bind_splits)
  show ?thesis
  proof (cases m)
    case (TelemetryReport t)
    then show ?thesis
      by (cases "snapshot_finite t")
        (simp_all add: dec_agent_message_def fld_def snapshot_codec.dec_enc bad)
  qed (simp_all add: dec_agent_message_def fld_str_simp uf rf field_codecs event_codec.fld_list_enc
      software_codec.fld_list_enc patch_codec.fld_list_enc i_codec.opt_fld_enc del: enc_str.simps)
qed

text \<open>
  C25.  Every agent message decodes, on the server, to the message that was sent, unless it is
  telemetry with a number that is not finite; such a report is not decoded at all.
\<close>

theorem agent_message_roundtrip:
  assumes "\<And>u. up (us u) = Some u"
  shows "dec_agent_message up (enc_agent_message us m) = (if agent_message_ok m then Some m else None)"
  using assms by (rule agent_message_decodes)

theorem agent_message_roundtrip_witness:
  "dec_agent_message (\<lambda>s. Some (of_nat (length s)))
     (enc_agent_message (\<lambda>u. replicate (unat u) CHR ''u'') (JobCompleted 7 1)) = Some (JobCompleted 7 1)"
  using agent_message_roundtrip [of "\<lambda>s. Some (of_nat (length s))" "\<lambda>u. replicate (unat u) CHR ''u''"
    "JobCompleted 7 1"] by simp

end
