(* ===== verification/Server_State.thy ===== *)
theory Server_State
  imports Messages
begin

section \<open>The server's state, its errors and its database\<close>

text \<open>
  \<^verbatim>\<open>error.rs\<close>, \<^verbatim>\<open>state.rs\<close> and the tables of \<^verbatim>\<open>migrations/\<close>.  \<open>app_state\<close> is
  \<^verbatim>\<open>AppState\<close>: the PostgreSQL database behind \<^verbatim>\<open>db: PgPool\<close> as a record of tables, the
  configuration, the CA and the job signer, and the in-memory maps.  Three fields make the
  environment explicit: \<open>faults\<close> says for each coming SQL statement whether the
  connection fails (an empty list: none does), \<open>wall_ms\<close> is what \<^verbatim>\<open>now()\<close> and
  \<^verbatim>\<open>Utc::now()\<close> read, \<open>instant_ms\<close> what the monotonic \<^verbatim>\<open>Instant::now()\<close> reads, and
  \<open>rng\<close>/\<open>rng_pos\<close> is the sequence of random UUIDs that \<^verbatim>\<open>gen_random_uuid()\<close> and
  \<^verbatim>\<open>Uuid::new_v4()\<close> draw from.
\<close>

subsection \<open>error.rs\<close>

datatype sql_error = ConnectionFailed | ConstraintViolation string | DecodeFailed | RowNotFound

datatype api_error =
    NotFound fmt
  | BadRequest fmt
  | Unauthorized fmt
  | Forbidden fmt
  | Conflict fmt
  | RateLimited fmt
  | Internal fmt
  | Database sql_error
  | JsonError string
  | Jwt string
  | Bcrypt string

fun status_code :: "api_error \<Rightarrow> nat" where
  "status_code (NotFound _) = 404"
| "status_code (BadRequest _) = 400"
| "status_code (Unauthorized _) = 401"
| "status_code (Forbidden _) = 403"
| "status_code (Conflict _) = 409"
| "status_code (RateLimited _) = 429"
| "status_code (Internal _) = 500"
| "status_code (Database _) = 500"
| "status_code (JsonError _) = 400"
| "status_code (Jwt _) = 401"
| "status_code (Bcrypt _) = 500"

fun error_code :: "api_error \<Rightarrow> string" where
  "error_code (NotFound _) = ''NOT_FOUND''"
| "error_code (BadRequest _) = ''BAD_REQUEST''"
| "error_code (Unauthorized _) = ''UNAUTHORIZED''"
| "error_code (Forbidden _) = ''FORBIDDEN''"
| "error_code (Conflict _) = ''CONFLICT''"
| "error_code (RateLimited _) = ''RATE_LIMITED''"
| "error_code (Internal _) = ''INTERNAL_ERROR''"
| "error_code (Database _) = ''DATABASE_ERROR''"
| "error_code (JsonError _) = ''INVALID_JSON''"
| "error_code (Jwt _) = ''INVALID_TOKEN''"
| "error_code (Bcrypt _) = ''INTERNAL_ERROR''"

subsection \<open>config.rs: the configuration record\<close>

record config =
  database_url :: string
  jwt_secret :: string
  server_port :: u16
  server_url :: string
  admin_username :: string
  admin_password :: string
  tls_cert_path :: "string option"
  tls_key_path :: "string option"
  dashboard_origin :: string
  smtp_host :: "string option"
  smtp_port :: u16
  smtp_user :: "string option"
  smtp_password :: "string option"
  smtp_from :: string
  webhook_url :: "string option"
  ntfy_topic :: "string option"
  ntfy_server :: string
  allow_insecure_http :: bool

subsection \<open>The tables\<close>

type_synonym time = int \<comment> \<open>milliseconds\<close>

record user_row =
  u_id :: uuid
  u_username :: string
  u_password_hash :: string
  u_totp_secret :: "string option"
  u_totp_enabled :: bool
  u_role :: string
  u_created_at :: "time option"
  u_last_login :: "time option"

record refresh_row =
  rt_user_id :: uuid
  rt_token_hash :: string
  rt_expires_at :: time
  rt_revoked :: bool

record enroll_token_row =
  et_id :: uuid
  et_token :: string
  et_created_by :: "uuid option"
  et_used :: bool
  et_used_at :: "time option"
  et_used_by :: "uuid option"
  et_expires_at :: time

record device_row =
  d_id :: uuid
  d_hostname :: string
  d_os :: string
  d_os_version :: "string option"
  d_arch :: "string option"
  d_ip_address :: "string option"
  d_agent_version :: "string option"
  d_enrolled_at :: "time option"
  d_last_seen :: "time option"
  d_status :: string
  d_auth_token_hash :: "string option"

record cert_row =
  c_device_id :: uuid
  c_fingerprint :: string
  c_pem :: string
  c_expires_at :: time
  c_revoked :: bool
  c_revoked_at :: "time option"

record metric_row =
  m_device_id :: uuid
  m_time :: time
  m_cpu_pct :: "f64 option"
  m_ram_used_mb :: "i64 option"
  m_ram_total_mb :: "i64 option"
  m_disk_used_gb :: "f64 option"
  m_disk_total_gb :: "f64 option"
  m_uptime_secs :: "i64 option"

record kernel_event_row =
  ke_device_id :: uuid
  ke_time :: time
  ke_event_type :: string
  ke_payload :: json

record policy_row =
  p_id :: uuid
  p_name :: string
  p_description :: "string option"
  p_rules :: json
  p_version :: int
  p_enabled :: bool
  p_created_at :: "time option"
  p_updated_at :: "time option"

record assignment_row =
  pa_policy_id :: uuid
  pa_device_id :: "uuid option"
  pa_group_id :: "uuid option"

record group_row =
  g_id :: uuid
  g_name :: string
  g_description :: "string option"
  g_created_at :: "time option"

record member_row =
  gm_group_id :: uuid
  gm_device_id :: uuid

record software_row =
  sw_id :: uuid
  sw_device_id :: uuid
  sw_name :: string
  sw_version :: "string option"
  sw_publisher :: "string option"
  sw_install_date :: "string option"

record job_row =
  j_id :: uuid
  j_device_id :: uuid
  j_payload :: json
  j_status :: string
  j_exit_code :: "i32 option"
  j_log_output :: "json option"
  j_created_by :: "uuid option"
  j_created_at :: "time option"
  j_finished_at :: "time option"

record job_log_row =
  jl_job_id :: uuid
  jl_time :: "time option"
  jl_line :: string
  jl_stream :: string

record patch_row =
  pt_device_id :: uuid
  pt_patch_id :: string
  pt_title :: "string option"
  pt_severity :: "string option"
  pt_status :: string
  pt_detected_at :: "time option"

record alert_rule_row =
  ar_id :: uuid
  ar_name :: string
  ar_metric :: "string option"
  ar_operator :: "string option"
  ar_threshold :: "f64 option"
  ar_severity :: "string option"
  ar_condition :: json
  ar_channels :: json
  ar_enabled :: bool
  ar_created_at :: "time option"

record alert_event_row =
  ae_id :: uuid
  ae_rule_id :: uuid
  ae_device_id :: "uuid option"
  ae_severity :: "string option"
  ae_message :: "fmt option"
  ae_triggered_at :: "time option"
  ae_resolved_at :: "time option"

record compliance_row =
  cr_id :: uuid
  cr_device_id :: uuid
  cr_policy_id :: uuid
  cr_compliant :: bool
  cr_detail :: "json option"
  cr_reported_at :: "time option"

record audit_row =
  al_user_id :: "uuid option"
  al_action :: string
  al_detail :: json
  al_ip_address :: "string option"

record db =
  users :: "user_row list"
  refresh_tokens :: "refresh_row list"
  enrollment_tokens :: "enroll_token_row list"
  devices :: "device_row list"
  certificates :: "cert_row list"
  device_metrics :: "metric_row list"
  kernel_events :: "kernel_event_row list"
  policies :: "policy_row list"
  policy_assignments :: "assignment_row list"
  device_groups :: "group_row list"
  group_members :: "member_row list"
  installed_software :: "software_row list"
  jobs :: "job_row list"
  job_logs :: "job_log_row list"
  patches :: "patch_row list"
  alert_rules :: "alert_rule_row list"
  alert_events :: "alert_event_row list"
  compliance_reports :: "compliance_row list"
  audit_log :: "audit_row list"

subsection \<open>state.rs\<close>

text \<open>
  The sender half of the channel to a connection's write task: the messages sent and not
  yet written, and whether the receiving task still runs (\<^verbatim>\<open>send\<close> fails once it is gone).
  Waiting for room in the bounded channel is not modelled.
\<close>

record agent_connection =
  ac_device_id :: uuid
  ac_connected_at :: time
  ac_queue :: "server_message list"
  ac_alive :: bool

record shell_event =
  se_session_id :: uuid
  se_data :: string
  se_closed :: bool
  se_exit_code :: "i32 option"

record shell_meta =
  sm_owner_id :: uuid
  sm_device_id :: uuid

text \<open>\<open>ca\<close> holds the CA certificate and key PEM, \<open>signer\<close> the signing key and the public key in base64.\<close>

record ca =
  ca_cert_pem :: string
  ca_key_pem :: string

record signer =
  sg_key :: "u8 list"
  sg_public_key_b64 :: string

text \<open>
  What the notification service emits, in order: a log line (level, device, rule, severity,
  message), an email handed to the SMTP transport (recipient, subject, body), a webhook
  POST (URL, severity, rule, device, message, time), an ntfy POST (URL, title, priority,
  tags, body).
\<close>

datatype notification =
    LogAlert string uuid string string fmt
  | Email string fmt fmt
  | WebhookPost string string string uuid fmt time
  | NtfyPost string fmt string string fmt

record app_state =
  db :: db
  cfg :: config
  connected_agents :: "uuid \<Rightarrow> agent_connection option"
  ca_of :: "ca option"
  job_signer :: "signer option"
  shell_broadcasts :: "uuid \<Rightarrow> shell_event list option"
  shell_sessions :: "uuid \<Rightarrow> shell_meta option"
  login_attempts :: "string \<Rightarrow> nat list option"
  faults :: "bool list"
  wall_ms :: time
  instant_ms :: nat
  rng :: "nat \<Rightarrow> uuid"
  rng_pos :: nat
  sent_notifications :: "notification list"

type_synonym 'a handler = "(app_state, api_error, 'a) action"

subsection \<open>Third-party services\<close>

text \<open>
  What the handlers call in crates that are not part of the repository: hashing, password
  and TOTP checks, JWTs, UUID text, the base64 and Ed25519 of the job signer, JSON text,
  certificates, the rank PostgreSQL's collation gives a text, and
  whether \<^verbatim>\<open>lettre\<close> accepts a mailbox and a relay host, the JSON and UUID parsers, and
  whether PostgreSQL takes a text parameter for the \<^verbatim>\<open>DATE\<close> column of the inventory.  They are parameters, collected in one record.
\<close>

record claims =
  cl_sub :: uuid
  cl_username :: string
  cl_role :: string
  cl_exp :: u64
  cl_iat :: u64

record ext =
  sha256_hex :: "string \<Rightarrow> string"
  bcrypt_verify :: "string \<Rightarrow> string \<Rightarrow> string + bool"
  bcrypt_hash :: "string \<Rightarrow> string + string"
  totp_secret_bytes :: "string \<Rightarrow> string + u8 list"
  totp_raw_bytes :: "u8 list \<Rightarrow> string + u8 list"
  totp_encode :: "u8 list \<Rightarrow> string"
  totp_generate :: "uuid \<Rightarrow> u8 list"
  totp_new :: "u8 list \<Rightarrow> string option \<Rightarrow> string + u8 list"
  totp_check_current :: "u8 list \<Rightarrow> time \<Rightarrow> string \<Rightarrow> string + bool"
  totp_get_url :: "u8 list \<Rightarrow> string option \<Rightarrow> string"
  jwt_encode :: "string \<Rightarrow> claims \<Rightarrow> string + string"
  jwt_decode :: "string \<Rightarrow> time \<Rightarrow> string \<Rightarrow> string + claims"
  uuid_text :: "uuid \<Rightarrow> string"
  uuid_simple :: "uuid \<Rightarrow> string"
  json_bytes :: "json \<Rightarrow> u8 list option"
  ed_sign :: "u8 list \<Rightarrow> u8 list \<Rightarrow> u8 list"
  b64_encode :: "u8 list \<Rightarrow> string"
  issue_cert :: "ca \<Rightarrow> uuid \<Rightarrow> string + (string \<times> string)"
  cert_fingerprint :: "string \<Rightarrow> string"
  collation_rank :: "string \<Rightarrow> int"
  mailbox_ok :: "string \<Rightarrow> bool"
  relay_ok :: "string \<Rightarrow> bool"
  json_parse :: "string \<Rightarrow> json option"
  uuid_parse :: "string \<Rightarrow> uuid option"
  date_accepts :: "string option \<Rightarrow> bool"

subsection \<open>SQL statements\<close>

text \<open>
  One statement: the connection may fail, the statement may violate a constraint, else it
  returns a value and the changed tables.
\<close>

definition next_fault :: "app_state \<Rightarrow> bool" where
  "next_fault s = (case faults s of [] \<Rightarrow> False | b # _ \<Rightarrow> b)"

definition exec :: "(db \<Rightarrow> sql_error + ('a \<times> db)) \<Rightarrow> 'a handler" where
  "exec q s = (let s' = s\<lparr>faults := tl (faults s)\<rparr> in
     if next_fault s then (Inl (Database ConnectionFailed), s')
     else case q (db s) of
       Inl e \<Rightarrow> (Inl (Database e), s')
     | Inr (x, d) \<Rightarrow> (Inr x, s'\<lparr>db := d\<rparr>))"

definition select :: "(db \<Rightarrow> 'a) \<Rightarrow> 'a handler" where
  "select f = exec (\<lambda>d. Inr (f d, d))"

definition perform :: "(db \<Rightarrow> db) \<Rightarrow> unit handler" where
  "perform f = exec (\<lambda>d. Inr ((), f d))"

definition perform_if :: "(db \<Rightarrow> bool) \<Rightarrow> string \<Rightarrow> (db \<Rightarrow> 'a \<times> db) \<Rightarrow> 'a handler" where
  "perform_if p c f = exec (\<lambda>d. if p d then Inr (f d) else Inl (ConstraintViolation c))"

text \<open>
  A statement that returns a value and cannot fail otherwise (\<open>execute\<close>), and
  \<^verbatim>\<open>fetch_one\<close>, an error when there is no row.
\<close>

abbreviation execute :: "(db \<Rightarrow> 'a \<times> db) \<Rightarrow> 'a handler" where
  "execute f \<equiv> perform_if (\<lambda>_. True) [] f"

definition fetch_one :: "(db \<Rightarrow> 'a option) \<Rightarrow> 'a handler" where
  "fetch_one f = and_then (select f) (ok_or (Database RowNotFound))"

text \<open>\<^verbatim>\<open>db.begin()\<close> \<dots> \<^verbatim>\<open>tx.commit()\<close>: an error inside, or a failing commit, restores the tables.\<close>

definition transaction :: "'a handler \<Rightarrow> 'a handler" where
  "transaction m = and_then (select (\<lambda>_. ())) (\<lambda>_ s.
     case m s of
       (Inl e, t) \<Rightarrow> (Inl e, t\<lparr>db := db s\<rparr>)
     | (Inr x, t) \<Rightarrow> (case select (\<lambda>_. ()) t of
           (Inl e, t') \<Rightarrow> (Inl e, t'\<lparr>db := db s\<rparr>)
         | (Inr _, t') \<Rightarrow> (Inr x, t')))"

definition fresh_uuid :: "uuid handler" where
  "fresh_uuid s = (Inr (rng s (rng_pos s)), s\<lparr>rng_pos := Suc (rng_pos s)\<rparr>)"

lemma exec_no_fault:
  "faults s = [] \<Longrightarrow> exec q s = (case q (db s) of Inl e \<Rightarrow> (Inl (Database e), s)
     | Inr (x, d) \<Rightarrow> (Inr x, s\<lparr>db := d\<rparr>))"
  by (cases s) (simp add: exec_def next_fault_def split: sum.splits prod.splits)

lemma select_no_fault [action_simps]: "faults s = [] \<Longrightarrow> select f s = (Inr (f (db s)), s)"
  by (cases s) (simp add: select_def exec_no_fault)

lemma perform_no_fault [action_simps]:
  "faults s = [] \<Longrightarrow> perform f s = (Inr (), s\<lparr>db := f (db s)\<rparr>)"
  by (simp add: perform_def exec_no_fault)

lemma perform_if_no_fault [action_simps]:
  "faults s = [] \<Longrightarrow> perform_if p c f s =
     (if p (db s) then (Inr (fst (f (db s))), s\<lparr>db := snd (f (db s))\<rparr>)
      else (Inl (Database (ConstraintViolation c)), s))"
  by (simp add: perform_if_def exec_no_fault split: prod.splits)

lemma and_then_select [action_simps]:
  "faults s = [] \<Longrightarrow> and_then (select f) k s = k (f (db s)) s"
  by (simp add: and_then_def select_no_fault)

lemma and_then_perform [action_simps]:
  "faults s = [] \<Longrightarrow> and_then (perform f) k s = k () (s\<lparr>db := f (db s)\<rparr>)"
  by (simp add: and_then_def perform_no_fault)

lemma and_then_perform_if [action_simps]:
  "faults s = [] \<Longrightarrow> and_then (perform_if p c f) k s =
     (if p (db s) then k (fst (f (db s))) (s\<lparr>db := snd (f (db s))\<rparr>)
      else (Inl (Database (ConstraintViolation c)), s))"
  by (simp add: and_then_def perform_if_no_fault)

lemma or_default_select [action_simps]:
  "faults s = [] \<Longrightarrow> or_default d (select f) s = (Inr (f (db s)), s)"
  by (simp add: or_default_def select_no_fault)

lemma and_then_or_default_select [action_simps]:
  "faults s = [] \<Longrightarrow> and_then (or_default d (select f)) k s = k (f (db s)) s"
  by (simp add: and_then_def or_default_select)

lemma and_then_fresh [action_simps]:
  "and_then fresh_uuid k s = k (rng s (rng_pos s)) (s\<lparr>rng_pos := Suc (rng_pos s)\<rparr>)"
  by (simp add: and_then_def fresh_uuid_def)

lemma select_ok [ok_simps]: "select f s = (Inr x, t) \<longleftrightarrow>
    \<not> next_fault s \<and> x = f (db s) \<and> t = s\<lparr>faults := tl (faults s)\<rparr>"
  by (cases s) (auto simp: select_def exec_def Let_def)

lemma perform_ok [ok_simps]: "perform f s = (Inr x, t) \<longleftrightarrow>
    \<not> next_fault s \<and> t = s\<lparr>faults := tl (faults s), db := f (db s)\<rparr>"
  by (auto simp: perform_def exec_def Let_def)

lemma fetch_one_ok [ok_simps]: "fetch_one f s = (Inr x, t) \<longleftrightarrow>
    \<not> next_fault s \<and> f (db s) = Some x \<and> t = s\<lparr>faults := tl (faults s)\<rparr>"
  by (auto simp: fetch_one_def and_then_eq_Inr select_ok ok_or_ok)

lemma fetch_one_no_fault [action_simps]:
  "faults s = [] \<Longrightarrow> fetch_one f s = (case f (db s) of None \<Rightarrow> (Inl (Database RowNotFound), s)
     | Some x \<Rightarrow> (Inr x, s))"
  by (simp add: fetch_one_def and_then_select ret_apply raise_apply split: option.splits)

lemma keeps_fetch_one [keeps_intro]: "keeps (\<lambda>s. I (db s)) (fetch_one f)"
  unfolding fetch_one_def by (intro keeps_and_then keeps_ok_or)
    (auto simp: keeps_def select_def exec_def Let_def)

lemma perform_if_ok [ok_simps]: "perform_if p c f s = (Inr x, t) \<longleftrightarrow>
    \<not> next_fault s \<and> p (db s) \<and> x = fst (f (db s)) \<and>
    t = s\<lparr>faults := tl (faults s), db := snd (f (db s))\<rparr>"
  by (auto simp: perform_if_def exec_def Let_def split: prod.splits)

lemma fresh_uuid_ok [ok_simps]: "fresh_uuid s = (Inr x, t) \<longleftrightarrow>
    x = rng s (rng_pos s) \<and> t = s\<lparr>rng_pos := Suc (rng_pos s)\<rparr>"
  by (auto simp: fresh_uuid_def)

text \<open>
  A statement changes the tables, the fault schedule and nothing else; the rules below are
  what invariants of the tables are proved with.
\<close>

definition keeps_db :: "(db \<Rightarrow> bool) \<Rightarrow> 'a handler \<Rightarrow> bool" where
  "keeps_db I m \<longleftrightarrow> keeps (\<lambda>s. I (db s)) m"

lemma keeps_select: "keeps (\<lambda>s. I (db s)) (select f)"
  by (auto simp: keeps_def select_def exec_def Let_def)

lemma keeps_perform:
  "(\<And>d. I d \<Longrightarrow> I (f d)) \<Longrightarrow> keeps (\<lambda>s. I (db s)) (perform f)"
  by (auto simp: keeps_def perform_def exec_def Let_def)

lemma keeps_perform_if:
  "(\<And>d. I d \<Longrightarrow> p d \<Longrightarrow> I (snd (f d))) \<Longrightarrow> keeps (\<lambda>s. I (db s)) (perform_if p c f)"
  by (auto simp: keeps_def perform_if_def exec_def Let_def split: prod.splits sum.splits if_splits)
    (metis snd_conv)

lemma keeps_fresh: "(\<And>s. I s \<Longrightarrow> I (s\<lparr>rng_pos := Suc (rng_pos s)\<rparr>)) \<Longrightarrow> keeps I fresh_uuid"
  by (simp add: keeps_def fresh_uuid_def)

lemma keeps_db_fresh [keeps_intro]: "keeps (\<lambda>s. I (db s)) fresh_uuid"
  by (simp add: keeps_def fresh_uuid_def)

lemmas keeps_sql [keeps_intro] = keeps_select keeps_perform keeps_perform_if

lemma transaction_error:
  assumes "transaction m s = (Inl e, t)"
  shows "db t = db s"
  using assms
  by (auto simp: transaction_def and_then_def select_def exec_def Let_def
    split: prod.splits sum.splits if_splits)

lemma keeps_transaction [keeps_intro]:
  assumes "keeps (\<lambda>s. I (db s)) m"
  shows "keeps (\<lambda>s. I (db s)) (transaction m)"
proof (rule keepsI)
  fix s :: app_state assume I: "I (db s)"
  show "I (db (snd (transaction m s)))"
  proof (cases "transaction m s")
    case (Pair r t)
    show ?thesis
    proof (cases r)
      case (Inl e)
      with Pair I show ?thesis using transaction_error [of m s e t] by simp
    next
      case (Inr x)
      with Pair obtain u v where m: "m u = (Inr x, v)" and "db u = db s" and "db t = db v"
        by (auto simp: transaction_def and_then_def select_def exec_def Let_def
          split: prod.splits sum.splits if_splits)
      moreover have "I (db (snd (m u)))"
        using keepsD [OF assms, of u] I \<open>db u = db s\<close> by simp
      ultimately show ?thesis using Pair by simp
    qed
  qed
qed

subsection \<open>The operations of AppState\<close>

text \<open>\<^verbatim>\<open>AppState::new\<close>: the maps start empty.\<close>

definition app_state_new ::
  "db \<Rightarrow> config \<Rightarrow> ca option \<Rightarrow> signer option \<Rightarrow> bool list \<Rightarrow> time \<Rightarrow> nat \<Rightarrow> (nat \<Rightarrow> uuid) \<Rightarrow> app_state" where
  "app_state_new d c caopt sg fs w i r =
     \<lparr>db = d, cfg = c, connected_agents = (\<lambda>_. None), ca_of = caopt, job_signer = sg,
      shell_broadcasts = (\<lambda>_. None), shell_sessions = (\<lambda>_. None), login_attempts = (\<lambda>_. None),
      faults = fs, wall_ms = w, instant_ms = i, rng = r, rng_pos = 0, sent_notifications = []\<rparr>"

text \<open>\<^verbatim>\<open>JobSigner::sign_job\<close> (signing.rs) and \<^verbatim>\<open>AppState::sign_job\<close>.\<close>

definition signer_sign_job :: "ext \<Rightarrow> signer \<Rightarrow> uuid \<Rightarrow> job_payload \<Rightarrow> string" where
  "signer_sign_job E sg job_id payload =
     b64_encode E (ed_sign E (sg_key sg) (canonical_job_signing_bytes (json_bytes E) job_id payload))"

definition sign_job :: "ext \<Rightarrow> app_state \<Rightarrow> uuid \<Rightarrow> job_payload \<Rightarrow> string" where
  "sign_job E s job_id payload = (case job_signer s of
     Some sg \<Rightarrow> signer_sign_job E sg job_id payload
   | None \<Rightarrow> [])"

definition send_to_agent :: "uuid \<Rightarrow> server_message \<Rightarrow> bool handler" where
  "send_to_agent device_id msg s = (case connected_agents s device_id of
     Some conn \<Rightarrow>
       if ac_alive conn then
         (Inr True, s\<lparr>connected_agents := (connected_agents s)
            (device_id \<mapsto> conn\<lparr>ac_queue := ac_queue conn @ [msg]\<rparr>)\<rparr>)
       else (Inr False, s)
   | None \<Rightarrow> (Inr False, s))"

definition broadcast :: "server_message \<Rightarrow> app_state \<Rightarrow> app_state" where
  "broadcast msg s = s\<lparr>connected_agents := (\<lambda>i. map_option
     (\<lambda>conn. if ac_alive conn then conn\<lparr>ac_queue := ac_queue conn @ [msg]\<rparr> else conn)
     (connected_agents s i))\<rparr>"

definition disconnect_agent :: "uuid \<Rightarrow> app_state \<Rightarrow> app_state" where
  "disconnect_agent device_id s = s\<lparr>connected_agents := (connected_agents s)(device_id := None)\<rparr>"

text \<open>\<open>reachable_agent\<close>: a message sent to this device now reaches its write task.\<close>

definition reachable_agent :: "app_state \<Rightarrow> uuid \<Rightarrow> bool" where
  "reachable_agent s i \<longleftrightarrow> (\<exists>c. connected_agents s i = Some c \<and> ac_alive c)"

definition agent_queue :: "app_state \<Rightarrow> uuid \<Rightarrow> server_message list" where
  "agent_queue s i = (case connected_agents s i of None \<Rightarrow> [] | Some c \<Rightarrow> ac_queue c)"

lemma send_result: "fst (send_to_agent i msg s) = Inr (reachable_agent s i)"
  by (auto simp: send_to_agent_def reachable_agent_def split: option.splits)

lemma send_db [simp]: "db (snd (send_to_agent i msg s)) = db s"
  by (auto simp: send_to_agent_def split: option.splits)

lemma send_faults [simp]: "faults (snd (send_to_agent i msg s)) = faults s"
  by (auto simp: send_to_agent_def split: option.splits)

lemma send_reachable [simp]: "reachable_agent (snd (send_to_agent i msg s)) j = reachable_agent s j"
  by (auto simp: send_to_agent_def reachable_agent_def split: option.splits)

lemma send_queue:
  "agent_queue (snd (send_to_agent i msg s)) j =
     (if j = i \<and> reachable_agent s i then agent_queue s j @ [msg] else agent_queue s j)"
  by (auto simp: send_to_agent_def reachable_agent_def agent_queue_def split: option.splits)

lemma keeps_send_db [keeps_intro]: "keeps (\<lambda>s. I (db s)) (send_to_agent i msg)"
  by (simp add: keeps_def)

lemma and_then_send [action_simps]:
  "and_then (send_to_agent i msg) k s = k (reachable_agent s i) (snd (send_to_agent i msg s))"
  by (metis and_then_Inr prod.collapse send_result)

lemma send_frame [simp]:
  "job_signer (snd (send_to_agent i m s)) = job_signer s"
  "wall_ms (snd (send_to_agent i m s)) = wall_ms s"
  by (auto simp: send_to_agent_def split: option.splits)

lemma disconnect_unreachable [simp]: "\<not> reachable_agent (disconnect_agent i s) i"
  by (simp add: disconnect_agent_def reachable_agent_def)

lemma disconnect_db [simp]: "db (disconnect_agent i s) = db s"
  by (simp add: disconnect_agent_def)

end
