(* ===== verification/Samples.thy ===== *)
theory Samples
  imports Server_State
begin

section \<open>Concrete states\<close>

text \<open>
  The concrete inputs on which the witnesses apply the theorems: third-party services given
  by plain functions (hashing is the identity, a password is right when it equals its
  \<open>hash\<close>, a token is the text of its user), an empty database, and a small one with an
  admin, a viewer, an enrolled device with a live connection, and an unused token.
\<close>

definition no_ext :: ext where
  "no_ext = \<lparr>sha256_hex = (\<lambda>s. s), bcrypt_verify = (\<lambda>p h. Inr (p = h)), bcrypt_hash = Inr,
     totp_secret_bytes = (\<lambda>_. Inr []), totp_raw_bytes = Inr, totp_encode = (\<lambda>_. ''secret''),
     totp_generate = (\<lambda>_. []), totp_new = (\<lambda>b _. Inr b),
     totp_check_current = (\<lambda>_ _ c. Inr (c = ''123456'')), totp_get_url = (\<lambda>_ _. ''otpauth''),
     jwt_encode = (\<lambda>_ c. Inr (cl_username c)),
     jwt_decode = (\<lambda>_ _ tok. if tok = ''root'' then
         Inr \<lparr>cl_sub = 1, cl_username = ''root'', cl_role = ''admin'', cl_exp = 0, cl_iat = 0\<rparr>
       else if tok = ''eve'' then
         Inr \<lparr>cl_sub = 2, cl_username = ''eve'', cl_role = ''admin'', cl_exp = 0, cl_iat = 0\<rparr>
       else Inl ''InvalidToken''),
     uuid_text = (\<lambda>u. show_nat (unat u)), uuid_simple = (\<lambda>u. show_nat (unat u)),
     json_bytes = (\<lambda>_. Some []), ed_sign = (\<lambda>k m. k @ m), b64_encode = (\<lambda>_. ''sig''),
     issue_cert = (\<lambda>_ _. Inr (''cert'', ''key'')), cert_fingerprint = (\<lambda>s. s),
     collation_rank = (\<lambda>s. int (length s)), mailbox_ok = (\<lambda>_. True), relay_ok = (\<lambda>_. True),
     json_parse = (\<lambda>_. None), uuid_parse = (\<lambda>s. Some (of_nat (length s))), date_accepts = (\<lambda>_. True)\<rparr>"

definition empty_db :: db where
  "empty_db = \<lparr>users = [], refresh_tokens = [], enrollment_tokens = [], devices = [],
     certificates = [], device_metrics = [], kernel_events = [], policies = [],
     policy_assignments = [], device_groups = [], group_members = [], installed_software = [],
     jobs = [], job_logs = [], patches = [], alert_rules = [], alert_events = [],
     compliance_reports = [], audit_log = []\<rparr>"

definition some_cfg :: config where
  "some_cfg = \<lparr>database_url = ''db'', jwt_secret = ''secret'', server_port = 8080,
     server_url = ''https://localhost:8080'', admin_username = ''admin'', admin_password = ''admin'',
     tls_cert_path = None, tls_key_path = None, dashboard_origin = ''http://localhost:3000'',
     smtp_host = None, smtp_port = 587, smtp_user = None, smtp_password = None,
     smtp_from = ''osfm-edm@localhost'', webhook_url = None, ntfy_topic = None,
     ntfy_server = ''https://ntfy.sh'', allow_insecure_http = False\<rparr>"

definition admin_row :: user_row where
  "admin_row = \<lparr>u_id = 1, u_username = ''root'', u_password_hash = ''pw'', u_totp_secret = None,
     u_totp_enabled = False, u_role = ''admin'', u_created_at = None, u_last_login = None\<rparr>"

definition viewer_row :: user_row where
  "viewer_row = \<lparr>u_id = 2, u_username = ''eve'', u_password_hash = ''pw2'', u_totp_secret = None,
     u_totp_enabled = False, u_role = ''viewer'', u_created_at = None, u_last_login = None\<rparr>"

definition device_1 :: device_row where
  "device_1 = \<lparr>d_id = 7, d_hostname = ''host'', d_os = ''linux'', d_os_version = None, d_arch = None,
     d_ip_address = None, d_agent_version = None, d_enrolled_at = None, d_last_seen = None,
     d_status = ''online'', d_auth_token_hash = Some ''tok''\<rparr>"

definition token_1 :: enroll_token_row where
  "token_1 = \<lparr>et_id = 20, et_token = ''enroll'', et_created_by = Some 1, et_used = False,
     et_used_at = None, et_used_by = None, et_expires_at = 5000\<rparr>"

definition some_db :: db where
  "some_db = empty_db\<lparr>users := [admin_row, viewer_row], devices := [device_1],
     enrollment_tokens := [token_1],
     refresh_tokens := [\<lparr>rt_user_id = 1, rt_token_hash = ''r'', rt_expires_at = 9000, rt_revoked = False\<rparr>]\<rparr>"

definition state_of :: "db \<Rightarrow> app_state" where
  "state_of d = app_state_new d some_cfg (Some \<lparr>ca_cert_pem = ''ca'', ca_key_pem = ''cakey''\<rparr>)
     (Some \<lparr>sg_key = [1], sg_public_key_b64 = ''pub''\<rparr>) [] 1000 0 (\<lambda>n. of_nat (n + 100))"

definition some_state :: app_state where
  "some_state = (state_of some_db)\<lparr>connected_agents := (\<lambda>_. None)(7 \<mapsto>
     \<lparr>ac_device_id = 7, ac_connected_at = 0, ac_queue = [], ac_alive = True\<rparr>)\<rparr>"

lemma faults_some [simp]: "faults some_state = []" "faults (state_of d) = []"
  by (simp_all add: some_state_def state_of_def app_state_new_def)

lemma db_some [simp]: "db some_state = some_db" "db (state_of d) = d"
  by (simp_all add: some_state_def state_of_def app_state_new_def)

lemmas sample_defs = no_ext_def empty_db_def some_cfg_def admin_row_def viewer_row_def
  device_1_def token_1_def some_db_def state_of_def some_state_def app_state_new_def

end
