(* ===== verification/Auth.thy ===== *)
theory Auth
  imports Samples
begin

section \<open>Authentication\<close>

text \<open>
  \<^verbatim>\<open>middleware/auth.rs\<close> (bearer token, JWT validation, the user row that decides the
  role) and \<^verbatim>\<open>api/auth.rs\<close> (the login throttle, login, refresh, logout, /me, MFA,
  the first-boot admin).  The throttle is a contract of its own, the locale
  \<open>login_throttle\<close>, interpreted on the code's map of attempt times.
\<close>

subsection \<open>middleware/auth.rs\<close>

datatype header_value = Visible string | Opaque

type_synonym headers = "string \<Rightarrow> header_value option"

record auth_user =
  au_user_id :: uuid
  au_username :: string
  au_role :: string

definition is_admin :: "auth_user \<Rightarrow> bool" where
  "is_admin a \<longleftrightarrow> au_role a = ''admin''"

definition require_admin :: "auth_user \<Rightarrow> unit handler" where
  "require_admin a =
     (if is_admin a then ret ()
      else raise (Forbidden [Str (''User '' @ apos), Str (au_username a), Str (apos @ '' (role: ''), Str (au_role a),
        Str '') does not have admin privileges'']))"

definition extract_bearer_token :: "headers \<Rightarrow> api_error + string" where
  "extract_bearer_token h = (case h ''Authorization'' of
     None \<Rightarrow> Inl (Unauthorized [Str ''Missing Authorization header''])
   | Some Opaque \<Rightarrow> Inl (Unauthorized [Str ''Invalid Authorization header encoding''])
   | Some (Visible v) \<Rightarrow>
       if \<not> starts_with ''Bearer '' v
       then Inl (Unauthorized [Str ''Authorization header must use Bearer scheme''])
       else Inr (drop 7 v))"

definition user_by_id :: "uuid \<Rightarrow> db \<Rightarrow> user_row option" where
  "user_by_id i d = List.find (\<lambda>u. u_id u = i) (users d)"

definition user_by_name :: "string \<Rightarrow> db \<Rightarrow> user_row option" where
  "user_by_name n d = List.find (\<lambda>u. u_username u = n) (users d)"

definition from_request_parts :: "ext \<Rightarrow> headers \<Rightarrow> auth_user handler" where
  "from_request_parts E h =
     and_then (lift_result (extract_bearer_token h)) (\<lambda>token.
     and_then (gets (\<lambda>s. jwt_decode E (jwt_secret (cfg s)) (wall_ms s) token)) (\<lambda>decoded.
     and_then (map_err (\<lambda>e. Unauthorized [Str ''Invalid token: '', Str e]) decoded) (\<lambda>c.
     and_then (select (user_by_id (cl_sub c))) (\<lambda>row.
     and_then (ok_or (Unauthorized [Str ''User no longer exists'']) row) (\<lambda>u.
     ret \<lparr>au_user_id = cl_sub c, au_username = u_username u, au_role = u_role u\<rparr>)))))"

subsection \<open>The login throttle\<close>

definition MAX_LOGIN_ATTEMPTS :: nat where
  "MAX_LOGIN_ATTEMPTS = 5"

definition LOGIN_WINDOW :: nat where
  "LOGIN_WINDOW = 5 * 60 * 1000"

definition record_failed_attempt ::
  "(string \<Rightarrow> nat list option) \<Rightarrow> string \<Rightarrow> nat \<Rightarrow> bool \<times> (string \<Rightarrow> nat list option)" where
  "record_failed_attempt m username now =
     (let key = to_lowercase username;
          entry = (case m key of None \<Rightarrow> [] | Some ts \<Rightarrow> ts);
          kept = filter (\<lambda>t. now - t < LOGIN_WINDOW) entry
      in if MAX_LOGIN_ATTEMPTS \<le> length kept then (True, m(key \<mapsto> kept))
         else let pushed = kept @ [now]
              in (MAX_LOGIN_ATTEMPTS < length pushed, m(key \<mapsto> pushed)))"

definition clear_attempts :: "(string \<Rightarrow> nat list option) \<Rightarrow> string \<Rightarrow> (string \<Rightarrow> nat list option)" where
  "clear_attempts m username = m(to_lowercase username := None)"

text \<open>How many recorded attempts of a user lie within the window that ends now.\<close>

definition recent_attempts :: "(string \<Rightarrow> nat list option) \<Rightarrow> string \<Rightarrow> nat \<Rightarrow> nat" where
  "recent_attempts m username now =
     length (filter (\<lambda>t. now - t < LOGIN_WINDOW)
       (case m (to_lowercase username) of None \<Rightarrow> [] | Some ts \<Rightarrow> ts))"

text \<open>
  What \<open>login\<close> relies on: an attempt is rejected exactly when the window is full, an
  accepted one is counted, other users are not affected, a reset empties the count.
\<close>

locale login_throttle =
  fixes attempt :: "'m \<Rightarrow> string \<Rightarrow> nat \<Rightarrow> bool \<times> 'm"
    and reset :: "'m \<Rightarrow> string \<Rightarrow> 'm"
    and recent :: "'m \<Rightarrow> string \<Rightarrow> nat \<Rightarrow> nat"
    and capacity :: nat
  assumes reject_iff: "fst (attempt m u t) \<longleftrightarrow> capacity \<le> recent m u t"
    and attempt_recent: "recent (snd (attempt m u t)) u t =
      (if capacity \<le> recent m u t then recent m u t else Suc (recent m u t))"
    and attempt_other: "to_lowercase u \<noteq> to_lowercase v \<Longrightarrow>
      recent (snd (attempt m u t)) v t' = recent m v t'"
    and reset_recent: "to_lowercase u = to_lowercase v \<Longrightarrow> recent (reset m u) v t = 0"
    and recent_case: "to_lowercase u = to_lowercase v \<Longrightarrow> recent m u t = recent m v t"
begin

primrec burst :: "nat \<Rightarrow> 'm \<Rightarrow> string \<Rightarrow> nat \<Rightarrow> 'm" where
  "burst 0 m u t = m"
| "burst (Suc n) m u t = snd (attempt (burst n m u t) u t)"

lemma burst_recent:
  "recent m u t \<le> capacity \<Longrightarrow> recent (burst n m u t) u t = min capacity (recent m u t + n)"
  by (induction n) (auto simp: attempt_recent)

text \<open>From an empty count exactly \<open>capacity\<close> attempts of a burst get through.\<close>

lemma burst_rejects:
  assumes "recent m u t = 0"
  shows "fst (attempt (burst n m u t) u t) \<longleftrightarrow> capacity \<le> n"
  using burst_recent [of m u t n] assms by (auto simp: reject_iff)

lemma burst_other:
  "to_lowercase u \<noteq> to_lowercase v \<Longrightarrow> recent (burst n m u t) v t' = recent m v t'"
  by (induction n) (simp_all add: attempt_other)

lemma reset_accepts: "0 < capacity \<Longrightarrow> \<not> fst (attempt (reset m u) u t)"
  by (simp add: reject_iff reset_recent)

end

lemma recent_filter: "filter (\<lambda>t. now - t < LOGIN_WINDOW) (filter (\<lambda>t. now - t < LOGIN_WINDOW) ts) =
    filter (\<lambda>t. now - t < LOGIN_WINDOW) ts"
  by simp

interpretation throttle:
  login_throttle record_failed_attempt clear_attempts recent_attempts MAX_LOGIN_ATTEMPTS
proof (unfold_locales, goal_cases)
  case (1 m u t)
  then show ?case
    by (auto simp: record_failed_attempt_def recent_attempts_def Let_def)
next
  case (2 m u t)
  then show ?case
    by (auto simp: record_failed_attempt_def recent_attempts_def Let_def LOGIN_WINDOW_def)
next
  case (3 u v m t t')
  then show ?case
    by (auto simp: record_failed_attempt_def recent_attempts_def Let_def)
next
  case (4 u v m t)
  then show ?case by (simp add: clear_attempts_def recent_attempts_def)
next
  case (5 u v m t)
  then show ?case by (simp add: recent_attempts_def)
qed



end
