(* ===== verification/Server_Config.thy ===== *)
theory Server_Config
  imports Server_State
begin

section \<open>The server's configuration\<close>

text \<open>
  \<^verbatim>\<open>config.rs\<close>: \<open>from_env\<close> over the environment as a map of variables,
  \<open>tls_enabled\<close> and the host names of the auto-issued certificate.  A variable that is
  not valid Unicode reads as absent, as \<^verbatim>\<open>env::var\<close> returns an error for both.
\<close>

datatype config_error = Missing string | Invalid string

type_synonym env = "string \<Rightarrow> string option"

definition non_empty :: "string option \<Rightarrow> string option" where
  "non_empty v = (case v of Some s \<Rightarrow> if s = [] then None else Some s | None \<Rightarrow> None)"

definition unwrap_or :: "'a \<Rightarrow> 'a option \<Rightarrow> 'a" where
  "unwrap_or d v = (case v of Some x \<Rightarrow> x | None \<Rightarrow> d)"

definition eq_ignore_ascii_case :: "string \<Rightarrow> string \<Rightarrow> bool" where
  "eq_ignore_ascii_case a b \<longleftrightarrow> to_lowercase a = to_lowercase b"

definition from_env :: "env \<Rightarrow> config_error + config" where
  "from_env env = (case env ''DATABASE_URL'' of
     None \<Rightarrow> Inl (Missing ''DATABASE_URL'')
   | Some url \<Rightarrow> (case env ''JWT_SECRET'' of
       None \<Rightarrow> Inl (Missing ''JWT_SECRET'')
     | Some secret \<Rightarrow>
         if length secret < 32 then Inl (Invalid ''JWT_SECRET must be at least 32 characters'')
         else (case parse_uint 16 (unwrap_or ''8080'' (env ''SERVER_PORT'')) of
           None \<Rightarrow> Inl (Invalid ''SERVER_PORT must be a valid port number'')
         | Some port \<Rightarrow> Inr \<lparr>
             database_url = url,
             jwt_secret = secret,
             server_port = of_nat port,
             server_url = unwrap_or (''https://localhost:'' @ show_nat port) (env ''SERVER_URL''),
             admin_username = unwrap_or ''admin'' (env ''ADMIN_USERNAME''),
             admin_password = unwrap_or ''admin'' (env ''ADMIN_PASSWORD''),
             tls_cert_path = non_empty (env ''TLS_CERT_PATH''),
             tls_key_path = non_empty (env ''TLS_KEY_PATH''),
             dashboard_origin = (case non_empty (env ''CORS_ORIGIN'') of
                 Some o1 \<Rightarrow> o1
               | None \<Rightarrow> unwrap_or ''http://localhost:3000''
                   (non_empty (env ''NEXT_PUBLIC_DASHBOARD_URL''))),
             smtp_host = non_empty (env ''SMTP_HOST''),
             smtp_port = of_nat (unwrap_or 587 (parse_uint 16 (unwrap_or ''587'' (env ''SMTP_PORT'')))),
             smtp_user = non_empty (env ''SMTP_USER''),
             smtp_password = non_empty (env ''SMTP_PASSWORD''),
             smtp_from = unwrap_or ''osfm-edm@localhost'' (env ''SMTP_FROM''),
             webhook_url = non_empty (env ''WEBHOOK_URL''),
             ntfy_topic = non_empty (env ''NTFY_TOPIC''),
             ntfy_server = unwrap_or ''https://ntfy.sh'' (env ''NTFY_SERVER''),
             allow_insecure_http = (case env ''ALLOW_INSECURE_HTTP'' of
                 None \<Rightarrow> False
               | Some v \<Rightarrow> v = ''1'' \<or> eq_ignore_ascii_case v ''true'')\<rparr>)))"

definition tls_enabled :: "config \<Rightarrow> bool" where
  "tls_enabled c \<longleftrightarrow> \<not> allow_insecure_http c"

text \<open>\<^verbatim>\<open>split(sub).nth(1)\<close>: what stands between the first two occurrences of a text.\<close>

fun cut_at :: "string \<Rightarrow> string \<Rightarrow> (string \<times> string) option" where
  "cut_at sub [] = None"
| "cut_at sub (c # s) =
     (if starts_with sub (c # s) then Some ([], drop (length sub) (c # s))
      else case cut_at sub s of None \<Rightarrow> None | Some (a, b) \<Rightarrow> Some (c # a, b))"

definition second_part :: "string \<Rightarrow> string \<Rightarrow> string option" where
  "second_part sub s = (case cut_at sub s of
     None \<Rightarrow> None
   | Some (_, r) \<Rightarrow> Some (case cut_at sub r of None \<Rightarrow> r | Some (a, _) \<Rightarrow> a))"

definition tls_hostnames :: "config \<Rightarrow> string list" where
  "tls_hostnames c = (let hosts = [''localhost'', ''127.0.0.1''] in
     case second_part ''://'' (server_url c) of
       None \<Rightarrow> hosts
     | Some rest \<Rightarrow>
         let host = takeWhile (\<lambda>ch. ch \<noteq> CHR ''/'' \<and> ch \<noteq> CHR '':'') rest
         in if host \<noteq> [] \<and> \<not> list_ex (\<lambda>h. h = host) hosts then host # hosts else hosts)"

lemma cut_at_append:
  assumes "CHR '':'' \<notin> set a"
  shows "cut_at ''://'' (a @ ''://'' @ b) = Some (a, b)"
  using assms by (induction a) (auto simp: starts_with_def)

lemma cut_at_none: "CHR '':'' \<notin> set a \<Longrightarrow> cut_at ''://'' a = None"
  by (induction a) (auto simp: starts_with_def split: option.splits)

lemma cut_at_port:
  assumes "CHR '':'' \<notin> set h" and "CHR '':'' \<notin> set p" and "CHR ''/'' \<notin> set h"
    and "p \<noteq> []" and "hd p \<noteq> CHR ''/''"
  shows "cut_at ''://'' (h @ CHR '':'' # p) = None"
  using assms(1) by (induction h)
    (use assms in \<open>auto simp: starts_with_def cut_at_none split: option.splits\<close>,
     cases p, auto)

text \<open>A host between the scheme and the port is on the certificate, and names are distinct.\<close>

lemma tls_hostnames_host:
  assumes "server_url c = scheme @ ''://'' @ host @ '':'' @ port"
    and "CHR '':'' \<notin> set scheme" and "CHR '':'' \<notin> set host" and "CHR ''/'' \<notin> set host"
    and "CHR '':'' \<notin> set port" and "port \<noteq> []" and "hd port \<noteq> CHR ''/''" and "host \<noteq> []"
  shows "host \<in> set (tls_hostnames c) \<and> ''localhost'' \<in> set (tls_hostnames c)
    \<and> ''127.0.0.1'' \<in> set (tls_hostnames c) \<and> distinct (tls_hostnames c)"
proof -
  have cut: "cut_at ''://'' (server_url c) = Some (scheme, host @ '':'' @ port)"
    using cut_at_append [OF assms(2), of "host @ '':'' @ port"] assms(1) by simp
  have "cut_at ''://'' (host @ '':'' @ port) = None"
    using cut_at_port [OF assms(3,5,4,6,7)] by simp
  with cut have sp: "second_part ''://'' (server_url c) = Some (host @ '':'' @ port)"
    by (simp add: second_part_def)
  have "takeWhile (\<lambda>ch. ch \<noteq> CHR ''/'' \<and> ch \<noteq> CHR '':'') (host @ '':'' @ port) = host"
    using assms(3,4) by (subst takeWhile_append2) auto
  then show ?thesis
    using assms(8) by (auto simp: tls_hostnames_def sp Let_def)
qed

lemma from_env_secret: "from_env e = Inr c \<Longrightarrow> 32 \<le> length (jwt_secret c)"
  by (auto simp: from_env_def split: option.splits if_splits)

end
