(* ===== verification/Auth_Api.thy ===== *)
theory Auth_Api
  imports Auth Server_Config
begin

section \<open>The auth endpoints\<close>

text \<open>
  \<^verbatim>\<open>api/auth.rs\<close>: login, refresh, logout, me, MFA set-up and verification and the
  first-boot admin.  A response is its typed content: the JSON body's fields and the cookie.
\<close>

record login_request =
  lr_username :: string
  lr_password :: string
  lr_totp_code :: "string option"

record login_response =
  access_token :: string
  token_type :: string
  expires_in :: u64

record user_info =
  ui_id :: uuid
  ui_username :: string
  ui_role :: string
  ui_totp_enabled :: bool
  ui_created_at :: "time option"
  ui_last_login :: "time option"

record mfa_setup_response =
  ms_secret :: string
  ms_otpauth_url :: string

definition count_attempt :: "string \<Rightarrow> bool handler" where
  "count_attempt username s =
     (let (reject, m) = record_failed_attempt (login_attempts s) username (instant_ms s)
      in (Inr reject, s\<lparr>login_attempts := m\<rparr>))"

definition check_totp :: "ext \<Rightarrow> string \<Rightarrow> string \<Rightarrow> bool handler" where
  "check_totp E secret totp_code =
     and_then (map_err (\<lambda>e. Internal [Str ''Invalid TOTP secret: '', Str e])
       (totp_secret_bytes E secret)) (\<lambda>bytes.
     and_then (map_err (\<lambda>e. Internal [Str ''TOTP creation error: '', Str e])
       (totp_new E bytes None)) (\<lambda>totp.
     and_then (gets wall_ms) (\<lambda>now.
     map_err (\<lambda>e. Internal [Str ''TOTP check error: '', Str e])
       (totp_check_current E totp now totp_code))))"

definition access_claims :: "user_row \<Rightarrow> time \<Rightarrow> claims" where
  "access_claims u now = \<lparr>cl_sub = u_id u, cl_username = u_username u, cl_role = u_role u,
     cl_exp = of_int (now div 1000) + 15 * 60, cl_iat = of_int (now div 1000)\<rparr>"

definition issue_access_token :: "ext \<Rightarrow> user_row \<Rightarrow> string handler" where
  "issue_access_token E u =
     and_then (gets (\<lambda>s. jwt_encode E (jwt_secret (cfg s)) (access_claims u (wall_ms s)))) (\<lambda>r.
     map_err Jwt r)"

definition secure_attr :: "config \<Rightarrow> string" where
  "secure_attr c = (if tls_enabled c then ''; Secure'' else [])"

definition refresh_cookie :: "config \<Rightarrow> string \<Rightarrow> nat \<Rightarrow> string" where
  "refresh_cookie c token max_age =
     ''refresh_token='' @ token @ ''; HttpOnly'' @ secure_attr c
       @ ''; SameSite=Strict; Path=/api/v1/auth; Max-Age='' @ show_nat max_age"

definition insert_refresh_token :: "uuid \<Rightarrow> string \<Rightarrow> time \<Rightarrow> unit handler" where
  "insert_refresh_token uid hash expires = perform_if
     (\<lambda>d. exists_where (\<lambda>u. u_id u = uid) (users d)
        \<and> \<not> exists_where (\<lambda>r. rt_token_hash r = hash) (refresh_tokens d))
     ''refresh_tokens''
     (\<lambda>d. ((), d\<lparr>refresh_tokens := refresh_tokens d @
        [\<lparr>rt_user_id = uid, rt_token_hash = hash, rt_expires_at = expires, rt_revoked = False\<rparr>]\<rparr>))"

definition check_second_factor :: "ext \<Rightarrow> user_row \<Rightarrow> string option \<Rightarrow> unit handler" where
  "check_second_factor E user totp_code = when_do (u_totp_enabled user)
     (and_then (ok_or (Internal [Str ''TOTP enabled but no secret configured'']) (u_totp_secret user)) (\<lambda>secret.
      and_then (check_totp E secret (unwrap_or [] totp_code)) (\<lambda>valid.
      guard valid (Unauthorized [Str ''Invalid TOTP code'']))))"

definition login :: "ext \<Rightarrow> login_request \<Rightarrow> (login_response \<times> string) handler" where
  "login E b =
     and_then (count_attempt (lr_username b)) (\<lambda>reject.
     and_then (guard (\<not> reject) (RateLimited [Str (''Too many login attempts for '' @ apos),
       Str (lr_username b), Str (apos @ '' '' @ em_dash @ '' try again in a few minutes'')])) (\<lambda>_.
     and_then (select (user_by_name (lr_username b))) (\<lambda>row.
     and_then (ok_or (Unauthorized [Str ''Invalid credentials'']) row) (\<lambda>user.
     and_then (map_err (\<lambda>e. Internal [Str ''Password verification error: '', Str e])
       (bcrypt_verify E (lr_password b) (u_password_hash user))) (\<lambda>valid.
     and_then (guard valid (Unauthorized [Str ''Invalid credentials''])) (\<lambda>_.
     and_then (check_second_factor E user (lr_totp_code b)) (\<lambda>_.
     and_then (modify (\<lambda>s. s\<lparr>login_attempts := clear_attempts (login_attempts s) (lr_username b)\<rparr>)) (\<lambda>_.
     and_then (issue_access_token E user) (\<lambda>token.
     and_then fresh_uuid (\<lambda>rid.
     and_then (gets wall_ms) (\<lambda>now.
     and_then (insert_refresh_token (u_id user) (sha256_hex E (uuid_text E rid))
       (now + 7 * 24 * 60 * 60 * 1000)) (\<lambda>_.
     and_then (gets wall_ms) (\<lambda>now'.
     and_then (perform (\<lambda>d. d\<lparr>users := upd_where (\<lambda>u. u_id u = u_id user)
       (\<lambda>u. u\<lparr>u_last_login := Some now'\<rparr>) (users d)\<rparr>)) (\<lambda>_.
     and_then (gets cfg) (\<lambda>c.
     ret (\<lparr>access_token = token, token_type = ''Bearer'', expires_in = 15 * 60\<rparr>,
       refresh_cookie c (uuid_text E rid) (7 * 24 * 60 * 60)))))))))))))))))"

text \<open>The cookie header, and the first \<^verbatim>\<open>refresh_token\<close> cookie in it.\<close>

definition cookie_header :: "headers \<Rightarrow> string" where
  "cookie_header h = (case h ''Cookie'' of Some (Visible v) \<Rightarrow> v | _ \<Rightarrow> [])"

definition refresh_token_of :: "headers \<Rightarrow> string option" where
  "refresh_token_of h = find_map (\<lambda>c. strip_prefix ''refresh_token='' (trim c))
     (split_on CHR '';'' (cookie_header h))"

definition refresh_row_of :: "string \<Rightarrow> db \<Rightarrow> refresh_row option" where
  "refresh_row_of hash d = List.find (\<lambda>r. rt_token_hash r = hash) (refresh_tokens d)"

definition refresh :: "ext \<Rightarrow> headers \<Rightarrow> login_response handler" where
  "refresh E h =
     and_then (ok_or (Unauthorized [Str ''Missing refresh token cookie'']) (refresh_token_of h)) (\<lambda>tok.
     and_then (select (refresh_row_of (sha256_hex E tok))) (\<lambda>row.
     and_then (ok_or (Unauthorized [Str ''Invalid refresh token'']) row) (\<lambda>r.
     and_then (guard (\<not> rt_revoked r) (Unauthorized [Str ''Refresh token has been revoked''])) (\<lambda>_.
     and_then (gets wall_ms) (\<lambda>now.
     and_then (guard (\<not> rt_expires_at r < now) (Unauthorized [Str ''Refresh token has expired''])) (\<lambda>_.
     and_then (select (user_by_id (rt_user_id r))) (\<lambda>urow.
     and_then (ok_or (Unauthorized [Str ''User not found'']) urow) (\<lambda>user.
     and_then (issue_access_token E user) (\<lambda>token.
     ret \<lparr>access_token = token, token_type = ''Bearer'', expires_in = 15 * 60\<rparr>)))))))))"

definition logout :: "ext \<Rightarrow> headers \<Rightarrow> string handler" where
  "logout E h =
     and_then (case refresh_token_of h of
         None \<Rightarrow> ret ()
       | Some tok \<Rightarrow> perform (\<lambda>d. d\<lparr>refresh_tokens := upd_where
           (\<lambda>r. rt_token_hash r = sha256_hex E tok) (\<lambda>r. r\<lparr>rt_revoked := True\<rparr>) (refresh_tokens d)\<rparr>)) (\<lambda>_.
     and_then (gets cfg) (\<lambda>c.
     ret (refresh_cookie c [] 0)))"

definition me :: "auth_user \<Rightarrow> user_info handler" where
  "me auth =
     and_then (select (user_by_id (au_user_id auth))) (\<lambda>row.
     and_then (ok_or (NotFound [Str ''User not found'']) row) (\<lambda>u.
     ret \<lparr>ui_id = u_id u, ui_username = u_username u, ui_role = u_role u,
       ui_totp_enabled = u_totp_enabled u, ui_created_at = u_created_at u,
       ui_last_login = u_last_login u\<rparr>))"

definition mfa_setup :: "ext \<Rightarrow> auth_user \<Rightarrow> mfa_setup_response handler" where
  "mfa_setup E auth =
     and_then fresh_uuid (\<lambda>seed.
     let secret = totp_generate E seed; secret_encoded = totp_encode E secret in
     and_then (map_err (\<lambda>e. Internal [Str ''Secret error: '', Str e]) (totp_raw_bytes E secret)) (\<lambda>bytes.
     and_then (map_err (\<lambda>e. Internal [Str ''TOTP creation error: '', Str e])
       (totp_new E bytes (Some (au_username auth)))) (\<lambda>totp.
     and_then (perform (\<lambda>d. d\<lparr>users := upd_where (\<lambda>u. u_id u = au_user_id auth)
       (\<lambda>u. u\<lparr>u_totp_secret := Some secret_encoded\<rparr>) (users d)\<rparr>)) (\<lambda>_.
     ret \<lparr>ms_secret = secret_encoded,
       ms_otpauth_url = totp_get_url E totp (Some (au_username auth))\<rparr>))))"

definition mfa_verify :: "ext \<Rightarrow> auth_user \<Rightarrow> string \<Rightarrow> string handler" where
  "mfa_verify E auth entered =
     and_then (select (user_by_id (au_user_id auth))) (\<lambda>row.
     and_then (ok_or (NotFound [Str ''User not found'']) row) (\<lambda>u.
     and_then (ok_or (BadRequest [Str (''MFA not set up '' @ em_dash @ '' call /mfa/setup first'')]) (u_totp_secret u)) (\<lambda>secret.
     and_then (check_totp E secret entered) (\<lambda>valid.
     and_then (guard valid (BadRequest [Str ''Invalid TOTP code''])) (\<lambda>_.
     and_then (perform (\<lambda>d. d\<lparr>users := upd_where (\<lambda>u. u_id u = au_user_id auth)
       (\<lambda>u. u\<lparr>u_totp_enabled := True\<rparr>) (users d)\<rparr>)) (\<lambda>_.
     ret ''2FA enabled successfully''))))))"

definition ensure_admin_user :: "ext \<Rightarrow> unit handler" where
  "ensure_admin_user E =
     and_then (select (\<lambda>d. length (users d))) (\<lambda>count.
     if 0 < count then ret ()
     else
       and_then (gets cfg) (\<lambda>c.
       and_then (map_err Bcrypt (bcrypt_hash E (admin_password c))) (\<lambda>hash.
       and_then fresh_uuid (\<lambda>i.
       and_then (gets wall_ms) (\<lambda>now.
       perform_if (\<lambda>d. \<not> exists_where (\<lambda>u. u_username u = admin_username c \<or> u_id u = i) (users d))
         ''users''
         (\<lambda>d. ((), d\<lparr>users := users d @ [\<lparr>u_id = i, u_username = admin_username c,
            u_password_hash = hash, u_totp_secret = None, u_totp_enabled = False,
            u_role = ''admin'', u_created_at = Some now, u_last_login = None\<rparr>]\<rparr>)))))))"

subsection \<open>What the endpoints guarantee\<close>

text \<open>What a successful password and second-factor check of a login rests on.\<close>

definition credentials_ok :: "ext \<Rightarrow> login_request \<Rightarrow> user_row \<Rightarrow> time \<Rightarrow> bool" where
  "credentials_ok E b u now \<longleftrightarrow>
     bcrypt_verify E (lr_password b) (u_password_hash u) = Inr True \<and>
     (u_totp_enabled u \<longrightarrow> (\<exists>secret bytes totp. u_totp_secret u = Some secret
        \<and> totp_secret_bytes E secret = Inr bytes \<and> totp_new E bytes None = Inr totp
        \<and> totp_check_current E totp now (unwrap_or [] (lr_totp_code b)) = Inr True))"

lemma check_totp_ok [ok_simps]:
  "check_totp E secret c s = (Inr v, t) \<longleftrightarrow> t = s \<and> (\<exists>bytes totp.
     totp_secret_bytes E secret = Inr bytes \<and> totp_new E bytes None = Inr totp
     \<and> totp_check_current E totp (wall_ms s) c = Inr v)"
  by (auto simp: check_totp_def ok_simps)

lemma check_second_factor_ok [ok_simps]:
  "check_second_factor E u c s = (Inr v, t) \<longleftrightarrow> t = s \<and>
     (u_totp_enabled u \<longrightarrow> (\<exists>secret bytes totp. u_totp_secret u = Some secret
        \<and> totp_secret_bytes E secret = Inr bytes \<and> totp_new E bytes None = Inr totp
        \<and> totp_check_current E totp (wall_ms s) (unwrap_or [] c) = Inr True))"
  by (cases "u_totp_enabled u") (auto simp: check_second_factor_def ok_simps)

lemma count_attempt_ok [ok_simps]:
  "count_attempt n s = (Inr v, t) \<longleftrightarrow> v = fst (record_failed_attempt (login_attempts s) n (instant_ms s))
     \<and> t = s\<lparr>login_attempts := snd (record_failed_attempt (login_attempts s) n (instant_ms s))\<rparr>"
  by (auto simp: count_attempt_def split: prod.splits)

lemma issue_access_token_ok [ok_simps]:
  "issue_access_token E u s = (Inr tok, t) \<longleftrightarrow> t = s
     \<and> jwt_encode E (jwt_secret (cfg s)) (access_claims u (wall_ms s)) = Inr tok"
  by (auto simp: issue_access_token_def ok_simps)

lemma insert_refresh_token_ok [ok_simps]:
  "insert_refresh_token i h e s = (Inr v, t) \<longleftrightarrow> \<not> next_fault s
     \<and> (\<exists>u \<in> set (users (db s)). u_id u = i) \<and> (\<forall>r \<in> set (refresh_tokens (db s)). rt_token_hash r \<noteq> h)
     \<and> t = s\<lparr>faults := tl (faults s), db := (db s)\<lparr>refresh_tokens := refresh_tokens (db s) @
        [\<lparr>rt_user_id = i, rt_token_hash = h, rt_expires_at = e, rt_revoked = False\<rparr>]\<rparr>\<rparr>"
  by (auto simp: insert_refresh_token_def ok_simps)

text \<open>
  C4.  Login: a token is only issued to an existing user whose password hash accepts the
  password and, with TOTP enabled, whose current code was given, while fewer than five attempts
  lie in the window.  The token carries the id, name and role of the user's row, exactly one
  refresh token (valid for seven days) is stored, and the attempt count of the name is cleared.
\<close>

theorem login_sound:
  assumes "login E b s = (Inr (r, cookie), t)"
  shows "\<exists>u. user_by_name (lr_username b) (db s) = Some u \<and> credentials_ok E b u (wall_ms s)
    \<and> recent_attempts (login_attempts s) (lr_username b) (instant_ms s) < 5
    \<and> jwt_encode E (jwt_secret (cfg s)) (access_claims u (wall_ms s)) = Inr (access_token r)
    \<and> (\<exists>h. refresh_tokens (db t) = refresh_tokens (db s) @ [\<lparr>rt_user_id = u_id u,
          rt_token_hash = h, rt_expires_at = wall_ms s + 604800000, rt_revoked = False\<rparr>])
    \<and> login_attempts t (to_lowercase (lr_username b)) = None"
  using assms throttle.reject_iff [of "login_attempts s" "lr_username b" "instant_ms s"]
  by (auto simp: login_def ok_simps credentials_ok_def clear_attempts_def MAX_LOGIN_ATTEMPTS_def)

theorem login_sound_witness:
  "\<exists>u. user_by_name ''root'' some_db = Some u \<and> credentials_ok no_ext
     \<lparr>lr_username = ''root'', lr_password = ''pw'', lr_totp_code = None\<rparr> u 1000"
proof -
  let ?b = "\<lparr>lr_username = ''root'', lr_password = ''pw'', lr_totp_code = None\<rparr>"
  have "\<exists>r c t. login no_ext ?b some_state = (Inr (r, c), t)"
    by (simp add: login_def and_then_def action_simps check_second_factor_def issue_access_token_def
      count_attempt_def record_failed_attempt_def insert_refresh_token_def user_by_name_def
      sample_defs gets_def modify_def show_nat.simps MAX_LOGIN_ATTEMPTS_def fresh_uuid_def)
  then obtain r c t where "login no_ext ?b some_state = (Inr (r, c), t)" by blast
  from login_sound [OF this] show ?thesis by (auto simp: sample_defs)
qed

lemma refresh_ok:
  "refresh E h s = (Inr r, t) \<Longrightarrow> \<exists>tok row u. refresh_token_of h = Some tok
     \<and> refresh_row_of (sha256_hex E tok) (db s) = Some row \<and> \<not> rt_revoked row
     \<and> wall_ms s \<le> rt_expires_at row \<and> user_by_id (rt_user_id row) (db s) = Some u
     \<and> jwt_encode E (jwt_secret (cfg s)) (access_claims u (wall_ms s)) = Inr (access_token r)
     \<and> db t = db s"
  by (auto simp: refresh_def ok_simps)

lemma logout_revokes:
  assumes "logout E h s = (Inr c, t)" and "refresh_token_of h = Some tok"
    and "refresh_row_of (sha256_hex E tok) (db t) = Some row"
  shows "rt_revoked row"
proof -
  let ?p = "\<lambda>r. rt_token_hash r = sha256_hex E tok"
  have "refresh_tokens (db t) = upd_where ?p (\<lambda>r. r\<lparr>rt_revoked := True\<rparr>) (refresh_tokens (db s))"
    using assms(1,2) by (auto simp: logout_def ok_simps)
  then show ?thesis using assms(3) by (auto simp: refresh_row_of_def find_upd_where)
qed

text \<open>
  C5.  Refresh: an access token is only issued for a stored, unrevoked, unexpired refresh token
  of an existing user, and it carries the role the user's row has at that moment.
\<close>

theorem refresh_sound:
  assumes "refresh E h s = (Inr r, t)"
  shows "\<exists>tok row u. refresh_token_of h = Some tok
     \<and> refresh_row_of (sha256_hex E tok) (db s) = Some row \<and> \<not> rt_revoked row
     \<and> wall_ms s \<le> rt_expires_at row \<and> user_by_id (rt_user_id row) (db s) = Some u
     \<and> jwt_encode E (jwt_secret (cfg s)) (access_claims u (wall_ms s)) = Inr (access_token r)"
  using refresh_ok [OF assms] by blast

definition root_cookie :: headers where
  "root_cookie = [''Cookie'' \<mapsto> Visible ''a=b; refresh_token=r'']"

lemma root_cookie_token: "refresh_token_of root_cookie = Some ''r''"
  by code_simp

theorem refresh_sound_witness:
  "\<exists>tok row. refresh_token_of root_cookie = Some tok \<and> refresh_row_of tok some_db = Some row
     \<and> \<not> rt_revoked row"
proof -
  have "\<exists>r t. refresh no_ext root_cookie some_state = (Inr r, t)"
    by (simp add: refresh_def root_cookie_token and_then_def action_simps refresh_row_of_def
      issue_access_token_def user_by_id_def sample_defs gets_def)
  then obtain r t where "refresh no_ext root_cookie some_state = (Inr r, t)" by blast
  from refresh_sound [OF this] show ?thesis by (auto simp: no_ext_def)
qed

text \<open>
  C37.  Logout: after a logout that succeeded, no refresh with the same cookie succeeds,
  whatever time has passed and whatever database faults follow.
\<close>

theorem logout_ends_session:
  assumes "logout E h s = (Inr c, t)"
  shows "fst (refresh E h (t\<lparr>wall_ms := w, faults := fs\<rparr>)) \<noteq> Inr r"
proof
  assume "fst (refresh E h (t\<lparr>wall_ms := w, faults := fs\<rparr>)) = Inr r"
  then obtain t' where "refresh E h (t\<lparr>wall_ms := w, faults := fs\<rparr>) = (Inr r, t')"
    by (metis prod.collapse)
  from refresh_ok [OF this] obtain tok row where "refresh_token_of h = Some tok"
    and "refresh_row_of (sha256_hex E tok) (db t) = Some row" and "\<not> rt_revoked row" by auto
  with logout_revokes [OF assms] show False by blast
qed

theorem logout_ends_session_witness:
  "\<forall>r. fst (refresh no_ext root_cookie ((snd (logout no_ext root_cookie some_state))
     \<lparr>wall_ms := 2000, faults := []\<rparr>)) \<noteq> Inr r"
proof -
  have "\<exists>c t. logout no_ext root_cookie some_state = (Inr c, t)"
    by (simp add: logout_def root_cookie_token and_then_def action_simps gets_def)
  then show ?thesis using logout_ends_session by (metis snd_conv)
qed

text \<open>
  A user that has TOTP enabled and asks for a new set-up has the new secret at once, with no
  code of the old or the new secret checked, and TOTP stays enabled with it.
\<close>

lemma mfa_setup_rebinds:
  assumes "mfa_setup E a s = (Inr r, t)" and "user_by_id (au_user_id a) (db s) = Some u"
  shows "user_by_id (au_user_id a) (db t) = Some (u\<lparr>u_totp_secret := Some (ms_secret r)\<rparr>)"
  using assms by (auto simp: mfa_setup_def ok_simps Let_def user_by_id_def find_upd_where dest: find_SomeD)

lemma ensure_admin_user_ok:
  assumes "ensure_admin_user E s = (Inr (), t)"
  shows "users (db t) \<noteq> [] \<and> (users (db s) \<noteq> [] \<longrightarrow> users (db t) = users (db s))
     \<and> (users (db s) = [] \<longrightarrow> map u_role (users (db t)) = [''admin''])"
  using assms by (auto simp: ensure_admin_user_def ok_simps split: if_splits)

end
