(* ===== verification/Enroll_Api.thy ===== *)
theory Enroll_Api
  imports Auth
begin

section \<open>Enrollment\<close>

text \<open>
  \<^verbatim>\<open>api/enroll.rs\<close>: an admin creates a one-time token, of which only the hash is
  stored; an agent exchanges it for a device row, a certificate and a device token.
\<close>

record enroll_request =
  en_token :: string
  en_hostname :: string
  en_os :: string
  en_os_version :: "string option"
  en_arch :: "string option"

record enroll_response =
  er_device_id :: uuid
  er_cert_pem :: string
  er_key_pem :: string
  er_ca_pem :: string
  er_server_url :: string
  er_device_token :: string
  er_server_signing_pubkey :: string

definition create_enrollment_token :: "ext \<Rightarrow> auth_user \<Rightarrow> (nat \<times> string \<times> time) handler" where
  "create_enrollment_token E auth =
     and_then (require_admin auth) (\<lambda>_.
     and_then fresh_uuid (\<lambda>r.
     let token = uuid_text E r; token_hash = sha256_hex E token in
     and_then (gets (\<lambda>s. wall_ms s + 24 * 60 * 60 * 1000)) (\<lambda>expires_at.
     and_then fresh_uuid (\<lambda>i.
     and_then (perform_if
       (\<lambda>d. exists_where (\<lambda>u. u_id u = au_user_id auth) (users d)
          \<and> \<not> exists_where (\<lambda>t. et_token t = token_hash \<or> et_id t = i) (enrollment_tokens d))
       ''enrollment_tokens''
       (\<lambda>d. ((), d\<lparr>enrollment_tokens := enrollment_tokens d @ [\<lparr>et_id = i, et_token = token_hash,
          et_created_by = Some (au_user_id auth), et_used = False, et_used_at = None,
          et_used_by = None, et_expires_at = expires_at\<rparr>]\<rparr>))) (\<lambda>_.
     ret (201, token, expires_at))))))"

definition token_row_of :: "string \<Rightarrow> db \<Rightarrow> enroll_token_row option" where
  "token_row_of h d = List.find (\<lambda>t. et_token t = h) (enrollment_tokens d)"

definition insert_device :: "enroll_request \<Rightarrow> string \<Rightarrow> uuid handler" where
  "insert_device b token_hash =
     and_then fresh_uuid (\<lambda>i.
     and_then (gets wall_ms) (\<lambda>now.
     perform_if
       (\<lambda>d. en_os b \<in> {''windows'', ''linux'', ''macos''}
          \<and> \<not> exists_where (\<lambda>r. d_id r = i) (devices d))
       ''devices''
       (\<lambda>d. (i, d\<lparr>devices := devices d @ [\<lparr>d_id = i, d_hostname = en_hostname b, d_os = en_os b,
          d_os_version = en_os_version b, d_arch = en_arch b, d_ip_address = None,
          d_agent_version = None, d_enrolled_at = Some now, d_last_seen = None,
          d_status = ''offline'', d_auth_token_hash = Some token_hash\<rparr>]\<rparr>))))"

definition insert_certificate :: "uuid \<Rightarrow> string \<Rightarrow> string \<Rightarrow> time \<Rightarrow> unit handler" where
  "insert_certificate i fp pem expires = perform_if
     (\<lambda>d. exists_where (\<lambda>r. d_id r = i) (devices d)
        \<and> \<not> exists_where (\<lambda>c. c_device_id c = i \<or> c_fingerprint c = fp) (certificates d))
     ''certificates''
     (\<lambda>d. ((), d\<lparr>certificates := certificates d @ [\<lparr>c_device_id = i, c_fingerprint = fp,
        c_pem = pem, c_expires_at = expires, c_revoked = False, c_revoked_at = None\<rparr>]\<rparr>))"

definition enroll_device :: "ext \<Rightarrow> enroll_request \<Rightarrow> (nat \<times> enroll_response) handler" where
  "enroll_device E b =
     and_then (guard (en_os b \<in> {''windows'', ''linux'', ''macos''})
       (BadRequest [Str ''os must be one of: windows, linux, macos''])) (\<lambda>_.
     and_then (select (token_row_of (sha256_hex E (en_token b)))) (\<lambda>row.
     and_then (ok_or (BadRequest [Str ''Invalid enrollment token'']) row) (\<lambda>tr.
     and_then (guard (\<not> et_used tr) (Conflict [Str ''Enrollment token has already been used''])) (\<lambda>_.
     and_then (gets wall_ms) (\<lambda>now.
     and_then (guard (\<not> et_expires_at tr < now) (BadRequest [Str ''Enrollment token has expired''])) (\<lambda>_.
     and_then fresh_uuid (\<lambda>r1.
     and_then fresh_uuid (\<lambda>r2.
     let device_token = uuid_simple E r1 @ uuid_simple E r2 in
     and_then (insert_device b (sha256_hex E device_token)) (\<lambda>device_id.
     and_then (gets ca_of) (\<lambda>ca0.
     and_then (ok_or (Internal [Str ''PKI not initialized'']) ca0) (\<lambda>ca.
     and_then (map_err (\<lambda>e. Internal [Str ''Failed to issue device cert: '', Str e])
       (issue_cert E ca device_id)) (\<lambda>(cert_pem, key_pem).
     and_then (gets wall_ms) (\<lambda>now'.
     and_then (insert_certificate device_id (cert_fingerprint E cert_pem) cert_pem
       (now' + 365 * 24 * 60 * 60 * 1000)) (\<lambda>_.
     and_then (gets wall_ms) (\<lambda>now''.
     and_then (perform (\<lambda>d. d\<lparr>enrollment_tokens := upd_where (\<lambda>t. et_id t = et_id tr)
       (\<lambda>t. t\<lparr>et_used := True, et_used_at := Some now'', et_used_by := Some device_id\<rparr>)
       (enrollment_tokens d)\<rparr>)) (\<lambda>_.
     and_then (gets (\<lambda>s. (case job_signer s of Some sg \<Rightarrow> sg_public_key_b64 sg | None \<Rightarrow> [], cfg s)))
       (\<lambda>(pubkey, c).
     ret (201, \<lparr>er_device_id = device_id, er_cert_pem = cert_pem, er_key_pem = key_pem,
       er_ca_pem = ca_cert_pem ca, er_server_url = server_url c, er_device_token = device_token,
       er_server_signing_pubkey = pubkey\<rparr>))))))))))))))))))"

lemma insert_device_ok [ok_simps]:
  "insert_device b h s = (Inr i, t) \<longleftrightarrow> \<not> next_fault (s\<lparr>rng_pos := Suc (rng_pos s)\<rparr>) \<and> i = rng s (rng_pos s)
     \<and> en_os b \<in> {''windows'', ''linux'', ''macos''} \<and> (\<forall>r \<in> set (devices (db s)). d_id r \<noteq> i)
     \<and> t = s\<lparr>rng_pos := Suc (rng_pos s), faults := tl (faults s),
          db := (db s)\<lparr>devices := devices (db s) @ [\<lparr>d_id = i, d_hostname = en_hostname b, d_os = en_os b,
          d_os_version = en_os_version b, d_arch = en_arch b, d_ip_address = None,
          d_agent_version = None, d_enrolled_at = Some (wall_ms s), d_last_seen = None,
          d_status = ''offline'', d_auth_token_hash = Some h\<rparr>]\<rparr>\<rparr>"
  by (auto simp: insert_device_def ok_simps)

lemma insert_certificate_ok [ok_simps]:
  "insert_certificate i fp pem e s = (Inr u, t) \<longleftrightarrow> \<not> next_fault s
     \<and> (\<exists>r \<in> set (devices (db s)). d_id r = i)
     \<and> (\<forall>c \<in> set (certificates (db s)). c_device_id c \<noteq> i \<and> c_fingerprint c \<noteq> fp)
     \<and> t = s\<lparr>faults := tl (faults s), db := (db s)\<lparr>certificates := certificates (db s) @
         [\<lparr>c_device_id = i, c_fingerprint = fp, c_pem = pem, c_expires_at = e, c_revoked = False,
           c_revoked_at = None\<rparr>]\<rparr>\<rparr>"
  by (auto simp: insert_certificate_def ok_simps)

lemma enroll_sample:
  "\<exists>c r t. enroll_device no_ext \<lparr>en_token = ''enroll'', en_hostname = ''h'', en_os = ''linux'',
     en_os_version = None, en_arch = None\<rparr> some_state = (Inr (c, r), t)"
  by (simp add: enroll_device_def action_simps and_then_assoc Let_def insert_device_def
    insert_certificate_def token_row_of_def sample_defs)

text \<open>
  A successful enrollment rested on a stored, unused, unexpired token; it adds exactly one
  device, offline, whose stored secret is the hash of the token that is returned, issues one
  certificate to that device, and marks the token used by it.
\<close>

theorem enroll_device_sound:
  assumes "enroll_device E b s = (Inr (st, r), t)"
  shows "\<exists>tr d cert. token_row_of (sha256_hex E (en_token b)) (db s) = Some tr \<and> \<not> et_used tr
    \<and> wall_ms s \<le> et_expires_at tr
    \<and> devices (db t) = devices (db s) @ [d] \<and> d_id d = er_device_id r \<and> d_status d = ''offline''
    \<and> d_auth_token_hash d = Some (sha256_hex E (er_device_token r))
    \<and> (\<forall>e \<in> set (devices (db s)). d_id e \<noteq> d_id d)
    \<and> certificates (db t) = certificates (db s) @ [cert] \<and> c_device_id cert = d_id d
    \<and> \<not> c_revoked cert \<and> c_pem cert = er_cert_pem r
    \<and> (\<exists>tr'. token_row_of (sha256_hex E (en_token b)) (db t) = Some tr' \<and> et_used tr'
          \<and> et_used_by tr' = Some (d_id d))"
  using assms
  by (auto simp: enroll_device_def ok_simps Let_def token_row_of_def find_upd_other
    split: prod.splits)

theorem enroll_device_sound_witness:
  "\<exists>tr. token_row_of ''enroll'' some_db = Some tr \<and> \<not> et_used tr"
proof -
  let ?b = "\<lparr>en_token = ''enroll'', en_hostname = ''h'', en_os = ''linux'', en_os_version = None, en_arch = None\<rparr>"
  have "\<exists>c r t. enroll_device no_ext ?b some_state = (Inr (c, r), t)"
    by (rule enroll_sample)
  then obtain c r t where "enroll_device no_ext ?b some_state = (Inr (c, r), t)" by blast
  from enroll_device_sound [OF this] show ?thesis by (auto simp: no_ext_def)
qed

lemma enroll_uses_token:
  assumes "enroll_device E b s = (Inr (st, r), t)"
  shows "\<exists>tr. token_row_of (sha256_hex E (en_token b)) (db t) = Some tr \<and> et_used tr"
  using assms
  by (auto simp: enroll_device_def ok_simps Let_def token_row_of_def find_upd_other
    split: prod.splits)



text \<open>
  The steps of an enrollment are separate statements: without a CA the device row stays, with a
  working credential hash nobody received, and the token stays usable.
\<close>

lemma enroll_without_ca:
  assumes "ca_of s = None" and "faults s = []" and "en_os b \<in> {''windows'', ''linux'', ''macos''}"
    and "token_row_of (sha256_hex E (en_token b)) (db s) = Some tr" and "\<not> et_used tr"
    and "wall_ms s \<le> et_expires_at tr" and "\<forall>r \<in> set (devices (db s)). d_id r \<noteq> rng s (rng_pos s + 2)"
  shows "fst (enroll_device E b s) = Inl (Internal [Str ''PKI not initialized''])
    \<and> length (devices (db (snd (enroll_device E b s)))) = Suc (length (devices (db s)))
    \<and> enrollment_tokens (db (snd (enroll_device E b s))) = enrollment_tokens (db s)"
proof -
  have "\<not> et_expires_at tr < wall_ms s" using assms(6) by simp
  then show ?thesis
    using assms
    by (simp add: enroll_device_def insert_device_def action_simps and_then_assoc Let_def)
qed

end
