(* ===== verification/Devices_Api.thy ===== *)
theory Devices_Api
  imports Auth "HOL-Library.Multiset"
begin

section \<open>Devices\<close>

text \<open>
  \<^verbatim>\<open>api/devices.rs\<close>: listing, detail, host name change, revocation, telemetry queries and the
  requests pushed to a connected agent.  \<open>device_view\<close> is what the endpoints return of a
  row: the hash of the device token is not part of it.
\<close>

record device_view =
  dv_id :: uuid
  dv_hostname :: string
  dv_os :: string
  dv_os_version :: "string option"
  dv_arch :: "string option"
  dv_ip_address :: "string option"
  dv_agent_version :: "string option"
  dv_enrolled_at :: "time option"
  dv_last_seen :: "time option"
  dv_status :: string

definition view_device :: "device_row \<Rightarrow> device_view" where
  "view_device r = \<lparr>dv_id = d_id r, dv_hostname = d_hostname r, dv_os = d_os r,
     dv_os_version = d_os_version r, dv_arch = d_arch r, dv_ip_address = d_ip_address r,
     dv_agent_version = d_agent_version r, dv_enrolled_at = d_enrolled_at r,
     dv_last_seen = d_last_seen r, dv_status = d_status r\<rparr>"

definition device_by_id :: "uuid \<Rightarrow> db \<Rightarrow> device_row option" where
  "device_by_id i d = List.find (\<lambda>r. d_id r = i) (devices d)"

definition device_exists :: "uuid \<Rightarrow> db \<Rightarrow> bool" where
  "device_exists i d = exists_where (\<lambda>r. d_id r = i) (devices d)"

definition device_not_found :: "uuid \<Rightarrow> api_error" where
  "device_not_found i = NotFound [Str ''Device '', Uid i, Str '' not found'']"

definition list_devices :: "auth_user \<Rightarrow> device_view list handler" where
  "list_devices auth = select (\<lambda>d. map view_device (order_desc_nulls d_enrolled_at (devices d)))"

definition get_device :: "auth_user \<Rightarrow> uuid \<Rightarrow> device_view handler" where
  "get_device auth i =
     and_then (select (device_by_id i)) (\<lambda>row.
     and_then (ok_or (device_not_found i) row) (\<lambda>r.
     ret (view_device r)))"

definition update_device :: "auth_user \<Rightarrow> uuid \<Rightarrow> string option \<Rightarrow> device_view handler" where
  "update_device auth i hostname =
     and_then (require_admin auth) (\<lambda>_.
     and_then (select (device_exists i)) (\<lambda>exists.
     and_then (guard exists (device_not_found i)) (\<lambda>_.
     and_then (case hostname of
         None \<Rightarrow> ret ()
       | Some h \<Rightarrow> perform (\<lambda>d. d\<lparr>devices := upd_where (\<lambda>r. d_id r = i)
           (\<lambda>r. r\<lparr>d_hostname := h\<rparr>) (devices d)\<rparr>)) (\<lambda>_.
     and_then (fetch_one (device_by_id i)) (\<lambda>r.
     ret (view_device r))))))"

definition delete_device :: "auth_user \<Rightarrow> uuid \<Rightarrow> string handler" where
  "delete_device auth i =
     and_then (require_admin auth) (\<lambda>_.
     and_then (select (device_exists i)) (\<lambda>exists.
     and_then (guard exists (device_not_found i)) (\<lambda>_.
     and_then (gets wall_ms) (\<lambda>now.
     and_then (perform (\<lambda>d. d\<lparr>certificates := upd_where (\<lambda>c. c_device_id c = i)
       (\<lambda>c. c\<lparr>c_revoked := True, c_revoked_at := Some now\<rparr>) (certificates d)\<rparr>)) (\<lambda>_.
     and_then (perform (\<lambda>d. d\<lparr>devices := upd_where (\<lambda>r. d_id r = i)
       (\<lambda>r. r\<lparr>d_status := ''offline'', d_auth_token_hash := None\<rparr>) (devices d)\<rparr>)) (\<lambda>_.
     and_then (modify (disconnect_agent i)) (\<lambda>_.
     ret ''Device revoked'')))))))"

definition get_telemetry ::
  "auth_user \<Rightarrow> uuid \<Rightarrow> time option \<Rightarrow> time option \<Rightarrow> metric_row list handler" where
  "get_telemetry auth i from_t to_t =
     and_then (gets wall_ms) (\<lambda>now.
     let t0 = (case from_t of Some t \<Rightarrow> t | None \<Rightarrow> now - 24 * 60 * 60 * 1000);
         t1 = (case to_t of Some t \<Rightarrow> t | None \<Rightarrow> now) in
     select (\<lambda>d. order_asc m_time
       (filter (\<lambda>m. m_device_id m = i \<and> t0 \<le> m_time m \<and> m_time m \<le> t1) (device_metrics d))))"

definition push_to_agent :: "uuid \<Rightarrow> server_message \<Rightarrow> string \<Rightarrow> string handler" where
  "push_to_agent i msg ok_text =
     and_then (send_to_agent i msg) (\<lambda>sent.
     and_then (guard sent (NotFound [Str ''Device '', Uid i, Str '' is not connected''])) (\<lambda>_.
     ret ok_text))"

definition request_inventory :: "auth_user \<Rightarrow> uuid \<Rightarrow> string handler" where
  "request_inventory auth i =
     and_then (require_admin auth) (\<lambda>_.
     push_to_agent i RequestInventory ''Inventory request sent'')"

definition request_telemetry :: "auth_user \<Rightarrow> uuid \<Rightarrow> string handler" where
  "request_telemetry auth i =
     and_then (require_admin auth) (\<lambda>_.
     push_to_agent i RequestTelemetry ''Telemetry request sent'')"

lemma require_admin_ok [ok_simps]: "require_admin a s = (Inr u, t) \<longleftrightarrow> is_admin a \<and> t = s"
  by (auto simp: require_admin_def ok_simps)

lemma delete_device_db:
  assumes "delete_device auth i s = (Inr m, t)"
  shows "is_admin auth \<and> device_exists i (db s) \<and> \<not> reachable_agent t i \<and>
    db t = (db s)\<lparr>
      certificates := upd_where (\<lambda>c. c_device_id c = i)
        (\<lambda>c. c\<lparr>c_revoked := True, c_revoked_at := Some (wall_ms s)\<rparr>) (certificates (db s)),
      devices := upd_where (\<lambda>r. d_id r = i)
        (\<lambda>r. r\<lparr>d_status := ''offline'', d_auth_token_hash := None\<rparr>) (devices (db s))\<rparr>"
  using assms by (auto simp: delete_device_def ok_simps)

lemma delete_device_ok:
  assumes "delete_device auth i s = (Inr m, t)"
  shows "device_by_id i (db t) = map_option (\<lambda>r. r\<lparr>d_status := ''offline'', d_auth_token_hash := None\<rparr>)
        (device_by_id i (db s))"
proof -
  have d: "devices (db t) = upd_where (\<lambda>r. d_id r = i)
      (\<lambda>r. r\<lparr>d_status := ''offline'', d_auth_token_hash := None\<rparr>) (devices (db s))"
    using delete_device_db [OF assms] by simp
  show ?thesis unfolding device_by_id_def d by (rule find_upd_where) simp
qed

lemma upd_where_all:
  assumes "r \<in> set (upd_where p f rows)" and "\<And>q. \<not> p q \<Longrightarrow> Q q" and "\<And>q. Q (f q)"
  shows "Q r"
  using assms by (auto simp: upd_where_def)

lemma delete_device_revokes:
  assumes "delete_device auth i s = (Inr m, t)" and "c \<in> set (certificates (db t))" and "c_device_id c = i"
  shows "c_revoked c"
proof -
  have "certificates (db t) = upd_where (\<lambda>c. c_device_id c = i)
      (\<lambda>c. c\<lparr>c_revoked := True, c_revoked_at := Some (wall_ms s)\<rparr>) (certificates (db s))"
    using delete_device_db [OF assms(1)] by simp
  note c = assms(2) [unfolded this]
  have "c_device_id c = i \<longrightarrow> c_revoked c"
    by (rule upd_where_all [OF c]) simp_all
  with assms(3) show ?thesis by simp
qed

lemma device_by_id_hostname:
  "device_by_id i (d\<lparr>devices := upd_where (\<lambda>r. d_id r = i) (\<lambda>r. r\<lparr>d_hostname := n\<rparr>) (devices d)\<rparr>)
     = map_option (\<lambda>r. r\<lparr>d_hostname := n\<rparr>) (device_by_id i d)"
proof -
  have "devices (d\<lparr>devices := rows\<rparr>) = rows" for rows by simp
  then show ?thesis unfolding device_by_id_def by (simp only:) (rule find_upd_where, simp)
qed

lemma update_device_ok:
  assumes "update_device auth i h s = (Inr v, t)"
  shows "is_admin auth \<and> (\<exists>r. device_by_id i (db s) = Some r
    \<and> v = view_device (case h of None \<Rightarrow> r | Some n \<Rightarrow> r\<lparr>d_hostname := n\<rparr>))"
proof (cases h)
  case None
  with assms show ?thesis by (auto simp: update_device_def ok_simps)
next
  case (Some n)
  with assms show ?thesis
    by (clarsimp simp: update_device_def ok_simps device_by_id_hostname)
qed

text \<open>
  Telemetry queries: the result is exactly the device's samples of the closed interval
  (by default the last 24 hours), oldest first, whatever the order they were stored in.
\<close>

theorem get_telemetry_exact:
  assumes "get_telemetry auth i f u s = (Inr rows, t)"
  shows "sorted (map m_time rows)
    \<and> mset rows = mset (filter (\<lambda>m. m_device_id m = i
        \<and> (case f of Some a \<Rightarrow> a | None \<Rightarrow> wall_ms s - 24 * 60 * 60 * 1000) \<le> m_time m
        \<and> m_time m \<le> (case u of Some b \<Rightarrow> b | None \<Rightarrow> wall_ms s)) (device_metrics (db s)))
    \<and> db t = db s"
  using assms
  by (auto simp: get_telemetry_def ok_simps Let_def sorted_order_asc order_asc_def)

theorem get_telemetry_exact_witness:
  "\<exists>rows t. get_telemetry \<lparr>au_user_id = 2, au_username = ''eve'', au_role = ''viewer''\<rparr> 7 None None
     some_state = (Inr rows, t) \<and> sorted (map m_time rows)"
proof -
  obtain rows t where "get_telemetry \<lparr>au_user_id = 2, au_username = ''eve'', au_role = ''viewer''\<rparr> 7 None None
     some_state = (Inr rows, t)"
    by (simp add: get_telemetry_def action_simps Let_def)
  with get_telemetry_exact [OF this] show ?thesis by blast
qed

end
