(* ===== verification/Groups_Api.thy ===== *)
theory Groups_Api
  imports Devices_Api
begin

section \<open>Device groups\<close>

text \<open>
  \<^verbatim>\<open>api/groups.rs\<close>.  Deleting a group cascades, by the foreign keys of the
  schema, to its memberships and to the policy assignments that name it.
\<close>

record member_view =
  mv_device_id :: uuid
  mv_hostname :: string
  mv_os :: string
  mv_status :: string

definition group_not_found :: "uuid \<Rightarrow> api_error" where
  "group_not_found i = NotFound [Str ''Group '', Uid i, Str '' not found'']"

definition group_by_id :: "uuid \<Rightarrow> db \<Rightarrow> group_row option" where
  "group_by_id i d = List.find (\<lambda>g. g_id g = i) (device_groups d)"

definition create_group :: "auth_user \<Rightarrow> string \<Rightarrow> string option \<Rightarrow> (nat \<times> group_row) handler" where
  "create_group auth name desc =
     and_then (require_admin auth) (\<lambda>_.
     and_then fresh_uuid (\<lambda>i.
     and_then (gets wall_ms) (\<lambda>now.
     let g = \<lparr>g_id = i, g_name = name, g_description = desc, g_created_at = Some now\<rparr> in
     and_then (perform_if (\<lambda>d. \<not> exists_where (\<lambda>r. g_name r = name \<or> g_id r = i) (device_groups d))
       ''device_groups'' (\<lambda>d. ((), d\<lparr>device_groups := device_groups d @ [g]\<rparr>))) (\<lambda>_.
     ret (201, g)))))"

definition list_groups :: "ext \<Rightarrow> auth_user \<Rightarrow> group_row list handler" where
  "list_groups E auth = select (\<lambda>d. order_asc (\<lambda>g. collation_rank E (g_name g)) (device_groups d))"

definition get_group :: "auth_user \<Rightarrow> uuid \<Rightarrow> group_row handler" where
  "get_group auth i =
     and_then (select (group_by_id i)) (\<lambda>row.
     ok_or (group_not_found i) row)"

definition delete_group_rows :: "uuid \<Rightarrow> db \<Rightarrow> db" where
  "delete_group_rows i d = d\<lparr>
     device_groups := del_where (\<lambda>g. g_id g = i) (device_groups d),
     group_members := del_where (\<lambda>m. gm_group_id m = i) (group_members d),
     policy_assignments := del_where (\<lambda>a. pa_group_id a = Some i) (policy_assignments d)\<rparr>"

definition delete_group :: "auth_user \<Rightarrow> uuid \<Rightarrow> string handler" where
  "delete_group auth i =
     and_then (require_admin auth) (\<lambda>_.
     and_then (execute (\<lambda>d. (count_where (\<lambda>g. g_id g = i) (device_groups d), delete_group_rows i d))) (\<lambda>n.
     and_then (guard (n \<noteq> 0) (group_not_found i)) (\<lambda>_.
     ret ''Group deleted'')))"

definition members_of :: "uuid \<Rightarrow> db \<Rightarrow> device_row list" where
  "members_of i d = concat (map (\<lambda>m. filter (\<lambda>r. d_id r = gm_device_id m) (devices d))
     (filter (\<lambda>m. gm_group_id m = i) (group_members d)))"

definition list_members :: "ext \<Rightarrow> auth_user \<Rightarrow> uuid \<Rightarrow> member_view list handler" where
  "list_members E auth i = select (\<lambda>d.
     map (\<lambda>r. \<lparr>mv_device_id = d_id r, mv_hostname = d_hostname r, mv_os = d_os r, mv_status = d_status r\<rparr>)
       (order_asc (\<lambda>r. collation_rank E (d_hostname r)) (members_of i d)))"

definition insert_member :: "uuid \<Rightarrow> uuid \<Rightarrow> db \<Rightarrow> db" where
  "insert_member g i d =
     (if exists_where (\<lambda>m. gm_group_id m = g \<and> gm_device_id m = i) (group_members d) then d
      else d\<lparr>group_members := group_members d @ [\<lparr>gm_group_id = g, gm_device_id = i\<rparr>]\<rparr>)"

definition add_member :: "auth_user \<Rightarrow> uuid \<Rightarrow> uuid \<Rightarrow> (nat \<times> string) handler" where
  "add_member auth g i =
     and_then (require_admin auth) (\<lambda>_.
     and_then (perform_if (\<lambda>d. exists_where (\<lambda>r. g_id r = g) (device_groups d) \<and> device_exists i d)
       ''group_members'' (\<lambda>d. ((), insert_member g i d))) (\<lambda>_.
     ret (201, ''Member added'')))"

definition remove_member :: "auth_user \<Rightarrow> uuid \<Rightarrow> uuid \<Rightarrow> string handler" where
  "remove_member auth g i =
     and_then (require_admin auth) (\<lambda>_.
     and_then (perform (\<lambda>d. d\<lparr>group_members :=
       del_where (\<lambda>m. gm_group_id m = g \<and> gm_device_id m = i) (group_members d)\<rparr>)) (\<lambda>_.
     ret ''Member removed''))"

text \<open>\<open>member_in\<close>: the device is a member of the group.\<close>

definition member_in :: "db \<Rightarrow> uuid \<Rightarrow> uuid \<Rightarrow> bool" where
  "member_in d g i \<longleftrightarrow> exists_where (\<lambda>m. gm_group_id m = g \<and> gm_device_id m = i) (group_members d)"

lemma add_member_ok:
  "add_member auth g i s = (Inr r, t) \<Longrightarrow> member_in (db t) h j = (member_in (db s) h j \<or> h = g \<and> j = i)"
  by (auto simp: add_member_def ok_simps insert_member_def member_in_def split: if_splits)

lemma remove_member_ok:
  "remove_member auth g i s = (Inr r, t) \<Longrightarrow>
     member_in (db t) h j = (member_in (db s) h j \<and> \<not> (h = g \<and> j = i))"
  by (auto simp: remove_member_def ok_simps member_in_def)

lemma delete_group_ok:
  assumes "delete_group auth i s = (Inr r, t)"
  shows "group_by_id i (db t) = None \<and> \<not> member_in (db t) i j
    \<and> (\<forall>a \<in> set (policy_assignments (db t)). pa_group_id a \<noteq> Some i)
    \<and> (\<forall>g. g \<noteq> i \<longrightarrow> group_by_id g (db t) = group_by_id g (db s))"
proof -
  have d: "db t = delete_group_rows i (db s)"
    using assms by (auto simp: delete_group_def ok_simps)
  have "g \<noteq> i \<Longrightarrow> List.find (\<lambda>r. g_id r = g) (del_where (\<lambda>r. g_id r = i) rows)
      = List.find (\<lambda>r. g_id r = g) rows" for g and rows :: "group_row list"
    by (induction rows) auto
  then show ?thesis
    by (auto simp: d delete_group_rows_def group_by_id_def member_in_def find_del_where_same)
qed

end
