(* ===== verification/Policies_Api.thy ===== *)
theory Policies_Api
  imports Groups_Api
begin

section \<open>Policies and their distribution\<close>

text \<open>
  \<^verbatim>\<open>api/policies.rs\<close> and \<^verbatim>\<open>services/policy_engine.rs\<close>: policy rows, assignment to a
  device or a group, the push of one policy to its connected devices when it changes, and
  the push of all policies of a device when it connects.
\<close>

definition policy_not_found :: "uuid \<Rightarrow> api_error" where
  "policy_not_found i = NotFound [Str ''Policy '', Uid i, Str '' not found'']"

definition policy_by_id :: "uuid \<Rightarrow> db \<Rightarrow> policy_row option" where
  "policy_by_id i d = List.find (\<lambda>p. p_id p = i) (policies d)"

definition create_policy ::
  "auth_user \<Rightarrow> string \<Rightarrow> string option \<Rightarrow> json \<Rightarrow> (nat \<times> policy_row) handler" where
  "create_policy auth name desc rules =
     and_then (require_admin auth) (\<lambda>_.
     and_then fresh_uuid (\<lambda>i.
     and_then (gets wall_ms) (\<lambda>now.
     let p = \<lparr>p_id = i, p_name = name, p_description = desc, p_rules = rules, p_version = 1,
       p_enabled = True, p_created_at = Some now, p_updated_at = Some now\<rparr> in
     and_then (perform_if (\<lambda>d. \<not> exists_where (\<lambda>r. p_id r = i) (policies d))
       ''policies'' (\<lambda>d. ((), d\<lparr>policies := policies d @ [p]\<rparr>))) (\<lambda>_.
     ret (201, p)))))"

definition list_policies :: "auth_user \<Rightarrow> policy_row list handler" where
  "list_policies auth = select (\<lambda>d. order_desc_nulls p_created_at (policies d))"

definition get_policy :: "auth_user \<Rightarrow> uuid \<Rightarrow> policy_row handler" where
  "get_policy auth i =
     and_then (select (policy_by_id i)) (\<lambda>row.
     ok_or (policy_not_found i) row)"

text \<open>\<^verbatim>\<open>serde_json::from_value(rules).unwrap_or_default()\<close>: rules that do not decode are no rules.\<close>

definition decode_rules :: "json \<Rightarrow> policy_rule list" where
  "decode_rules v = (case dec_list dec_rule v of None \<Rightarrow> [] | Some rs \<Rightarrow> rs)"

definition policy_def_of :: "policy_row \<Rightarrow> policy_definition" where
  "policy_def_of p = \<lparr>pd_id = p_id p, pd_name = p_name p, pd_rules = decode_rules (p_rules p)\<rparr>"

text \<open>\<^verbatim>\<open>UNION\<close> of the two queries: each device once.\<close>

definition assigned_devices :: "uuid \<Rightarrow> db \<Rightarrow> uuid list" where
  "assigned_devices i d = remdups (
     List.map_filter pa_device_id (filter (\<lambda>a. pa_policy_id a = i) (policy_assignments d)) @
     concat (map (\<lambda>a. map gm_device_id
         (filter (\<lambda>m. pa_group_id a = Some (gm_group_id m)) (group_members d)))
       (filter (\<lambda>a. pa_policy_id a = i) (policy_assignments d))))"

definition push_policy_to_agents :: "uuid \<Rightarrow> unit handler" where
  "push_policy_to_agents i =
     and_then (or_default None (select (\<lambda>d. List.find (\<lambda>p. p_id p = i \<and> p_enabled p) (policies d)))) (\<lambda>row.
     case row of
       None \<Rightarrow> ret ()
     | Some p \<Rightarrow>
         and_then (or_default [] (select (assigned_devices i))) (\<lambda>ids.
         for_each ids (\<lambda>did. ignore (send_to_agent did (PushPolicy [policy_def_of p])))))"

definition set_policy :: "uuid \<Rightarrow> (policy_row \<Rightarrow> policy_row) \<Rightarrow> unit handler" where
  "set_policy i f =
     and_then (gets wall_ms) (\<lambda>now.
     perform (\<lambda>d. d\<lparr>policies := upd_where (\<lambda>p. p_id p = i)
       (\<lambda>p. (f p)\<lparr>p_updated_at := Some now\<rparr>) (policies d)\<rparr>))"

text \<open>\<^verbatim>\<open>version = version + 1\<close> on an \<^verbatim>\<open>INTEGER\<close> column is an error past its range.\<close>

definition set_policy_rules :: "uuid \<Rightarrow> json \<Rightarrow> unit handler" where
  "set_policy_rules i rules =
     and_then (gets wall_ms) (\<lambda>now.
     perform_if (\<lambda>d. \<not> exists_where (\<lambda>p. p_id p = i \<and> p_version p = 2147483647) (policies d))
       ''integer out of range''
       (\<lambda>d. ((), d\<lparr>policies := upd_where (\<lambda>p. p_id p = i)
         (\<lambda>p. p\<lparr>p_rules := rules, p_version := p_version p + 1, p_updated_at := Some now\<rparr>) (policies d)\<rparr>)))"

record update_policy_request =
  up_name :: "string option"
  up_description :: "string option"
  up_rules :: "json option"
  up_enabled :: "bool option"

definition update_policy :: "auth_user \<Rightarrow> uuid \<Rightarrow> update_policy_request \<Rightarrow> policy_row handler" where
  "update_policy auth i b =
     and_then (require_admin auth) (\<lambda>_.
     and_then (select (\<lambda>d. exists_where (\<lambda>p. p_id p = i) (policies d))) (\<lambda>exists.
     and_then (guard exists (policy_not_found i)) (\<lambda>_.
     and_then (case up_name b of None \<Rightarrow> ret ()
       | Some n \<Rightarrow> set_policy i (\<lambda>p. p\<lparr>p_name := n\<rparr>)) (\<lambda>_.
     and_then (case up_description b of None \<Rightarrow> ret ()
       | Some x \<Rightarrow> set_policy i (\<lambda>p. p\<lparr>p_description := Some x\<rparr>)) (\<lambda>_.
     and_then (case up_rules b of None \<Rightarrow> ret () | Some r \<Rightarrow> set_policy_rules i r) (\<lambda>_.
     and_then (case up_enabled b of None \<Rightarrow> ret ()
       | Some e \<Rightarrow> set_policy i (\<lambda>p. p\<lparr>p_enabled := e\<rparr>)) (\<lambda>_.
     and_then (fetch_one (policy_by_id i)) (\<lambda>p.
     and_then (push_policy_to_agents i) (\<lambda>_.
     ret p)))))))))"

definition delete_policy_rows :: "uuid \<Rightarrow> db \<Rightarrow> db" where
  "delete_policy_rows i d = d\<lparr>
     policies := del_where (\<lambda>p. p_id p = i) (policies d),
     policy_assignments := del_where (\<lambda>a. pa_policy_id a = i) (policy_assignments d),
     compliance_reports := del_where (\<lambda>c. cr_policy_id c = i) (compliance_reports d)\<rparr>"

definition delete_policy :: "auth_user \<Rightarrow> uuid \<Rightarrow> string handler" where
  "delete_policy auth i =
     and_then (require_admin auth) (\<lambda>_.
     and_then (execute (\<lambda>d. (count_where (\<lambda>p. p_id p = i) (policies d), delete_policy_rows i d))) (\<lambda>n.
     and_then (guard (n \<noteq> 0) (policy_not_found i)) (\<lambda>_.
     ret ''Policy deleted'')))"

definition insert_assignment :: "assignment_row \<Rightarrow> db \<Rightarrow> db" where
  "insert_assignment a d =
     (if exists_where (\<lambda>r. pa_policy_id r = pa_policy_id a
           \<and> (pa_device_id a \<noteq> None \<and> pa_device_id r = pa_device_id a
              \<or> pa_group_id a \<noteq> None \<and> pa_group_id r = pa_group_id a)) (policy_assignments d)
      then d else d\<lparr>policy_assignments := policy_assignments d @ [a]\<rparr>)"

definition assignment_targets_exist :: "assignment_row \<Rightarrow> db \<Rightarrow> bool" where
  "assignment_targets_exist a d \<longleftrightarrow> exists_where (\<lambda>p. p_id p = pa_policy_id a) (policies d)
     \<and> (case pa_device_id a of None \<Rightarrow> True | Some i \<Rightarrow> device_exists i d)
     \<and> (case pa_group_id a of None \<Rightarrow> True | Some g \<Rightarrow> exists_where (\<lambda>r. g_id r = g) (device_groups d))"

definition assign_policy ::
  "auth_user \<Rightarrow> uuid \<Rightarrow> uuid option \<Rightarrow> uuid option \<Rightarrow> (nat \<times> string) handler" where
  "assign_policy auth i dev grp =
     and_then (require_admin auth) (\<lambda>_.
     and_then (guard (\<not> (dev = None \<and> grp = None))
       (BadRequest [Str ''assign requires exactly one of device_id or group_id''])) (\<lambda>_.
     and_then (guard (\<not> (dev \<noteq> None \<and> grp \<noteq> None))
       (BadRequest [Str ''assign accepts only one of device_id or group_id''])) (\<lambda>_.
     let a = \<lparr>pa_policy_id = i, pa_device_id = dev, pa_group_id = grp\<rparr> in
     and_then (perform_if (assignment_targets_exist a) ''policy_assignments''
       (\<lambda>d. ((), insert_assignment a d))) (\<lambda>_.
     and_then (push_policy_to_agents i) (\<lambda>_.
     ret (201, ''Policy assigned''))))))"

definition sql_eq :: "'a option \<Rightarrow> 'a option \<Rightarrow> bool" where
  "sql_eq a b \<longleftrightarrow> (case (a, b) of (Some x, Some y) \<Rightarrow> x = y | _ \<Rightarrow> False)"

definition unassign_policy :: "auth_user \<Rightarrow> uuid \<Rightarrow> uuid option \<Rightarrow> uuid option \<Rightarrow> string handler" where
  "unassign_policy auth i dev grp =
     and_then (require_admin auth) (\<lambda>_.
     and_then (perform (\<lambda>d. d\<lparr>policy_assignments := del_where (\<lambda>a. pa_policy_id a = i
       \<and> (sql_eq (pa_device_id a) dev \<or> sql_eq (pa_group_id a) grp)) (policy_assignments d)\<rparr>)) (\<lambda>_.
     ret ''Policy unassigned''))"

subsection \<open>policy_engine.rs\<close>

definition assignment_covers :: "db \<Rightarrow> assignment_row \<Rightarrow> uuid \<Rightarrow> bool" where
  "assignment_covers d a i \<longleftrightarrow> pa_device_id a = Some i
     \<or> exists_where (\<lambda>m. pa_group_id a = Some (gm_group_id m) \<and> gm_device_id m = i) (group_members d)"

text \<open>The join of policies and assignments: one row per pair, without \<^verbatim>\<open>DISTINCT\<close>.\<close>

definition policies_for :: "uuid \<Rightarrow> db \<Rightarrow> policy_row list" where
  "policies_for i d = concat (map (\<lambda>p. map (\<lambda>_. p)
       (filter (\<lambda>a. pa_policy_id a = p_id p \<and> assignment_covers d a i) (policy_assignments d)))
     (filter p_enabled (policies d)))"

definition push_policies_to_device :: "uuid \<Rightarrow> unit handler" where
  "push_policies_to_device i =
     and_then (or_default [] (select (policies_for i))) (\<lambda>ps.
     if ps = [] then ret ()
     else ignore (send_to_agent i (PushPolicy (map policy_def_of ps))))"

text \<open>What the tables say: the policy is enabled and assigned to the device, directly or by a group.\<close>

definition policy_applies :: "db \<Rightarrow> uuid \<Rightarrow> uuid \<Rightarrow> bool" where
  "policy_applies d i did \<longleftrightarrow> (\<exists>a \<in> set (policy_assignments d). pa_policy_id a = i
     \<and> (pa_device_id a = Some did \<or> (\<exists>g. pa_group_id a = Some g \<and> member_in d g did)))"

lemma assigned_devices_iff: "did \<in> set (assigned_devices i d) \<longleftrightarrow> policy_applies d i did"
  by (force simp: assigned_devices_def policy_applies_def member_in_def List.map_filter_def)

lemma distinct_assigned [simp]: "distinct (assigned_devices i d)"
  by (simp add: assigned_devices_def)

lemma policies_for_iff:
  "p \<in> set (policies_for did d) \<longleftrightarrow> p \<in> set (policies d) \<and> p_enabled p \<and> policy_applies d (p_id p) did"
  by (force simp: policies_for_def policy_applies_def assignment_covers_def member_in_def)

text \<open>Sending one message to each of a list of devices.\<close>

lemma send_all:
  assumes "distinct ids"
  shows "\<exists>t. for_each ids (\<lambda>i. ignore (send_to_agent i msg)) s = (Inr (), t) \<and> db t = db s
     \<and> faults t = faults s
     \<and> (\<forall>j. reachable_agent t j = reachable_agent s j)
     \<and> (\<forall>j. agent_queue t j = agent_queue s j @ (if j \<in> set ids \<and> reachable_agent s j then [msg] else []))"
  using assms
proof (induction ids arbitrary: s)
  case Nil
  then show ?case by (simp add: ret_def)
next
  case (Cons i ids)
  let ?u = "snd (send_to_agent i msg s)"
  from Cons obtain t where "for_each ids (\<lambda>i. ignore (send_to_agent i msg)) ?u = (Inr (), t)"
    and t: "db t = db ?u" "faults t = faults ?u" "\<And>j. reachable_agent t j = reachable_agent ?u j"
      "\<And>j. agent_queue t j = agent_queue ?u j @ (if j \<in> set ids \<and> reachable_agent ?u j then [msg] else [])"
    by (auto simp: Cons.IH dest: Cons.IH [of ?u])
  with Cons.prems show ?case by (auto simp: send_queue)
qed

lemma keeps_push [keeps_intro]: "keeps (\<lambda>s. I (db s)) (push_policy_to_agents i)"
  unfolding push_policy_to_agents_def by (intro keeps_intro)

text \<open>
  Pushing a changed policy, with no database fault: every reachable device the policy
  applies to, directly or by one of its groups, gets exactly one push of its present
  definition, and nothing else is sent or stored; a missing or disabled policy sends nothing.
\<close>

theorem push_policy_exact:
  assumes "faults s = []"
  shows "\<exists>t. push_policy_to_agents i s = (Inr (), t) \<and> db t = db s \<and>
    (\<forall>j. agent_queue t j = agent_queue s j @
       (case List.find (\<lambda>p. p_id p = i \<and> p_enabled p) (policies (db s)) of
          None \<Rightarrow> []
        | Some p \<Rightarrow> if policy_applies (db s) i j \<and> reachable_agent s j
                   then [PushPolicy [policy_def_of p]] else []))"
proof (cases "List.find (\<lambda>p. p_id p = i \<and> p_enabled p) (policies (db s))")
  case None
  then show ?thesis
    by (simp add: push_policy_to_agents_def and_then_def or_default_def action_simps assms)
next
  case (Some p)
  obtain t where "for_each (assigned_devices i (db s))
      (\<lambda>did. ignore (send_to_agent did (PushPolicy [policy_def_of p]))) s = (Inr (), t)"
    and "db t = db s" and "\<forall>j. agent_queue t j = agent_queue s j @
      (if j \<in> set (assigned_devices i (db s)) \<and> reachable_agent s j then [PushPolicy [policy_def_of p]] else [])"
    using send_all [OF distinct_assigned, of i "db s" "PushPolicy [policy_def_of p]" s] by blast
  with Some show ?thesis
    by (simp add: push_policy_to_agents_def and_then_def or_default_def action_simps assms
      assigned_devices_iff)
qed

theorem push_policy_exact_witness:
  "\<exists>t. push_policy_to_agents 3 some_state = (Inr (), t) \<and> db t = some_db"
  using push_policy_exact [of some_state 3] by auto

lemma push_policies_run:
  assumes "faults s = []" and "reachable_agent s i"
  shows "\<exists>t. push_policies_to_device i s = (Inr (), t) \<and> db t = db s \<and> faults t = []
    \<and> (\<forall>j. reachable_agent t j = reachable_agent s j)
    \<and> agent_queue t i = agent_queue s i @ (if policies_for i (db s) = [] then []
          else [PushPolicy (map policy_def_of (policies_for i (db s)))])"
  using assms
  by (cases "policies_for i (db s) = []")
    (simp_all add: push_policies_to_device_def action_simps ignore_def send_queue)

text \<open>
  When a device connects, with no database fault, the one message it is pushed carries
  the definitions of exactly the enabled policies that apply to it (and none is sent when
  there are none).
\<close>

theorem push_policies_to_device_exact:
  assumes "faults s = []" and "reachable_agent s i"
  shows "\<exists>t defs. push_policies_to_device i s = (Inr (), t) \<and> db t = db s
    \<and> set defs = policy_def_of ` {p \<in> set (policies (db s)). p_enabled p \<and> policy_applies (db s) (p_id p) i}
    \<and> agent_queue t i = agent_queue s i @ (if defs = [] then [] else [PushPolicy defs])"
proof -
  have "set (map policy_def_of (policies_for i (db s)))
      = policy_def_of ` {p \<in> set (policies (db s)). p_enabled p \<and> policy_applies (db s) (p_id p) i}"
    using policies_for_iff [of _ i "db s"] by auto
  moreover obtain t where "push_policies_to_device i s = (Inr (), t)" "db t = db s"
    "agent_queue t i = agent_queue s i @ (if policies_for i (db s) = [] then []
       else [PushPolicy (map policy_def_of (policies_for i (db s)))])"
    using push_policies_run [OF assms] by blast
  ultimately show ?thesis
    by (intro exI [of _ t] exI [of _ "map policy_def_of (policies_for i (db s))"]) simp
qed

theorem push_policies_to_device_exact_witness:
  "\<exists>t defs. push_policies_to_device 7 some_state = (Inr (), t)
    \<and> agent_queue t 7 = agent_queue some_state 7 @ (if defs = [] then [] else [PushPolicy defs])"
proof -
  have "reachable_agent some_state 7" by (simp add: reachable_agent_def some_state_def)
  from push_policies_to_device_exact [OF _ this] show ?thesis by auto
qed

end
