(* ===== verification/Alerts.thy ===== *)
theory Alerts
  imports Devices_Api
begin

section \<open>Alert rules, the alert engine and notifications\<close>

text \<open>
  \<^verbatim>\<open>services/alert_engine.rs\<close>, \<^verbatim>\<open>services/notifications.rs\<close> and \<^verbatim>\<open>api/alerts.rs\<close>.
  The engine reads the enabled rules, evaluates each on the device's latest metrics and
  opens an event unless one is open.  Sending a notification is recorded; what a mail
  server or webhook answers only reaches the log.
\<close>

subsection \<open>notifications.rs\<close>

record alert_notification =
  an_severity :: string
  an_message :: fmt
  an_device_id :: uuid
  an_rule_name :: string
  an_channels :: json

text \<open>\<^verbatim>\<open>channels.get(k).and_then(as_str)\<close>\<close>

definition channel :: "string \<Rightarrow> json \<Rightarrow> string option" where
  "channel k v = (case v of JObj ob \<Rightarrow> fld dec_str k ob | _ \<Rightarrow> None)"

definition emit :: "notification \<Rightarrow> unit handler" where
  "emit x = modify (\<lambda>s. s\<lparr>sent_notifications := sent_notifications s @ [x]\<rparr>)"

definition log_alert :: "alert_notification \<Rightarrow> unit handler" where
  "log_alert n = emit (LogAlert
     (if an_severity n = ''critical'' then ''error'' else if an_severity n = ''warning'' then ''warn'' else ''info'')
     (an_device_id n) (an_rule_name n) (an_severity n) (an_message n))"

definition nl :: string where
  "nl = [CHR 0x0A]"

definition send_email :: "ext \<Rightarrow> config \<Rightarrow> string \<Rightarrow> alert_notification \<Rightarrow> unit handler" where
  "send_email E c to n = (case smtp_host c of
     None \<Rightarrow> ret ()
   | Some host \<Rightarrow>
       if \<not> mailbox_ok E to then ret ()
       else if \<not> relay_ok E host then ret ()
       else emit (Email to
         [Str ''[OSFM-EDM] '', Str (to_uppercase (an_severity n)), Str '' alert: '', Str (an_rule_name n)]
         ([Str ''Alert: '', Str (an_rule_name n), Str (nl @ ''Severity: ''), Str (an_severity n),
           Str (nl @ ''Device: ''), Uid (an_device_id n), Str (nl @ nl)] @ an_message n
          @ [Str (nl @ nl @ em_dash @ '' OSFM-EDM Endpoint Management'')])))"

definition send_webhook :: "string \<Rightarrow> alert_notification \<Rightarrow> unit handler" where
  "send_webhook url n =
     and_then (gets wall_ms) (\<lambda>now.
     emit (WebhookPost url (an_severity n) (an_rule_name n) (an_device_id n) (an_message n) now))"

definition trim_end_slashes :: "string \<Rightarrow> string" where
  "trim_end_slashes s = rev (dropWhile (\<lambda>c. c = CHR ''/'') (rev s))"

definition send_ntfy :: "string \<Rightarrow> string \<Rightarrow> alert_notification \<Rightarrow> unit handler" where
  "send_ntfy server topic n = emit (NtfyPost (trim_end_slashes server @ ''/'' @ topic)
     [Str ''OSFM-EDM: '', Str (to_uppercase (an_severity n)), Str ('' '' @ em_dash @ '' ''), Str (an_rule_name n)]
     (if an_severity n = ''critical'' then ''5'' else if an_severity n = ''warning'' then ''4'' else ''3'')
     ((if an_severity n = ''critical'' then ''rotating_light,'' else []) @ ''alert'')
     ([Str ''Device: '', Uid (an_device_id n), Str nl] @ an_message n))"

text \<open>
  The row of the join; a NULL severity, message or device fails to decode, and a fetch that
  fails reads as no row.
\<close>

definition notification_of :: "uuid \<Rightarrow> db \<Rightarrow> alert_notification option" where
  "notification_of e d = (case List.find (\<lambda>ev. ae_id ev = e) (alert_events d) of
     None \<Rightarrow> None
   | Some ev \<Rightarrow> (case List.find (\<lambda>r. ar_id r = ae_rule_id ev) (alert_rules d) of
       None \<Rightarrow> None
     | Some r \<Rightarrow> (case (ae_severity ev, ae_message ev, ae_device_id ev) of
         (Some sev, Some msg, Some dev) \<Rightarrow> Some \<lparr>an_severity = sev, an_message = msg,
            an_device_id = dev, an_rule_name = ar_name r, an_channels = ar_channels r\<rparr>
       | _ \<Rightarrow> None)))"

definition or_else :: "'a option \<Rightarrow> 'a option \<Rightarrow> 'a option" where
  "or_else a b = (case a of Some x \<Rightarrow> Some x | None \<Rightarrow> b)"

definition notify :: "ext \<Rightarrow> uuid \<Rightarrow> unit handler" where
  "notify E e =
     and_then (or_default None (select (notification_of e))) (\<lambda>row.
     case row of None \<Rightarrow> ret () | Some n \<Rightarrow>
       and_then (log_alert n) (\<lambda>_.
       and_then (gets cfg) (\<lambda>c.
       and_then (if channel ''email'' (an_channels n) \<noteq> None \<or> smtp_host c \<noteq> None
         then send_email E c (case channel ''email'' (an_channels n) of Some to \<Rightarrow> to | None \<Rightarrow> smtp_from c) n
         else ret ()) (\<lambda>_.
       and_then (case or_else (channel ''webhook'' (an_channels n)) (webhook_url c) of
           None \<Rightarrow> ret () | Some url \<Rightarrow> send_webhook url n) (\<lambda>_.
       case or_else (channel ''ntfy'' (an_channels n)) (ntfy_topic c) of
           None \<Rightarrow> ret () | Some topic \<Rightarrow> send_ntfy (ntfy_server c) topic n)))))"

subsection \<open>alert_engine.rs\<close>

record alert_rule =
  r_id :: uuid
  r_name :: string
  r_metric :: string
  r_operator :: string
  r_threshold :: f64
  r_severity :: string

definition decode_rule :: "alert_rule_row \<Rightarrow> alert_rule option" where
  "decode_rule r = (case (ar_metric r, ar_operator r, ar_threshold r, ar_severity r) of
     (Some m, Some oper, Some t, Some sev) \<Rightarrow> Some \<lparr>r_id = ar_id r, r_name = ar_name r,
        r_metric = m, r_operator = oper, r_threshold = t, r_severity = sev\<rparr>
   | _ \<Rightarrow> None)"

definition enabled_rules :: "db \<Rightarrow> alert_rule list option" where
  "enabled_rules d = those (map decode_rule (filter ar_enabled (alert_rules d)))"

definition fetch_rules :: "alert_rule list handler" where
  "fetch_rules = or_default [] (and_then (select enabled_rules) (ok_or (Database DecodeFailed)))"

definition latest_metrics :: "uuid \<Rightarrow> db \<Rightarrow> metric_row option" where
  "latest_metrics i d = (case order_desc m_time (filter (\<lambda>m. m_device_id m = i) (device_metrics d)) of
     [] \<Rightarrow> None | m # _ \<Rightarrow> Some m)"

definition metric_value :: "metric_row \<Rightarrow> string \<Rightarrow> f64 option" where
  "metric_value m metric =
     (if metric = ''cpu_pct'' then m_cpu_pct m
      else if metric = ''ram_pct'' then (case (m_ram_used_mb m, m_ram_total_mb m) of
        (Some used, Some tot) \<Rightarrow>
          if 0 < sint tot
          then Some (f64_mul (f64_div (f64_of_int (sint used)) (f64_of_int (sint tot))) (F_fin 100))
          else None
      | _ \<Rightarrow> None)
      else if metric = ''disk_pct'' then (case (m_disk_used_gb m, m_disk_total_gb m) of
        (Some used, Some tot) \<Rightarrow>
          if f64_lt (F_fin 0) tot then Some (f64_mul (f64_div used tot) (F_fin 100)) else None
      | _ \<Rightarrow> None)
      else None)"

definition is_triggered :: "string \<Rightarrow> f64 \<Rightarrow> f64 \<Rightarrow> bool" where
  "is_triggered oper v threshold =
     (if oper = ''>'' \<or> oper = ''gt'' then f64_lt threshold v
      else if oper = ''>='' \<or> oper = ''gte'' then f64_le threshold v
      else if oper = ''<'' \<or> oper = ''lt'' then f64_lt v threshold
      else if oper = ''<='' \<or> oper = ''lte'' then f64_le v threshold
      else if oper = ''=='' \<or> oper = ''eq'' then f64_lt (f64_abs (f64_sub v threshold)) f64_epsilon
      else False)"

definition is_open_event :: "uuid \<Rightarrow> uuid \<Rightarrow> alert_event_row \<Rightarrow> bool" where
  "is_open_event r i ev \<longleftrightarrow> ae_rule_id ev = r \<and> ae_device_id ev = Some i \<and> ae_resolved_at ev = None"

definition open_event :: "uuid \<Rightarrow> uuid \<Rightarrow> db \<Rightarrow> bool" where
  "open_event r i d = exists_where (is_open_event r i) (alert_events d)"

definition new_event :: "alert_rule \<Rightarrow> uuid \<Rightarrow> f64 \<Rightarrow> time \<Rightarrow> uuid \<Rightarrow> alert_event_row" where
  "new_event r i v now e = \<lparr>ae_id = e, ae_rule_id = r_id r, ae_device_id = Some i,
     ae_severity = Some (r_severity r),
     ae_message = Some [Str (r_name r), Str '': '', Str (r_metric r), Str '' is '', Flt1 v,
       Str '' (threshold: '', Str (r_operator r), Str '' '', Flt (r_threshold r), Str '')''],
     ae_triggered_at = Some now, ae_resolved_at = None\<rparr>"

definition insert_event :: "alert_rule \<Rightarrow> uuid \<Rightarrow> f64 \<Rightarrow> uuid handler" where
  "insert_event r i v =
     and_then (gets wall_ms) (\<lambda>now.
     and_then fresh_uuid (\<lambda>e.
     perform_if (\<lambda>d. exists_where (\<lambda>q. ar_id q = r_id r) (alert_rules d) \<and> device_exists i d
         \<and> \<not> exists_where (\<lambda>ev. ae_id ev = e) (alert_events d))
       ''alert_events''
       (\<lambda>d. (e, d\<lparr>alert_events := alert_events d @ [new_event r i v now e]\<rparr>))))"

definition check_rule :: "ext \<Rightarrow> uuid \<Rightarrow> metric_row \<Rightarrow> alert_rule \<Rightarrow> unit handler" where
  "check_rule E i m r = (case metric_value m (r_metric r) of
     None \<Rightarrow> ret ()
   | Some v \<Rightarrow>
       if \<not> is_triggered (r_operator r) v (r_threshold r) then ret ()
       else
         and_then (or_default False (select (open_event (r_id r) i))) (\<lambda>is_open.
         if is_open then ret ()
         else
           and_then (or_default None (and_then (insert_event r i v) (\<lambda>e. ret (Some e)))) (\<lambda>ev.
           case ev of None \<Rightarrow> ret () | Some e \<Rightarrow> notify E e)))"

definition check_alerts :: "ext \<Rightarrow> uuid \<Rightarrow> unit handler" where
  "check_alerts E i =
     and_then fetch_rules (\<lambda>rules.
     if rules = [] then ret ()
     else
       and_then (or_default None (select (latest_metrics i))) (\<lambda>metrics.
       case metrics of
         None \<Rightarrow> ret ()
       | Some m \<Rightarrow> for_each rules (check_rule E i m)))"

subsection \<open>api/alerts.rs\<close>

record create_rule_request =
  cq_name :: string
  cq_metric :: string
  cq_operator :: string
  cq_threshold :: f64
  cq_severity :: "string option"
  cq_channels :: "json option"
  cq_enabled :: "bool option"

record update_rule_request =
  uq_name :: "string option"
  uq_metric :: "string option"
  uq_operator :: "string option"
  uq_threshold :: "f64 option"
  uq_severity :: "string option"
  uq_channels :: "json option"
  uq_enabled :: "bool option"

definition rule_not_found :: "uuid \<Rightarrow> api_error" where
  "rule_not_found i = NotFound [Str ''Alert rule '', Uid i, Str '' not found'']"

definition rule_by_id :: "uuid \<Rightarrow> db \<Rightarrow> alert_rule_row option" where
  "rule_by_id i d = List.find (\<lambda>r. ar_id r = i) (alert_rules d)"

definition rule_condition :: "string option \<Rightarrow> string option \<Rightarrow> f64 option \<Rightarrow> json" where
  "rule_condition m oper t = JObj [(''metric'', enc_opt enc_str m), (''operator'', enc_opt enc_str oper),
     (''threshold'', enc_opt enc_f64 t)]"

definition create_rule :: "auth_user \<Rightarrow> create_rule_request \<Rightarrow> (nat \<times> alert_rule_row) handler" where
  "create_rule auth b =
     and_then (require_admin auth) (\<lambda>_.
     and_then fresh_uuid (\<lambda>i.
     and_then (gets wall_ms) (\<lambda>now.
     let r = \<lparr>ar_id = i, ar_name = cq_name b, ar_metric = Some (cq_metric b),
       ar_operator = Some (cq_operator b), ar_threshold = Some (cq_threshold b),
       ar_severity = Some (case cq_severity b of Some x \<Rightarrow> x | None \<Rightarrow> ''warning''),
       ar_condition = rule_condition (Some (cq_metric b)) (Some (cq_operator b)) (Some (cq_threshold b)),
       ar_channels = (case cq_channels b of Some x \<Rightarrow> x | None \<Rightarrow> JObj []),
       ar_enabled = (case cq_enabled b of Some x \<Rightarrow> x | None \<Rightarrow> True), ar_created_at = Some now\<rparr> in
     and_then (perform_if (\<lambda>d. \<not> exists_where (\<lambda>q. ar_id q = i) (alert_rules d)) ''alert_rules''
       (\<lambda>d. ((), d\<lparr>alert_rules := alert_rules d @ [r]\<rparr>))) (\<lambda>_.
     ret (201, r)))))"

definition list_rules :: "auth_user \<Rightarrow> alert_rule_row list handler" where
  "list_rules auth = select (\<lambda>d. order_desc_nulls ar_created_at (alert_rules d))"

definition get_rule :: "auth_user \<Rightarrow> uuid \<Rightarrow> alert_rule_row handler" where
  "get_rule auth i =
     and_then (select (rule_by_id i)) (\<lambda>row.
     ok_or (rule_not_found i) row)"

definition set_rule :: "uuid \<Rightarrow> (alert_rule_row \<Rightarrow> alert_rule_row) \<Rightarrow> unit handler" where
  "set_rule i f = perform (\<lambda>d. d\<lparr>alert_rules := upd_where (\<lambda>r. ar_id r = i) f (alert_rules d)\<rparr>)"

definition set_some :: "'a option \<Rightarrow> ('a \<Rightarrow> unit handler) \<Rightarrow> unit handler" where
  "set_some v f = (case v of None \<Rightarrow> ret () | Some x \<Rightarrow> f x)"

definition update_rule :: "auth_user \<Rightarrow> uuid \<Rightarrow> update_rule_request \<Rightarrow> alert_rule_row handler" where
  "update_rule auth i b =
     and_then (require_admin auth) (\<lambda>_.
     and_then (select (\<lambda>d. exists_where (\<lambda>r. ar_id r = i) (alert_rules d))) (\<lambda>exists.
     and_then (guard exists (rule_not_found i)) (\<lambda>_.
     and_then (set_some (uq_name b) (\<lambda>x. set_rule i (\<lambda>r. r\<lparr>ar_name := x\<rparr>))) (\<lambda>_.
     and_then (set_some (uq_metric b) (\<lambda>x. set_rule i (\<lambda>r. r\<lparr>ar_metric := Some x\<rparr>))) (\<lambda>_.
     and_then (set_some (uq_operator b) (\<lambda>x. set_rule i (\<lambda>r. r\<lparr>ar_operator := Some x\<rparr>))) (\<lambda>_.
     and_then (set_some (uq_threshold b) (\<lambda>x. set_rule i (\<lambda>r. r\<lparr>ar_threshold := Some x\<rparr>))) (\<lambda>_.
     and_then (set_some (uq_severity b) (\<lambda>x. set_rule i (\<lambda>r. r\<lparr>ar_severity := Some x\<rparr>))) (\<lambda>_.
     and_then (set_some (uq_channels b) (\<lambda>x. set_rule i (\<lambda>r. r\<lparr>ar_channels := x\<rparr>))) (\<lambda>_.
     and_then (set_some (uq_enabled b) (\<lambda>x. set_rule i (\<lambda>r. r\<lparr>ar_enabled := x\<rparr>))) (\<lambda>_.
     and_then (fetch_one (rule_by_id i)) (\<lambda>rule.
     and_then (when_do (ar_metric rule \<noteq> None \<or> ar_operator rule \<noteq> None \<or> ar_threshold rule \<noteq> None)
       (set_rule i (\<lambda>r. r\<lparr>ar_condition :=
          rule_condition (ar_metric rule) (ar_operator rule) (ar_threshold rule)\<rparr>))) (\<lambda>_.
     ret rule))))))))))))"

definition delete_rule_rows :: "uuid \<Rightarrow> db \<Rightarrow> db" where
  "delete_rule_rows i d = d\<lparr>alert_rules := del_where (\<lambda>r. ar_id r = i) (alert_rules d),
     alert_events := del_where (\<lambda>e. ae_rule_id e = i) (alert_events d)\<rparr>"

definition delete_rule :: "auth_user \<Rightarrow> uuid \<Rightarrow> string handler" where
  "delete_rule auth i =
     and_then (require_admin auth) (\<lambda>_.
     and_then (execute (\<lambda>d. (count_where (\<lambda>r. ar_id r = i) (alert_rules d), delete_rule_rows i d))) (\<lambda>n.
     and_then (guard (n \<noteq> 0) (rule_not_found i)) (\<lambda>_.
     ret ''Alert rule deleted'')))"

record list_events_query =
  le_device_id :: "uuid option"
  le_severity :: "string option"
  le_unresolved :: "bool option"
  le_limit :: "i64 option"
  le_offset :: "i64 option"

definition event_matches :: "list_events_query \<Rightarrow> alert_event_row \<Rightarrow> bool" where
  "event_matches q e \<longleftrightarrow>
     (case le_device_id q of None \<Rightarrow> True | Some i \<Rightarrow> ae_device_id e = Some i)
     \<and> (case le_severity q of None \<Rightarrow> True | Some v \<Rightarrow> ae_severity e = Some v)
     \<and> (if le_unresolved q = Some True then ae_resolved_at e = None else True)"

definition order_events :: "alert_event_row list \<Rightarrow> alert_event_row list" where
  "order_events es =
     sort_key (\<lambda>e. case ae_triggered_at e of None \<Rightarrow> 0 | Some t \<Rightarrow> - t)
       (filter (\<lambda>e. ae_triggered_at e \<noteq> None) es)
     @ filter (\<lambda>e. ae_triggered_at e = None) es"

text \<open>A negative \<^verbatim>\<open>LIMIT\<close> or \<^verbatim>\<open>OFFSET\<close> is an error of PostgreSQL.\<close>

definition list_events :: "auth_user \<Rightarrow> list_events_query \<Rightarrow> alert_event_row list handler" where
  "list_events auth q =
     (let limit = min (case le_limit q of None \<Rightarrow> 100 | Some w \<Rightarrow> sint w) 500;
          offset = (case le_offset q of None \<Rightarrow> 0 | Some w \<Rightarrow> sint w)
      in perform_if (\<lambda>_. 0 \<le> limit \<and> 0 \<le> offset) ''negative LIMIT or OFFSET''
        (\<lambda>d. (take (nat limit) (drop (nat offset)
           (order_events (filter (event_matches q) (alert_events d)))), d)))"

definition resolve_event :: "auth_user \<Rightarrow> uuid \<Rightarrow> string handler" where
  "resolve_event auth i =
     and_then (require_admin auth) (\<lambda>_.
     and_then (gets wall_ms) (\<lambda>now.
     and_then (execute (\<lambda>d. (count_where (\<lambda>e. ae_id e = i \<and> ae_resolved_at e = None) (alert_events d),
       d\<lparr>alert_events := upd_where (\<lambda>e. ae_id e = i \<and> ae_resolved_at e = None)
          (\<lambda>e. e\<lparr>ae_resolved_at := Some now\<rparr>) (alert_events d)\<rparr>))) (\<lambda>n.
     and_then (guard (n \<noteq> 0) (NotFound [Str ''Alert event '', Uid i,
       Str '' not found or already resolved''])) (\<lambda>_.
     ret ''Alert event resolved''))))"

subsection \<open>What the engine guarantees\<close>

text \<open>With no database fault a notification changes nothing but what was sent.\<close>

definition sending :: "app_state \<Rightarrow> app_state" where
  "sending s = s\<lparr>sent_notifications := []\<rparr>"

lemma emit_apply [action_simps]:
  "emit x s = (Inr (), s\<lparr>sent_notifications := sent_notifications s @ [x]\<rparr>)"
  by (simp add: emit_def modify_def)

lemma and_then_emit [action_simps]:
  "and_then (emit x) k s = k () (s\<lparr>sent_notifications := sent_notifications s @ [x]\<rparr>)"
  by (simp add: emit_def)

definition sends_only :: "unit handler \<Rightarrow> bool" where
  "sends_only m \<longleftrightarrow> (\<forall>s. fst (m s) = Inr () \<and> sending (snd (m s)) = sending s)"

lemma sends_only_ret: "sends_only (ret ())"
  by (simp add: sends_only_def action_simps)

lemma sends_only_emit: "sends_only (emit x)"
  by (simp add: sends_only_def action_simps sending_def)

lemma sends_only_then: "sends_only m \<Longrightarrow> (\<And>u. sends_only (k u)) \<Longrightarrow> sends_only (and_then m k)"
  by (auto simp: sends_only_def and_then_def split: prod.splits sum.splits)
    (metis (no_types, lifting) fst_conv snd_conv sum.inject(2) sum.distinct(1))+

lemma sends_only_gets: "(\<And>x. sends_only (k x)) \<Longrightarrow> sends_only (and_then (gets f) k)"
  by (simp add: sends_only_def)

lemma sends_only_case: "sends_only m \<Longrightarrow> (\<And>x. sends_only (k x)) \<Longrightarrow>
    sends_only (case v of None \<Rightarrow> m | Some x \<Rightarrow> k x)"
  by (cases v) simp_all

lemma sends_only_if: "sends_only m \<Longrightarrow> sends_only n \<Longrightarrow> sends_only (if b then m else n)"
  by simp

lemmas sends_only_rules = sends_only_ret sends_only_emit sends_only_then sends_only_gets
  sends_only_case sends_only_if

lemma sends_only_backends:
  "sends_only (log_alert n)" "sends_only (send_email E c to n)"
  "sends_only (send_webhook url n)" "sends_only (send_ntfy server topic n)"
  unfolding log_alert_def send_email_def send_webhook_def send_ntfy_def
  by (intro sends_only_rules)+

lemma notify_sends:
  assumes "faults s = []"
  shows "fst (notify E e s) = Inr () \<and> sending (snd (notify E e s)) = sending s"
proof -
  have "sends_only (case row of None \<Rightarrow> ret () | Some n \<Rightarrow>
       and_then (log_alert n) (\<lambda>_.
       and_then (gets cfg) (\<lambda>c.
       and_then (if channel ''email'' (an_channels n) \<noteq> None \<or> smtp_host c \<noteq> None
         then send_email E c (case channel ''email'' (an_channels n) of Some to \<Rightarrow> to | None \<Rightarrow> smtp_from c) n
         else ret ()) (\<lambda>_.
       and_then (case or_else (channel ''webhook'' (an_channels n)) (webhook_url c) of
           None \<Rightarrow> ret () | Some url \<Rightarrow> send_webhook url n) (\<lambda>_.
       case or_else (channel ''ntfy'' (an_channels n)) (ntfy_topic c) of
           None \<Rightarrow> ret () | Some topic \<Rightarrow> send_ntfy (ntfy_server c) topic n)))))" for row
    by (intro sends_only_case sends_only_ret sends_only_then sends_only_gets sends_only_if sends_only_backends)
  then show ?thesis
    using assms by (simp add: notify_def action_simps sends_only_def)
qed

text \<open>\<open>fires\<close>: the rule's metric has a value on this row and compares as the rule says.\<close>

definition fires :: "metric_row \<Rightarrow> alert_rule \<Rightarrow> bool" where
  "fires m r \<longleftrightarrow> (case metric_value m (r_metric r) of None \<Rightarrow> False
     | Some v \<Rightarrow> is_triggered (r_operator r) v (r_threshold r))"

text \<open>The next \<open>k\<close> random ids are distinct and not those of stored events.\<close>

definition fresh_events :: "nat \<Rightarrow> app_state \<Rightarrow> bool" where
  "fresh_events k s \<longleftrightarrow> distinct (map (rng s) [rng_pos s..<rng_pos s + k])
     \<and> (\<forall>ev \<in> set (alert_events (db s)). ae_id ev \<notin> set (map (rng s) [rng_pos s..<rng_pos s + k]))"

definition event_ready :: "uuid \<Rightarrow> alert_rule list \<Rightarrow> app_state \<Rightarrow> bool" where
  "event_ready i rules s \<longleftrightarrow> faults s = [] \<and> fresh_events (length rules) s \<and> device_exists i (db s)
     \<and> list_all (\<lambda>r. exists_where (\<lambda>q. ar_id q = r_id r) (alert_rules (db s))) rules"

lemma fresh_events_less: "fresh_events (Suc k) s \<Longrightarrow> fresh_events k s"
  by (auto simp: fresh_events_def)

lemma fresh_events_now: "fresh_events (Suc k) s \<Longrightarrow> ev \<in> set (alert_events (db s)) \<Longrightarrow> ae_id ev \<noteq> rng s (rng_pos s)"
  by (auto simp: fresh_events_def upt_conv_Cons simp del: upt_Suc)

lemma fresh_events_next:
  assumes "fresh_events (Suc k) s" and "alert_events (db t) = alert_events (db s) @ [ev]"
    and "ae_id ev = rng s (rng_pos s)" and "rng t = rng s" and "rng_pos t = Suc (rng_pos s)"
  shows "fresh_events k t"
  using assms by (auto simp: fresh_events_def upt_conv_Cons simp del: upt_Suc)

lemma event_ready_less: "event_ready i (r # rs) s \<Longrightarrow> event_ready i rs s"
  by (simp add: event_ready_def fresh_events_less)

definition opens_event :: "uuid \<Rightarrow> metric_row \<Rightarrow> alert_rule \<Rightarrow> app_state \<Rightarrow> app_state \<Rightarrow> bool" where
  "opens_event i m r s t \<longleftrightarrow> (\<exists>new. db t = (db s)\<lparr>alert_events := alert_events (db s) @ new\<rparr>
     \<and> (if fires m r \<and> \<not> open_event (r_id r) i (db s)
        then \<exists>ev. new = [ev] \<and> is_open_event (r_id r) i ev else new = []))"

lemma new_event_open: "is_open_event (r_id r) i (new_event r i v now e)"
  by (simp add: is_open_event_def new_event_def)

lemma check_rule_step:
  assumes "event_ready i (r # rs) s"
  shows "\<exists>t. check_rule E i m r s = (Inr (), t) \<and> opens_event i m r s t \<and> event_ready i rs t"
proof (cases "fires m r \<and> \<not> open_event (r_id r) i (db s)")
  case False
  have f: "faults s = []" using assms by (simp add: event_ready_def)
  have "check_rule E i m r s = (Inr (), s)"
  proof (cases "fires m r")
    case True
    with False f show ?thesis
      by (simp add: check_rule_def fires_def action_simps split: option.splits)
  next
    case nf: False
    with f show ?thesis
      by (simp add: check_rule_def fires_def action_simps split: option.splits)
  qed
  moreover have "opens_event i m r s s"
    unfolding opens_event_def if_not_P [OF False] by (rule exI [of _ "[]"]) simp
  ultimately show ?thesis using assms event_ready_less by blast
next
  case True
  then obtain v where v: "metric_value m (r_metric r) = Some v" "is_triggered (r_operator r) v (r_threshold r)"
    by (auto simp: fires_def split: option.splits)
  let ?e = "rng s (rng_pos s)"
  let ?ev = "new_event r i v (wall_ms s) ?e"
  let ?u = "s\<lparr>rng_pos := Suc (rng_pos s), db := (db s)\<lparr>alert_events := alert_events (db s) @ [?ev]\<rparr>\<rparr>"
  have fr: "fresh_events (Suc (length rs)) s" using assms by (simp add: event_ready_def)
  have ins: "insert_event r i v s = (Inr ?e, ?u)"
    using assms fresh_events_now [OF fr] by (auto simp: insert_event_def action_simps event_ready_def)
  have f: "faults ?u = []" using assms by (simp add: event_ready_def)
  define t where "t = snd (notify E ?e ?u)"
  have t: "notify E ?e ?u = (Inr (), t)" "sending t = sending ?u"
    using notify_sends [OF f, of E ?e] by (auto simp: t_def prod_eq_iff)
  have "check_rule E i m r s = (Inr (), t)"
    using v True assms ins t(1)
    by (simp add: check_rule_def event_ready_def action_simps and_then_def or_default_def)
  moreover have d: "db t = db ?u" "faults t = faults ?u" "rng t = rng ?u" "rng_pos t = rng_pos ?u"
    using arg_cong [OF t(2), of db] arg_cong [OF t(2), of faults] arg_cong [OF t(2), of rng]
      arg_cong [OF t(2), of rng_pos] by (simp_all add: sending_def)
  moreover have "opens_event i m r s t"
    unfolding opens_event_def if_P [OF True]
    by (rule exI [of _ "[?ev]"]) (use d new_event_open in auto)
  moreover have "event_ready i rs t"
  proof -
    have "fresh_events (length rs) t"
      by (rule fresh_events_next [OF fr, of _ ?ev]) (simp_all add: d new_event_def)
    then show ?thesis using assms d by (simp add: event_ready_def device_exists_def)
  qed
  ultimately show ?thesis by blast
qed

lemma open_event_append:
  "open_event r i (d\<lparr>alert_events := evs @ [ev]\<rparr>) \<longleftrightarrow> (\<exists>e \<in> set evs. is_open_event r i e) \<or> is_open_event r i ev"
  by (auto simp: open_event_def)

text \<open>The events a list of rules opens, in order.\<close>

definition opened :: "uuid \<Rightarrow> metric_row \<Rightarrow> db \<Rightarrow> alert_rule list \<Rightarrow> alert_event_row list \<Rightarrow> bool" where
  "opened i m d rules new \<longleftrightarrow>
     map ae_rule_id new = map r_id (filter (\<lambda>r. fires m r \<and> \<not> open_event (r_id r) i d) rules)
     \<and> list_all (\<lambda>ev. is_open_event (ae_rule_id ev) i ev) new"

lemma open_event_other:
  assumes "opens_event i m r s t" and "q \<noteq> r_id r"
  shows "open_event q i (db t) = open_event q i (db s)"
  using assms by (auto simp: opens_event_def open_event_def is_open_event_def split: if_splits)

lemma check_rules:
  assumes "event_ready i rules s" and "distinct (map r_id rules)"
  shows "\<exists>t new. for_each rules (check_rule E i m) s = (Inr (), t)
     \<and> db t = (db s)\<lparr>alert_events := alert_events (db s) @ new\<rparr> \<and> opened i m (db s) rules new"
  using assms
proof (induction rules arbitrary: s)
  case Nil
  then show ?case by (auto simp: ret_def opened_def intro: exI [of _ "[]"])
next
  case (Cons r rs)
  from check_rule_step [OF Cons.prems(1)] obtain u where
    u: "check_rule E i m r s = (Inr (), u)" "opens_event i m r s u" "event_ready i rs u" by blast
  from Cons.IH [OF u(3)] Cons.prems(2) obtain t new where
    t: "for_each rs (check_rule E i m) u = (Inr (), t)"
      "db t = (db u)\<lparr>alert_events := alert_events (db u) @ new\<rparr>" "opened i m (db u) rs new" by auto
  from u(2) obtain new1 where n1: "db u = (db s)\<lparr>alert_events := alert_events (db s) @ new1\<rparr>"
    and n2: "if fires m r \<and> \<not> open_event (r_id r) i (db s)
        then \<exists>ev. new1 = [ev] \<and> is_open_event (r_id r) i ev else new1 = []"
    unfolding opens_event_def by blast
  have same: "open_event (r_id q) i (db u) = open_event (r_id q) i (db s)" if "q \<in> set rs" for q
  proof (rule open_event_other [OF u(2)])
    have "r_id r \<notin> r_id ` set rs" using Cons.prems(2) by simp
    with that show "r_id q \<noteq> r_id r" by (metis imageI)
  qed
  have "map ae_rule_id new = map r_id (filter (\<lambda>q. fires m q \<and> \<not> open_event (r_id q) i (db s)) rs)"
    using t(3) same by (simp add: opened_def cong: filter_cong)
  then have "opened i m (db s) (r # rs) (new1 @ new)"
    using n2 t(3) by (auto simp: opened_def is_open_event_def split: if_splits)
  moreover have "for_each (r # rs) (check_rule E i m) s = (Inr (), t)"
    using u(1) t(1) by (simp add: and_then_def)
  moreover have "db t = (db s)\<lparr>alert_events := alert_events (db s) @ (new1 @ new)\<rparr>"
    using t(2) n1 by simp
  ultimately show ?case by blast
qed

text \<open>At most one event per rule and device is open.\<close>

definition one_open :: "db \<Rightarrow> bool" where
  "one_open d \<longleftrightarrow> distinct (map (\<lambda>e. (ae_rule_id e, ae_device_id e))
     (filter (\<lambda>e. ae_resolved_at e = None \<and> ae_device_id e \<noteq> None) (alert_events d)))"

lemma opened_one_open:
  assumes "opened i m d rules new" and "distinct (map r_id rules)" and "one_open d"
  shows "one_open (d\<lparr>alert_events := alert_events d @ new\<rparr>)"
proof -
  have op: "\<forall>ev \<in> set new. is_open_event (ae_rule_id ev) i ev"
    using assms(1) by (simp add: opened_def list_all_iff)
  then have f: "filter (\<lambda>e. ae_resolved_at e = None \<and> ae_device_id e \<noteq> None) new = new"
    by (auto simp: is_open_event_def intro!: filter_True)
  have "distinct (map ae_rule_id new)"
    using assms(1,2) by (simp add: opened_def distinct_map_filter)
  then have dn: "distinct (map (\<lambda>e. (ae_rule_id e, ae_device_id e)) new)"
    by (auto simp: distinct_map inj_on_def)
  have "ae_rule_id ev \<in> set (map r_id (filter (\<lambda>r. fires m r \<and> \<not> open_event (r_id r) i d) rules))"
    if "ev \<in> set new" for ev
  proof -
    have e: "map ae_rule_id new = map r_id (filter (\<lambda>r. fires m r \<and> \<not> open_event (r_id r) i d) rules)"
      using assms(1) by (simp add: opened_def)
    have "ae_rule_id ev \<in> set (map ae_rule_id new)" using that by simp
    then show ?thesis unfolding e .
  qed
  then have "ev \<in> set new \<Longrightarrow> \<not> open_event (ae_rule_id ev) i d" for ev
    by fastforce
  with op have "ev \<in> set new \<Longrightarrow> e \<in> set (alert_events d) \<Longrightarrow> ae_resolved_at e = None \<Longrightarrow>
      (ae_rule_id e, ae_device_id e) \<noteq> (ae_rule_id ev, ae_device_id ev)" for ev e
    by (fastforce simp: open_event_def is_open_event_def)
  with assms(3) dn f show ?thesis by (auto simp: one_open_def)
qed

text \<open>
  C38.  A telemetry check with no database fault opens exactly one event for each enabled rule
  that fires on the device's latest metrics and has no open event for it, in rule order,
  changes nothing else in the database, and keeps at most one open event per rule and device.
\<close>

theorem check_alerts_exact:
  assumes "event_ready i rules s" and "enabled_rules (db s) = Some rules"
    and "distinct (map r_id rules)" and "latest_metrics i (db s) = Some m"
  shows "\<exists>t new. check_alerts E i s = (Inr (), t)
    \<and> db t = (db s)\<lparr>alert_events := alert_events (db s) @ new\<rparr>
    \<and> map ae_rule_id new = map r_id (filter (\<lambda>r. fires m r \<and> \<not> open_event (r_id r) i (db s)) rules)
    \<and> list_all (\<lambda>ev. is_open_event (ae_rule_id ev) i ev) new
    \<and> (one_open (db s) \<longrightarrow> one_open (db t))"
proof -
  from check_rules [OF assms(1,3)] obtain t new where
    t: "for_each rules (check_rule E i m) s = (Inr (), t)"
      "db t = (db s)\<lparr>alert_events := alert_events (db s) @ new\<rparr>" "opened i m (db s) rules new" by blast
  have f: "faults s = []" using assms(1) by (simp add: event_ready_def)
  have "check_alerts E i s = (Inr (), t)"
    using t(1) f assms(2,4)
    by (cases rules) (simp_all add: ret_def check_alerts_def fetch_rules_def or_default_def action_simps and_then_def)
  with t opened_one_open [OF t(3) assms(3)] show ?thesis
    by (auto simp: opened_def)
qed

definition cpu_rule :: alert_rule_row where
  "cpu_rule = \<lparr>ar_id = 50, ar_name = ''cpu'', ar_metric = Some ''cpu_pct'', ar_operator = Some ''>'',
     ar_threshold = Some (F_fin 90), ar_severity = Some ''critical'', ar_condition = JNull,
     ar_channels = JObj [(''webhook'', JStr ''http://hook'')], ar_enabled = True, ar_created_at = None\<rparr>"

definition hot_metrics :: metric_row where
  "hot_metrics = \<lparr>m_device_id = 7, m_time = 900, m_cpu_pct = Some (F_fin 95), m_ram_used_mb = None,
     m_ram_total_mb = None, m_disk_used_gb = None, m_disk_total_gb = None, m_uptime_secs = None\<rparr>"

definition hot_db :: db where
  "hot_db = some_db\<lparr>alert_rules := [cpu_rule], device_metrics := [hot_metrics]\<rparr>"

theorem check_alerts_exact_witness:
  "\<exists>t ev. check_alerts no_ext 7 (state_of hot_db) = (Inr (), t) \<and> alert_events (db t) = [ev]
     \<and> ae_rule_id ev = 50"
proof -
  let ?r = "\<lparr>r_id = 50, r_name = ''cpu'', r_metric = ''cpu_pct'', r_operator = ''>'',
    r_threshold = F_fin 90, r_severity = ''critical''\<rparr>"
  have a: "event_ready 7 [?r] (state_of hot_db)"
    by (simp add: event_ready_def fresh_events_def hot_db_def cpu_rule_def device_exists_def sample_defs)
  have b: "enabled_rules (db (state_of hot_db)) = Some [?r]"
    by (simp add: enabled_rules_def hot_db_def cpu_rule_def decode_rule_def)
  have c: "latest_metrics 7 (db (state_of hot_db)) = Some hot_metrics"
    by (simp add: latest_metrics_def hot_db_def order_desc_def hot_metrics_def)
  from check_alerts_exact [OF a b _ c, of no_ext] obtain t new where
    t: "check_alerts no_ext 7 (state_of hot_db) = (Inr (), t)"
      "db t = hot_db\<lparr>alert_events := alert_events hot_db @ new\<rparr>"
      "map ae_rule_id new = map r_id (filter (\<lambda>r. fires hot_metrics r \<and> \<not> open_event (r_id r) 7 hot_db) [?r])"
    by auto
  have "fires hot_metrics ?r" "\<not> open_event 50 7 hot_db"
    by (simp_all add: fires_def metric_value_def hot_metrics_def is_triggered_def open_event_def
      hot_db_def sample_defs)
  with t(3) have "map ae_rule_id new = [50]" by simp
  with t show ?thesis by (auto simp: hot_db_def sample_defs)
qed

text \<open>A failed look-up of open events counts as \<open>none open\<close>: a second event is opened.\<close>

lemma check_alerts_duplicate_on_fault:
  "\<exists>s. one_open (db s) \<and> \<not> one_open (db (snd (check_alerts no_ext 7 s)))"
proof -
  let ?d = "hot_db\<lparr>alert_events := [\<lparr>ae_id = 60, ae_rule_id = 50, ae_device_id = Some 7,
    ae_severity = None, ae_message = None, ae_triggered_at = None, ae_resolved_at = None\<rparr>]\<rparr>"
  let ?s = "(state_of ?d)\<lparr>faults := [False, False, True]\<rparr>"
  have "one_open (db ?s)" by (simp add: one_open_def)
  moreover have "\<not> one_open (db (snd (check_alerts no_ext 7 ?s)))"
    by (simp add: check_alerts_def fetch_rules_def or_default_def and_then_def select_def exec_def
      next_fault_def enabled_rules_def decode_rule_def latest_metrics_def order_desc_def
      check_rule_def metric_value_def is_triggered_def insert_event_def perform_if_def
      fresh_uuid_def gets_def ret_def device_exists_def notify_def notification_of_def
      hot_db_def cpu_rule_def hot_metrics_def sample_defs one_open_def new_event_def log_alert_def
      emit_def modify_def channel_def fld_def or_else_def send_webhook_def)
  ultimately show ?thesis by blast
qed

text \<open>One enabled rule with a NULL column stops every rule from being evaluated.\<close>

lemma those_None: "None \<in> set xs \<Longrightarrow> those xs = None"
  by (induction xs) (auto split: option.splits)

lemma null_rule_silences_all:
  assumes "r \<in> set (alert_rules (db s))" and "ar_enabled r" and "ar_severity r = None" and "faults s = []"
  shows "check_alerts E i s = (Inr (), s)"
proof -
  have "decode_rule r = None" using assms(3) by (simp add: decode_rule_def split: option.splits)
  then have "None \<in> set (map decode_rule (filter ar_enabled (alert_rules (db s))))"
    using assms(1,2) by force
  then have "those (map decode_rule (filter ar_enabled (alert_rules (db s)))) = None"
    by (rule those_None)
  then show ?thesis
    using assms(4) by (simp add: check_alerts_def fetch_rules_def or_default_def enabled_rules_def
      action_simps and_then_def)
qed

lemma set_rule_ok:
  assumes "set_rule i f s = (Inr u, t)" and "\<And>r. ar_id (f r) = ar_id r"
  shows "rule_by_id i (db t) = map_option f (rule_by_id i (db s))"
proof -
  have "alert_rules (db t) = upd_where (\<lambda>r. ar_id r = i) f (alert_rules (db s))"
    using assms(1) by (auto simp: set_rule_def ok_simps)
  then show ?thesis unfolding rule_by_id_def by (simp only:) (rule find_upd_where, simp add: assms(2))
qed

lemma set_some_ok:
  assumes "set_some v (\<lambda>x. set_rule i (f x)) s = (Inr u, t)" and "\<And>x r. ar_id (f x r) = ar_id r"
  shows "rule_by_id i (db t) = map_option (case v of None \<Rightarrow> id | Some x \<Rightarrow> f x) (rule_by_id i (db s))"
  using assms set_rule_ok [of i "f (the v)" s u t]
  by (cases v) (auto simp: set_some_def ok_simps option.map_id)

lemma apply_some: "(case v of None \<Rightarrow> id | Some x \<Rightarrow> f x) r = (case v of None \<Rightarrow> r | Some x \<Rightarrow> f x r)"
  by (cases v) simp_all

text \<open>
  A successful change of an alert rule leaves a stored row whose JSON condition states
  exactly its metric, operator and threshold, with every field of the request applied; the row
  in the answer has the same fields but still the condition from before the change.
\<close>

theorem update_rule_syncs_condition:
  assumes "update_rule auth i b s = (Inr answer, t)"
  shows "\<exists>old. rule_by_id i (db s) = Some old \<and> is_admin auth
    \<and> ar_condition answer = ar_condition old
    \<and> ar_metric answer = (case uq_metric b of None \<Rightarrow> ar_metric old | Some x \<Rightarrow> Some x)
    \<and> ar_operator answer = (case uq_operator b of None \<Rightarrow> ar_operator old | Some x \<Rightarrow> Some x)
    \<and> ar_threshold answer = (case uq_threshold b of None \<Rightarrow> ar_threshold old | Some x \<Rightarrow> Some x)
    \<and> ar_enabled answer = (case uq_enabled b of None \<Rightarrow> ar_enabled old | Some x \<Rightarrow> x)
    \<and> rule_by_id i (db t) = Some (answer\<lparr>ar_condition :=
        (if ar_metric answer = None \<and> ar_operator answer = None \<and> ar_threshold answer = None
         then ar_condition old
         else rule_condition (ar_metric answer) (ar_operator answer) (ar_threshold answer))\<rparr>)"
proof -
  from assms obtain s0 s1 s2 s3 s4 s5 s6 s7 u1 u2 u3 u4 u5 u6 u7 u8 where
    e: "set_some (uq_name b) (\<lambda>x. set_rule i (\<lambda>r. r\<lparr>ar_name := x\<rparr>)) s0 = (Inr u1, s1)"
       "set_some (uq_metric b) (\<lambda>x. set_rule i (\<lambda>r. r\<lparr>ar_metric := Some x\<rparr>)) s1 = (Inr u2, s2)"
       "set_some (uq_operator b) (\<lambda>x. set_rule i (\<lambda>r. r\<lparr>ar_operator := Some x\<rparr>)) s2 = (Inr u3, s3)"
       "set_some (uq_threshold b) (\<lambda>x. set_rule i (\<lambda>r. r\<lparr>ar_threshold := Some x\<rparr>)) s3 = (Inr u4, s4)"
       "set_some (uq_severity b) (\<lambda>x. set_rule i (\<lambda>r. r\<lparr>ar_severity := Some x\<rparr>)) s4 = (Inr u5, s5)"
       "set_some (uq_channels b) (\<lambda>x. set_rule i (\<lambda>r. r\<lparr>ar_channels := x\<rparr>)) s5 = (Inr u6, s6)"
       "set_some (uq_enabled b) (\<lambda>x. set_rule i (\<lambda>r. r\<lparr>ar_enabled := x\<rparr>)) s6 = (Inr u7, s7)"
    and ans: "rule_by_id i (db s7) = Some answer"
    and fin: "when_do (ar_metric answer \<noteq> None \<or> ar_operator answer \<noteq> None \<or> ar_threshold answer \<noteq> None)
       (set_rule i (\<lambda>r. r\<lparr>ar_condition :=
          rule_condition (ar_metric answer) (ar_operator answer) (ar_threshold answer)\<rparr>))
       (s7\<lparr>faults := tl (faults s7)\<rparr>) = (Inr u8, t)"
    and adm: "is_admin auth" and s0: "db s0 = db s"
    by (clarsimp simp: update_rule_def ok_simps)
  have chain: "rule_by_id i (db s7) = map_option (\<lambda>r. (case uq_enabled b of None \<Rightarrow> id | Some x \<Rightarrow> (\<lambda>r. r\<lparr>ar_enabled := x\<rparr>))
     ((case uq_channels b of None \<Rightarrow> id | Some x \<Rightarrow> (\<lambda>r. r\<lparr>ar_channels := x\<rparr>))
     ((case uq_severity b of None \<Rightarrow> id | Some x \<Rightarrow> (\<lambda>r. r\<lparr>ar_severity := Some x\<rparr>))
     ((case uq_threshold b of None \<Rightarrow> id | Some x \<Rightarrow> (\<lambda>r. r\<lparr>ar_threshold := Some x\<rparr>))
     ((case uq_operator b of None \<Rightarrow> id | Some x \<Rightarrow> (\<lambda>r. r\<lparr>ar_operator := Some x\<rparr>))
     ((case uq_metric b of None \<Rightarrow> id | Some x \<Rightarrow> (\<lambda>r. r\<lparr>ar_metric := Some x\<rparr>))
     ((case uq_name b of None \<Rightarrow> id | Some x \<Rightarrow> (\<lambda>r. r\<lparr>ar_name := x\<rparr>)) r))))))) (rule_by_id i (db s))"
    unfolding set_some_ok [OF e(7), simplified] set_some_ok [OF e(6), simplified]
      set_some_ok [OF e(5), simplified] set_some_ok [OF e(4), simplified]
      set_some_ok [OF e(3), simplified] set_some_ok [OF e(2), simplified]
      set_some_ok [OF e(1), simplified] s0 option.map_comp comp_def ..
  with ans obtain old where old: "rule_by_id i (db s) = Some old"
    and a: "answer = (case uq_enabled b of None \<Rightarrow> id | Some x \<Rightarrow> (\<lambda>r. r\<lparr>ar_enabled := x\<rparr>))
     ((case uq_channels b of None \<Rightarrow> id | Some x \<Rightarrow> (\<lambda>r. r\<lparr>ar_channels := x\<rparr>))
     ((case uq_severity b of None \<Rightarrow> id | Some x \<Rightarrow> (\<lambda>r. r\<lparr>ar_severity := Some x\<rparr>))
     ((case uq_threshold b of None \<Rightarrow> id | Some x \<Rightarrow> (\<lambda>r. r\<lparr>ar_threshold := Some x\<rparr>))
     ((case uq_operator b of None \<Rightarrow> id | Some x \<Rightarrow> (\<lambda>r. r\<lparr>ar_operator := Some x\<rparr>))
     ((case uq_metric b of None \<Rightarrow> id | Some x \<Rightarrow> (\<lambda>r. r\<lparr>ar_metric := Some x\<rparr>))
     ((case uq_name b of None \<Rightarrow> id | Some x \<Rightarrow> (\<lambda>r. r\<lparr>ar_name := x\<rparr>)) old))))))"
    by (auto simp: map_option_eq_Some)
  have fields: "ar_condition answer = ar_condition old"
    "ar_metric answer = (case uq_metric b of None \<Rightarrow> ar_metric old | Some x \<Rightarrow> Some x)"
    "ar_operator answer = (case uq_operator b of None \<Rightarrow> ar_operator old | Some x \<Rightarrow> Some x)"
    "ar_threshold answer = (case uq_threshold b of None \<Rightarrow> ar_threshold old | Some x \<Rightarrow> Some x)"
    "ar_enabled answer = (case uq_enabled b of None \<Rightarrow> ar_enabled old | Some x \<Rightarrow> x)"
    by (simp_all add: a apply_some split: option.split)
  show ?thesis
  proof (cases "ar_metric answer = None \<and> ar_operator answer = None \<and> ar_threshold answer = None")
    case True
    with fin have "db t = db s7" by (simp add: ok_simps)
    with True fields old adm ans show ?thesis by simp
  next
    case False
    with fin have "set_rule i (\<lambda>r. r\<lparr>ar_condition :=
          rule_condition (ar_metric answer) (ar_operator answer) (ar_threshold answer)\<rparr>)
       (s7\<lparr>faults := tl (faults s7)\<rparr>) = (Inr u8, t)" by (auto simp: when_do_def)
    from set_rule_ok [OF this] ans have "rule_by_id i (db t) = Some (answer\<lparr>ar_condition :=
          rule_condition (ar_metric answer) (ar_operator answer) (ar_threshold answer)\<rparr>)" by simp
    with False fields old adm show ?thesis by auto
  qed
qed

theorem update_rule_syncs_condition_witness:
  "\<exists>answer t. update_rule \<lparr>au_user_id = 1, au_username = ''root'', au_role = ''admin''\<rparr> 50
      \<lparr>uq_name = None, uq_metric = Some ''ram_pct'', uq_operator = None, uq_threshold = None,
       uq_severity = None, uq_channels = None, uq_enabled = None\<rparr> (state_of hot_db) = (Inr answer, t)
    \<and> ar_condition answer = JNull \<and> ar_metric answer = Some ''ram_pct''"
proof -
  let ?b = "\<lparr>uq_name = None, uq_metric = Some ''ram_pct'', uq_operator = None, uq_threshold = None,
       uq_severity = None, uq_channels = None, uq_enabled = None\<rparr>"
  let ?a = "\<lparr>au_user_id = 1, au_username = ''root'', au_role = ''admin''\<rparr>"
  have "\<exists>answer t. update_rule ?a 50 ?b (state_of hot_db) = (Inr answer, t)"
    by (simp add: update_rule_def require_admin_def is_admin_def action_simps set_some_def set_rule_def
      hot_db_def cpu_rule_def rule_by_id_def and_then_def when_do_def)
  then obtain answer t where u: "update_rule ?a 50 ?b (state_of hot_db) = (Inr answer, t)" by blast
  from update_rule_syncs_condition [OF u] show ?thesis
    using u by (auto simp: hot_db_def cpu_rule_def rule_by_id_def)
qed

end
