(* ===== verification/Jobs_Api.thy ===== *)
theory Jobs_Api
  imports Devices_Api
begin

section \<open>Jobs\<close>

text \<open>
  \<^verbatim>\<open>api/jobs.rs\<close> and \<^verbatim>\<open>services/job_queue.rs\<close>: creation with immediate dispatch when the
  agent is connected, the dispatch of the pending jobs of a device that connects, listing,
  detail and cancellation.  The text of a serde error is not modelled.
\<close>

record list_jobs_query =
  lj_device_id :: "uuid option"
  lj_status :: "string option"

record job_log_view =
  lv_time :: "time option"
  lv_line :: string
  lv_stream :: string

definition job_not_found :: "uuid \<Rightarrow> api_error" where
  "job_not_found i = NotFound [Str ''Job '', Uid i, Str '' not found'']"

definition job_by_id :: "uuid \<Rightarrow> db \<Rightarrow> job_row option" where
  "job_by_id i d = List.find (\<lambda>j. j_id j = i) (jobs d)"

definition set_job :: "uuid \<Rightarrow> (job_row \<Rightarrow> job_row) \<Rightarrow> unit handler" where
  "set_job i f = perform (\<lambda>d. d\<lparr>jobs := upd_where (\<lambda>j. j_id j = i) f (jobs d)\<rparr>)"

definition new_job :: "uuid \<Rightarrow> uuid \<Rightarrow> json \<Rightarrow> uuid \<Rightarrow> time \<Rightarrow> job_row" where
  "new_job i device payload creator now = \<lparr>j_id = i, j_device_id = device, j_payload = payload,
     j_status = ''pending'', j_exit_code = None, j_log_output = None, j_created_by = Some creator,
     j_created_at = Some now, j_finished_at = None\<rparr>"

definition insert_job :: "uuid \<Rightarrow> json \<Rightarrow> uuid \<Rightarrow> job_row handler" where
  "insert_job device payload creator =
     and_then fresh_uuid (\<lambda>i.
     and_then (gets wall_ms) (\<lambda>now.
     perform_if (\<lambda>d. device_exists device d \<and> exists_where (\<lambda>u. u_id u = creator) (users d)
         \<and> \<not> exists_where (\<lambda>j. j_id j = i) (jobs d))
       ''jobs'' (\<lambda>d. (new_job i device payload creator now,
         d\<lparr>jobs := jobs d @ [new_job i device payload creator now]\<rparr>))))"

definition create_job :: "ext \<Rightarrow> auth_user \<Rightarrow> uuid \<Rightarrow> json \<Rightarrow> (nat \<times> job_row) handler" where
  "create_job E auth device payload_json =
     and_then (require_admin auth) (\<lambda>_.
     and_then (select (device_exists device)) (\<lambda>exists.
     and_then (guard exists (device_not_found device)) (\<lambda>_.
     and_then (insert_job device payload_json (au_user_id auth)) (\<lambda>job.
     and_then (ok_or (BadRequest [Str ''Invalid job payload: '']) (dec_payload payload_json)) (\<lambda>payload.
     and_then (gets (\<lambda>s. sign_job E s (j_id job) payload)) (\<lambda>signature.
     and_then (send_to_agent device (DispatchJob (j_id job) payload signature)) (\<lambda>dispatched.
     and_then (when_do dispatched
       (ignore (set_job (j_id job) (\<lambda>j. j\<lparr>j_status := ''dispatched''\<rparr>)))) (\<lambda>_.
     ret (201, job)))))))))"

definition job_matches :: "list_jobs_query \<Rightarrow> job_row \<Rightarrow> bool" where
  "job_matches q j \<longleftrightarrow> (case lj_device_id q of None \<Rightarrow> True | Some i \<Rightarrow> j_device_id j = i)
     \<and> (case lj_status q of None \<Rightarrow> True | Some st \<Rightarrow> j_status j = st)"

definition list_jobs :: "auth_user \<Rightarrow> list_jobs_query \<Rightarrow> job_row list handler" where
  "list_jobs auth q = select (\<lambda>d.
     take 100 (order_desc_nulls j_created_at (filter (job_matches q) (jobs d))))"

definition get_job :: "auth_user \<Rightarrow> uuid \<Rightarrow> (job_row \<times> job_log_view list) handler" where
  "get_job auth i =
     and_then (select (job_by_id i)) (\<lambda>row.
     and_then (ok_or (job_not_found i) row) (\<lambda>job.
     and_then (select (\<lambda>d. map (\<lambda>l. \<lparr>lv_time = jl_time l, lv_line = jl_line l, lv_stream = jl_stream l\<rparr>)
       (take 5000 (order_asc_nulls jl_time (filter (\<lambda>l. jl_job_id l = i) (job_logs d)))))) (\<lambda>logs.
     ret (job, logs))))"

definition cancel_job :: "auth_user \<Rightarrow> uuid \<Rightarrow> string handler" where
  "cancel_job auth i =
     and_then (require_admin auth) (\<lambda>_.
     and_then (select (job_by_id i)) (\<lambda>row.
     and_then (ok_or (job_not_found i) row) (\<lambda>job.
     and_then (guard (\<not> (j_status job = ''completed'' \<or> j_status job = ''failed'' \<or> j_status job = ''cancelled''))
       (Conflict [Str ''Job is already '', Str (j_status job)])) (\<lambda>_.
     and_then (ignore (send_to_agent (j_device_id job) (RevokeJob i))) (\<lambda>_.
     and_then (gets wall_ms) (\<lambda>now.
     and_then (ignore (set_job i (\<lambda>j. j\<lparr>j_status := ''cancelled'', j_finished_at := Some now\<rparr>))) (\<lambda>_.
     ret ''Job cancelled'')))))))"

subsection \<open>job_queue.rs\<close>

definition pending_jobs :: "uuid \<Rightarrow> db \<Rightarrow> job_row list" where
  "pending_jobs device d = order_asc_nulls j_created_at
     (filter (\<lambda>j. j_device_id j = device \<and> j_status j = ''pending'') (jobs d))"

definition dispatch_one :: "ext \<Rightarrow> uuid \<Rightarrow> job_row \<Rightarrow> unit handler" where
  "dispatch_one E device job = (case dec_payload (j_payload job) of
     None \<Rightarrow> ret ()
   | Some payload \<Rightarrow>
       and_then (gets (\<lambda>s. sign_job E s (j_id job) payload)) (\<lambda>signature.
       and_then (send_to_agent device (DispatchJob (j_id job) payload signature)) (\<lambda>sent.
       when_do sent (ignore (set_job (j_id job) (\<lambda>j. j\<lparr>j_status := ''dispatched''\<rparr>))))))"

definition dispatch_pending_jobs :: "ext \<Rightarrow> uuid \<Rightarrow> unit handler" where
  "dispatch_pending_jobs E device =
     and_then (or_default [] (select (pending_jobs device))) (\<lambda>js.
     for_each js (dispatch_one E device))"

subsection \<open>What creation and dispatch guarantee\<close>

lemma set_job_no_fault [action_simps]:
  "faults s = [] \<Longrightarrow> set_job i f s =
     (Inr (), s\<lparr>db := (db s)\<lparr>jobs := upd_where (\<lambda>j. j_id j = i) f (jobs (db s))\<rparr>\<rparr>)"
  by (simp add: set_job_def action_simps)

text \<open>
  Creating a job for a known device, with no database fault: one row is stored; a payload
  that does not decode is then refused, with the row left pending; otherwise the job is sent,
  signed, to the device alone and marked dispatched when its agent is reachable, and is
  left pending with nothing sent when it is not.
\<close>

theorem create_job_effect:
  assumes "faults s = []" and "is_admin auth" and "device_exists device (db s)"
    and "\<exists>u \<in> set (users (db s)). u_id u = au_user_id auth"
    and "\<forall>j \<in> set (jobs (db s)). j_id j \<noteq> rng s (rng_pos s)"
    and "j = new_job (rng s (rng_pos s)) device payload_json (au_user_id auth) (wall_ms s)"
  shows "case dec_payload payload_json of
      None \<Rightarrow> \<exists>t. create_job E auth device payload_json s = (Inl (BadRequest [Str ''Invalid job payload: '']), t)
        \<and> jobs (db t) = jobs (db s) @ [j] \<and> (\<forall>k. agent_queue t k = agent_queue s k)
    | Some p \<Rightarrow> \<exists>t. create_job E auth device payload_json s = (Inr (201, j), t)
        \<and> jobs (db t) = jobs (db s) @
            [if reachable_agent s device then j\<lparr>j_status := ''dispatched''\<rparr> else j]
        \<and> (\<forall>k. agent_queue t k = agent_queue s k @
             (if k = device \<and> reachable_agent s device
              then [DispatchJob (j_id j) p (sign_job E s (j_id j) p)] else []))"
proof -
  let ?i = "rng s (rng_pos s)"
  let ?u = "s\<lparr>rng_pos := Suc (rng_pos s), db := (db s)\<lparr>jobs := jobs (db s) @ [j]\<rparr>\<rparr>"
  have ins: "insert_job device payload_json (au_user_id auth) s = (Inr j, ?u)"
    using assms by (simp add: insert_job_def action_simps)
  have f: "faults ?u = []" using assms(1) by simp
  have q: "agent_queue ?u k = agent_queue s k" "reachable_agent ?u k = reachable_agent s k" for k
    by (simp_all add: agent_queue_def reachable_agent_def)
  have sg: "sign_job E ?u = sign_job E s" by (simp add: sign_job_def fun_eq_iff)
  have ji: "j_id j = ?i" using assms(6) by (simp add: new_job_def)
  have upd: "upd_where (\<lambda>q. j_id q = ?i) f (jobs (db s)) = jobs (db s)" for f
    using assms(5) by (intro upd_where_none) simp
  have start: "create_job E auth device payload_json s =
     and_then (ok_or (BadRequest [Str ''Invalid job payload: '']) (dec_payload payload_json)) (\<lambda>payload.
     and_then (gets (\<lambda>s. sign_job E s (j_id j) payload)) (\<lambda>signature.
     and_then (send_to_agent device (DispatchJob (j_id j) payload signature)) (\<lambda>dispatched.
     and_then (when_do dispatched
       (ignore (set_job (j_id j) (\<lambda>j. j\<lparr>j_status := ''dispatched''\<rparr>)))) (\<lambda>_. ret (201, j))))) ?u"
    unfolding create_job_def
    by (simp add: require_admin_def assms(1-3) action_simps and_then_Inr [where m = "insert_job device payload_json (au_user_id auth)", OF ins])
  show ?thesis
  proof (cases "dec_payload payload_json")
    case None
    then show ?thesis by (simp add: start action_simps q)
  next
    case (Some p)
    let ?m = "DispatchJob ?i p (sign_job E s ?i p)"
    let ?v = "snd (send_to_agent device ?m ?u)"
    have qv: "agent_queue ?v k = agent_queue s k @ (if k = device \<and> reachable_agent s device then [?m] else [])" for k
      by (simp add: send_queue q)
    have "create_job E auth device payload_json s = and_then (when_do (reachable_agent s device)
       (ignore (set_job ?i (\<lambda>j. j\<lparr>j_status := ''dispatched''\<rparr>)))) (\<lambda>_. ret (201, j)) ?v"
      by (simp add: start Some ji sg and_then_send q)
    moreover have "faults ?v = []" using f by simp
    ultimately show ?thesis using qv
      by (cases "reachable_agent s device")
        (simp_all add: Some action_simps upd ji agent_queue_def)
  qed
qed

theorem create_job_effect_witness:
  "\<exists>t. create_job no_ext \<lparr>au_user_id = 1, au_username = ''root'', au_role = ''admin''\<rparr> 7
      (enc_payload (Reboot 5)) some_state = (Inr (201, new_job 100 7 (enc_payload (Reboot 5)) 1 1000), t)
    \<and> agent_queue t 7 = [DispatchJob 100 (Reboot 5) ''sig'']"
proof -
  let ?a = "\<lparr>au_user_id = 1, au_username = ''root'', au_role = ''admin''\<rparr>"
  have h: "faults some_state = []" "is_admin ?a" "device_exists 7 (db some_state)"
    "\<exists>u \<in> set (users (db some_state)). u_id u = au_user_id ?a"
    "\<forall>j \<in> set (jobs (db some_state)). j_id j \<noteq> rng some_state (rng_pos some_state)"
    by (simp_all add: is_admin_def device_exists_def sample_defs)
  have d: "dec_payload (enc_payload (Reboot 5)) = Some (Reboot 5)"
    by (rule payload_codec.dec_enc) simp
  have r: "reachable_agent some_state 7" "agent_queue some_state 7 = []"
    by (simp_all add: reachable_agent_def agent_queue_def some_state_def)
  have sg: "sign_job no_ext some_state i p = ''sig''" for i p
    by (simp add: sign_job_def signer_sign_job_def sample_defs)
  have g: "rng some_state (rng_pos some_state) = 100" "wall_ms some_state = 1000"
    by (simp_all add: sample_defs)
  show ?thesis
    using create_job_effect [OF h refl, where payload_json = "enc_payload (Reboot 5)" and E = no_ext] d r
    by (auto simp: sg g new_job_def)
qed

text \<open>The message a pending job is dispatched with.\<close>

definition dispatch_message :: "ext \<Rightarrow> app_state \<Rightarrow> job_row \<Rightarrow> server_message list" where
  "dispatch_message E s job = (case dec_payload (j_payload job) of
     None \<Rightarrow> [] | Some p \<Rightarrow> [DispatchJob (j_id job) p (sign_job E s (j_id job) p)])"

definition mark_dispatched :: "job_row list \<Rightarrow> job_row \<Rightarrow> job_row" where
  "mark_dispatched js r =
     (if \<exists>j \<in> set js. j_id j = j_id r \<and> dec_payload (j_payload j) \<noteq> None
      then r\<lparr>j_status := ''dispatched''\<rparr> else r)"

lemma sign_job_cong: "job_signer t = job_signer s \<Longrightarrow> sign_job E t = sign_job E s"
  by (simp add: sign_job_def fun_eq_iff)

lemma dispatch_one_step:
  assumes "faults s = []" and "reachable_agent s device"
  shows "\<exists>t. dispatch_one E device job s = (Inr (), t) \<and> faults t = [] \<and> reachable_agent t device
    \<and> job_signer t = job_signer s
    \<and> db t = (db s)\<lparr>jobs := map (mark_dispatched [job]) (jobs (db s))\<rparr>
    \<and> (\<forall>k. agent_queue t k = agent_queue s k @ (if k = device then dispatch_message E s job else []))"
proof (cases "dec_payload (j_payload job)")
  case None
  then have "mark_dispatched [job] = (\<lambda>r. r)" by (simp add: mark_dispatched_def fun_eq_iff)
  with None assms show ?thesis by (simp add: dispatch_one_def action_simps dispatch_message_def)
next
  case (Some p)
  let ?m = "DispatchJob (j_id job) p (sign_job E s (j_id job) p)"
  let ?v = "snd (send_to_agent device ?m s)"
  have f: "faults ?v = []" using assms(1) by simp
  have u: "upd_where (\<lambda>j. j_id j = j_id job) (\<lambda>j. j\<lparr>j_status := ''dispatched''\<rparr>) rows
      = map (mark_dispatched [job]) rows" for rows
    using Some by (auto simp: upd_where_def mark_dispatched_def)
  have "dispatch_one E device job s =
      (Inr (), ?v\<lparr>db := (db s)\<lparr>jobs := map (mark_dispatched [job]) (jobs (db s))\<rparr>\<rparr>)"
    using assms f by (simp add: dispatch_one_def Some and_then_send ignore_def set_job_no_fault u)
  then show ?thesis
    using assms f send_queue [of device ?m s] send_reachable [of device ?m s]
    by (simp add: reachable_agent_def agent_queue_def dispatch_message_def Some)
qed

lemma mark_dispatched_id [simp]: "j_id (mark_dispatched js r) = j_id r"
  by (simp add: mark_dispatched_def)

lemma mark_dispatched_comp: "mark_dispatched js (mark_dispatched [j] r) = mark_dispatched (j # js) r"
  by (auto simp: mark_dispatched_def)

lemma dispatch_all:
  assumes "faults s = []" and "reachable_agent s device"
  shows "\<exists>t. for_each js (dispatch_one E device) s = (Inr (), t)
    \<and> faults t = [] \<and> reachable_agent t device
    \<and> db t = (db s)\<lparr>jobs := map (mark_dispatched js) (jobs (db s))\<rparr>
    \<and> (\<forall>k. agent_queue t k = agent_queue s k @
         (if k = device then concat (map (dispatch_message E s) js) else []))"
  using assms
proof (induction js arbitrary: s)
  case Nil
  have "mark_dispatched [] = (\<lambda>r. r)" by (simp add: mark_dispatched_def fun_eq_iff)
  then show ?case using Nil by (simp add: ret_def)
next
  case (Cons j js)
  obtain u where u: "dispatch_one E device j s = (Inr (), u)" "faults u = []" "reachable_agent u device"
    "job_signer u = job_signer s" "db u = (db s)\<lparr>jobs := map (mark_dispatched [j]) (jobs (db s))\<rparr>"
    and uq: "\<And>k. agent_queue u k = agent_queue s k @ (if k = device then dispatch_message E s j else [])"
    using dispatch_one_step [OF Cons.prems, of E j] by blast
  obtain t where t: "for_each js (dispatch_one E device) u = (Inr (), t)"
    "faults t = []" "reachable_agent t device" "db t = (db u)\<lparr>jobs := map (mark_dispatched js) (jobs (db u))\<rparr>"
    and tq: "\<And>k. agent_queue t k = agent_queue u k @
      (if k = device then concat (map (dispatch_message E u) js) else [])"
    using Cons.IH [OF u(2,3)] by blast
  have "dispatch_message E u = dispatch_message E s"
    by (rule ext) (simp add: dispatch_message_def sign_job_cong [OF u(4), of E] split: option.split)
  with u t tq uq show ?case
    by (simp add: and_then_def mark_dispatched_comp comp_def)
qed

lemma dispatch_pending_run:
  assumes "faults s = []" and "reachable_agent s device" and "distinct (map j_id (jobs (db s)))"
  shows "\<exists>t. dispatch_pending_jobs E device s = (Inr (), t) \<and> faults t = [] \<and> reachable_agent t device
    \<and> db t = (db s)\<lparr>jobs := map (\<lambda>r. if j_device_id r = device \<and> j_status r = ''pending''
          \<and> dec_payload (j_payload r) \<noteq> None
        then r\<lparr>j_status := ''dispatched''\<rparr> else r) (jobs (db s))\<rparr>
    \<and> (\<forall>k. agent_queue t k = agent_queue s k @
         (if k = device then concat (map (dispatch_message E s) (pending_jobs device (db s))) else []))"
proof -
  obtain t where t: "for_each (pending_jobs device (db s)) (dispatch_one E device) s = (Inr (), t)"
    "faults t = []" "reachable_agent t device" "db t = (db s)\<lparr>jobs := map (mark_dispatched (pending_jobs device (db s))) (jobs (db s))\<rparr>"
    "\<forall>k. agent_queue t k = agent_queue s k @
         (if k = device then concat (map (dispatch_message E s) (pending_jobs device (db s))) else [])"
    using dispatch_all [OF assms(1,2), of "pending_jobs device (db s)" E] by blast
  have "mark_dispatched (pending_jobs device (db s)) r = (if j_device_id r = device \<and> j_status r = ''pending''
      \<and> dec_payload (j_payload r) \<noteq> None then r\<lparr>j_status := ''dispatched''\<rparr> else r)"
    if "r \<in> set (jobs (db s))" for r
  proof -
    have "j = r" if "j \<in> set (jobs (db s))" "j_id j = j_id r" for j
      using assms(3) that \<open>r \<in> set (jobs (db s))\<close> by (auto simp: distinct_map inj_on_def)
    moreover have "j \<in> set (pending_jobs device (db s)) \<longleftrightarrow>
        j \<in> set (jobs (db s)) \<and> j_device_id j = device \<and> j_status j = ''pending''" for j
      by (auto simp: pending_jobs_def)
    ultimately have "(\<exists>j \<in> set (pending_jobs device (db s)). j_id j = j_id r \<and> dec_payload (j_payload j) \<noteq> None)
        \<longleftrightarrow> j_device_id r = device \<and> j_status r = ''pending'' \<and> dec_payload (j_payload r) \<noteq> None"
      using that by metis
    then show ?thesis by (simp add: mark_dispatched_def)
  qed
  then have "map (mark_dispatched (pending_jobs device (db s))) (jobs (db s)) =
      map (\<lambda>r. if j_device_id r = device \<and> j_status r = ''pending'' \<and> dec_payload (j_payload r) \<noteq> None
        then r\<lparr>j_status := ''dispatched''\<rparr> else r) (jobs (db s))" by simp
  moreover have "dispatch_pending_jobs E device s = (Inr (), t)"
    using t(1) by (simp add: dispatch_pending_jobs_def and_then_def action_simps assms(1))
  ultimately show ?thesis using t by auto
qed



text \<open>
  Cancelling, with no database fault: an unknown job is not found, a completed, failed or
  cancelled one is a conflict, both with the state unchanged; any other job (also one that is
  \<open>done\<close>) becomes cancelled and its device, if reachable, is sent the revocation.
\<close>

theorem cancel_job_effect:
  assumes "faults s = []" and "is_admin auth"
  shows "case job_by_id i (db s) of
      None \<Rightarrow> cancel_job auth i s = (Inl (job_not_found i), s)
    | Some j \<Rightarrow>
        if j_status j \<in> {''completed'', ''failed'', ''cancelled''}
        then cancel_job auth i s = (Inl (Conflict [Str ''Job is already '', Str (j_status j)]), s)
        else \<exists>t. cancel_job auth i s = (Inr ''Job cancelled'', t)
          \<and> job_by_id i (db t) = Some (j\<lparr>j_status := ''cancelled'', j_finished_at := Some (wall_ms s)\<rparr>)
          \<and> (\<forall>k. agent_queue t k = agent_queue s k @
               (if k = j_device_id j \<and> reachable_agent s k then [RevokeJob i] else []))"
proof (cases "job_by_id i (db s)")
  case None
  then show ?thesis using assms by (simp add: cancel_job_def require_admin_def action_simps)
next
  case (Some j)
  show ?thesis
  proof (cases "j_status j \<in> {''completed'', ''failed'', ''cancelled''}")
    case True
    with Some assms show ?thesis by (auto simp: cancel_job_def require_admin_def action_simps)
  next
    case False
    let ?v = "snd (send_to_agent (j_device_id j) (RevokeJob i) s)"
    let ?f = "\<lambda>j. j\<lparr>j_status := ''cancelled'', j_finished_at := Some (wall_ms s)\<rparr>"
    let ?t = "?v\<lparr>db := (db s)\<lparr>jobs := upd_where (\<lambda>j. j_id j = i) ?f (jobs (db s))\<rparr>\<rparr>"
    have f: "faults ?v = []" using assms(1) by simp
    have e: "cancel_job auth i s = (Inr ''Job cancelled'', ?t)"
      using Some False assms f by (simp add: cancel_job_def require_admin_def action_simps)
    have "job_by_id i (db ?t) = map_option ?f (List.find (\<lambda>j. j_id j = i) (jobs (db s)))"
      unfolding job_by_id_def using find_upd_where [of "\<lambda>j. j_id j = i" ?f "jobs (db s)"] by simp
    then have "job_by_id i (db ?t) = Some (?f j)" using Some by (simp add: job_by_id_def)
    moreover have "agent_queue ?t k = agent_queue s k @
               (if k = j_device_id j \<and> reachable_agent s k then [RevokeJob i] else [])" for k
      using send_queue [of "j_device_id j" "RevokeJob i" s k] by (auto simp: agent_queue_def)
    ultimately have "\<exists>t. cancel_job auth i s = (Inr ''Job cancelled'', t)
          \<and> job_by_id i (db t) = Some (?f j)
          \<and> (\<forall>k. agent_queue t k = agent_queue s k @
               (if k = j_device_id j \<and> reachable_agent s k then [RevokeJob i] else []))"
      using e by blast
    then show ?thesis unfolding Some option.case if_not_P [OF False] .
  qed
qed

theorem cancel_job_effect_witness:
  "cancel_job \<lparr>au_user_id = 1, au_username = ''root'', au_role = ''admin''\<rparr> 30 some_state
     = (Inl (job_not_found 30), some_state)"
  using cancel_job_effect [of some_state "\<lparr>au_user_id = 1, au_username = ''root'', au_role = ''admin''\<rparr>" 30]
  by (simp add: is_admin_def job_by_id_def sample_defs)

end
