(* ===== verification/Shell_Api.thy ===== *)
theory Shell_Api
  imports Devices_Api
begin

section \<open>Remote shell sessions\<close>

text \<open>
  \<^verbatim>\<open>api/shell.rs\<close>: a session is opened on a connected device by an admin and bound to that
  user; input, output and closing are for the owner or an admin.  A broadcast channel is
  the list of the events sent so far; a subscriber sees what is sent after it subscribed.
  The bound of the channel (a slow reader loses the oldest events) is not modelled.
\<close>

definition set_broadcast :: "uuid \<Rightarrow> shell_event list option \<Rightarrow> unit handler" where
  "set_broadcast i v = modify (\<lambda>s. s\<lparr>shell_broadcasts := (shell_broadcasts s)(i := v)\<rparr>)"

definition set_session :: "uuid \<Rightarrow> shell_meta option \<Rightarrow> unit handler" where
  "set_session i v = modify (\<lambda>s. s\<lparr>shell_sessions := (shell_sessions s)(i := v)\<rparr>)"

definition not_connected :: "uuid \<Rightarrow> api_error" where
  "not_connected i = NotFound [Str ''Device '', Uid i, Str '' is not connected'']"

definition session_not_found :: "uuid \<Rightarrow> api_error" where
  "session_not_found i = NotFound [Str ''Shell session '', Uid i, Str '' not found or already closed'']"

definition open_shell :: "auth_user \<Rightarrow> uuid \<Rightarrow> (uuid \<times> uuid) handler" where
  "open_shell auth device =
     and_then (require_admin auth) (\<lambda>_.
     and_then fresh_uuid (\<lambda>session.
     and_then (set_broadcast session (Some [])) (\<lambda>_.
     and_then (send_to_agent device (OpenShell session)) (\<lambda>sent.
     and_then (if \<not> sent
         then and_then (set_broadcast session None) (\<lambda>_. raise (not_connected device))
         else ret ()) (\<lambda>_.
     and_then (set_session session (Some \<lparr>sm_owner_id = au_user_id auth, sm_device_id = device\<rparr>)) (\<lambda>_.
     ret (session, device)))))))"

definition authorize_session :: "uuid \<Rightarrow> auth_user \<Rightarrow> shell_meta handler" where
  "authorize_session session auth =
     and_then (gets (\<lambda>s. shell_sessions s session)) (\<lambda>m.
     and_then (ok_or (session_not_found session) m) (\<lambda>meta.
     and_then (guard (\<not> (sm_owner_id meta \<noteq> au_user_id auth \<and> \<not> is_admin auth))
       (Forbidden [Str ''You do not own this shell session''])) (\<lambda>_.
     ret meta)))"

definition send_input :: "auth_user \<Rightarrow> uuid \<Rightarrow> string \<Rightarrow> string handler" where
  "send_input auth session data =
     and_then (authorize_session session auth) (\<lambda>meta.
     and_then (send_to_agent (sm_device_id meta) (ShellInput session data)) (\<lambda>sent.
     and_then (guard sent (not_connected (sm_device_id meta))) (\<lambda>_.
     ret ''sent'')))"

definition close_shell :: "auth_user \<Rightarrow> uuid \<Rightarrow> string handler" where
  "close_shell auth session =
     and_then (authorize_session session auth) (\<lambda>meta.
     and_then (send_to_agent (sm_device_id meta) (CloseShell session)) (\<lambda>sent.
     and_then (guard sent (not_connected (sm_device_id meta))) (\<lambda>_.
     and_then (set_session session None) (\<lambda>_.
     ret ''closed''))))"

text \<open>A subscription is the number of events already sent; \<open>sse_of\<close> is what an event becomes.\<close>

datatype sse = SseClosed "i32 option" | SseOutput string

definition sse_of :: "shell_event \<Rightarrow> sse" where
  "sse_of e = (if se_closed e then SseClosed (se_exit_code e) else SseOutput (se_data e))"

definition stream_shell :: "auth_user \<Rightarrow> uuid \<Rightarrow> nat handler" where
  "stream_shell auth session =
     and_then (authorize_session session auth) (\<lambda>_.
     and_then (gets (\<lambda>s. shell_broadcasts s session)) (\<lambda>ch.
     and_then (ok_or (session_not_found session) ch) (\<lambda>evs.
     ret (length evs))))"

definition stream_output :: "app_state \<Rightarrow> uuid \<Rightarrow> nat \<Rightarrow> sse list" where
  "stream_output s session from_n = (case shell_broadcasts s session of
     None \<Rightarrow> [] | Some evs \<Rightarrow> map sse_of (drop from_n evs))"

text \<open>\<^verbatim>\<open>tx.send(event)\<close> on the session's channel, if there is one.\<close>

definition publish :: "shell_event \<Rightarrow> app_state \<Rightarrow> app_state" where
  "publish e s = (case shell_broadcasts s (se_session_id e) of
     None \<Rightarrow> s
   | Some evs \<Rightarrow> s\<lparr>shell_broadcasts := (shell_broadcasts s)(se_session_id e \<mapsto> evs @ [e])\<rparr>)"

definition may_use :: "app_state \<Rightarrow> auth_user \<Rightarrow> uuid \<Rightarrow> bool" where
  "may_use s auth session \<longleftrightarrow> (case shell_sessions s session of None \<Rightarrow> False
     | Some meta \<Rightarrow> sm_owner_id meta = au_user_id auth \<or> is_admin auth)"

lemma authorize_apply:
  "authorize_session session auth s = (case shell_sessions s session of
     None \<Rightarrow> (Inl (session_not_found session), s)
   | Some meta \<Rightarrow> if may_use s auth session then (Inr meta, s)
       else (Inl (Forbidden [Str ''You do not own this shell session'']), s))"
  by (auto simp: authorize_session_def may_use_def action_simps split: option.splits)

lemma and_then_authorize:
  "and_then (authorize_session session auth) k s = (case shell_sessions s session of
     None \<Rightarrow> (Inl (session_not_found session), s)
   | Some meta \<Rightarrow> if may_use s auth session then k meta s
       else (Inl (Forbidden [Str ''You do not own this shell session'']), s))"
  by (auto simp: and_then_def authorize_apply split: option.splits)

text \<open>
  C19.  A user who is neither the owner of a session nor an admin, and anyone on a session that
  does not exist, can send it no input, read none of its output and not close it: each
  request is an error (forbidden, or not found) and leaves the state as it was.
\<close>

theorem shell_access_control:
  assumes "\<not> may_use s auth session"
  shows "\<exists>e. (e = session_not_found session \<or> status_code e = 403)
    \<and> send_input auth session data s = (Inl e, s)
    \<and> close_shell auth session s = (Inl e, s)
    \<and> stream_shell auth session s = (Inl e, s)"
  using assms
  by (cases "shell_sessions s session")
    (simp_all add: send_input_def close_shell_def stream_shell_def and_then_authorize)

definition shell_state :: app_state where
  "shell_state = some_state\<lparr>shell_sessions := [9 \<mapsto> \<lparr>sm_owner_id = 1, sm_device_id = 7\<rparr>],
     shell_broadcasts := [9 \<mapsto> []]\<rparr>"

theorem shell_access_control_witness:
  "\<exists>e. send_input \<lparr>au_user_id = 2, au_username = ''eve'', au_role = ''viewer''\<rparr> 9 ''ls'' shell_state
     = (Inl e, shell_state)"
proof -
  have "\<not> may_use shell_state \<lparr>au_user_id = 2, au_username = ''eve'', au_role = ''viewer''\<rparr> 9"
    by (simp add: may_use_def shell_state_def is_admin_def)
  from shell_access_control [OF this] show ?thesis by blast
qed

text \<open>
  An admin's open on a reachable device sends it one open message and yields a fresh
  session owned by that admin on that device, whose output can be streamed from the start;
  on an unreachable device it is not found, with no session or channel left behind.
\<close>

theorem open_shell_effect:
  assumes "is_admin auth" and "shell_sessions s (rng s (rng_pos s)) = None"
    and "shell_broadcasts s (rng s (rng_pos s)) = None" and "i = rng s (rng_pos s)"
  shows "if reachable_agent s device
    then \<exists>t. open_shell auth device s = (Inr (i, device), t)
      \<and> shell_sessions t = (shell_sessions s)(i \<mapsto> \<lparr>sm_owner_id = au_user_id auth, sm_device_id = device\<rparr>)
      \<and> agent_queue t device = agent_queue s device @ [OpenShell i]
      \<and> stream_shell auth i t = (Inr 0, t)
    else \<exists>t. open_shell auth device s = (Inl (not_connected device), t)
      \<and> shell_sessions t = shell_sessions s \<and> shell_broadcasts t = shell_broadcasts s
      \<and> agent_queue t = agent_queue s"
proof -
  let ?u = "s\<lparr>rng_pos := Suc (rng_pos s), shell_broadcasts := (shell_broadcasts s)(i \<mapsto> [])\<rparr>"
  let ?v = "snd (send_to_agent device (OpenShell i) ?u)"
  have q: "agent_queue ?u k = agent_queue s k" "reachable_agent ?u k = reachable_agent s k" for k
    by (simp_all add: agent_queue_def reachable_agent_def)
  have v: "shell_sessions ?v = shell_sessions s" "shell_broadcasts ?v = (shell_broadcasts s)(i \<mapsto> [])"
    by (auto simp: send_to_agent_def split: option.splits)
  have qv: "agent_queue ?v k = agent_queue s k @ (if k = device \<and> reachable_agent s device then [OpenShell i] else [])" for k
    by (simp add: send_queue q)
  have start: "open_shell auth device s = and_then (if \<not> reachable_agent s device
         then and_then (set_broadcast i None) (\<lambda>_. raise (not_connected device)) else ret ()) (\<lambda>_.
     and_then (set_session i (Some \<lparr>sm_owner_id = au_user_id auth, sm_device_id = device\<rparr>)) (\<lambda>_.
     ret (i, device))) ?v"
    using assms(1,4) q
    by (simp add: open_shell_def require_admin_def action_simps set_broadcast_def)
  show ?thesis
  proof (cases "reachable_agent s device")
    case True
    let ?t = "?v\<lparr>shell_sessions := (shell_sessions ?v)(i \<mapsto> \<lparr>sm_owner_id = au_user_id auth, sm_device_id = device\<rparr>)\<rparr>"
    have "open_shell auth device s = (Inr (i, device), ?t)"
      by (simp add: start True set_session_def action_simps)
    moreover have "stream_shell auth i ?t = (Inr 0, ?t)"
      by (simp add: stream_shell_def and_then_authorize may_use_def v action_simps)
    moreover have "agent_queue ?t device = agent_queue s device @ [OpenShell i]"
      using qv [of device] True by (simp add: agent_queue_def)
    ultimately show ?thesis using True v by auto
  next
    case False
    let ?t = "?v\<lparr>shell_broadcasts := (shell_broadcasts ?v)(i := None)\<rparr>"
    have "open_shell auth device s = (Inl (not_connected device), ?t)"
      by (simp add: start False set_broadcast_def action_simps and_then_assoc)
    moreover have "agent_queue ?t = agent_queue s"
      using qv False by (auto simp: agent_queue_def fun_eq_iff)
    moreover have "shell_broadcasts ?t = shell_broadcasts s"
      using v assms(3,4) by auto
    moreover have "shell_sessions ?t = shell_sessions s" using v by simp
    ultimately show ?thesis using False by auto
  qed
qed

theorem open_shell_effect_witness:
  "\<exists>t. open_shell \<lparr>au_user_id = 1, au_username = ''root'', au_role = ''admin''\<rparr> 7 some_state = (Inr (100, 7), t)
    \<and> agent_queue t 7 = [OpenShell 100]"
proof -
  have r: "reachable_agent some_state 7" "agent_queue some_state 7 = []" "is_admin
      \<lparr>au_user_id = 1, au_username = ''root'', au_role = ''admin''\<rparr>"
    by (simp_all add: reachable_agent_def agent_queue_def some_state_def is_admin_def)
  have g: "shell_sessions some_state (rng some_state (rng_pos some_state)) = None"
    "shell_broadcasts some_state (rng some_state (rng_pos some_state)) = None"
    "100 = rng some_state (rng_pos some_state)" by (simp_all add: sample_defs)
  from open_shell_effect [OF r(3) g, of 7, unfolded if_P [OF r(1)]]
  show ?thesis unfolding r(2) by auto
qed

text \<open>Closing removes the session but not its channel, which stays until the agent reports the end.\<close>

lemma close_shell_keeps_channel:
  assumes "close_shell auth session s = (Inr r, t)"
  shows "shell_sessions t session = None \<and> shell_broadcasts t = shell_broadcasts s"
proof -
  have b: "shell_broadcasts (snd (send_to_agent i m s)) = shell_broadcasts s" for i m
    by (auto simp: send_to_agent_def split: option.splits)
  show ?thesis
  proof (cases "shell_sessions s session")
    case None
    with assms show ?thesis by (simp add: close_shell_def and_then_authorize)
  next
    case (Some meta)
    with assms have "may_use s auth session"
      by (simp add: close_shell_def and_then_authorize split: if_splits)
    moreover have "reachable_agent s (sm_device_id meta)"
    proof (rule ccontr)
      assume "\<not> reachable_agent s (sm_device_id meta)"
      with assms Some \<open>may_use s auth session\<close> show False
        by (simp add: close_shell_def and_then_authorize and_then_send action_simps)
    qed
    ultimately have "t = (snd (send_to_agent (sm_device_id meta) (CloseShell session) s))
        \<lparr>shell_sessions := (shell_sessions (snd (send_to_agent (sm_device_id meta) (CloseShell session) s)))(session := None)\<rparr>"
      using assms Some
      by (simp add: close_shell_def and_then_authorize and_then_send set_session_def action_simps)
    then show ?thesis by (simp add: b)
  qed
qed

end
