(* ===== verification/Reports_Api.thy ===== *)
theory Reports_Api
  imports Devices_Api
begin

section \<open>Reports, patches, software and settings\<close>

text \<open>
  The read-only endpoints: \<^verbatim>\<open>api/reports.rs\<close>, \<^verbatim>\<open>api/patches.rs\<close>, \<^verbatim>\<open>api/software.rs\<close> and
  \<^verbatim>\<open>api/settings.rs\<close>.
\<close>

record fleet_report =
  fr_total :: int
  fr_compliant :: int
  fr_non_compliant :: int
  fr_rate :: f64
  fr_recent :: "compliance_row list"

definition fleet_compliance :: "auth_user \<Rightarrow> fleet_report handler" where
  "fleet_compliance auth =
     and_then (select (\<lambda>d. int (length (compliance_reports d)))) (\<lambda>tot.
     and_then (select (\<lambda>d. int (count_where cr_compliant (compliance_reports d)))) (\<lambda>compliant.
     and_then (select (\<lambda>d. take 20 (order_desc_nulls cr_reported_at
       (filter (\<lambda>c. \<not> cr_compliant c) (compliance_reports d))))) (\<lambda>recent.
     ret \<lparr>fr_total = tot, fr_compliant = compliant, fr_non_compliant = tot - compliant,
       fr_rate = (if 0 < tot
         then f64_mul (f64_div (f64_of_int compliant) (f64_of_int tot)) (F_fin 100) else F_fin 100),
       fr_recent = recent\<rparr>)))"

record device_report =
  dr_device_id :: uuid
  dr_total :: nat
  dr_compliant :: nat
  dr_non_compliant :: nat
  dr_reports :: "compliance_row list"

definition device_compliance :: "auth_user \<Rightarrow> uuid \<Rightarrow> device_report handler" where
  "device_compliance auth i =
     and_then (select (\<lambda>d. order_desc_nulls cr_reported_at
       (filter (\<lambda>c. cr_device_id c = i) (compliance_reports d)))) (\<lambda>reports.
     let c = length (filter cr_compliant reports) in
     ret \<lparr>dr_device_id = i, dr_total = length reports, dr_compliant = c,
       dr_non_compliant = length reports - c, dr_reports = reports\<rparr>)"

record patch_status =
  ps_device_id :: uuid
  ps_pending_count :: nat
  ps_patches :: "patch_row list"

definition device_patch_status :: "auth_user \<Rightarrow> uuid \<Rightarrow> patch_status handler" where
  "device_patch_status auth i =
     and_then (select (\<lambda>d. take 500 (order_desc_nulls pt_detected_at
       (filter (\<lambda>p. pt_device_id p = i) (patches d))))) (\<lambda>rows.
     ret \<lparr>ps_device_id = i, ps_pending_count = length (filter (\<lambda>p. pt_status p = ''pending'') rows),
       ps_patches = rows\<rparr>)"

record patch_summary =
  psum_total_devices :: nat
  psum_devices_with_pending :: nat
  psum_by_severity :: "(string option \<times> nat) list"

definition pending_by_severity :: "db \<Rightarrow> (string option \<times> nat) list" where
  "pending_by_severity d = (let rows = filter (\<lambda>p. pt_status p = ''pending'') (patches d) in
     map (\<lambda>sev. (sev, length (filter (\<lambda>p. pt_severity p = sev) rows))) (remdups (map pt_severity rows)))"

definition fleet_patch_summary :: "auth_user \<Rightarrow> patch_summary handler" where
  "fleet_patch_summary auth =
     and_then (select (\<lambda>d. length (devices d))) (\<lambda>n.
     and_then (select (\<lambda>d. length (remdups (map pt_device_id
       (filter (\<lambda>p. pt_status p = ''pending'') (patches d)))))) (\<lambda>pending.
     and_then (select pending_by_severity) (\<lambda>sevs.
     ret \<lparr>psum_total_devices = n, psum_devices_with_pending = pending, psum_by_severity = sevs\<rparr>)))"

definition list_device_software :: "ext \<Rightarrow> auth_user \<Rightarrow> uuid \<Rightarrow> software_row list handler" where
  "list_device_software E auth i = select (\<lambda>d. order_asc (\<lambda>r. collation_rank E (sw_name r))
     (filter (\<lambda>r. sw_device_id r = i) (installed_software d)))"

record settings_view =
  sv_server_port :: u16
  sv_server_url :: string
  sv_tls_configured :: bool
  sv_ca_initialized :: bool

definition get_settings :: "auth_user \<Rightarrow> settings_view handler" where
  "get_settings auth = gets (\<lambda>s. \<lparr>sv_server_port = server_port (cfg s), sv_server_url = server_url (cfg s),
     sv_tls_configured = (tls_cert_path (cfg s) \<noteq> None), sv_ca_initialized = (ca_of s \<noteq> None)\<rparr>)"

record status_view =
  stv_total_devices :: nat
  stv_online_devices :: nat
  stv_connected_agents :: nat
  stv_total_users :: nat
  stv_total_policies :: nat
  stv_pending_jobs :: nat

definition server_status :: "auth_user \<Rightarrow> status_view handler" where
  "server_status auth =
     and_then (select (\<lambda>d. length (devices d))) (\<lambda>total_devices.
     and_then (select (\<lambda>d. count_where (\<lambda>r. d_status r = ''online'') (devices d))) (\<lambda>online.
     and_then (select (\<lambda>d. length (users d))) (\<lambda>total_users.
     and_then (select (\<lambda>d. length (policies d))) (\<lambda>total_policies.
     and_then (select (\<lambda>d. count_where (\<lambda>j. j_status j \<in> {''pending'', ''dispatched''}) (jobs d))) (\<lambda>pending.
     and_then (gets (\<lambda>s. card (dom (connected_agents s)))) (\<lambda>agents.
     ret \<lparr>stv_total_devices = total_devices, stv_online_devices = online, stv_connected_agents = agents,
       stv_total_users = total_users, stv_total_policies = total_policies, stv_pending_jobs = pending\<rparr>))))))"

text \<open>The groups of pending patches partition them: their counts add up to the pending patches.\<close>

lemma count_groups:
  "sum_list (map (\<lambda>v. length (filter (\<lambda>x. f x = v) xs)) (remdups (map f xs))) = length xs"
proof -
  have "sum_list (map (\<lambda>v. length (filter (\<lambda>x. f x = v) xs)) (remdups (map f xs)))
      = (\<Sum>v \<in> set (map f xs). length (filter (\<lambda>x. f x = v) xs))"
    by (simp add: sum_list_distinct_conv_sum_set)
  also have "\<dots> = length xs"
  proof (induction xs)
    case (Cons x xs)
    have "(\<Sum>v \<in> set (map f (x # xs)). length (filter (\<lambda>y. f y = v) (x # xs)))
        = (\<Sum>v \<in> insert (f x) (f ` set xs). (if f x = v then 1 else 0) + length (filter (\<lambda>y. f y = v) xs))"
      by (intro sum.cong) auto
    also have "\<dots> = 1 + (\<Sum>v \<in> insert (f x) (f ` set xs). length (filter (\<lambda>y. f y = v) xs))"
      by (simp add: sum.distrib)
    also have "(\<Sum>v \<in> insert (f x) (f ` set xs). length (filter (\<lambda>y. f y = v) xs))
        = (\<Sum>v \<in> f ` set xs. length (filter (\<lambda>y. f y = v) xs))"
    proof (cases "f x \<in> f ` set xs")
      case False
      then have "y \<in> set xs \<Longrightarrow> f y \<noteq> f x" for y by (metis imageI)
      then have "filter (\<lambda>y. f y = f x) xs = []" by (simp add: filter_empty_conv)
      with False show ?thesis by simp
    qed (simp add: insert_absorb)
    finally show ?case using Cons.IH by simp
  qed simp
  finally show ?thesis .
qed

text \<open>
  The fleet patch summary is consistent: the per-severity counts are positive, name each
  severity once and add up to the number of pending patches, and the device count is the
  number of devices that have a pending patch.
\<close>

theorem patch_summary_consistent:
  assumes "fleet_patch_summary auth s = (Inr r, t)"
  shows "sum_list (map snd (psum_by_severity r)) = count_where (\<lambda>p. pt_status p = ''pending'') (patches (db s))
    \<and> distinct (map fst (psum_by_severity r))
    \<and> list_all (\<lambda>(_, n). 0 < n) (psum_by_severity r)
    \<and> psum_devices_with_pending r = card {pt_device_id p | p. p \<in> set (patches (db s)) \<and> pt_status p = ''pending''}"
proof -
  let ?rows = "filter (\<lambda>p. pt_status p = ''pending'') (patches (db s))"
  have r: "psum_by_severity r = pending_by_severity (db s)"
    "psum_devices_with_pending r = length (remdups (map pt_device_id ?rows))"
    using assms by (auto simp: fleet_patch_summary_def ok_simps)
  have "length (remdups (map pt_device_id ?rows)) = card (set (map pt_device_id ?rows))"
    by (rule length_remdups_card_conv)
  also have "set (map pt_device_id ?rows) = {pt_device_id p | p. p \<in> set (patches (db s)) \<and> pt_status p = ''pending''}"
    by auto
  finally have "psum_devices_with_pending r = card {pt_device_id p | p. p \<in> set (patches (db s)) \<and> pt_status p = ''pending''}"
    using r(2) by simp
  moreover have "sum_list (map snd (pending_by_severity (db s))) = length ?rows"
    using count_groups [of pt_severity ?rows] by (simp add: pending_by_severity_def Let_def comp_def)
  moreover have "distinct (map fst (pending_by_severity (db s)))"
    by (simp add: pending_by_severity_def Let_def comp_def)
  moreover have "list_all (\<lambda>(_, n). 0 < n) (pending_by_severity (db s))"
    by (auto simp: pending_by_severity_def Let_def list_all_iff filter_empty_conv)
  ultimately show ?thesis by (simp add: r(1) count_where_def)
qed

theorem patch_summary_consistent_witness:
  "\<exists>r t. fleet_patch_summary \<lparr>au_user_id = 2, au_username = ''eve'', au_role = ''viewer''\<rparr> some_state = (Inr r, t)
    \<and> sum_list (map snd (psum_by_severity r)) = 0"
proof -
  let ?a = "\<lparr>au_user_id = 2, au_username = ''eve'', au_role = ''viewer''\<rparr>"
  obtain r t where f: "fleet_patch_summary ?a some_state = (Inr r, t)"
    by (simp add: fleet_patch_summary_def action_simps)
  have "count_where (\<lambda>p. pt_status p = ''pending'') (patches (db some_state)) = 0"
    by (simp add: sample_defs count_where_def)
  with patch_summary_consistent [OF f] f show ?thesis by auto
qed

end
