(* ===== verification/Agent_Hub.thy ===== *)
theory Agent_Hub
  imports Policies_Api Jobs_Api Alerts Shell_Api
begin

section \<open>The agent hub\<close>

text \<open>
  \<^verbatim>\<open>ws/agent_hub.rs\<close>: authentication of an agent's WebSocket, the life cycle of a
  connection and the processing of each message.  Errors inside the processing of a message
  are logged and dropped, so every message is an action that returns.  The task spawned
  when a connection opens is run before the first message is read.
\<close>

definition MAX_EVENTS_PER_BATCH :: nat where
  "MAX_EVENTS_PER_BATCH = 1000"

subsection \<open>Authentication\<close>

definition constant_time_eq :: "string \<Rightarrow> string \<Rightarrow> bool" where
  "constant_time_eq a b = (if length a \<noteq> length b then False else list_all2 (=) a b)"

definition presented_token :: "headers \<Rightarrow> string option" where
  "presented_token h = (case h ''Authorization'' of
     Some (Visible v) \<Rightarrow> strip_prefix ''Bearer '' v | _ \<Rightarrow> None)"

definition stored_token_hash :: "uuid \<Rightarrow> db \<Rightarrow> string option" where
  "stored_token_hash i d = (case device_by_id i d of None \<Rightarrow> None | Some r \<Rightarrow> d_auth_token_hash r)"

definition authenticate_agent :: "ext \<Rightarrow> uuid \<Rightarrow> headers \<Rightarrow> bool handler" where
  "authenticate_agent E i h = (case presented_token h of
     None \<Rightarrow> ret False
   | Some token \<Rightarrow>
       and_then (or_default None (select (stored_token_hash i))) (\<lambda>stored.
       case stored of
         Some hash \<Rightarrow> ret (constant_time_eq hash (sha256_hex E token))
       | None \<Rightarrow> ret False))"

subsection \<open>Inventory\<close>

definition coerce_severity :: "string option \<Rightarrow> string" where
  "coerce_severity sev = (case map_option to_lowercase sev of
     Some v \<Rightarrow> if v = ''critical'' then ''critical'' else if v = ''important'' then ''important''
       else if v = ''moderate'' then ''moderate'' else if v = ''low'' then ''low'' else ''unknown''
   | None \<Rightarrow> ''unknown'')"

definition coerce_status :: "string \<Rightarrow> string" where
  "coerce_status st = (if st = ''installed'' then ''installed'' else if st = ''failed'' then ''failed''
     else ''pending'')"

definition insert_software :: "ext \<Rightarrow> uuid \<Rightarrow> software_item \<Rightarrow> unit handler" where
  "insert_software E i item =
     and_then fresh_uuid (\<lambda>k.
     perform_if (\<lambda>d. device_exists i d \<and> date_accepts E (si_install_date item)
         \<and> \<not> exists_where (\<lambda>r. sw_id r = k \<or> sw_device_id r = i \<and> sw_name r = si_name item) (installed_software d))
       ''installed_software''
       (\<lambda>d. ((), d\<lparr>installed_software := installed_software d @ [\<lparr>sw_id = k, sw_device_id = i,
          sw_name = si_name item, sw_version = si_version item, sw_publisher = si_publisher item,
          sw_install_date = si_install_date item\<rparr>]\<rparr>)))"

definition upsert_patch_row :: "uuid \<Rightarrow> patch_item \<Rightarrow> time \<Rightarrow> db \<Rightarrow> db" where
  "upsert_patch_row i p now d =
     (if exists_where (\<lambda>r. pt_device_id r = i \<and> pt_patch_id r = pi_patch_id p) (patches d)
      then d\<lparr>patches := upd_where (\<lambda>r. pt_device_id r = i \<and> pt_patch_id r = pi_patch_id p)
        (\<lambda>r. r\<lparr>pt_title := pi_title p, pt_severity := Some (coerce_severity (pi_severity p)),
           pt_status := coerce_status (pi_status p)\<rparr>) (patches d)\<rparr>
      else d\<lparr>patches := patches d @ [\<lparr>pt_device_id = i, pt_patch_id = pi_patch_id p, pt_title = pi_title p,
        pt_severity = Some (coerce_severity (pi_severity p)), pt_status = coerce_status (pi_status p),
        pt_detected_at = Some now\<rparr>]\<rparr>)"

definition upsert_patch :: "uuid \<Rightarrow> patch_item \<Rightarrow> unit handler" where
  "upsert_patch i p =
     and_then (gets wall_ms) (\<lambda>now.
     perform_if (device_exists i) ''patches'' (\<lambda>d. ((), upsert_patch_row i p now d)))"

definition persist_inventory ::
  "ext \<Rightarrow> uuid \<Rightarrow> software_item list \<Rightarrow> patch_item list \<Rightarrow> unit handler" where
  "persist_inventory E i software ps = transaction (
     and_then (perform (\<lambda>d. d\<lparr>installed_software :=
       del_where (\<lambda>r. sw_device_id r = i) (installed_software d)\<rparr>)) (\<lambda>_.
     and_then (for_each software (insert_software E i)) (\<lambda>_.
     for_each ps (upsert_patch i))))"

subsection \<open>Messages\<close>

definition event_type_of :: "system_event \<Rightarrow> string" where
  "event_type_of e = (case e of
     ProcessStarted _ _ _ _ _ _ \<Rightarrow> ''process_started''
   | ProcessExited _ _ _ \<Rightarrow> ''process_exited''
   | FileAccessed _ _ _ _ \<Rightarrow> ''file_accessed''
   | NetworkConnected _ _ _ _ _ \<Rightarrow> ''network_connected''
   | RegistryChanged _ _ _ _ \<Rightarrow> ''registry_changed'')"

definition insert_metrics :: "uuid \<Rightarrow> telemetry_snapshot \<Rightarrow> unit handler" where
  "insert_metrics i t =
     and_then (gets wall_ms) (\<lambda>now.
     perform_if (device_exists i) ''device_metrics''
       (\<lambda>d. ((), d\<lparr>device_metrics := device_metrics d @ [\<lparr>m_device_id = i, m_time = now,
          m_cpu_pct = Some (cpu_pct t), m_ram_used_mb = Some (ram_used_mb t),
          m_ram_total_mb = Some (ram_total_mb t), m_disk_used_gb = Some (disk_used_gb t),
          m_disk_total_gb = Some (disk_total_gb t), m_uptime_secs = Some (uptime_secs t)\<rparr>]\<rparr>)))"

definition insert_event_row :: "uuid \<Rightarrow> system_event \<Rightarrow> unit handler" where
  "insert_event_row i e =
     and_then (gets wall_ms) (\<lambda>now.
     perform_if (device_exists i) ''kernel_events''
       (\<lambda>d. ((), d\<lparr>kernel_events := kernel_events d @ [\<lparr>ke_device_id = i, ke_time = now,
          ke_event_type = event_type_of e, ke_payload = enc_event e\<rparr>]\<rparr>)))"

definition insert_job_log :: "uuid \<Rightarrow> string \<Rightarrow> string \<Rightarrow> unit handler" where
  "insert_job_log job line stream =
     and_then (gets wall_ms) (\<lambda>now.
     perform_if (\<lambda>d. exists_where (\<lambda>j. j_id j = job) (jobs d) \<and> stream \<in> {''stdout'', ''stderr''})
       ''job_logs''
       (\<lambda>d. ((), d\<lparr>job_logs := job_logs d @ [\<lparr>jl_job_id = job, jl_time = Some now, jl_line = line,
          jl_stream = stream\<rparr>]\<rparr>)))"

definition complete_job :: "uuid \<Rightarrow> i32 \<Rightarrow> unit handler" where
  "complete_job job exit_code =
     and_then (gets wall_ms) (\<lambda>now.
     set_job job (\<lambda>j. j\<lparr>j_status := (if exit_code = 0 then ''completed'' else ''failed''),
       j_exit_code := Some exit_code, j_finished_at := Some now\<rparr>))"

definition upsert_report_row :: "uuid \<Rightarrow> uuid \<Rightarrow> bool \<Rightarrow> json \<Rightarrow> time \<Rightarrow> uuid \<Rightarrow> db \<Rightarrow> db" where
  "upsert_report_row i p ok detail now k d =
     (if exists_where (\<lambda>r. cr_device_id r = i \<and> cr_policy_id r = p) (compliance_reports d)
      then d\<lparr>compliance_reports := upd_where (\<lambda>r. cr_device_id r = i \<and> cr_policy_id r = p)
        (\<lambda>r. r\<lparr>cr_compliant := ok, cr_detail := Some detail, cr_reported_at := Some now\<rparr>)
        (compliance_reports d)\<rparr>
      else d\<lparr>compliance_reports := compliance_reports d @ [\<lparr>cr_id = k, cr_device_id = i, cr_policy_id = p,
        cr_compliant = ok, cr_detail = Some detail, cr_reported_at = Some now\<rparr>]\<rparr>)"

definition upsert_report :: "ext \<Rightarrow> uuid \<Rightarrow> compliance_report \<Rightarrow> unit handler" where
  "upsert_report E i r =
     and_then (gets wall_ms) (\<lambda>now.
     and_then fresh_uuid (\<lambda>k.
     perform_if (\<lambda>d. device_exists i d \<and> exists_where (\<lambda>p. p_id p = rep_policy_id r) (policies d)
         \<and> \<not> exists_where (\<lambda>c. cr_id c = k) (compliance_reports d))
       ''compliance_reports''
       (\<lambda>d. ((), upsert_report_row i (rep_policy_id r) (rep_compliant r)
          (enc_report (uuid_text E) r) now k d))))"

definition set_device :: "uuid \<Rightarrow> (device_row \<Rightarrow> device_row) \<Rightarrow> unit handler" where
  "set_device i f = perform (\<lambda>d. d\<lparr>devices := upd_where (\<lambda>r. d_id r = i) f (devices d)\<rparr>)"

definition process_agent_message :: "ext \<Rightarrow> uuid \<Rightarrow> agent_message \<Rightarrow> unit handler" where
  "process_agent_message E i msg = (case msg of
     AHeartbeat version \<Rightarrow>
       and_then (gets wall_ms) (\<lambda>now.
       ignore (set_device i (\<lambda>r. r\<lparr>d_last_seen := Some now, d_agent_version := Some version,
         d_status := ''online''\<rparr>)))
   | TelemetryReport t \<Rightarrow>
       and_then (ignore (insert_metrics i t)) (\<lambda>_.
       check_alerts E i)
   | SystemEventBatch events \<Rightarrow>
       for_each (if MAX_EVENTS_PER_BATCH < length events then take MAX_EVENTS_PER_BATCH events else events)
         (\<lambda>e. ignore (insert_event_row i e))
   | JobLog job line stream \<Rightarrow> ignore (insert_job_log job line stream)
   | JobCompleted job exit_code \<Rightarrow> ignore (complete_job job exit_code)
   | ComplianceReport reports \<Rightarrow> for_each reports (\<lambda>r. ignore (upsert_report E i r))
   | InventoryReport software ps \<Rightarrow> ignore (persist_inventory E i software ps)
   | ShellOutput session data \<Rightarrow>
       modify (publish \<lparr>se_session_id = session, se_data = data, se_closed = False, se_exit_code = None\<rparr>)
   | ShellClosed session exit_code \<Rightarrow>
       and_then (modify (publish \<lparr>se_session_id = session, se_data = [], se_closed = True,
         se_exit_code = exit_code\<rparr>)) (\<lambda>_.
       and_then (set_broadcast session None) (\<lambda>_.
       set_session session None)))"

subsection \<open>The life of a connection\<close>

datatype ws_frame = FText string | FPing | FClose | FOther | FError

definition register_agent :: "uuid \<Rightarrow> unit handler" where
  "register_agent i = modify (\<lambda>s. s\<lparr>connected_agents := (connected_agents s)(i \<mapsto>
     \<lparr>ac_device_id = i, ac_connected_at = wall_ms s, ac_queue = [], ac_alive = True\<rparr>)\<rparr>)"

definition open_connection :: "ext \<Rightarrow> uuid \<Rightarrow> bool handler" where
  "open_connection E i =
     and_then (or_default False (select (device_exists i))) (\<lambda>exists.
     if \<not> exists then ret False
     else
       and_then (register_agent i) (\<lambda>_.
       and_then (gets wall_ms) (\<lambda>now.
       and_then (ignore (set_device i (\<lambda>r. r\<lparr>d_status := ''online'', d_last_seen := Some now\<rparr>))) (\<lambda>_.
       and_then (dispatch_pending_jobs E i) (\<lambda>_.
       and_then (push_policies_to_device i) (\<lambda>_.
       and_then (ignore (send_to_agent i RequestInventory)) (\<lambda>_.
       ret True)))))))"

fun read_loop :: "ext \<Rightarrow> uuid \<Rightarrow> ws_frame list \<Rightarrow> unit handler" where
  "read_loop E i [] = ret ()"
| "read_loop E i (FText text # fs) =
     (case Option.bind (json_parse E text) (dec_agent_message (uuid_parse E)) of
        Some msg \<Rightarrow> and_then (process_agent_message E i msg) (\<lambda>_. read_loop E i fs)
      | None \<Rightarrow> read_loop E i fs)"
| "read_loop E i (FPing # fs) = read_loop E i fs"
| "read_loop E i (FOther # fs) = read_loop E i fs"
| "read_loop E i (FClose # fs) = ret ()"
| "read_loop E i (FError # fs) = ret ()"

definition close_connection :: "uuid \<Rightarrow> unit handler" where
  "close_connection i =
     and_then (modify (disconnect_agent i)) (\<lambda>_.
     ignore (set_device i (\<lambda>r. r\<lparr>d_status := ''offline''\<rparr>)))"

definition handle_agent_connection :: "ext \<Rightarrow> uuid \<Rightarrow> ws_frame list \<Rightarrow> unit handler" where
  "handle_agent_connection E i frames =
     and_then (open_connection E i) (\<lambda>opened.
     if \<not> opened then ret ()
     else
       and_then (read_loop E i frames) (\<lambda>_.
       close_connection i))"

definition ws_handler :: "ext \<Rightarrow> uuid \<Rightarrow> headers \<Rightarrow> ws_frame list \<Rightarrow> unit handler" where
  "ws_handler E i h frames =
     and_then (authenticate_agent E i h) (\<lambda>ok.
     and_then (guard ok (Unauthorized [Str ''invalid or missing device token''])) (\<lambda>_.
     handle_agent_connection E i frames))"

subsection \<open>Authentication\<close>

lemma constant_time_eq_iff [simp]: "constant_time_eq a b \<longleftrightarrow> a = b"
  by (auto simp: constant_time_eq_def list.rel_eq)

text \<open>
  C8.  An agent is let in only with a token whose hash is the one stored for the device it names;
  with no database fault every such token is let in.
\<close>

theorem authenticate_agent_iff:
  shows "(fst (authenticate_agent E i h s) = Inr True \<longrightarrow>
      (\<exists>tok. presented_token h = Some tok \<and> stored_token_hash i (db s) = Some (sha256_hex E tok)))
    \<and> (faults s = [] \<longrightarrow> authenticate_agent E i h s =
      (Inr (\<exists>tok. presented_token h = Some tok \<and> stored_token_hash i (db s) = Some (sha256_hex E tok)), s))"
proof (cases "presented_token h")
  case None
  then show ?thesis by (simp add: authenticate_agent_def action_simps)
next
  case (Some tok)
  have "fst (authenticate_agent E i h s) = Inr True \<longrightarrow> stored_token_hash i (db s) = Some (sha256_hex E tok)"
    using Some by (auto simp: authenticate_agent_def and_then_def or_default_def select_def exec_def
      Let_def ret_def split: option.splits)
  moreover have "faults s = [] \<longrightarrow> authenticate_agent E i h s =
      (Inr (stored_token_hash i (db s) = Some (sha256_hex E tok)), s)"
    using Some by (simp add: authenticate_agent_def action_simps split: option.split)
  ultimately show ?thesis using Some by auto
qed

theorem authenticate_agent_iff_witness:
  "authenticate_agent no_ext 7 [''Authorization'' \<mapsto> Visible ''Bearer tok''] some_state = (Inr True, some_state)"
proof -
  have p: "presented_token [''Authorization'' \<mapsto> Visible ''Bearer tok''] = Some ''tok''"
    by (simp add: presented_token_def strip_prefix_def starts_with_def)
  have "stored_token_hash 7 (db some_state) = Some (sha256_hex no_ext ''tok'')"
    by (simp add: stored_token_hash_def device_by_id_def sample_defs)
  then show ?thesis
    using authenticate_agent_iff [of no_ext 7 "[''Authorization'' \<mapsto> Visible ''Bearer tok'']" some_state] p
    by simp
qed

text \<open>
  C9.  Revocation: once a device was deleted successfully, its agent is out of reach of every
  send, all its certificates are revoked, and no token lets it in again, whatever time passes.
\<close>

theorem deleted_device_locked_out:
  assumes "delete_device auth i s = (Inr m, t)"
  shows "\<not> reachable_agent t i \<and> fst (authenticate_agent E i h (t\<lparr>wall_ms := w, faults := fs\<rparr>)) \<noteq> Inr True
    \<and> list_all (\<lambda>c. c_device_id c = i \<longrightarrow> c_revoked c) (certificates (db t))"
proof -
  have "stored_token_hash i (db t) = None"
    using delete_device_ok [OF assms] by (auto simp: stored_token_hash_def split: option.split)
  then have "fst (authenticate_agent E i h (t\<lparr>wall_ms := w, faults := fs\<rparr>)) \<noteq> Inr True"
    by (auto simp: authenticate_agent_def and_then_def or_default_def select_def exec_def
      Let_def ret_def split: option.splits)
  then show ?thesis
    using delete_device_db [OF assms] delete_device_revokes [OF assms] by (auto simp: list_all_iff)
qed

theorem deleted_device_locked_out_witness:
  "\<exists>t. delete_device \<lparr>au_user_id = 1, au_username = ''root'', au_role = ''admin''\<rparr> 7 some_state
      = (Inr ''Device revoked'', t)
    \<and> fst (authenticate_agent no_ext 7 [''Authorization'' \<mapsto> Visible ''Bearer tok''] (t\<lparr>wall_ms := 0, faults := []\<rparr>))
      \<noteq> Inr True"
proof -
  let ?a = "\<lparr>au_user_id = 1, au_username = ''root'', au_role = ''admin''\<rparr>"
  have "\<exists>t. delete_device ?a 7 some_state = (Inr ''Device revoked'', t)"
    by (simp add: delete_device_def require_admin_def is_admin_def action_simps device_exists_def sample_defs)
  then show ?thesis using deleted_device_locked_out by blast
qed

subsection \<open>Inventory\<close>

lemma transaction_ok:
  assumes "transaction m s = (Inr x, t)"
  obtains u v where "m u = (Inr x, v)" and "db u = db s" and "db t = db v"
  using assms
  by (auto simp: transaction_def and_then_def select_def exec_def Let_def
    split: prod.splits sum.splits if_splits)

definition software_fields :: "software_row \<Rightarrow> software_item" where
  "software_fields r = \<lparr>si_name = sw_name r, si_version = sw_version r, si_publisher = sw_publisher r,
     si_install_date = sw_install_date r\<rparr>"

lemma insert_all_software:
  "for_each sw (insert_software E i) u = (Inr (), v) \<Longrightarrow>
     \<exists>rows. db v = (db u)\<lparr>installed_software := installed_software (db u) @ rows\<rparr>
       \<and> map software_fields rows = sw \<and> (\<forall>r \<in> set rows. sw_device_id r = i)"
proof (induction sw arbitrary: u)
  case Nil
  then show ?case by (auto simp: ok_simps intro: exI [of _ "[]"])
next
  case (Cons item sw)
  then obtain w where w: "insert_software E i item u = (Inr (), w)"
    and rest: "for_each sw (insert_software E i) w = (Inr (), v)"
    by (auto simp: ok_simps)
  then obtain k where wd: "db w = (db u)\<lparr>installed_software := installed_software (db u) @ [\<lparr>sw_id = k,
      sw_device_id = i, sw_name = si_name item, sw_version = si_version item,
      sw_publisher = si_publisher item, sw_install_date = si_install_date item\<rparr>]\<rparr>"
    by (auto simp: insert_software_def ok_simps)
  from Cons.IH [OF rest] obtain rows where
    "db v = (db w)\<lparr>installed_software := installed_software (db w) @ rows\<rparr>"
    "map software_fields rows = sw" "\<forall>r \<in> set rows. sw_device_id r = i" by blast
  moreover have "software_fields \<lparr>sw_id = k, sw_device_id = i, sw_name = si_name item,
      sw_version = si_version item, sw_publisher = si_publisher item,
      sw_install_date = si_install_date item\<rparr> = item" by (simp add: software_fields_def)
  ultimately show ?case using wd
    by (intro exI [of _ "\<lparr>sw_id = k, sw_device_id = i, sw_name = si_name item,
      sw_version = si_version item, sw_publisher = si_publisher item,
      sw_install_date = si_install_date item\<rparr> # rows"]) simp
qed

text \<open>\<open>patch_as\<close>: the row that records a reported patch of the device.\<close>

definition patch_as :: "uuid \<Rightarrow> patch_item \<Rightarrow> patch_row \<Rightarrow> bool" where
  "patch_as i p r \<longleftrightarrow> pt_device_id r = i \<and> pt_patch_id r = pi_patch_id p \<and> pt_title r = pi_title p
     \<and> pt_severity r = Some (coerce_severity (pi_severity p)) \<and> pt_status r = coerce_status (pi_status p)"

lemma upsert_patch_frame: "upsert_patch_row i p now d = d\<lparr>patches := patches (upsert_patch_row i p now d)\<rparr>"
  by (simp add: upsert_patch_row_def)

lemma in_upd_where: "r \<in> set rows \<Longrightarrow> p r \<Longrightarrow> f r \<in> set (upd_where p f rows)"
  by (auto simp: upd_where_def)

lemma in_upd_where_other: "r \<in> set rows \<Longrightarrow> \<not> p r \<Longrightarrow> r \<in> set (upd_where p f rows)"
  by (auto simp: upd_where_def)

lemma filter_upd_where:
  "(\<And>r. p r \<Longrightarrow> \<not> q r \<and> \<not> q (f r)) \<Longrightarrow> filter q (upd_where p f rows) = filter q rows"
  by (induction rows) auto

lemma upsert_patch_self: "\<exists>r \<in> set (patches (upsert_patch_row i p now d)). patch_as i p r"
proof (cases "\<exists>r \<in> set (patches d). pt_device_id r = i \<and> pt_patch_id r = pi_patch_id p")
  case True
  then obtain r where r: "r \<in> set (patches d)" "pt_device_id r = i \<and> pt_patch_id r = pi_patch_id p" by blast
  let ?f = "\<lambda>r. r\<lparr>pt_title := pi_title p, pt_severity := Some (coerce_severity (pi_severity p)),
     pt_status := coerce_status (pi_status p)\<rparr>"
  have "?f r \<in> set (patches (upsert_patch_row i p now d))"
    using in_upd_where [of r "patches d" "\<lambda>r. pt_device_id r = i \<and> pt_patch_id r = pi_patch_id p" ?f] r True by (simp add: upsert_patch_row_def)
  moreover have "patch_as i p (?f r)" using r(2) by (simp add: patch_as_def)
  ultimately show ?thesis by blast
next
  case False
  then show ?thesis by (auto simp: upsert_patch_row_def patch_as_def)
qed

lemma upsert_patch_keeps:
  assumes "pi_patch_id q \<noteq> pi_patch_id p" and "\<exists>r \<in> set (patches d). patch_as i q r"
  shows "\<exists>r \<in> set (patches (upsert_patch_row i p now d)). patch_as i q r"
proof -
  obtain r where "r \<in> set (patches d)" "patch_as i q r" using assms(2) by blast
  with assms(1) have "r \<in> set (patches (upsert_patch_row i p now d))"
    by (auto simp: upsert_patch_row_def patch_as_def intro!: in_upd_where_other)
  with \<open>patch_as i q r\<close> show ?thesis by blast
qed

lemma upsert_patch_others:
  "filter (\<lambda>r. pt_device_id r \<noteq> i) (patches (upsert_patch_row i p now d)) = filter (\<lambda>r. pt_device_id r \<noteq> i) (patches d)"
  by (auto simp: upsert_patch_row_def intro!: filter_upd_where)

lemma patches_twice: "a = b\<lparr>patches := patches a\<rparr> \<Longrightarrow> c = a\<lparr>patches := patches c\<rparr> \<Longrightarrow> c = b\<lparr>patches := patches c\<rparr>"
  for a b c :: db
  by (cases a; cases b; cases c) simp

lemma upsert_all_patches:
  assumes "for_each ps (upsert_patch i) u = (Inr (), v)"
  shows "db v = (db u)\<lparr>patches := patches (db v)\<rparr>
    \<and> filter (\<lambda>r. pt_device_id r \<noteq> i) (patches (db v)) = filter (\<lambda>r. pt_device_id r \<noteq> i) (patches (db u))
    \<and> (distinct (map pi_patch_id ps) \<longrightarrow> (\<forall>p \<in> set ps. \<exists>r \<in> set (patches (db v)). patch_as i p r))
    \<and> (\<forall>q. pi_patch_id q \<notin> pi_patch_id ` set ps \<longrightarrow> (\<exists>r \<in> set (patches (db u)). patch_as i q r) \<longrightarrow>
         (\<exists>r \<in> set (patches (db v)). patch_as i q r))"
  using assms
proof (induction ps arbitrary: u)
  case Nil
  then show ?case by (simp add: ok_simps)
next
  case (Cons p ps)
  then obtain w where w: "upsert_patch i p u = (Inr (), w)"
    and rest: "for_each ps (upsert_patch i) w = (Inr (), v)"
    by (auto simp: ok_simps)
  then have wd: "db w = upsert_patch_row i p (wall_ms u) (db u)"
    by (auto simp: upsert_patch_def ok_simps)
  note ih = Cons.IH [OF rest]
  have frame: "db v = (db u)\<lparr>patches := patches (db v)\<rparr>"
  proof -
    have "db w = (db u)\<lparr>patches := patches (db w)\<rparr>"
      unfolding wd by (rule upsert_patch_frame)
    with ih show ?thesis by (metis patches_twice)
  qed
  have others: "filter (\<lambda>r. pt_device_id r \<noteq> i) (patches (db v)) = filter (\<lambda>r. pt_device_id r \<noteq> i) (patches (db u))"
    using ih wd upsert_patch_others by simp
  have self: "\<exists>r \<in> set (patches (db w)). patch_as i p r"
    using upsert_patch_self by (simp add: wd)
  have keep: "\<exists>r \<in> set (patches (db w)). patch_as i q r"
    if "pi_patch_id q \<noteq> pi_patch_id p" "\<exists>r \<in> set (patches (db u)). patch_as i q r" for q
    using upsert_patch_keeps [OF that] by (simp add: wd)
  have "\<forall>q \<in> set (p # ps). \<exists>r \<in> set (patches (db v)). patch_as i q r" if "distinct (map pi_patch_id (p # ps))"
    using ih self that by simp
  moreover have "\<exists>r \<in> set (patches (db v)). patch_as i q r"
    if "pi_patch_id q \<notin> pi_patch_id ` set (p # ps)" "\<exists>r \<in> set (patches (db u)). patch_as i q r" for q
    using ih keep [of q] that by simp
  ultimately show ?case using frame others by blast
qed

lemma coerce_severity_domain:
  "coerce_severity v \<in> {''critical'', ''important'', ''moderate'', ''low'', ''unknown''}"
  by (auto simp: coerce_severity_def split: option.splits)

lemma coerce_status_domain: "coerce_status v \<in> {''pending'', ''installed'', ''failed''}"
  by (auto simp: coerce_status_def)

text \<open>
  An inventory report is stored whole or not at all: on an error the database is as it was;
  on success the device's software is exactly the reported list, in order, every reported
  patch has a row with its severity and status brought into the column's domain, and
  the software and patches of other devices are as they were.
\<close>

theorem persist_inventory_atomic:
  assumes "persist_inventory E i software ps s = (r, t)"
  shows "case r of
      Inl e \<Rightarrow> db t = db s
    | Inr u \<Rightarrow>
        map software_fields (filter (\<lambda>q. sw_device_id q = i) (installed_software (db t))) = software
        \<and> filter (\<lambda>q. sw_device_id q \<noteq> i) (installed_software (db t)) = filter (\<lambda>q. sw_device_id q \<noteq> i) (installed_software (db s))
        \<and> (distinct (map pi_patch_id ps) \<longrightarrow> (\<forall>p \<in> set ps. \<exists>q \<in> set (patches (db t)). patch_as i p q
             \<and> the (pt_severity q) \<in> {''critical'', ''important'', ''moderate'', ''low'', ''unknown''}
             \<and> pt_status q \<in> {''pending'', ''installed'', ''failed''}))
        \<and> filter (\<lambda>q. pt_device_id q \<noteq> i) (patches (db t)) = filter (\<lambda>q. pt_device_id q \<noteq> i) (patches (db s))"
proof (cases r)
  case (Inl e)
  with assms show ?thesis by (simp add: persist_inventory_def transaction_error)
next
  case (Inr x)
  from assms Inr obtain u v where
    m: "(and_then (perform (\<lambda>d. d\<lparr>installed_software :=
       del_where (\<lambda>r. sw_device_id r = i) (installed_software d)\<rparr>)) (\<lambda>_.
     and_then (for_each software (insert_software E i)) (\<lambda>_.
     for_each ps (upsert_patch i)))) u = (Inr x, v)" and du: "db u = db s" and dt: "db t = db v"
    unfolding persist_inventory_def by (auto elim: transaction_ok)
  let ?a = "u\<lparr>faults := tl (faults u), db := (db s)\<lparr>installed_software :=
      del_where (\<lambda>r. sw_device_id r = i) (installed_software (db s))\<rparr>\<rparr>"
  from m obtain b' where "for_each software (insert_software E i) ?a = (Inr (), b')"
    and "for_each ps (upsert_patch i) b' = (Inr (), v)"
    by (auto simp: ok_simps du)
  moreover have "db ?a = (db s)\<lparr>installed_software := del_where (\<lambda>r. sw_device_id r = i) (installed_software (db s))\<rparr>"
    by simp
  ultimately obtain a b where
    a: "db a = (db s)\<lparr>installed_software := del_where (\<lambda>r. sw_device_id r = i) (installed_software (db s))\<rparr>"
    and b: "for_each software (insert_software E i) a = (Inr (), b)"
    and c: "for_each ps (upsert_patch i) b = (Inr (), v)"
    by blast
  from insert_all_software [OF b] obtain rows where
    rows: "db b = (db a)\<lparr>installed_software := installed_software (db a) @ rows\<rparr>"
      "map software_fields rows = software" "\<forall>r \<in> set rows. sw_device_id r = i" by blast
  note p = upsert_all_patches [OF c]
  have "db v = (db b)\<lparr>patches := patches (db v)\<rparr>" using p by blast
  from arg_cong [OF this, of installed_software]
  have pf: "installed_software (db v) = installed_software (db b)" "patches (db b) = patches (db s)"
    using a rows(1) by simp_all
  have f: "filter (\<lambda>q. sw_device_id q = i) rows = rows" "filter (\<lambda>q. sw_device_id q \<noteq> i) rows = []"
    using rows(3) by (simp_all add: filter_id_conv filter_empty_conv)
  have "map software_fields (filter (\<lambda>q. sw_device_id q = i) (installed_software (db t))) = software"
    using rows f by (simp add: dt pf a del_where_def)
  moreover have "filter (\<lambda>q. sw_device_id q \<noteq> i) (installed_software (db t)) = filter (\<lambda>q. sw_device_id q \<noteq> i) (installed_software (db s))"
    using rows f by (simp add: dt pf a del_where_def)
  moreover have "\<exists>q \<in> set (patches (db t)). patch_as i p q
             \<and> the (pt_severity q) \<in> {''critical'', ''important'', ''moderate'', ''low'', ''unknown''}
             \<and> pt_status q \<in> {''pending'', ''installed'', ''failed''}"
    if dst: "distinct (map pi_patch_id ps)" and mem: "p \<in> set ps" for p
  proof -
    have "\<exists>q \<in> set (patches (db t)). patch_as i p q" using p dst mem dt by simp
    then obtain q where "q \<in> set (patches (db t))" "patch_as i p q" by blast
    moreover from this have "the (pt_severity q) = coerce_severity (pi_severity p)" "pt_status q = coerce_status (pi_status p)"
      by (simp_all add: patch_as_def)
    ultimately show ?thesis using coerce_severity_domain coerce_status_domain by metis
  qed
  moreover have "filter (\<lambda>q. pt_device_id q \<noteq> i) (patches (db t)) = filter (\<lambda>q. pt_device_id q \<noteq> i) (patches (db s))"
    using p pf by (simp add: dt)
  ultimately show ?thesis using Inr by simp
qed

theorem persist_inventory_atomic_witness:
  "\<exists>t. persist_inventory no_ext 7 [\<lparr>si_name = ''vim'', si_version = None, si_publisher = None,
      si_install_date = None\<rparr>] [] some_state = (Inr (), t)
    \<and> map software_fields (filter (\<lambda>q. sw_device_id q = 7) (installed_software (db t))) =
      [\<lparr>si_name = ''vim'', si_version = None, si_publisher = None, si_install_date = None\<rparr>]"
proof -
  let ?sw = "[\<lparr>si_name = ''vim'', si_version = None, si_publisher = None, si_install_date = None\<rparr>]"
  have "\<exists>t. persist_inventory no_ext 7 ?sw [] some_state = (Inr (), t)"
    by (simp add: persist_inventory_def transaction_def and_then_def action_simps insert_software_def
      device_exists_def sample_defs fresh_uuid_def)
  then obtain t where t: "persist_inventory no_ext 7 ?sw [] some_state = (Inr (), t)" by blast
  from persist_inventory_atomic [OF this] t show ?thesis by auto
qed

subsection \<open>Processing a message\<close>

text \<open>A statement of a constraint changes nothing that its change does not.\<close>

lemma keeps_set_job: "(\<And>d rows. I d \<Longrightarrow> I (d\<lparr>jobs := rows\<rparr>)) \<Longrightarrow> keeps (\<lambda>s. I (db s)) (set_job i f)"
  unfolding set_job_def by (intro keeps_intro) simp

lemma keeps_insert_event:
  "(\<And>d rows. I d \<Longrightarrow> I (d\<lparr>alert_events := rows\<rparr>)) \<Longrightarrow> keeps (\<lambda>s. I (db s)) (insert_event r i v)"
  unfolding insert_event_def by (intro keeps_intro) simp

lemma keeps_emit: "keeps (\<lambda>s. I (db s)) (emit x)"
  by (simp add: keeps_def emit_def modify_def)

lemma keeps_notify: "keeps (\<lambda>s. I (db s)) (notify E e)"
  unfolding notify_def log_alert_def send_email_def send_webhook_def send_ntfy_def
  by (intro keeps_intro keeps_emit)

lemma keeps_check_alerts:
  "(\<And>d rows. I d \<Longrightarrow> I (d\<lparr>alert_events := rows\<rparr>)) \<Longrightarrow> keeps (\<lambda>s. I (db s)) (check_alerts E i)"
  unfolding check_alerts_def check_rule_def fetch_rules_def
  by (intro keeps_intro keeps_insert_event keeps_notify) simp_all

lemma keeps_no_db: "(\<And>s. db (f s) = db s) \<Longrightarrow> keeps (\<lambda>s. I (db s)) (modify f)"
  by (simp add: keeps_def modify_def)

lemma db_publish [simp]: "db (publish e s) = db s"
  by (simp add: publish_def split: option.split)

text \<open>
  What the tables hold of one device, its jobs apart: the row, samples, events, software,
  patches, compliance reports and alert events.
\<close>

definition rows_of_device :: "uuid \<Rightarrow> db \<Rightarrow> device_row option \<times> metric_row list \<times> kernel_event_row list
    \<times> software_row list \<times> patch_row list \<times> compliance_row list" where
  "rows_of_device j d = (device_by_id j d, filter (\<lambda>m. m_device_id m = j) (device_metrics d),
     filter (\<lambda>e. ke_device_id e = j) (kernel_events d), filter (\<lambda>r. sw_device_id r = j) (installed_software d),
     filter (\<lambda>p. pt_device_id p = j) (patches d), filter (\<lambda>c. cr_device_id c = j) (compliance_reports d))"

lemma device_by_id_other:
  assumes "j \<noteq> i" and "\<And>r. d_id (f r) = d_id r"
  shows "List.find (\<lambda>r. d_id r = j) (upd_where (\<lambda>r. d_id r = i) f rows) = List.find (\<lambda>r. d_id r = j) rows"
  using assms by (induction rows) auto

lemma rows_of_device_steps:
  assumes "j \<noteq> i"
  shows "(\<And>r. d_id (f r) = d_id r) \<Longrightarrow>
      rows_of_device j (d\<lparr>devices := upd_where (\<lambda>r. d_id r = i) f (devices d)\<rparr>) = rows_of_device j d"
    and "m_device_id m = i \<Longrightarrow> rows_of_device j (d\<lparr>device_metrics := device_metrics d @ [m]\<rparr>) = rows_of_device j d"
    and "ke_device_id e = i \<Longrightarrow> rows_of_device j (d\<lparr>kernel_events := kernel_events d @ [e]\<rparr>) = rows_of_device j d"
    and "sw_device_id r = i \<Longrightarrow> rows_of_device j (d\<lparr>installed_software := installed_software d @ [r]\<rparr>) = rows_of_device j d"
    and "rows_of_device j (d\<lparr>installed_software := del_where (\<lambda>r. sw_device_id r = i) (installed_software d)\<rparr>) = rows_of_device j d"
    and "rows_of_device j (upsert_patch_row i p now d) = rows_of_device j d"
    and "rows_of_device j (upsert_report_row i pol ok detail now k d) = rows_of_device j d"
    and "rows_of_device j (d\<lparr>alert_events := evs\<rparr>) = rows_of_device j d"
    and "rows_of_device j (d\<lparr>jobs := js\<rparr>) = rows_of_device j d"
    and "rows_of_device j (d\<lparr>job_logs := ls\<rparr>) = rows_of_device j d"
proof -
  show "rows_of_device j (d\<lparr>devices := upd_where (\<lambda>r. d_id r = i) f (devices d)\<rparr>) = rows_of_device j d"
    if "\<And>r. d_id (f r) = d_id r"
    using device_by_id_other [OF assms that] by (simp add: rows_of_device_def device_by_id_def)
  show "rows_of_device j (d\<lparr>installed_software := del_where (\<lambda>r. sw_device_id r = i) (installed_software d)\<rparr>) = rows_of_device j d"
    using assms by (auto simp: rows_of_device_def device_by_id_def del_where_def intro!: filter_cong)
  show "rows_of_device j (upsert_patch_row i p now d) = rows_of_device j d"
    using assms by (auto simp: rows_of_device_def device_by_id_def upsert_patch_row_def intro!: filter_upd_where)
  show "rows_of_device j (upsert_report_row i pol ok detail now k d) = rows_of_device j d"
    using assms by (auto simp: rows_of_device_def device_by_id_def upsert_report_row_def intro!: filter_upd_where)
qed (use assms in \<open>auto simp: rows_of_device_def device_by_id_def\<close>)

lemma keeps_rows_of_device:
  assumes "j \<noteq> i"
  shows "keeps (\<lambda>s. rows_of_device j (db s) = v) (process_agent_message E i msg)"
proof (cases msg)
  case (AHeartbeat x1)
  show ?thesis unfolding AHeartbeat process_agent_message_def set_device_def agent_message.case
    by (intro keeps_intro) (simp add: rows_of_device_steps [OF assms])
next
  case (TelemetryReport t)
  show ?thesis unfolding TelemetryReport process_agent_message_def insert_metrics_def agent_message.case
    by (intro keeps_intro keeps_check_alerts) (simp_all add: rows_of_device_steps [OF assms])
next
  case (SystemEventBatch es)
  show ?thesis unfolding SystemEventBatch process_agent_message_def insert_event_row_def agent_message.case
    by (intro keeps_intro) (simp add: rows_of_device_steps [OF assms])
next
  case (JobLog a b c)
  show ?thesis unfolding JobLog process_agent_message_def insert_job_log_def agent_message.case
    by (intro keeps_intro) (simp add: rows_of_device_steps [OF assms])
next
  case (JobCompleted a b)
  show ?thesis unfolding JobCompleted process_agent_message_def complete_job_def agent_message.case
    by (intro keeps_intro keeps_set_job) (simp add: rows_of_device_steps [OF assms])
next
  case (ComplianceReport rs)
  show ?thesis unfolding ComplianceReport process_agent_message_def upsert_report_def agent_message.case
    by (intro keeps_intro) (simp add: rows_of_device_steps [OF assms])
next
  case (InventoryReport sw ps)
  show ?thesis
    unfolding InventoryReport process_agent_message_def persist_inventory_def insert_software_def upsert_patch_def
      agent_message.case
    by (intro keeps_intro) (simp_all add: rows_of_device_steps [OF assms])
next
  case (ShellOutput a b)
  show ?thesis unfolding ShellOutput process_agent_message_def agent_message.case
    by (intro keeps_no_db) simp
next
  case (ShellClosed a b)
  show ?thesis
    unfolding ShellClosed process_agent_message_def agent_message.case set_broadcast_def set_session_def
    by (intro keeps_and_then keeps_no_db) simp_all
qed



text \<open>The job of any device is completed by any agent, and a cancelled job is completed again.\<close>

lemma job_completed_unchecked:
  assumes "faults s = []" and "job_by_id k (db s) = Some j"
  shows "\<exists>t. process_agent_message E i (JobCompleted k c) s = (Inr (), t)
    \<and> job_by_id k (db t) = Some (j\<lparr>j_status := (if c = 0 then ''completed'' else ''failed''),
        j_exit_code := Some c, j_finished_at := Some (wall_ms s)\<rparr>)"
proof -
  let ?f = "\<lambda>j. j\<lparr>j_status := (if c = 0 then ''completed'' else ''failed''), j_exit_code := Some c,
    j_finished_at := Some (wall_ms s)\<rparr>"
  have "job_by_id k ((db s)\<lparr>jobs := upd_where (\<lambda>j. j_id j = k) ?f (jobs (db s))\<rparr>)
      = map_option ?f (List.find (\<lambda>j. j_id j = k) (jobs (db s)))"
    unfolding job_by_id_def using find_upd_where [of "\<lambda>j. j_id j = k" ?f "jobs (db s)"] by simp
  then show ?thesis
    using assms by (simp add: process_agent_message_def complete_job_def action_simps ignore_def job_by_id_def)
qed

text \<open>
  A batch of system events of a known device, with no database fault, stores its first
  thousand events, in order, each with its kind and its JSON, and drops the rest.
\<close>

theorem event_batch_stored:
  assumes "faults s = []" and "device_exists i (db s)"
  shows "\<exists>t. process_agent_message E i (SystemEventBatch es) s = (Inr (), t)
    \<and> db t = (db s)\<lparr>kernel_events := kernel_events (db s) @ map (\<lambda>e. \<lparr>ke_device_id = i,
        ke_time = wall_ms s, ke_event_type = event_type_of e, ke_payload = enc_event e\<rparr>) (take 1000 es)\<rparr>"
proof -
  have loop: "\<exists>t. for_each es (\<lambda>e. ignore (insert_event_row i e)) s = (Inr (), t)
    \<and> db t = (db s)\<lparr>kernel_events := kernel_events (db s) @ map (\<lambda>e. \<lparr>ke_device_id = i,
        ke_time = wall_ms s, ke_event_type = event_type_of e, ke_payload = enc_event e\<rparr>) es\<rparr>"
    if "faults s = []" and "device_exists i (db s)" for es s
    using that
  proof (induction es arbitrary: s)
    case (Cons e es)
    let ?r = "\<lparr>ke_device_id = i, ke_time = wall_ms s, ke_event_type = event_type_of e, ke_payload = enc_event e\<rparr>"
    let ?u = "s\<lparr>db := (db s)\<lparr>kernel_events := kernel_events (db s) @ [?r]\<rparr>\<rparr>"
    have "insert_event_row i e s = (Inr (), ?u)"
      using Cons.prems by (simp add: insert_event_row_def action_simps)
    then show ?case
      using Cons.IH [of ?u] Cons.prems by (simp add: device_exists_def)
  qed (simp add: ret_def)
  have "(if MAX_EVENTS_PER_BATCH < length es then take MAX_EVENTS_PER_BATCH es else es) = take 1000 es"
    by (simp add: MAX_EVENTS_PER_BATCH_def)
  with loop [OF assms, of "take 1000 es"] show ?thesis by (simp add: process_agent_message_def)
qed

theorem event_batch_stored_witness:
  "\<exists>t. process_agent_message no_ext 7 (SystemEventBatch [ProcessExited 3 0 5]) some_state = (Inr (), t)
    \<and> map ke_event_type (kernel_events (db t)) = [''process_exited'']"
proof -
  have "device_exists 7 (db some_state)" by (simp add: device_exists_def sample_defs)
  with event_batch_stored [of some_state 7 no_ext "[ProcessExited 3 0 5]"] show ?thesis
    by (auto simp: event_type_of_def sample_defs)
qed

subsection \<open>Invariants of what agents report\<close>

text \<open>
  At most one compliance report per device and policy and one patch row per device and patch;
  patch severities, patch states and log streams lie in the domains of their columns.
\<close>

definition patch_domain_ok :: "patch_row \<Rightarrow> bool" where
  "patch_domain_ok p \<longleftrightarrow> pt_status p \<in> {''pending'', ''installed'', ''failed''}
     \<and> (case pt_severity p of None \<Rightarrow> False
        | Some v \<Rightarrow> v \<in> {''critical'', ''important'', ''moderate'', ''low'', ''unknown''})"

definition hub_ok :: "db \<Rightarrow> bool" where
  "hub_ok d \<longleftrightarrow> distinct (map (\<lambda>c. (cr_device_id c, cr_policy_id c)) (compliance_reports d))
     \<and> distinct (map (\<lambda>p. (pt_device_id p, pt_patch_id p)) (patches d))
     \<and> distinct (map (\<lambda>r. (sw_device_id r, sw_name r)) (installed_software d))
     \<and> list_all patch_domain_ok (patches d)
     \<and> list_all (\<lambda>l. jl_stream l \<in> {''stdout'', ''stderr''}) (job_logs d)"

lemma list_all_upd_where:
  "list_all q rows \<Longrightarrow> (\<And>r. q r \<Longrightarrow> q (f r)) \<Longrightarrow> list_all q (upd_where p f rows)"
  by (induction rows) auto

lemma coerced_domain_ok:
  "pt_severity r = Some (coerce_severity v) \<Longrightarrow> pt_status r = coerce_status w \<Longrightarrow> patch_domain_ok r"
  unfolding patch_domain_ok_def using coerce_severity_domain coerce_status_domain by simp

lemma hub_ok_patch:
  assumes "hub_ok d"
  shows "hub_ok (upsert_patch_row i p now d)"
proof (cases "\<exists>r \<in> set (patches d). pt_device_id r = i \<and> pt_patch_id r = pi_patch_id p")
  case True
  let ?f = "\<lambda>r. r\<lparr>pt_title := pi_title p, pt_severity := Some (coerce_severity (pi_severity p)),
     pt_status := coerce_status (pi_status p)\<rparr>"
  let ?new = "upd_where (\<lambda>r. pt_device_id r = i \<and> pt_patch_id r = pi_patch_id p) ?f (patches d)"
  have e: "upsert_patch_row i p now d = d\<lparr>patches := ?new\<rparr>"
    using True by (simp add: upsert_patch_row_def)
  have "map (\<lambda>p. (pt_device_id p, pt_patch_id p)) ?new = map (\<lambda>p. (pt_device_id p, pt_patch_id p)) (patches d)"
    by (rule map_upd_where) simp
  moreover have "list_all patch_domain_ok ?new"
    using assms by (intro list_all_upd_where) (auto simp: hub_ok_def intro: coerced_domain_ok)
  ultimately show ?thesis using assms unfolding e hub_ok_def by simp
next
  case False
  let ?r = "\<lparr>pt_device_id = i, pt_patch_id = pi_patch_id p, pt_title = pi_title p,
        pt_severity = Some (coerce_severity (pi_severity p)), pt_status = coerce_status (pi_status p),
        pt_detected_at = Some now\<rparr>"
  have e: "upsert_patch_row i p now d = d\<lparr>patches := patches d @ [?r]\<rparr>"
    using False by (auto simp: upsert_patch_row_def)
  have "patch_domain_ok ?r" by (rule coerced_domain_ok) simp_all
  then show ?thesis using assms False unfolding e hub_ok_def by auto
qed

lemma hub_ok_report:
  assumes "hub_ok d"
  shows "hub_ok (upsert_report_row i pol ok detail now k d)"
proof (cases "\<exists>r \<in> set (compliance_reports d). cr_device_id r = i \<and> cr_policy_id r = pol")
  case True
  let ?new = "upd_where (\<lambda>r. cr_device_id r = i \<and> cr_policy_id r = pol)
    (\<lambda>r. r\<lparr>cr_compliant := ok, cr_detail := Some detail, cr_reported_at := Some now\<rparr>) (compliance_reports d)"
  have e: "upsert_report_row i pol ok detail now k d = d\<lparr>compliance_reports := ?new\<rparr>"
    using True by (simp add: upsert_report_row_def)
  have "map (\<lambda>c. (cr_device_id c, cr_policy_id c)) ?new = map (\<lambda>c. (cr_device_id c, cr_policy_id c)) (compliance_reports d)"
    by (rule map_upd_where) simp
  then show ?thesis using assms unfolding e hub_ok_def by simp
next
  case False
  then show ?thesis using assms by (auto simp: hub_ok_def upsert_report_row_def)
qed

lemma hub_ok_software:
  "hub_ok d \<Longrightarrow> \<not> (\<exists>q \<in> set (installed_software d). sw_device_id q = sw_device_id r \<and> sw_name q = sw_name r) \<Longrightarrow>
     hub_ok (d\<lparr>installed_software := installed_software d @ [r]\<rparr>)"
  by (auto simp: hub_ok_def)

lemma hub_ok_frame:
  "hub_ok d \<Longrightarrow> hub_ok (d\<lparr>devices := a\<rparr>)" "hub_ok d \<Longrightarrow> hub_ok (d\<lparr>device_metrics := b\<rparr>)"
  "hub_ok d \<Longrightarrow> hub_ok (d\<lparr>kernel_events := c\<rparr>)" "hub_ok d \<Longrightarrow> hub_ok (d\<lparr>alert_events := e\<rparr>)"
  "hub_ok d \<Longrightarrow> hub_ok (d\<lparr>jobs := f\<rparr>)"
  "hub_ok d \<Longrightarrow> hub_ok (d\<lparr>installed_software := del_where q (installed_software d)\<rparr>)"
  by (auto simp: hub_ok_def distinct_map_del_where)

lemma keeps_hub_ok: "keeps (\<lambda>s. hub_ok (db s)) (process_agent_message E i msg)"
proof (cases msg)
  case (AHeartbeat x1)
  show ?thesis unfolding AHeartbeat process_agent_message_def set_device_def agent_message.case
    by (intro keeps_intro) (rule hub_ok_frame)
next
  case (TelemetryReport t)
  show ?thesis unfolding TelemetryReport process_agent_message_def insert_metrics_def agent_message.case
    by (intro keeps_intro keeps_check_alerts) (simp_all add: hub_ok_frame)
next
  case (SystemEventBatch es)
  show ?thesis unfolding SystemEventBatch process_agent_message_def insert_event_row_def agent_message.case
    by (intro keeps_intro) (simp add: hub_ok_frame)
next
  case (JobLog a b c)
  show ?thesis unfolding JobLog process_agent_message_def insert_job_log_def agent_message.case
    by (intro keeps_intro) (auto simp: hub_ok_def)
next
  case (JobCompleted a b)
  show ?thesis unfolding JobCompleted process_agent_message_def complete_job_def agent_message.case
    by (intro keeps_intro keeps_set_job) (rule hub_ok_frame)
next
  case (ComplianceReport rs)
  show ?thesis unfolding ComplianceReport process_agent_message_def upsert_report_def agent_message.case
    by (intro keeps_intro) (simp add: hub_ok_report)
next
  case (InventoryReport sw ps)
  show ?thesis
    unfolding InventoryReport process_agent_message_def persist_inventory_def insert_software_def
      upsert_patch_def agent_message.case
    by (intro keeps_intro) (auto simp: hub_ok_patch hub_ok_frame intro!: hub_ok_software)
next
  case (ShellOutput a b)
  show ?thesis unfolding ShellOutput process_agent_message_def agent_message.case
    by (intro keeps_no_db) simp
next
  case (ShellClosed a b)
  show ?thesis
    unfolding ShellClosed process_agent_message_def agent_message.case set_broadcast_def set_session_def
    by (intro keeps_and_then keeps_no_db) simp_all
qed

text \<open>
  C39.  Every message of every agent, on every fault schedule, keeps these invariants: compliance
  reports and patches are updated in place, never duplicated, and what an agent sends
  never leaves the columns' domains.
\<close>

theorem messages_keep_invariants:
  assumes "hub_ok (db s)"
  shows "hub_ok (db (snd (process_agent_message E i msg s)))"
  by (rule keepsD [OF keeps_hub_ok assms])

theorem messages_keep_invariants_witness:
  "hub_ok (db (snd (process_agent_message no_ext 7 (InventoryReport [] [\<lparr>pi_patch_id = ''KB1'',
     pi_title = None, pi_severity = Some ''CRITICAL'', pi_status = ''available''\<rparr>]) some_state)))"
  by (rule messages_keep_invariants) (simp add: hub_ok_def sample_defs)

subsection \<open>Connections\<close>

lemma set_device_no_fault [action_simps]:
  "faults s = [] \<Longrightarrow> set_device i f s =
     (Inr (), s\<lparr>db := (db s)\<lparr>devices := upd_where (\<lambda>r. d_id r = i) f (devices (db s))\<rparr>\<rparr>)"
  by (simp add: set_device_def action_simps)

text \<open>
  A connecting agent of a known device, with no database fault: the device is marked
  online and its fresh queue holds, in this order, the signed dispatch of every pending job
  that decodes (oldest first), one push of the policies that apply to it (if any), and a
  request for its inventory.
\<close>

theorem open_connection_effect:
  assumes "faults s = []" and "device_exists i (db s)" and "distinct (map j_id (jobs (db s)))"
  shows "\<exists>t. open_connection E i s = (Inr True, t) \<and> reachable_agent t i
    \<and> device_by_id i (db t) = map_option (\<lambda>r. r\<lparr>d_status := ''online'', d_last_seen := Some (wall_ms s)\<rparr>)
        (device_by_id i (db s))
    \<and> agent_queue t i = concat (map (dispatch_message E s) (pending_jobs i (db s)))
        @ (if policies_for i (db s) = [] then [] else [PushPolicy (map policy_def_of (policies_for i (db s)))])
        @ [RequestInventory]"
proof -
  let ?f = "\<lambda>r. r\<lparr>d_status := ''online'', d_last_seen := Some (wall_ms s)\<rparr>"
  let ?c = "\<lparr>ac_device_id = i, ac_connected_at = wall_ms s, ac_queue = [], ac_alive = True\<rparr>"
  let ?u = "s\<lparr>connected_agents := (connected_agents s)(i \<mapsto> ?c),
     db := (db s)\<lparr>devices := upd_where (\<lambda>r. d_id r = i) ?f (devices (db s))\<rparr>\<rparr>"
  have u: "faults ?u = []" "reachable_agent ?u i" "distinct (map j_id (jobs (db ?u)))" "agent_queue ?u i = []"
    using assms by (simp_all add: reachable_agent_def agent_queue_def)
  have start: "open_connection E i s = and_then (dispatch_pending_jobs E i) (\<lambda>_.
       and_then (push_policies_to_device i) (\<lambda>_.
       and_then (ignore (send_to_agent i RequestInventory)) (\<lambda>_. ret True))) ?u"
    using assms by (simp add: open_connection_def register_agent_def action_simps)
  have same: "pending_jobs i (db ?u) = pending_jobs i (db s)"
    by (simp add: pending_jobs_def)
  have pol: "policies_for i ((db ?u)\<lparr>jobs := js\<rparr>) = policies_for i (db s)" for js
    by (simp add: policies_for_def assignment_covers_def)
  have dm: "dispatch_message E ?u = dispatch_message E s"
    by (rule ext) (simp add: dispatch_message_def sign_job_def split: option.split)
  from dispatch_pending_run [OF u(1-3), of E] obtain v where
    v: "dispatch_pending_jobs E i ?u = (Inr (), v)" "faults v = []" "reachable_agent v i"
    and dv: "\<exists>js. db v = (db ?u)\<lparr>jobs := js\<rparr>"
    and q: "\<forall>k. agent_queue v k = agent_queue ?u k @
      (if k = i then concat (map (dispatch_message E ?u) (pending_jobs i (db ?u))) else [])" by blast
  have vq: "agent_queue v i = concat (map (dispatch_message E s) (pending_jobs i (db s)))"
    using spec [OF q, of i] unfolding same dm u(4) by simp
  have pv: "policies_for i (db v) = policies_for i (db s)"
    using dv pol by (elim exE) (simp only:)
  from push_policies_run [OF v(2,3)] obtain w where
    w: "push_policies_to_device i v = (Inr (), w)" "db w = db v" "reachable_agent w i"
      "agent_queue w i = agent_queue v i @ (if policies_for i (db s) = [] then []
          else [PushPolicy (map policy_def_of (policies_for i (db s)))])"
    unfolding pv using v(3) by blast
  let ?t = "snd (send_to_agent i RequestInventory w)"
  have "open_connection E i s = (Inr True, ?t)"
    unfolding start by (simp add: and_then_Inr [where m = "dispatch_pending_jobs E i", OF v(1)]
      and_then_Inr [where m = "push_policies_to_device i", OF w(1)] ret_apply)
  moreover have "agent_queue ?t i = agent_queue w i @ [RequestInventory]"
    using w(3) by (simp add: send_queue)
  moreover have "device_by_id i (db ?t) = map_option ?f (device_by_id i (db s))"
  proof -
    have "devices (db ?t) = upd_where (\<lambda>r. d_id r = i) ?f (devices (db s))"
      using dv w(2) by (elim exE) simp
    then show ?thesis unfolding device_by_id_def by (simp only:) (rule find_upd_where, simp)
  qed
  moreover have "reachable_agent ?t i" using w(3) by simp
  ultimately show ?thesis using w(4) vq by (intro exI [of _ ?t]) simp
qed

theorem open_connection_effect_witness:
  "\<exists>t. open_connection no_ext 7 (state_of some_db) = (Inr True, t) \<and> agent_queue t 7 = [RequestInventory]"
proof -
  have "device_exists 7 (db (state_of some_db))" "distinct (map j_id (jobs (db (state_of some_db))))"
    "pending_jobs 7 (db (state_of some_db)) = []" "policies_for 7 (db (state_of some_db)) = []"
    by (simp_all add: device_exists_def pending_jobs_def policies_for_def order_asc_nulls_def sample_defs)
  with open_connection_effect [of "state_of some_db" 7 no_ext] show ?thesis by auto
qed

text \<open>
  The end of a connection removes whatever entry the device has: when the agent has
  reconnected before its old socket is seen to end, the new connection's entry goes.
\<close>

lemma stale_close_unregisters:
  "\<not> reachable_agent (snd (close_connection i s)) i"
  by (simp add: close_connection_def ignore_def set_device_def reachable_agent_def disconnect_agent_def
    perform_def exec_def Let_def split: sum.splits)

text \<open>A heartbeat on a socket still open after the device was revoked marks it online again.\<close>

lemma heartbeat_after_revocation:
  assumes "faults s = []" and "device_by_id i (db s) = Some r"
  shows "\<exists>t. process_agent_message E i (AHeartbeat ver) s = (Inr (), t)
    \<and> map_option d_status (device_by_id i (db t)) = Some ''online''"
proof -
  let ?f = "\<lambda>r. r\<lparr>d_last_seen := Some (wall_ms s), d_agent_version := Some ver, d_status := ''online''\<rparr>"
  have "List.find (\<lambda>r. d_id r = i) (upd_where (\<lambda>r. d_id r = i) ?f (devices (db s)))
      = map_option ?f (List.find (\<lambda>r. d_id r = i) (devices (db s)))"
    by (rule find_upd_where) simp
  then show ?thesis
    using assms by (simp add: process_agent_message_def action_simps ignore_def device_by_id_def)
qed

text \<open>An inventory whose dates the database does not take is dropped whole.\<close>

lemma inventory_refused:
  assumes "faults s = []" and "date_accepts E (si_install_date item) = False"
  shows "db (snd (process_agent_message E i (InventoryReport (item # sw) ps) s)) = db s"
proof -
  obtain r t where rt: "persist_inventory E i (item # sw) ps s = (r, t)" by fastforce
  have "\<exists>e. r = Inl e"
    using rt assms
    by (auto simp: persist_inventory_def transaction_def and_then_def action_simps insert_software_def
      fresh_uuid_def split: prod.splits sum.splits)
  with rt have "db t = db s" by (auto simp: persist_inventory_def transaction_error)
  with rt show ?thesis by (simp add: process_agent_message_def ignore_def)
qed

end
