(* ===== verification/Agent_Host.thy ===== *)
theory Agent_Host
  imports Messages
begin

section \<open>Agent: the machine it runs on\<close>

text \<open>
  What the agent asks of the operating system, as a record of functions over the state \<open>'h\<close> of
  the machine: the platform the agent was compiled for, running a program to its end
  (\<^verbatim>\<open>Command::output\<close>, None when it cannot be started), starting one
  (\<^verbatim>\<open>Command::spawn\<close>), the files and processes it looks at, and the measurements of
  \<^verbatim>\<open>sysinfo\<close>.  The behaviour of the tools is not part of the program: every definition
  takes this record as an argument, and what a property needs of a tool is a hypothesis.
\<close>

datatype platform = P_linux | P_windows | P_macos | P_other

record tool_output =
  success :: bool
  stdout :: string

record disk =
  total_space :: u64
  available_space :: u64

record dir_entry =
  de_path :: string
  de_name :: string
  de_is_dir :: bool
  de_meta :: "(nat \<times> nat) option"

record proc_info =
  pr_pid :: u32
  pr_ppid :: u32
  pr_path :: string
  pr_cmdline :: string

record 'h os =
  target :: platform
  exec :: "string \<Rightarrow> string list \<Rightarrow> 'h \<Rightarrow> tool_output option \<times> 'h"
  spawn :: "string \<Rightarrow> string list \<Rightarrow> 'h \<Rightarrow> (string + unit) \<times> 'h"
  path_exists :: "string \<Rightarrow> 'h \<Rightarrow> bool"
  read_file :: "string \<Rightarrow> 'h \<Rightarrow> string + string"
  write_file :: "string \<Rightarrow> string \<Rightarrow> 'h \<Rightarrow> (string + unit) \<times> 'h"
  remove_file :: "string \<Rightarrow> 'h \<Rightarrow> (string + unit) \<times> 'h"
  create_dirs :: "string \<Rightarrow> 'h \<Rightarrow> (string + unit) \<times> 'h"
  chmod :: "string \<Rightarrow> nat \<Rightarrow> 'h \<Rightarrow> (string + unit) \<times> 'h"
  entries :: "string \<Rightarrow> 'h \<Rightarrow> string list"
  read_link :: "string \<Rightarrow> 'h \<Rightarrow> string option"
  read_dir :: "string \<Rightarrow> 'h \<Rightarrow> dir_entry list option"
  process_table :: "'h \<Rightarrow> proc_info list"
  parent_dir :: "string \<Rightarrow> string option"
  processes :: "'h \<Rightarrow> (u32 \<times> string) list"
  kill_process :: "u32 \<Rightarrow> 'h \<Rightarrow> 'h"
  cpu_usage :: "'h \<Rightarrow> f64"
  total_memory :: "'h \<Rightarrow> u64"
  used_memory :: "'h \<Rightarrow> u64"
  disks :: "'h \<Rightarrow> disk list"
  uptime :: "'h \<Rightarrow> u64"
  clock :: "'h \<Rightarrow> i64"

text \<open>
  The actions of the agent on the machine: state passing without errors, built on the same
  combinators as the handlers of the server.
\<close>

type_synonym ('h, 'a) host_action = "('h, unit, 'a) action"

definition host_run :: "('h \<Rightarrow> 'a \<times> 'h) \<Rightarrow> ('h, 'a) host_action" where
  "host_run f h = (let (x, k) = f h in (Inr x, k))"

definition run_tool :: "'h os \<Rightarrow> string \<Rightarrow> string list \<Rightarrow> ('h, tool_output option) host_action" where
  "run_tool os prog args = host_run (exec os prog args)"

lemma and_then_run_tool [simp]:
  "and_then (run_tool os p a) k h = k (fst (exec os p a h)) (snd (exec os p a h))"
  by (simp add: run_tool_def host_run_def and_then_def split: prod.splits)

lemma and_then_host_run [simp]: "and_then (host_run f) k h = k (fst (f h)) (snd (f h))"
  by (simp add: host_run_def and_then_def split: prod.splits)

text \<open>\<^verbatim>\<open>String::from_utf8_lossy(&o.stdout).contains(t)\<close> of a finished program, or the default.\<close>

definition prints :: "bool \<Rightarrow> (string \<Rightarrow> bool) \<Rightarrow> tool_output option \<Rightarrow> bool" where
  "prints d p out = (case out of None \<Rightarrow> d | Some ot \<Rightarrow> p (stdout ot))"

lemma prints_simps [simp]: "prints d p None = d" "prints d p (Some ot) = p (stdout ot)"
  by (simp_all add: prints_def)

text \<open>A query leaves the machine as it was.\<close>

definition queries :: "'h os \<Rightarrow> string \<Rightarrow> string list \<Rightarrow> bool" where
  "queries os prog args \<longleftrightarrow> (\<forall>h. snd (exec os prog args h) = h)"

text \<open>An action that never fails runs to a value.\<close>

definition total_action :: "('h, 'e, 'a) action \<Rightarrow> bool" where
  "total_action m \<longleftrightarrow> (\<forall>h. \<exists>x. fst (m h) = Inr x)"

lemma total_ret [keeps_intro]: "total_action (ret x)"
  by (simp add: total_action_def action_simps)

lemma total_gets [keeps_intro]: "total_action (gets f)"
  by (simp add: total_action_def gets_def)

lemma total_modify [keeps_intro]: "total_action (modify f)"
  by (simp add: total_action_def modify_def)

lemma total_host_run [keeps_intro]: "total_action (host_run f)"
  by (simp add: total_action_def host_run_def split: prod.splits)

lemma total_run_tool [keeps_intro]: "total_action (run_tool os p a)"
  by (simp add: run_tool_def total_host_run)

lemma total_ignore [keeps_intro]: "total_action (ignore m)"
  by (simp add: total_action_def ignore_def)

lemma total_and_then [keeps_intro]:
  "total_action m \<Longrightarrow> (\<And>x. total_action (k x)) \<Longrightarrow> total_action (and_then m k)"
  unfolding total_action_def and_then_def
  by (metis (no_types, lifting) old.sum.simps(6) prod.case_eq_if)

lemma total_if [keeps_intro]:
  "total_action m \<Longrightarrow> total_action n \<Longrightarrow> total_action (if b then m else n)"
  by simp

lemma total_when_do [keeps_intro]: "total_action m \<Longrightarrow> total_action (when_do b m)"
  by (cases b) (simp_all add: total_ret)

lemma total_for_each [keeps_intro]: "(\<And>x. total_action (f x)) \<Longrightarrow> total_action (for_each xs f)"
  by (induction xs) (auto intro: keeps_intro)

lemma total_case_option [keeps_intro]:
  "total_action m \<Longrightarrow> (\<And>x. total_action (k x)) \<Longrightarrow>
     total_action (case v of None \<Rightarrow> m | Some x \<Rightarrow> k x)"
  by (cases v) simp_all

end
