(* ===== verification/Agent_Policy.thy ===== *)
theory Agent_Policy
  imports Agent_Host
begin

section \<open>Agent: policy engine and enforcers (policy/*.rs)\<close>

text \<open>
  The checks of every rule against the machine, the enforcement commands of the three platforms
  and \<open>evaluate_policies\<close>, which reports on every policy it was sent and enforces the rules of the
  policies that are violated.  A check runs query tools and inspects their output as text; an
  enforcer runs setting tools and ignores whether they succeed.
\<close>

subsection \<open>Checks: screen lock\<close>

definition U32_MAX :: nat where
  "U32_MAX = 2 ^ 32 - 1"

definition saturating_mul :: "nat \<Rightarrow> nat \<Rightarrow> nat" where
  "saturating_mul a b = min (a * b) U32_MAX"

definition idle_query :: "string list" where
  "idle_query = [''get'', ''org.gnome.desktop.session'', ''idle-delay'']"

definition lock_query :: "string list" where
  "lock_query = [''get'', ''org.gnome.desktop.screensaver'', ''lock-enabled'']"

definition check_lock_enabled :: "'h os \<Rightarrow> bool \<Rightarrow> ('h, string + unit) host_action" where
  "check_lock_enabled os require_password =
     (if require_password
      then and_then (run_tool os ''gsettings'' lock_query) (\<lambda>out.
        ret (if prints False (contains ''true'') out then Inr ()
             else Inl ''screensaver lock-enabled is not true''))
      else ret (Inr ()))"

definition check_screen_lock_linux :: "'h os \<Rightarrow> u32 \<Rightarrow> bool \<Rightarrow> ('h, string + unit) host_action" where
  "check_screen_lock_linux os timeout_minutes require_password =
     (let max_idle = saturating_mul (unat timeout_minutes) 60 in
      and_then (run_tool os ''gsettings'' idle_query) (\<lambda>out. case out of
          None \<Rightarrow> ret (Inl ''could not read screen-lock settings (gsettings missing)'')
        | Some ot \<Rightarrow>
            (case find_map (parse_uint 32) (rev (split_whitespace (stdout ot))) of
               Some secs \<Rightarrow>
                 if 0 < timeout_minutes \<and> max_idle < secs
                 then ret (Inl (''idle-delay is '' @ show_nat secs @ ''s, policy max ''
                   @ show_nat max_idle @ ''s''))
                 else check_lock_enabled os require_password
             | None \<Rightarrow> check_lock_enabled os require_password)))"

text \<open>\<^verbatim>\<open>trim_start_matches("0x")\<close> and the reading of a registry number.\<close>

fun trim_0x :: "string \<Rightarrow> string" where
  "trim_0x (a # b # s) = (if a = CHR ''0'' \<and> b = CHR ''x'' then trim_0x s else a # b # s)"
| "trim_0x s = s"

definition registry_number :: "string \<Rightarrow> nat option" where
  "registry_number t = (case parse_uint 32 (trim_0x t) of Some n \<Rightarrow> Some n
     | None \<Rightarrow> if starts_with ''0x'' t then parse_hex 32 (trim_0x t) else None)"

definition desktop_key :: string where
  "desktop_key = ''HKCU'' @ [CHR 0x5C] @ ''Control Panel'' @ [CHR 0x5C] @ ''Desktop''"

definition check_screen_lock_windows :: "'h os \<Rightarrow> u32 \<Rightarrow> bool \<Rightarrow> ('h, string + unit) host_action" where
  "check_screen_lock_windows os timeout_minutes require_password =
     (if target os \<noteq> P_windows then ret (Inl ''not on Windows'') else
      let max_secs = saturating_mul (unat timeout_minutes) 60;
          secure = (if require_password
            then and_then (run_tool os ''reg'' [''query'', desktop_key, ''/v'', ''ScreenSaverIsSecure''])
              (\<lambda>out. ret (case out of None \<Rightarrow> Inl ''could not query ScreenSaverIsSecure''
                 | Some ot \<Rightarrow> if contains ''1'' (stdout ot) then Inr ()
                     else Inl ''ScreenSaverIsSecure is not 1''))
            else ret (Inr ()))
      in and_then (run_tool os ''reg'' [''query'', desktop_key, ''/v'', ''ScreenSaveTimeOut''])
        (\<lambda>out. case out of None \<Rightarrow> ret (Inl ''could not query ScreenSaveTimeOut'')
         | Some ot \<Rightarrow>
             (case find_map registry_number (rev (split_whitespace (stdout ot))) of
                Some secs \<Rightarrow>
                  if 0 < timeout_minutes \<and> max_secs < secs
                  then ret (Inl (''ScreenSaveTimeOut is '' @ show_nat secs @ ''s, policy max ''
                    @ show_nat max_secs @ ''s''))
                  else secure
              | None \<Rightarrow> secure)))"

definition check_screen_lock_macos :: "'h os \<Rightarrow> u32 \<Rightarrow> bool \<Rightarrow> ('h, string + unit) host_action" where
  "check_screen_lock_macos os timeout_minutes require_password =
     (if target os \<noteq> P_macos then ret (Inl ''not on macOS'') else
      and_then (run_tool os ''defaults'' [''read'', ''com.apple.screensaver'', ''askForPassword''])
        (\<lambda>out. case out of None \<Rightarrow> ret (Inl ''could not read askForPassword'')
         | Some ot \<Rightarrow>
             if require_password \<and> \<not> contains ''1'' (stdout ot)
             then ret (Inl ''askForPassword is not 1'')
             else and_then
               (run_tool os ''defaults'' [''read'', ''com.apple.screensaver'', ''askForPasswordDelay''])
               (\<lambda>out. ret (case out of None \<Rightarrow> Inl ''could not read askForPasswordDelay''
                  | Some ot \<Rightarrow>
                      let secs = (case find_map (parse_uint 32) (split_whitespace (stdout ot)) of
                            Some n \<Rightarrow> n | None \<Rightarrow> U32_MAX);
                          max_secs = saturating_mul (unat timeout_minutes) 60
                      in if 0 < timeout_minutes \<and> max_secs < secs
                         then Inl (''askForPasswordDelay is '' @ show_nat secs @ ''s, policy max ''
                           @ show_nat max_secs @ ''s'')
                         else Inr ()))))"

definition check_screen_lock :: "'h os \<Rightarrow> u32 \<Rightarrow> bool \<Rightarrow> ('h, string + unit) host_action" where
  "check_screen_lock os timeout_minutes require_password = (case target os of
       P_linux \<Rightarrow> check_screen_lock_linux os timeout_minutes require_password
     | P_windows \<Rightarrow> check_screen_lock_windows os timeout_minutes require_password
     | P_macos \<Rightarrow> check_screen_lock_macos os timeout_minutes require_password
     | P_other \<Rightarrow> ret (Inl ''screen lock check is not implemented on this platform''))"

subsection \<open>Checks: firewall, USB storage, updates, processes\<close>

definition socketfilterfw :: string where
  "socketfilterfw = ''/usr/libexec/ApplicationFirewall/socketfilterfw''"

definition check_firewall_enabled :: "'h os \<Rightarrow> ('h, bool) host_action" where
  "check_firewall_enabled os = (case target os of
       P_linux \<Rightarrow> and_then (run_tool os ''ufw'' [''status''])
         (\<lambda>out. ret (prints False (contains ''active'') out))
     | P_windows \<Rightarrow> and_then (run_tool os ''netsh'' [''advfirewall'', ''show'', ''allprofiles'', ''state''])
         (\<lambda>out. ret (prints False (contains ''ON'') out))
     | P_macos \<Rightarrow> and_then (run_tool os socketfilterfw [''--getglobalstate''])
         (\<lambda>out. ret (prints False (contains ''enabled'') out))
     | P_other \<Rightarrow> ret True)"

definition backslash :: string where
  "backslash = [CHR 0x5C]"

definition usbstor_key :: string where
  "usbstor_key = ''HKLM'' @ backslash @ ''SYSTEM'' @ backslash @ ''CurrentControlSet'' @ backslash
     @ ''Services'' @ backslash @ ''USBSTOR''"

definition update_key :: string where
  "update_key = ''HKLM'' @ backslash @ ''SOFTWARE'' @ backslash @ ''Policies'' @ backslash
     @ ''Microsoft'' @ backslash @ ''Windows'' @ backslash @ ''WindowsUpdate'' @ backslash @ ''AU''"

definition check_usb_storage_loaded :: "'h os \<Rightarrow> ('h, bool) host_action" where
  "check_usb_storage_loaded os = (case target os of
       P_linux \<Rightarrow> and_then (run_tool os ''lsmod'' [])
         (\<lambda>out. ret (prints False (contains ''usb_storage'') out))
     | P_windows \<Rightarrow> and_then (run_tool os ''reg'' [''query'', usbstor_key, ''/v'', ''Start''])
         (\<lambda>out. ret (prints True (\<lambda>t. \<not> contains ''0x4'' t) out))
     | _ \<Rightarrow> ret False)"

definition auto_upgrades_path :: string where
  "auto_upgrades_path = ''/etc/apt/apt.conf.d/20auto-upgrades''"

definition software_update_prefs :: string where
  "software_update_prefs = ''/Library/Preferences/com.apple.SoftwareUpdate''"

definition check_auto_updates :: "'h os \<Rightarrow> ('h, bool) host_action" where
  "check_auto_updates os = (case target os of
       P_linux \<Rightarrow> gets (path_exists os auto_upgrades_path)
     | P_windows \<Rightarrow> and_then (run_tool os ''reg'' [''query'', update_key, ''/v'', ''AUOptions''])
         (\<lambda>out. ret (prints False (\<lambda>t. contains ''0x3'' t \<or> contains ''0x4'' t) out))
     | P_macos \<Rightarrow> and_then (run_tool os ''defaults''
           [''read'', software_update_prefs, ''AutomaticCheckEnabled''])
         (\<lambda>out. ret (prints False (contains ''1'') out))
     | P_other \<Rightarrow> ret True)"

definition denied :: "string list \<Rightarrow> string \<Rightarrow> bool" where
  "denied deny name \<longleftrightarrow> list_ex (\<lambda>d. contains d name) deny"

definition check_blacklisted_processes :: "'h os \<Rightarrow> string list \<Rightarrow> ('h, string list) host_action" where
  "check_blacklisted_processes os deny =
     gets (\<lambda>h. filter (denied deny) (map snd (processes os h)))"

definition violated :: "string \<Rightarrow> string \<Rightarrow> compliance_violation option" where
  "violated t msg = Some \<lparr>cv_rule_type = t, cv_message = msg\<rparr>"

fun check_rule :: "'h os \<Rightarrow> policy_rule \<Rightarrow> ('h, compliance_violation option) host_action" where
  "check_rule os (Firewall enabled) =
     (if \<not> enabled then ret None
      else and_then (check_firewall_enabled os) (\<lambda>ok.
        ret (if \<not> ok then violated ''firewall'' ''Firewall is not active'' else None)))"
| "check_rule os (UsbStorage allow) =
     (if allow then ret None
      else and_then (check_usb_storage_loaded os) (\<lambda>loaded.
        ret (if loaded then violated ''usb_storage'' ''USB storage is not blocked'' else None)))"
| "check_rule os (ScreenLock timeout_minutes require_password) =
     (if timeout_minutes = 0 \<and> \<not> require_password then ret None
      else and_then (check_screen_lock os timeout_minutes require_password) (\<lambda>r.
        ret (case r of Inr _ \<Rightarrow> None | Inl message \<Rightarrow> violated ''screen_lock'' message)))"
| "check_rule os (OsUpdate auto_install _) =
     (case auto_install of Disabled \<Rightarrow> ret None
      | _ \<Rightarrow> and_then (check_auto_updates os) (\<lambda>ok.
        ret (if \<not> ok then violated ''os_update'' ''Automatic updates not configured'' else None)))"
| "check_rule os (ProcessBlacklist deny) =
     (if deny = [] then ret None
      else and_then (check_blacklisted_processes os deny) (\<lambda>running.
        ret (if running \<noteq> [] then violated ''process_blacklist''
            (''Blacklisted processes running: '' @ join '', '' running) else None)))"
| "check_rule os (SystemEvents _ _ _) = ret None"

fun evaluate_rules :: "'h os \<Rightarrow> policy_rule list \<Rightarrow> ('h, compliance_violation list) host_action" where
  "evaluate_rules os [] = ret []"
| "evaluate_rules os (rule # rules) = and_then (check_rule os rule) (\<lambda>v.
     and_then (evaluate_rules os rules) (\<lambda>vs.
       ret (case v of Some violation \<Rightarrow> violation # vs | None \<Rightarrow> vs)))"

definition evaluate_single_policy ::
  "'h os \<Rightarrow> policy_definition \<Rightarrow> ('h, compliance_violation list) host_action" where
  "evaluate_single_policy os policy = evaluate_rules os (pd_rules policy)"

subsection \<open>Enforcers: Linux\<close>

text \<open>
  Log lines are left out; \<^verbatim>\<open>u32\<close> arithmetic wraps (the release build has no overflow checks).
\<close>

definition show_u32 :: "u32 \<Rightarrow> string" where
  "show_u32 n = show_nat (unat n)"

definition enforce_firewall_linux :: "'h os \<Rightarrow> bool \<Rightarrow> ('h, unit) host_action" where
  "enforce_firewall_linux os enabled =
     and_then (run_tool os ''ufw'' [''--force'', if enabled then ''enable'' else ''disable'']) (\<lambda>out.
       case out of Some _ \<Rightarrow> ret ()
       | None \<Rightarrow> when_do enabled (ignore (run_tool os ''iptables'' [''-L'', ''-n''])))"

definition usb_driver_path :: string where
  "usb_driver_path = ''/sys/bus/usb/drivers/usb-storage''"

definition usb_blacklist_path :: string where
  "usb_blacklist_path = ''/etc/modprobe.d/osfm-edm-usb-storage.conf''"

definition nl :: string where
  "nl = [CHR 0x0A]"

definition usb_blacklist :: string where
  "usb_blacklist = ''# Managed by OSFM-EDM '' @ em_dash @ '' USB storage policy'' @ nl
     @ ''blacklist usb-storage'' @ nl @ ''install usb-storage /bin/false'' @ nl"

definition put_file :: "'h os \<Rightarrow> string \<Rightarrow> string \<Rightarrow> ('h, unit) host_action" where
  "put_file os path content = ignore (host_run (write_file os path content))"

definition enforce_usb_storage_linux :: "'h os \<Rightarrow> bool \<Rightarrow> ('h, unit) host_action" where
  "enforce_usb_storage_linux os allow =
     (let setting = (if allow then ''1'' else ''0'') in
      and_then (gets (\<lambda>h. if path_exists os usb_driver_path h
          then map (\<lambda>e. e @ ''/authorized'') (entries os usb_driver_path h) else []))
        (\<lambda>auth_paths. and_then (for_each auth_paths (\<lambda>p.
            and_then (gets (path_exists os p)) (\<lambda>there. when_do there (put_file os p setting)))) (\<lambda>_.
          if \<not> allow then put_file os usb_blacklist_path usb_blacklist
          else and_then (gets (path_exists os usb_blacklist_path)) (\<lambda>there.
            when_do there (ignore (host_run (remove_file os usb_blacklist_path)))))))"

definition succeeded :: "tool_output option \<Rightarrow> bool" where
  "succeeded out = (case out of Some ot \<Rightarrow> success ot | None \<Rightarrow> False)"

definition enforce_screen_lock_linux :: "'h os \<Rightarrow> u32 \<Rightarrow> ('h, unit) host_action" where
  "enforce_screen_lock_linux os timeout_minutes =
     (let timeout_secs = timeout_minutes * 60 in
      and_then (run_tool os ''gsettings'' [''set'', ''org.gnome.desktop.session'', ''idle-delay'',
          ''uint32 '' @ show_u32 timeout_secs])
        (\<lambda>gnome. if succeeded gnome
           then ignore (run_tool os ''gsettings''
             [''set'', ''org.gnome.desktop.screensaver'', ''lock-enabled'', ''true''])
           else and_then (run_tool os ''xfconf-query'' [''-c'', ''xfce4-power-manager'', ''-p'',
               ''/xfce4-power-manager/dpms-on-ac-sleep'', ''-s'', show_u32 timeout_minutes])
             (\<lambda>xfce. if succeeded xfce then ret ()
                else ignore (run_tool os ''xset'' [''s'', show_u32 timeout_secs]))))"

definition periodic :: "string \<Rightarrow> string \<Rightarrow> string" where
  "periodic key flag = ''APT::Periodic::'' @ key @ '' '' @ [CHR 0x22] @ flag @ [CHR 0x22] @ '';'' @ nl"

definition auto_upgrades :: "string \<Rightarrow> string" where
  "auto_upgrades flag = periodic ''Update-Package-Lists'' flag @ periodic ''Unattended-Upgrade'' flag"

definition enforce_auto_updates_linux :: "'h os \<Rightarrow> update_policy \<Rightarrow> ('h, unit) host_action" where
  "enforce_auto_updates_linux os policy = (case policy of
       Disabled \<Rightarrow> and_then (gets (path_exists os auto_upgrades_path)) (\<lambda>there.
         when_do there (put_file os auto_upgrades_path (auto_upgrades ''0'')))
     | _ \<Rightarrow> put_file os auto_upgrades_path (auto_upgrades ''1''))"

subsection \<open>Enforcers: macOS\<close>

definition mac_run :: "'h os \<Rightarrow> string \<Rightarrow> string list \<Rightarrow> ('h, unit) host_action" where
  "mac_run os cmd args = ignore (run_tool os cmd args)"

definition enforce_firewall_macos :: "'h os \<Rightarrow> bool \<Rightarrow> ('h, unit) host_action" where
  "enforce_firewall_macos os enabled =
     and_then (mac_run os socketfilterfw [''--setglobalstate'', if enabled then ''on'' else ''off''])
       (\<lambda>_. when_do enabled (mac_run os socketfilterfw [''--setstealthmode'', ''on'']))"

definition usb_plist_path :: string where
  "usb_plist_path = ''/Library/Preferences/com.osfm-edm.usb-storage.plist''"

definition quoted :: "string \<Rightarrow> string" where
  "quoted s = [CHR 0x22] @ s @ [CHR 0x22]"

definition usb_plist :: string where
  "usb_plist = ''<?xml version='' @ quoted ''1.0'' @ '' encoding='' @ quoted ''UTF-8'' @ ''?>'' @ nl
     @ ''<plist version='' @ quoted ''1.0'' @ ''><dict><key>Disabled</key><true/></dict></plist>'' @ nl"

definition enforce_usb_storage_macos :: "'h os \<Rightarrow> bool \<Rightarrow> ('h, unit) host_action" where
  "enforce_usb_storage_macos os allow =
     (if allow then and_then (gets (path_exists os usb_plist_path)) (\<lambda>there.
        when_do there (ignore (host_run (remove_file os usb_plist_path))))
      else put_file os usb_plist_path usb_plist)"

definition at_least_one :: "u32 \<Rightarrow> u32" where
  "at_least_one n = max n 1"

definition defaults_write :: "'h os \<Rightarrow> string list \<Rightarrow> ('h, unit) host_action" where
  "defaults_write os args = mac_run os ''defaults'' (''write'' # args)"

definition enforce_screen_lock_macos :: "'h os \<Rightarrow> u32 \<Rightarrow> bool \<Rightarrow> ('h, unit) host_action" where
  "enforce_screen_lock_macos os timeout_minutes require_password =
     and_then (mac_run os ''pmset'' [''displaysleep'', show_u32 (at_least_one timeout_minutes)]) (\<lambda>_.
       when_do require_password (and_then
         (defaults_write os [''com.apple.screensaver'', ''askForPassword'', ''-int'', ''1''])
         (\<lambda>_. defaults_write os [''com.apple.screensaver'', ''askForPasswordDelay'', ''-int'', ''5''])))"

definition true_false :: "bool \<Rightarrow> string" where
  "true_false b = (if b then ''true'' else ''false'')"

definition enforce_auto_updates_macos :: "'h os \<Rightarrow> update_policy \<Rightarrow> ('h, unit) host_action" where
  "enforce_auto_updates_macos os policy =
     (let (check, download, install) = (case policy of
            Disabled \<Rightarrow> (False, False, False)
          | SecurityOnly \<Rightarrow> (True, True, False)
          | AllUpdates \<Rightarrow> (True, True, True));
          put = (\<lambda>key flag. defaults_write os [software_update_prefs, key, ''-bool'', true_false flag])
      in and_then (put ''AutomaticCheckEnabled'' check) (\<lambda>_.
         and_then (put ''AutomaticDownload'' download) (\<lambda>_.
           put ''AutomaticallyInstallMacOSXUpdates'' install)))"

subsection \<open>Enforcers: Windows\<close>

definition enforce_firewall_windows :: "'h os \<Rightarrow> bool \<Rightarrow> ('h, unit) host_action" where
  "enforce_firewall_windows os enabled = ignore (run_tool os ''netsh''
     [''advfirewall'', ''set'', ''allprofiles'', ''state'', if enabled then ''on'' else ''off''])"

definition reg_add :: "string \<Rightarrow> string \<Rightarrow> string \<Rightarrow> string \<Rightarrow> string list" where
  "reg_add key name kind data =
     [''add'', key, ''/v'', name, ''/t'', kind, ''/d'', data, ''/f'']"

definition enforce_usb_storage_windows :: "'h os \<Rightarrow> bool \<Rightarrow> ('h, unit) host_action" where
  "enforce_usb_storage_windows os allow = ignore (run_tool os ''reg''
     (reg_add usbstor_key ''Start'' ''REG_DWORD'' (if allow then ''3'' else ''4'')))"

definition enforce_screen_lock_windows :: "'h os \<Rightarrow> u32 \<Rightarrow> bool \<Rightarrow> ('h, unit) host_action" where
  "enforce_screen_lock_windows os timeout_minutes require_password =
     (let mins = show_u32 (at_least_one timeout_minutes);
          timeout_secs = show_u32 (at_least_one timeout_minutes * 60)
      in and_then (for_each [''monitor-timeout-ac'', ''monitor-timeout-dc'']
           (\<lambda>setting. ignore (run_tool os ''powercfg'' [''/change'', setting, mins])))
         (\<lambda>_. for_each [(''ScreenSaveTimeOut'', timeout_secs),
             (''ScreenSaverIsSecure'', if require_password then ''1'' else ''0'')]
           (\<lambda>(name, data). ignore (run_tool os ''reg'' (reg_add desktop_key name ''REG_SZ'' data)))))"

definition au_options :: "update_policy \<Rightarrow> string" where
  "au_options policy = (case policy of Disabled \<Rightarrow> ''1'' | SecurityOnly \<Rightarrow> ''3'' | AllUpdates \<Rightarrow> ''4'')"

definition enforce_auto_updates_windows :: "'h os \<Rightarrow> update_policy \<Rightarrow> ('h, unit) host_action" where
  "enforce_auto_updates_windows os policy = ignore (run_tool os ''reg''
     (reg_add update_key ''AUOptions'' ''REG_DWORD'' (au_options policy)))"

subsection \<open>Engine\<close>

definition kill_blacklisted_processes :: "'h os \<Rightarrow> string list \<Rightarrow> ('h, unit) host_action" where
  "kill_blacklisted_processes os deny =
     and_then (gets (\<lambda>h. filter (\<lambda>(pid, name). denied deny name) (processes os h)))
       (\<lambda>ps. for_each ps (\<lambda>(pid, name). modify (kill_process os pid)))"

definition on_platform ::
  "'h os \<Rightarrow> ('h, unit) host_action \<Rightarrow> ('h, unit) host_action \<Rightarrow> ('h, unit) host_action \<Rightarrow>
     ('h, unit) host_action" where
  "on_platform os linux windows macos = (case target os of P_linux \<Rightarrow> linux | P_windows \<Rightarrow> windows
     | P_macos \<Rightarrow> macos | P_other \<Rightarrow> ret ())"

fun enforce_rule :: "'h os \<Rightarrow> policy_rule \<Rightarrow> ('h, unit) host_action" where
  "enforce_rule os (Firewall enabled) = when_do enabled (on_platform os
     (enforce_firewall_linux os True) (enforce_firewall_windows os True) (enforce_firewall_macos os True))"
| "enforce_rule os (UsbStorage allow) = on_platform os (enforce_usb_storage_linux os allow)
     (enforce_usb_storage_windows os allow) (enforce_usb_storage_macos os allow)"
| "enforce_rule os (ScreenLock timeout_minutes require_password) =
     when_do (0 < timeout_minutes \<or> require_password) (on_platform os
       (enforce_screen_lock_linux os timeout_minutes)
       (enforce_screen_lock_windows os timeout_minutes require_password)
       (enforce_screen_lock_macos os timeout_minutes require_password))"
| "enforce_rule os (OsUpdate auto_install _) = on_platform os
     (enforce_auto_updates_linux os auto_install) (enforce_auto_updates_windows os auto_install)
     (enforce_auto_updates_macos os auto_install)"
| "enforce_rule os (ProcessBlacklist deny) = when_do (deny \<noteq> []) (kill_blacklisted_processes os deny)"
| "enforce_rule os (SystemEvents _ _ _) = ret ()"

definition enforce_policy_rules :: "'h os \<Rightarrow> policy_rule list \<Rightarrow> ('h, unit) host_action" where
  "enforce_policy_rules os rules = for_each rules (enforce_rule os)"

fun policy_reports ::
  "'h os \<Rightarrow> uuid \<Rightarrow> policy_definition list \<Rightarrow> ('h, compliance_report list) host_action" where
  "policy_reports os device_id [] = ret []"
| "policy_reports os device_id (policy # policies) =
     and_then (evaluate_single_policy os policy) (\<lambda>violations.
     and_then (when_do (violations \<noteq> []) (enforce_policy_rules os (pd_rules policy))) (\<lambda>_.
     and_then (gets (clock os)) (\<lambda>now.
     and_then (policy_reports os device_id policies) (\<lambda>reports.
       ret (\<lparr>rep_device_id = device_id, rep_policy_id = pd_id policy, rep_compliant = (violations = []),
         rep_violations = violations, rep_checked_at = now\<rparr> # reports)))))"

text \<open>The messages \<^verbatim>\<open>evaluate_policies\<close> sends: none or one report message.\<close>

definition evaluate_policies ::
  "'h os \<Rightarrow> uuid \<Rightarrow> policy_definition list \<Rightarrow> ('h, agent_message list) host_action" where
  "evaluate_policies os device_id policies =
     and_then (policy_reports os device_id policies) (\<lambda>reports.
       ret (if reports \<noteq> [] then [ComplianceReport reports] else []))"

subsection \<open>Reports\<close>

lemma policy_reports_shape:
  "policy_reports os d ps h = (Inr rs, k) \<Longrightarrow> map rep_policy_id rs = map pd_id ps
     \<and> (\<forall>r \<in> set rs. rep_device_id r = d \<and> (rep_compliant r \<longleftrightarrow> rep_violations r = []))"
proof (induction ps arbitrary: rs h)
  case Nil
  then show ?case by (simp add: action_simps)
next
  case (Cons p ps)
  from Cons.prems obtain vs now rest h' where
    rs: "rs = \<lparr>rep_device_id = d, rep_policy_id = pd_id p, rep_compliant = (vs = []),
      rep_violations = vs, rep_checked_at = now\<rparr> # rest"
    and r: "policy_reports os d ps h' = (Inr rest, k)"
    by (auto simp: and_then_eq_Inr action_simps simp del: and_then_gets)
  from Cons.IH [OF r] show ?case by (simp add: rs)
qed

lemma total_check_lock_enabled [keeps_intro]: "total_action (check_lock_enabled os b)"
  unfolding check_lock_enabled_def by (intro keeps_intro)

lemma total_check_screen_lock [keeps_intro]: "total_action (check_screen_lock os t b)"
  unfolding check_screen_lock_def check_screen_lock_linux_def check_screen_lock_windows_def
    check_screen_lock_macos_def Let_def
  by (cases "target os") (auto intro!: keeps_intro)

lemma total_check_rule [keeps_intro]: "total_action (check_rule os r)"
proof (cases r)
  case (Firewall e)
  then show ?thesis
    by (cases "target os") (auto simp: check_firewall_enabled_def intro!: keeps_intro)
next
  case (UsbStorage e)
  then show ?thesis
    by (cases "target os") (auto simp: check_usb_storage_loaded_def intro!: keeps_intro)
next
  case (OsUpdate a w)
  then show ?thesis
    by (cases "target os"; cases a) (auto simp: check_auto_updates_def intro!: keeps_intro)
qed (auto simp: check_blacklisted_processes_def intro!: keeps_intro)

lemma total_evaluate_rules [keeps_intro]: "total_action (evaluate_rules os rs)"
  by (induction rs) (auto intro!: keeps_intro)

lemmas enforcer_defs = enforce_firewall_linux_def enforce_firewall_windows_def
  enforce_firewall_macos_def enforce_usb_storage_linux_def enforce_usb_storage_windows_def
  enforce_usb_storage_macos_def enforce_screen_lock_linux_def enforce_screen_lock_windows_def
  enforce_screen_lock_macos_def enforce_auto_updates_linux_def enforce_auto_updates_windows_def
  enforce_auto_updates_macos_def mac_run_def put_file_def defaults_write_def

lemma total_enforce_rule [keeps_intro]: "total_action (enforce_rule os r)"
proof (cases r)
  case (OsUpdate a w)
  then show ?thesis
    by (cases "target os"; cases a)
      (auto simp: on_platform_def enforcer_defs Let_def intro!: keeps_intro)
next
  case (ProcessBlacklist d)
  then show ?thesis
    by (auto simp: kill_blacklisted_processes_def intro!: keeps_intro)
qed (cases "target os"; auto simp: on_platform_def enforcer_defs Let_def intro!: keeps_intro)+

lemma total_policy_reports [keeps_intro]: "total_action (policy_reports os d ps)"
  by (induction ps)
    (auto simp: evaluate_single_policy_def enforce_policy_rules_def intro!: keeps_intro)

text \<open>
  Evaluating a policy push always ends, with one report per policy in the order of the push
  (no message for an empty push), each carrying the device and its policy and compliant exactly
  when it lists no violation.
\<close>

theorem evaluate_policies_reports:
  "\<exists>rs k. evaluate_policies os d ps h = (Inr (if ps = [] then [] else [ComplianceReport rs]), k)
     \<and> map rep_policy_id rs = map pd_id ps
     \<and> (\<forall>r \<in> set rs. rep_device_id r = d \<and> (rep_compliant r \<longleftrightarrow> rep_violations r = []))"
proof -
  obtain rs k where r: "policy_reports os d ps h = (Inr rs, k)"
    using total_policy_reports [of os d ps] unfolding total_action_def
    by (metis prod.collapse)
  have shape: "map rep_policy_id rs = map pd_id ps
      \<and> (\<forall>r \<in> set rs. rep_device_id r = d \<and> (rep_compliant r \<longleftrightarrow> rep_violations r = []))"
    by (rule policy_reports_shape [OF r])
  then have "rs = [] \<longleftrightarrow> ps = []" by auto
  then have "evaluate_policies os d ps h = (Inr (if ps = [] then [] else [ComplianceReport rs]), k)"
    by (simp add: evaluate_policies_def and_then_Inr [where m = "policy_reports os d ps", OF r] action_simps)
  with shape show ?thesis by blast
qed

text \<open>
  The query commands of the checks.  When they leave the machine as it is, so does every check.
\<close>

definition check_queries :: "'h os \<Rightarrow> (string \<times> string list) list" where
  "check_queries os = (case target os of
       P_linux \<Rightarrow> [(''gsettings'', idle_query), (''gsettings'', lock_query), (''ufw'', [''status'']), (''lsmod'', [])]
     | P_windows \<Rightarrow> [(''reg'', [''query'', desktop_key, ''/v'', ''ScreenSaveTimeOut'']),
         (''reg'', [''query'', desktop_key, ''/v'', ''ScreenSaverIsSecure'']),
         (''netsh'', [''advfirewall'', ''show'', ''allprofiles'', ''state'']),
         (''reg'', [''query'', usbstor_key, ''/v'', ''Start'']),
         (''reg'', [''query'', update_key, ''/v'', ''AUOptions''])]
     | P_macos \<Rightarrow> [(''defaults'', [''read'', ''com.apple.screensaver'', ''askForPassword'']),
         (''defaults'', [''read'', ''com.apple.screensaver'', ''askForPasswordDelay'']),
         (socketfilterfw, [''--getglobalstate'']),
         (''defaults'', [''read'', software_update_prefs, ''AutomaticCheckEnabled''])]
     | P_other \<Rightarrow> [])"

definition read_only :: "'h os \<Rightarrow> bool" where
  "read_only os \<longleftrightarrow> (\<forall>(prog, args) \<in> set (check_queries os). queries os prog args)"

lemma keeps_query: "queries os p a \<Longrightarrow> keeps (\<lambda>k. k = h) (run_tool os p a)"
  by (simp add: keeps_def run_tool_def host_run_def queries_def split: prod.splits)
    (metis snd_conv)

lemma keeps_check_rule: "read_only os \<Longrightarrow> keeps (\<lambda>k. k = h) (check_rule os r)"
  by (cases "target os"; cases r) (auto simp: read_only_def check_queries_def check_firewall_enabled_def
    check_usb_storage_loaded_def check_auto_updates_def check_blacklisted_processes_def
    check_screen_lock_def check_screen_lock_linux_def check_screen_lock_windows_def
    check_screen_lock_macos_def check_lock_enabled_def Let_def
    split: update_policy.split intro!: keeps_intro keeps_query)

lemma keeps_evaluate_rules: "read_only os \<Longrightarrow> keeps (\<lambda>k. k = h) (evaluate_rules os rs)"
  by (induction rs) (auto intro!: keeps_intro keeps_check_rule)

lemma evaluate_rules_run:
  assumes "read_only os"
  obtains vs where "evaluate_rules os rs h = (Inr vs, h)"
proof -
  obtain vs where "fst (evaluate_rules os rs h) = Inr vs"
    using total_evaluate_rules [of os rs] unfolding total_action_def by blast
  moreover have "snd (evaluate_rules os rs h) = h"
    using keepsD [OF keeps_evaluate_rules [OF assms]] by blast
  ultimately show ?thesis using that by (metis prod.collapse)
qed

text \<open>The violations of a policy's rules on a machine.\<close>

definition violations :: "'h os \<Rightarrow> policy_rule list \<Rightarrow> 'h \<Rightarrow> compliance_violation list" where
  "violations os rules h = (case fst (evaluate_rules os rules h) of Inr vs \<Rightarrow> vs | Inl _ \<Rightarrow> [])"

lemma evaluate_rules_violations:
  "read_only os \<Longrightarrow> evaluate_rules os rs h = (Inr (violations os rs h), h)"
  by (rule evaluate_rules_run [of os rs h]) (simp_all add: violations_def)

text \<open>
  One step of the evaluation: the policy is judged on the machine as the policies before it left
  it, and all its rules are enforced exactly when one of them is violated.
\<close>

lemma policy_reports_Cons:
  assumes "read_only os"
    and k: "k = (if violations os (pd_rules p) h = [] then h
      else snd (enforce_policy_rules os (pd_rules p) h))"
    and rest: "policy_reports os d ps k = (Inr rs, l)"
  shows "policy_reports os d (p # ps) h = (Inr (\<lparr>rep_device_id = d, rep_policy_id = pd_id p,
    rep_compliant = (violations os (pd_rules p) h = []), rep_violations = violations os (pd_rules p) h,
    rep_checked_at = clock os k\<rparr> # rs), l)"
proof -
  note e = evaluate_rules_violations [OF assms(1), of "pd_rules p" h]
  obtain j where en: "enforce_policy_rules os (pd_rules p) h = (Inr (), j)"
    using total_for_each [of "enforce_rule os" "pd_rules p", OF total_enforce_rule]
    unfolding total_action_def enforce_policy_rules_def by (metis prod.collapse unit.exhaust)
  have w: "when_do (violations os (pd_rules p) h \<noteq> []) (enforce_policy_rules os (pd_rules p)) h = (Inr (), k)"
    by (simp add: when_do_def ret_apply en k)
  show ?thesis
    by (simp add: evaluate_single_policy_def and_then_Inr [where m = "evaluate_rules os _", OF e]
      and_then_Inr [where m = "when_do _ _", OF w] and_then_Inr [where m = "policy_reports os d ps", OF rest]
      ret_apply)
qed

text \<open>
  A compliant machine is left alone: when the query tools only look and no rule of the
  pushed policies is violated, the evaluation changes nothing and every report says compliant.
\<close>

theorem compliant_machine_untouched:
  assumes "read_only os" and "\<forall>p \<in> set ps. violations os (pd_rules p) h = []"
  shows "policy_reports os d ps h = (Inr (map (\<lambda>p. \<lparr>rep_device_id = d, rep_policy_id = pd_id p,
    rep_compliant = True, rep_violations = [], rep_checked_at = clock os h\<rparr>) ps), h)"
  using assms(2)
proof (induction ps)
  case Nil
  then show ?case by (simp add: ret_apply)
next
  case (Cons p ps)
  then show ?case by (subst policy_reports_Cons [OF assms(1) refl]) simp_all
qed

subsection \<open>A simulated machine\<close>

text \<open>
  A machine for the witnesses: the settings \<^verbatim>\<open>reg\<close> and \<^verbatim>\<open>netsh\<close> keep, as an association list
  from a key and value name to the text a query prints.
\<close>

type_synonym settings = "(string \<times> string) list"

definition lookup_setting :: "settings \<Rightarrow> string \<Rightarrow> tool_output option" where
  "lookup_setting h k = (case map_of h k of None \<Rightarrow> None | Some t \<Rightarrow> Some \<lparr>success = True, stdout = t\<rparr>)"

fun reg_tool :: "string list \<Rightarrow> settings \<Rightarrow> tool_output option \<times> settings" where
  "reg_tool [verb, key, flag, name, f1, kind, f2, data, f3] h =
     (Some \<lparr>success = True, stdout = []\<rparr>, (key @ name, ''0x'' @ data) # h)"
| "reg_tool [verb, key, flag, name] h = (lookup_setting h (key @ name), h)"
| "reg_tool args h = (None, h)"

fun netsh_tool :: "string list \<Rightarrow> settings \<Rightarrow> tool_output option \<times> settings" where
  "netsh_tool [a, b, c, d, onoff] h = (Some \<lparr>success = True, stdout = []\<rparr>, 
     (''firewall'', if onoff = ''on'' then ''ON'' else ''OFF'') # h)"
| "netsh_tool args h = (lookup_setting h ''firewall'', h)"

definition sim_exec :: "string \<Rightarrow> string list \<Rightarrow> settings \<Rightarrow> tool_output option \<times> settings" where
  "sim_exec prog args h = (if prog = ''reg'' then reg_tool args h
     else if prog = ''netsh'' then netsh_tool args h else (None, h))"

definition sim_windows :: "settings os" where
  "sim_windows = \<lparr>target = P_windows, exec = sim_exec, spawn = \<lambda>p a h. (Inr (), h),
     path_exists = \<lambda>p h. False, read_file = \<lambda>p h. Inl ''no file'', write_file = \<lambda>p t h. (Inr (), h),
     remove_file = \<lambda>p h. (Inr (), h), create_dirs = \<lambda>p h. (Inr (), h), chmod = \<lambda>p m h. (Inr (), h),
     entries = \<lambda>p h. [], read_link = \<lambda>p h. None,
     read_dir = \<lambda>p h. None, process_table = \<lambda>h. [], parent_dir = \<lambda>p. None, processes = \<lambda>h. [], kill_process = \<lambda>p h. h, cpu_usage = \<lambda>h. F_fin 0,
     total_memory = \<lambda>h. 0, used_memory = \<lambda>h. 0, disks = \<lambda>h. [], uptime = \<lambda>h. 0, clock = \<lambda>h. 0\<rparr>"

lemma sim_simps [simp]: "target sim_windows = P_windows" "exec sim_windows = sim_exec"
  "processes sim_windows h = []" "clock sim_windows h = 0"
  by (simp_all add: sim_windows_def)

lemma sim_read_only: "read_only sim_windows"
  by (simp add: read_only_def check_queries_def queries_def sim_exec_def)

theorem compliant_machine_untouched_witness:
  "policy_reports sim_windows 7 [\<lparr>pd_id = 1, pd_name = ''fw'', pd_rules = [Firewall True, UsbStorage True]\<rparr>]
     [(''firewall'', ''State ON'')] =
   (Inr (map (\<lambda>p. \<lparr>rep_device_id = 7, rep_policy_id = pd_id p, rep_compliant = True,
     rep_violations = [], rep_checked_at = clock sim_windows [(''firewall'', ''State ON'')]\<rparr>)
     [\<lparr>pd_id = 1, pd_name = ''fw'', pd_rules = [Firewall True, UsbStorage True]\<rparr>]), [(''firewall'', ''State ON'')])"
  by (rule compliant_machine_untouched [OF sim_read_only])
    (simp add: violations_def check_firewall_enabled_def sim_exec_def lookup_setting_def and_then_assoc
      starts_with_def, simp add: ret_apply)

theorem evaluate_policies_reports_witness:
  "\<exists>rs k. evaluate_policies sim_windows 7 [\<lparr>pd_id = 1, pd_name = ''fw'', pd_rules = [Firewall True]\<rparr>] [] =
     (Inr [ComplianceReport rs], k) \<and> map rep_policy_id rs = [1]"
proof -
  let ?p = "\<lparr>pd_id = 1, pd_name = ''fw'', pd_rules = [Firewall True]\<rparr>"
  obtain rs k where e: "evaluate_policies sim_windows 7 [?p] [] = (Inr (if [?p] = [] then [] else [ComplianceReport rs]), k)"
    and i: "map rep_policy_id rs = map pd_id [?p]"
    using evaluate_policies_reports [of sim_windows 7 "[?p]" "[]"] by blast
  have "map rep_policy_id rs = [1]" unfolding i by simp
  then show ?thesis unfolding e by simp
qed

subsection \<open>Enforcement\<close>

text \<open>The rules with a registry or firewall setting behind them.\<close>

definition enforceable :: "policy_rule \<Rightarrow> bool" where
  "enforceable r = (case r of Firewall _ \<Rightarrow> True | UsbStorage _ \<Rightarrow> True | OsUpdate _ _ \<Rightarrow> True
     | SystemEvents _ _ _ \<Rightarrow> True | _ \<Rightarrow> False)"


lemma contains_append: "contains s (s @ t)"
  by (cases "s @ t") (auto dest: sym simp: starts_with_def)


text \<open>
  Where the checks do not see what the rules mean: the firewall check of Linux accepts the status
  \<open>inactive\<close>, the USB rule is never violated on macOS, and a deny list with an empty name matches
  every process, which the enforcement then kills.
\<close>

lemma inactive_firewall_passes:
  assumes "target os = P_linux" and "fst (exec os ''ufw'' [''status''] h) = Some ot"
    and "stdout ot = ''Status: inactive''"
  shows "fst (check_rule os (Firewall True) h) = Inr None"
  using assms by (simp add: check_firewall_enabled_def and_then_assoc)
    (simp add: ret_apply starts_with_def)

lemma macos_usb_never_violated:
  "target os = P_macos \<Longrightarrow> check_rule os (UsbStorage a) h = (Inr None, h)"
  by (simp add: check_usb_storage_loaded_def ret_apply)

lemma empty_name_denies_all: "[] \<in> set deny \<Longrightarrow> denied deny name"
  by (cases name) (auto simp: denied_def list_ex_iff starts_with_def intro!: bexI [of _ "[]"])

lemma registry_hex_misread: "registry_number ''0x384'' = Some 384"
  by (simp add: registry_number_def parse_uint_def strip_plus_def is_digit_def code_def)

end
