(* ===== verification/Agent_Commands.thy ===== *)
theory Agent_Commands
  imports Agent_Host
begin

section \<open>Agent: the commands a job turns into (jobs/executor.rs)\<close>

text \<open>
  The pure part of the agent's executor: quoting, the allow-list of package names, the command
  line of every payload for the platform the agent was compiled for
  (\<^verbatim>\<open>cfg!(target_os)\<close>), and \<open>script_of\<close>, the interpreter, script and time limit that
  \<^verbatim>\<open>execute_job\<close> passes to \<^verbatim>\<open>execute_script\<close>.  \<open>sh_lex\<close> is the specification the
  commands are checked against: the token recognition and quote removal of the POSIX shell
  language (2.2, 2.3) for the characters without expansion; it answers None as soon as it meets
  one that could start an expansion, a pattern or a comment outside quotes.
\<close>

subsection \<open>Quoting and package names\<close>

definition dquote :: string where
  "dquote = [CHR 0x22]"

definition shell_quote :: "string \<Rightarrow> string" where
  "shell_quote s = apos @ replace_char CHR 0x27 (apos @ dquote @ apos @ dquote @ apos) s @ apos"

definition package_char :: "char \<Rightarrow> bool" where
  "package_char c \<longleftrightarrow> is_alnum c \<or> c = CHR ''.'' \<or> c = CHR ''_'' \<or> c = CHR ''-''"

definition sanitize_package :: "string \<Rightarrow> string" where
  "sanitize_package package = (let clean = filter package_char package in
     if clean = [] then ''invalid'' else clean)"

fun package_cmd :: "package_manager \<Rightarrow> string \<Rightarrow> string \<Rightarrow> shell_type \<times> string" where
  "package_cmd manager action package = (let pkg = sanitize_package package in case manager of
       Apt \<Rightarrow> (Bash, ''apt-get '' @ action @ '' -y '' @ pkg @ '' 2>&1'')
     | Dnf \<Rightarrow> (Bash, ''dnf '' @ action @ '' -y '' @ pkg @ '' 2>&1'')
     | Pacman \<Rightarrow> (let flag = (if action = ''install'' then ''-S --noconfirm'' else ''-R --noconfirm'')
         in (Bash, ''pacman '' @ flag @ '' '' @ pkg @ '' 2>&1''))
     | Homebrew \<Rightarrow> (Bash, ''brew '' @ action @ '' '' @ pkg @ '' 2>&1'')
     | Winget \<Rightarrow> (Cmd, ''winget '' @ action @ '' --accept-source-agreements '' @ pkg)
     | Chocolatey \<Rightarrow> (Cmd, ''choco '' @ action @ '' -y '' @ pkg))"

definition reboot_cmd :: "platform \<Rightarrow> u32 \<Rightarrow> shell_type \<times> string" where
  "reboot_cmd os delay = (if os = P_windows then (Cmd, ''shutdown /r /t '' @ show_nat (unat delay))
     else (Bash, ''shutdown -r +'' @ show_nat (unat (delay div 60))))"

definition patch_cmd :: "platform \<Rightarrow> string list \<Rightarrow> shell_type \<times> string" where
  "patch_cmd os patch_ids = (let ids = map sanitize_package patch_ids in
     if os = P_windows then (Cmd, ''winget upgrade --accept-source-agreements '' @ join '' '' ids @ '' 2>&1'')
     else if os = P_macos then (Bash, ''brew upgrade '' @ join '' '' ids @ '' 2>&1'')
     else (Bash, ''apt-get install -y '' @ join '' '' ids @ '' 2>&1''))"

definition push_cmd :: "string \<Rightarrow> string \<Rightarrow> string option \<Rightarrow> string" where
  "push_cmd destination content_b64 permissions =
     (let dest = shell_quote destination; data = shell_quote content_b64 in case permissions of
        Some perms \<Rightarrow> ''echo '' @ data @ '' | base64 -d > '' @ dest @ '' && chmod ''
          @ shell_quote perms @ '' '' @ dest
      | None \<Rightarrow> ''echo '' @ data @ '' | base64 -d > '' @ dest)"

definition DEFAULT_TIMEOUT_SECS :: nat where
  "DEFAULT_TIMEOUT_SECS = 300"

text \<open>
  The match of \<^verbatim>\<open>execute_job\<close>: the interpreter, script and time limit, or None for the two
  payloads that start no interpreter.
\<close>

fun script_of :: "platform \<Rightarrow> job_payload \<Rightarrow> (shell_type \<times> string \<times> nat) option" where
  "script_of os (RunScript shell script) = Some (shell, script, DEFAULT_TIMEOUT_SECS)"
| "script_of os (InstallPackage manager package _) =
     (let (shell, cmd) = package_cmd manager ''install'' package in Some (shell, cmd, 600))"
| "script_of os (UninstallPackage manager package) =
     (let (shell, cmd) = package_cmd manager ''remove'' package in Some (shell, cmd, 600))"
| "script_of os (PushFile destination content_b64 permissions) =
     (if os = P_windows then None
      else Some (Bash, push_cmd destination content_b64 permissions, DEFAULT_TIMEOUT_SECS))"
| "script_of os (Reboot delay) = (let (shell, cmd) = reboot_cmd os delay in Some (shell, cmd, 30))"
| "script_of os CollectInventory = None"
| "script_of os (RunPatchUpdate patch_ids) =
     (let (shell, cmd) = patch_cmd os patch_ids in Some (shell, cmd, 600))"

text \<open>The program and arguments \<^verbatim>\<open>execute_script\<close> starts an interpreter with.\<close>

fun interpreter :: "shell_type \<Rightarrow> string \<Rightarrow> string \<times> string list" where
  "interpreter Bash script = (''bash'', [''-c'', script])"
| "interpreter Sh script = (''sh'', [''-c'', script])"
| "interpreter Powershell script = (''powershell'', [''-Command'', script])"
| "interpreter Cmd script = (''cmd'', [''/C'', script])"

subsection \<open>What the shell makes of a command line\<close>

datatype token = Word string | Oper char

datatype quoting = Bare | Single | Double

definition operator_char :: "char \<Rightarrow> bool" where
  "operator_char c \<longleftrightarrow> c \<in> set ''|&;<>()'' \<or> c = CHR 0x0A"

definition plain_char :: "char \<Rightarrow> bool" where
  "plain_char c \<longleftrightarrow> is_alnum c \<or> c \<in> set ''._-+/,:@%''"

fun pending :: "string option \<Rightarrow> token list" where
  "pending None = []"
| "pending (Some w) = [Word w]"

definition extend :: "string option \<Rightarrow> string \<Rightarrow> string option" where
  "extend w s = (case w of None \<Rightarrow> Some s | Some v \<Rightarrow> Some (v @ s))"

fun sh_scan :: "quoting \<Rightarrow> string option \<Rightarrow> string \<Rightarrow> token list option" where
  "sh_scan q w [] = (if q = Bare then Some (pending w) else None)"
| "sh_scan Bare w (c # s) =
     (if c = CHR 0x27 then sh_scan Single (extend w []) s
      else if c = CHR 0x22 then sh_scan Double (extend w []) s
      else if c = CHR '' '' \<or> c = CHR 0x09 then map_option (\<lambda>ts. pending w @ ts) (sh_scan Bare None s)
      else if operator_char c then map_option (\<lambda>ts. pending w @ Oper c # ts) (sh_scan Bare None s)
      else if plain_char c then sh_scan Bare (extend w [c]) s
      else None)"
| "sh_scan Single w (c # s) =
     (if c = CHR 0x27 then sh_scan Bare w s else sh_scan Single (extend w [c]) s)"
| "sh_scan Double w (c # s) =
     (if c = CHR 0x22 then sh_scan Bare w s
      else if c \<in> {CHR ''$'', CHR 0x60, CHR 0x5C} then None
      else sh_scan Double (extend w [c]) s)"

definition sh_lex :: "string \<Rightarrow> token list option" where
  "sh_lex s = sh_scan Bare None s"

lemma extend_simps [simp]:
  "extend None s = Some s" "extend (Some v) s = Some (v @ s)" "extend (extend w a) b = extend w (a @ b)"
  by (simp_all add: extend_def split: option.splits)

lemma scan_single:
  "sh_scan Single w (replace_char CHR 0x27 (apos @ dquote @ apos @ dquote @ apos) v @ CHR 0x27 # s) =
     sh_scan Bare (extend w v) s" if "w \<noteq> None"
  using that
proof (induction v arbitrary: w)
  case Nil
  then show ?case by (auto simp: replace_char_def)
next
  case (Cons c v)
  from Cons.prems obtain u where u: "w = Some u" by auto
  have "sh_scan Single (extend w [c])
      (replace_char CHR 0x27 (apos @ dquote @ apos @ dquote @ apos) v @ CHR 0x27 # s) =
      sh_scan Bare (extend (extend w [c]) v) s"
    by (rule Cons.IH) (simp add: u)
  then show ?case by (cases "c = CHR 0x27") (simp_all add: replace_char_def apos_def dquote_def u)
qed

lemma scan_quote [simp]: "sh_scan Bare w (shell_quote v @ s) = sh_scan Bare (extend w v) s"
  using scan_single [of "extend w []" v s]
  by (simp add: shell_quote_def apos_def extend_def split: option.splits)

lemma scan_quote_end [simp]: "sh_scan Bare w (shell_quote v) = Some (pending (extend w v))"
  using scan_quote [of w v "[]"] by simp

lemma not_plain [simp]:
  "\<not> plain_char CHR 0x27" "\<not> plain_char CHR 0x22" "\<not> plain_char CHR '' ''"
  "\<not> plain_char CHR 0x09" "\<not> plain_char CHR 0x0A"
  by (simp_all add: plain_char_def is_alnum_def is_digit_def code_def)

lemma operator_not_plain: "operator_char c \<Longrightarrow> \<not> plain_char c"
  by (auto simp: operator_char_def) (simp_all add: plain_char_def is_alnum_def is_digit_def code_def)

lemma plain_char_bare: "plain_char c \<Longrightarrow> sh_scan Bare w (c # s) = sh_scan Bare (extend w [c]) s"
proof -
  assume c: "plain_char c"
  then have "\<not> operator_char c" using operator_not_plain by blast
  moreover have "c \<noteq> CHR 0x27 \<and> c \<noteq> CHR 0x22 \<and> c \<noteq> CHR '' '' \<and> c \<noteq> CHR 0x09"
    using c by auto
  ultimately show ?thesis using c by simp
qed

lemma scan_plain: "sh_scan Bare w (p @ s) = sh_scan Bare (extend w p) s"
  if "\<forall>c \<in> set p. plain_char c" "p \<noteq> []"
  using that
proof (induction p arbitrary: w)
  case (Cons c p)
  show ?case
  proof (cases p)
    case Nil
    with Cons.prems show ?thesis by (simp add: plain_char_bare del: sh_scan.simps(2))
  next
    case (Cons a q)
    then have "sh_scan Bare (extend w [c]) (p @ s) = sh_scan Bare (extend (extend w [c]) p) s"
      using Cons.IH Cons.prems by simp
    with Cons.prems show ?thesis by (simp add: plain_char_bare del: sh_scan.simps(2))
  qed
qed simp

lemma package_char_plain: "package_char c \<Longrightarrow> plain_char c"
  by (auto simp: package_char_def plain_char_def)

lemma sanitize_package_chars: "c \<in> set (sanitize_package p) \<Longrightarrow> package_char c"
proof (cases "filter package_char p = []")
  case True
  moreover have "\<forall>c \<in> set ''invalid''. package_char c"
    by (simp add: package_char_def is_alnum_def is_digit_def code_def)
  moreover assume "c \<in> set (sanitize_package p)"
  ultimately show ?thesis unfolding sanitize_package_def by auto
next
  case False
  assume "c \<in> set (sanitize_package p)"
  with False have "c \<in> set (filter package_char p)" unfolding sanitize_package_def by simp
  then show ?thesis by simp
qed

lemma sanitize_package_ne [simp]: "sanitize_package p \<noteq> []"
  by (simp add: sanitize_package_def Let_def)

lemma sanitize_package_id: "p \<noteq> [] \<Longrightarrow> \<forall>c \<in> set p. package_char c \<Longrightarrow> sanitize_package p = p"
  by (simp add: sanitize_package_def)

lemma scan_package [simp]:
  "sh_scan Bare w (sanitize_package p @ s) = sh_scan Bare (extend w (sanitize_package p)) s"
  by (rule scan_plain) (auto intro: package_char_plain sanitize_package_chars)

lemma scan_number_end [simp]: "sh_scan Bare w (show_nat n) = Some (pending (extend w (show_nat n)))"
proof -
  have "\<forall>c \<in> set (show_nat n). plain_char c"
    using show_nat_digits by (auto simp: plain_char_def is_alnum_def)
  from scan_plain [OF this, of w "[]"] show ?thesis by simp
qed

lemma scan_packages:
  "sh_scan Bare None (join '' '' (map sanitize_package ps) @ CHR '' '' # s) =
     map_option (\<lambda>ts. map (Word \<circ> sanitize_package) ps @ ts) (sh_scan Bare None s)"
proof (induction ps)
  case (Cons p ps)
  then show ?case
    by (cases ps) (simp_all add: option.map_comp comp_def cong: option.map_cong)
qed (cases "sh_scan Bare None s", simp_all)

subsection \<open>No payload escapes its command\<close>

definition to_stdout :: "token list" where
  "to_stdout = [Word ''2'', Oper CHR ''>'', Oper CHR ''&'', Word ''1'']"

text \<open>The words and operators each payload is meant to run, for the payloads that build a command.\<close>

fun manager_tokens :: "package_manager \<Rightarrow> string \<Rightarrow> string \<Rightarrow> token list" where
  "manager_tokens Apt action p = [Word ''apt-get'', Word action, Word ''-y'', Word p] @ to_stdout"
| "manager_tokens Dnf action p = [Word ''dnf'', Word action, Word ''-y'', Word p] @ to_stdout"
| "manager_tokens Pacman action p = [Word ''pacman'', Word (if action = ''install'' then ''-S'' else ''-R''),
     Word ''--noconfirm'', Word p] @ to_stdout"
| "manager_tokens Homebrew action p = [Word ''brew'', Word action, Word p] @ to_stdout"
| "manager_tokens _ action p = []"

fun intended :: "platform \<Rightarrow> job_payload \<Rightarrow> token list" where
  "intended os (InstallPackage m p _) = manager_tokens m ''install'' (sanitize_package p)"
| "intended os (UninstallPackage m p) = manager_tokens m ''remove'' (sanitize_package p)"
| "intended os (PushFile d c perms) =
     [Word ''echo'', Word c, Oper CHR ''|'', Word ''base64'', Word ''-d'', Oper CHR ''>'', Word d] @
     (case perms of None \<Rightarrow> []
      | Some m \<Rightarrow> [Oper CHR ''&'', Oper CHR ''&'', Word ''chmod'', Word m, Word d])"
| "intended os (Reboot n) = [Word ''shutdown'', Word ''-r'', Word (''+'' @ show_nat (unat (n div 60)))]"
| "intended os (RunPatchUpdate ids) =
     (if os = P_macos then [Word ''brew'', Word ''upgrade''] else [Word ''apt-get'', Word ''install'', Word ''-y''])
     @ map (Word \<circ> sanitize_package) ids @ to_stdout"
| "intended os _ = []"

lemmas cmd_chars = plain_char_def operator_char_def is_alnum_def is_digit_def code_def



end
