(* ===== verification/Agent_Telemetry.thy ===== *)
theory Agent_Telemetry
  imports Agent_Commands
begin

section \<open>Agent: what it reports about the machine (telemetry/*.rs)\<close>

text \<open>
  The collectors of installed software, of pending updates and of the load of the machine: which
  tool each platform runs, when the output counts, and the parser of each tool's table.  The
  parsers work on the lines of the output; what the tools print is not part of the program.
\<close>

subsection \<open>Tables of the package managers\<close>

definition installed :: "string \<Rightarrow> string option \<Rightarrow> string option \<Rightarrow> software_item" where
  "installed n v p = \<lparr>si_name = n, si_version = v, si_publisher = p, si_install_date = None\<rparr>"

definition available :: "string \<Rightarrow> string \<Rightarrow> patch_item" where
  "available i t = \<lparr>pi_patch_id = i, pi_title = Some t, pi_severity = None,
     pi_status = ''available''\<rparr>"

text \<open>The arrow of the titles, three bytes of UTF-8.\<close>

definition arrow :: string where
  "arrow = '' '' @ [CHR 0xE2, CHR 0x86, CHR 0x92] @ '' ''"

definition nth_opt :: "'a list \<Rightarrow> nat \<Rightarrow> 'a option" where
  "nth_opt xs n = (if n < length xs then Some (xs ! n) else None)"

definition tab :: char where
  "tab = CHR 0x09"

definition dpkg_line :: "string \<Rightarrow> software_item option" where
  "dpkg_line line = (let parts = split_on tab line in
     if 2 \<le> length parts \<and> (case nth_opt parts 2 of None \<Rightarrow> True | Some s \<Rightarrow> contains ''installed'' s)
     then Some (installed (parts ! 0) (Some (parts ! 1)) None) else None)"

definition parse_dpkg :: "string \<Rightarrow> software_item list" where
  "parse_dpkg text = List.map_filter dpkg_line (lines_of text)"

definition rpm_line :: "string \<Rightarrow> software_item option" where
  "rpm_line line = (let parts = split_on tab line in
     if 2 \<le> length parts
     then Some (installed (parts ! 0) (Some (parts ! 1)) (nth_opt parts 2)) else None)"

definition parse_rpm :: "string \<Rightarrow> software_item list" where
  "parse_rpm text = List.map_filter rpm_line (lines_of text)"

definition winget_line :: "string \<Rightarrow> software_item option" where
  "winget_line l = (let line = trim_end l in
     if length line < 8 \<or> list_all (\<lambda>c. c = CHR ''-'') line then None
     else let parts = split_whitespace line in
       if 3 \<le> length parts
       then Some (installed (join '' '' (take (length parts - 2) parts))
         (Some (parts ! (length parts - 2))) None)
       else None)"

definition parse_winget :: "string \<Rightarrow> software_item list" where
  "parse_winget text = List.map_filter winget_line (drop 2 (lines_of text))"

definition brew_line :: "string \<Rightarrow> software_item option" where
  "brew_line line = (case split_whitespace line of [] \<Rightarrow> None
     | name # parts \<Rightarrow> Some (installed name (nth_opt parts 0) None))"

definition parse_brew :: "string \<Rightarrow> software_item list" where
  "parse_brew text = List.map_filter brew_line (lines_of text)"

text \<open>\<^verbatim>\<open>str::find('/')\<close>: the text before the first slash and the text after it.\<close>

fun split_slash :: "string \<Rightarrow> (string \<times> string) option" where
  "split_slash [] = None"
| "split_slash (c # s) = (if c = CHR ''/'' then Some ([], s)
     else case split_slash s of None \<Rightarrow> None | Some (a, b) \<Rightarrow> Some (c # a, b))"

definition apt_line :: "string \<Rightarrow> patch_item option" where
  "apt_line line = (case split_slash line of None \<Rightarrow> None
     | Some (name, rest) \<Rightarrow>
         let version = (case nth_opt (split_whitespace rest) 1 of None \<Rightarrow> ''unknown'' | Some v \<Rightarrow> v)
         in Some (available name (name @ arrow @ version)))"

definition parse_apt :: "string \<Rightarrow> patch_item list" where
  "parse_apt text = List.map_filter apt_line (drop 1 (lines_of text))"

definition dnf_line :: "string \<Rightarrow> patch_item option" where
  "dnf_line line = (let parts = split_whitespace line in
     if 2 \<le> length parts then Some (available (parts ! 0) (parts ! 0 @ arrow @ parts ! 1)) else None)"

definition parse_dnf :: "string \<Rightarrow> patch_item list" where
  "parse_dnf text = List.map_filter dnf_line (lines_of text)"

definition winget_upgrade_line :: "string \<Rightarrow> patch_item option" where
  "winget_upgrade_line line = (let parts = split_whitespace line in
     if 4 \<le> length parts
     then Some (available (join '' '' (take (length parts - 3) parts)) (trim line)) else None)"

definition parse_winget_upgrades :: "string \<Rightarrow> patch_item list" where
  "parse_winget_upgrades text = List.map_filter winget_upgrade_line (drop 2 (lines_of text))"

definition brew_outdated_line :: "string \<Rightarrow> patch_item option" where
  "brew_outdated_line line = (case split_whitespace line of [] \<Rightarrow> None
     | name # _ \<Rightarrow> Some (available name (name @ '' update available'')))"

definition parse_brew_outdated :: "string \<Rightarrow> patch_item list" where
  "parse_brew_outdated text = List.map_filter brew_outdated_line (lines_of text)"

subsection \<open>The collectors\<close>

text \<open>
  Run a tool; its table, or None when it cannot be started or (unless \<open>lenient\<close>) fails.
\<close>

definition table ::
  "'h os \<Rightarrow> bool \<Rightarrow> string \<Rightarrow> string list \<Rightarrow> (string \<Rightarrow> 'a list) \<Rightarrow> ('h, 'a list option) host_action" where
  "table os lenient prog args parse =
     and_then (run_tool os prog args) (\<lambda>out. ret (case out of None \<Rightarrow> None
       | Some ot \<Rightarrow> if lenient \<or> success ot then Some (parse (stdout ot)) else None))"

definition or_table ::
  "('h, 'a list option) host_action \<Rightarrow> ('h, 'a list option) host_action \<Rightarrow> ('h, 'a list option) host_action" where
  "or_table m n = and_then m (\<lambda>r. case r of Some xs \<Rightarrow> ret (Some xs) | None \<Rightarrow> n)"

definition unwrap_table :: "('h, 'a list option) host_action \<Rightarrow> ('h, 'a list) host_action" where
  "unwrap_table m = and_then m (\<lambda>r. ret (case r of Some xs \<Rightarrow> xs | None \<Rightarrow> []))"

definition newline :: char where
  "newline = CHR 0x0A"

definition dpkg_args :: "string list" where
  "dpkg_args = [''-W'', ''-f'', ''${Package}'' @ [tab] @ ''${Version}'' @ [tab] @ ''${Status}'' @ [newline]]"

definition rpm_args :: "string list" where
  "rpm_args = [''-qa'', ''--queryformat'',
     ''%{NAME}'' @ [tab] @ ''%{VERSION}-%{RELEASE}'' @ [tab] @ ''%{VENDOR}'' @ [newline]]"

definition collect_software :: "'h os \<Rightarrow> ('h, software_item list) host_action" where
  "collect_software os = (case target os of
       P_linux \<Rightarrow> unwrap_table (or_table (table os False ''dpkg-query'' dpkg_args parse_dpkg)
         (table os False ''rpm'' rpm_args parse_rpm))
     | P_windows \<Rightarrow> unwrap_table (table os False ''winget'' [''list'', ''--disable-interactivity''] parse_winget)
     | P_macos \<Rightarrow> unwrap_table (table os False ''brew'' [''list'', ''--versions''] parse_brew)
     | P_other \<Rightarrow> ret [])"

definition collect_patches :: "'h os \<Rightarrow> ('h, patch_item list) host_action" where
  "collect_patches os = (case target os of
       P_linux \<Rightarrow> unwrap_table (or_table (table os False ''apt'' [''list'', ''--upgradable''] parse_apt)
         (table os True ''dnf'' [''check-update'', ''--quiet''] parse_dnf))
     | P_windows \<Rightarrow> unwrap_table (table os False ''winget'' [''upgrade'', ''--disable-interactivity'']
         parse_winget_upgrades)
     | P_macos \<Rightarrow> unwrap_table (table os False ''brew'' [''outdated''] parse_brew_outdated)
     | P_other \<Rightarrow> ret [])"

subsection \<open>The load of the machine\<close>

text \<open>
  \<^verbatim>\<open>collect_snapshot\<close>: memory in whole mebibytes, disks in gibibytes.  The additions and the
  subtraction of disk sizes are on \<^verbatim>\<open>u64\<close> and wrap (the release build has no overflow checks).
\<close>

definition disk_sums :: "disk list \<Rightarrow> u64 \<times> u64" where
  "disk_sums ds = foldl (\<lambda>(total, used) d.
     (total + total_space d, used + (total_space d - available_space d))) (0, 0) ds"

definition in_gb :: "u64 \<Rightarrow> f64" where
  "in_gb n = f64_div (f64_of_int (uint n)) (f64_mul (f64_mul (F_fin 1024) (F_fin 1024)) (F_fin 1024))"

definition collect_snapshot :: "'h os \<Rightarrow> 'h \<Rightarrow> telemetry_snapshot" where
  "collect_snapshot os h = (let (disk_total, disk_used) = disk_sums (disks os h) in
     \<lparr>cpu_pct = cpu_usage os h, ram_used_mb = used_memory os h div (1024 * 1024),
      ram_total_mb = total_memory os h div (1024 * 1024), disk_used_gb = in_gb disk_used,
      disk_total_gb = in_gb disk_total, uptime_secs = uptime os h, snap_timestamp = clock os h\<rparr>)"

lemma disk_sums_Nil [simp]: "disk_sums [] = (0, 0)"
  by (simp add: disk_sums_def)

lemma foldl_disks:
  "foldl (\<lambda>(total, used) d. (total + total_space d, used + (total_space d - available_space d)))
     (a, b) ds = (a + sum_list (map total_space ds),
       b + sum_list (map (\<lambda>d. total_space d - available_space d) ds))"
  by (induction ds arbitrary: a b) (simp_all add: ac_simps)

lemma disk_sums_eq: "disk_sums ds =
    (sum_list (map total_space ds), sum_list (map (\<lambda>d. total_space d - available_space d) ds))"
  by (simp add: disk_sums_def foldl_disks)

subsection \<open>The dpkg table read back\<close>

text \<open>A line of \<^verbatim>\<open>dpkg-query\<close> and the table of such lines.\<close>

definition dpkg_row :: "string \<times> string \<times> string \<Rightarrow> string" where
  "dpkg_row = (\<lambda>(p, v, st). p @ [tab] @ v @ [tab] @ st @ [newline])"

definition no_separator :: "string \<Rightarrow> bool" where
  "no_separator s \<longleftrightarrow> tab \<notin> set s \<and> newline \<notin> set s \<and> CHR 0x0D \<notin> set s"

lemma strip_cr_id: "CHR 0x0D \<notin> set s \<Longrightarrow> strip_cr s = s"
  using last_in_set [of s] unfolding strip_cr_def by metis

lemma lines_of_rows:
  assumes "\<And>l. l \<in> set ls \<Longrightarrow> newline \<notin> set l \<and> CHR 0x0D \<notin> set l"
  shows "lines_of (concat (map (\<lambda>l. l @ [newline]) ls)) = ls"
proof -
  have s: "split_on newline (concat (map (\<lambda>l. l @ [newline]) ls)) = ls @ [[]]"
    using assms by (induction ls) (simp_all add: split_on_append)
  have "map strip_cr ls = ls"
    using assms by (induction ls) (simp_all add: strip_cr_id)
  then show ?thesis using s by (simp add: lines_of_def newline_def Let_def)
qed

lemma dpkg_line_row:
  assumes "no_separator p" "no_separator v" "no_separator st"
  shows "dpkg_line (p @ tab # v @ tab # st) =
    (if contains ''installed'' st then Some (installed p (Some v) None) else None)"
  using assms by (simp add: dpkg_line_def Let_def split_on_append split_on_no_sep no_separator_def nth_opt_def)

lemma map_filter_if: "List.map_filter (\<lambda>x. if P x then Some (f x) else None) xs = map f (filter P xs)"
  by (induction xs) (simp_all add: List.map_filter_simps)

text \<open>
  The table of \<^verbatim>\<open>dpkg-query\<close> is read back as the packages whose status text contains
  \<open>installed\<close>, in order, with the very names and versions; a status such as \<open>not-installed\<close>
  counts too.
\<close>

lemma parse_dpkg_rows:
  assumes "\<forall>(p, v, st) \<in> set rows. no_separator p \<and> no_separator v \<and> no_separator st"
  shows "parse_dpkg (concat (map dpkg_row rows)) =
    map (\<lambda>(p, v, st). installed p (Some v) None) (filter (\<lambda>(p, v, st). contains ''installed'' st) rows)"
proof -
  define ls where "ls = map (\<lambda>(p, v, st). p @ tab # v @ tab # st) rows"
  have e: "concat (map dpkg_row rows) = concat (map (\<lambda>l. l @ [newline]) ls)"
    by (simp add: ls_def dpkg_row_def comp_def case_prod_unfold)
  have "lines_of (concat (map (\<lambda>l. l @ [newline]) ls)) = ls"
    by (rule lines_of_rows) (use assms in \<open>auto simp: ls_def no_separator_def tab_def newline_def\<close>)
  then have "parse_dpkg (concat (map dpkg_row rows)) = List.map_filter dpkg_line ls"
    by (simp add: parse_dpkg_def e)
  also have "\<dots> = List.map_filter (\<lambda>r. if contains ''installed'' (snd (snd r))
      then Some (installed (fst r) (Some (fst (snd r))) None) else None) rows"
    using assms unfolding ls_def
    by (induction rows) (auto simp: List.map_filter_simps dpkg_line_row split: option.splits if_splits)
  finally show ?thesis by (simp add: map_filter_if case_prod_unfold)
qed

lemma not_installed_listed:
  "parse_dpkg (dpkg_row (''vim'', ''9.0'', ''unknown ok not-installed'')) =
     [installed ''vim'' (Some ''9.0'') None]"
  using parse_dpkg_rows [of "[(''vim'', ''9.0'', ''unknown ok not-installed'')]"]
  by (simp add: no_separator_def tab_def newline_def starts_with_def)

text \<open>
  An update that \<^verbatim>\<open>winget\<close> lists under a name of several words cannot be installed by the
  job made from its id: the executor drops the blanks of it.
\<close>

lemma winget_id_lost:
  "map pi_patch_id (List.map_filter winget_upgrade_line [''Foo Bar Foo.Bar 1.0 2.0 winget'']) = [''Foo Bar Foo.Bar'']
   \<and> patch_cmd P_windows [''Foo Bar Foo.Bar''] =
     (Cmd, ''winget upgrade --accept-source-agreements FooBarFoo.Bar 2>&1'')"
  by (simp add: winget_upgrade_line_def Let_def split_whitespace_def is_ws_def code_def available_def
    patch_cmd_def sanitize_package_def package_char_def is_alnum_def is_digit_def List.map_filter_simps)

end
