(* ===== verification/Agent_Jobs.thy ===== *)
theory Agent_Jobs
  imports Agent_Telemetry
begin

section \<open>Agent: running jobs (jobs/executor.rs, jobs/registry.rs)\<close>

text \<open>
  The state of a running agent and the life of a job in it.  \<open>job_registry\<close> is the static map of
  \<^verbatim>\<open>registry.rs\<close> from a job id to the sending half of the kill channel of one run; a run is one
  call of \<^verbatim>\<open>execute_job\<close>, numbered in the order of the dispatches.  The receiving half resolves
  as soon as no sender is left, whether a revocation sent on it, the entry was overwritten or
  another run removed it (\<^verbatim>\<open>_ = kill_rx\<close> accepts the error of a closed channel).  A run passes
  through the phases of its task: queued by the message loop, streaming while the process runs
  and its two pipes are read, draining once the \<^verbatim>\<open>select!\<close> has an exit code and the pipes are read to
  their ends, finished.  Every step is a function of the state that is None where the step is not
  possible; what the process and the clock do is the choice of the step.  \<open>outbox\<close> is the
  outbound channel, each message with the task that sent it.
\<close>

subsection \<open>State\<close>

datatype phase =
    Queued
  | Streaming bool bool
  | Draining bool bool i32
  | Finished

record run =
  run_job :: uuid
  run_payload :: job_payload
  run_phase :: phase

datatype source = From_run nat | From_pty nat | From_task

datatype task =
    Evaluate "policy_definition list"
  | Reject uuid string

datatype pty_stage = Opening | Open | Closed

record pty =
  pty_session :: uuid
  pty_stage :: pty_stage
  pty_reading :: bool
  pty_stdin :: "string list"
  pty_kill :: bool
  pty_written :: "string list"

record 'h agent =
  host :: 'h
  job_registry :: "uuid \<Rightarrow> nat option"
  runs :: "run list"
  tasks :: "task list"
  shells :: "uuid \<Rightarrow> nat option"
  ptys :: "pty list"
  outbox :: "(source \<times> agent_message) list"

definition emit :: "source \<Rightarrow> agent_message \<Rightarrow> 'h agent \<Rightarrow> 'h agent" where
  "emit src m s = s\<lparr>outbox := outbox s @ [(src, m)]\<rparr>"

definition sent_by :: "source \<Rightarrow> 'h agent \<Rightarrow> agent_message list" where
  "sent_by src s = map snd (filter (\<lambda>p. fst p = src) (outbox s))"

definition on_host :: "('h, 'a) host_action \<Rightarrow> 'a \<Rightarrow> 'h agent \<Rightarrow> 'a \<times> 'h agent" where
  "on_host m d s = (case m (host s) of
       (Inr x, k) \<Rightarrow> (x, s\<lparr>host := k\<rparr>)
     | (Inl _, k) \<Rightarrow> (d, s\<lparr>host := k\<rparr>))"

subsection \<open>registry.rs\<close>

definition registry_register :: "uuid \<Rightarrow> nat \<Rightarrow> 'h agent \<Rightarrow> 'h agent" where
  "registry_register i r s = s\<lparr>job_registry := (job_registry s)(i := Some r)\<rparr>"

definition registry_remove :: "uuid \<Rightarrow> 'h agent \<Rightarrow> 'h agent" where
  "registry_remove i s = s\<lparr>job_registry := (job_registry s)(i := None)\<rparr>"

text \<open>\<^verbatim>\<open>tx.send(())\<close> succeeds while the run still waits on the channel.\<close>

definition listening :: "'h agent \<Rightarrow> nat \<Rightarrow> bool" where
  "listening s r \<longleftrightarrow> r < length (runs s) \<and> (case run_phase (runs s ! r) of Streaming _ _ \<Rightarrow> True | _ \<Rightarrow> False)"

definition registry_cancel :: "uuid \<Rightarrow> 'h agent \<Rightarrow> bool \<times> 'h agent" where
  "registry_cancel i s = (case job_registry s i of
       None \<Rightarrow> (False, s)
     | Some r \<Rightarrow> (listening s r, registry_remove i s))"

text \<open>The kill channel of a run has resolved: its sender, kept under its job id, is gone.\<close>

definition kill_ready :: "'h agent \<Rightarrow> nat \<Rightarrow> bool" where
  "kill_ready s r \<longleftrightarrow> job_registry s (run_job (runs s ! r)) \<noteq> Some r"

subsection \<open>executor.rs\<close>

definition set_phase :: "nat \<Rightarrow> phase \<Rightarrow> 'h agent \<Rightarrow> 'h agent" where
  "set_phase r ph s = s\<lparr>runs := (runs s)[r := (runs s ! r)\<lparr>run_phase := ph\<rparr>]\<rparr>"

definition complete :: "nat \<Rightarrow> uuid \<Rightarrow> i32 \<Rightarrow> 'h agent \<Rightarrow> 'h agent" where
  "complete r i c s = set_phase r Finished (emit (From_run r) (JobCompleted i c) s)"

definition log_line :: "nat \<Rightarrow> uuid \<Rightarrow> bool \<Rightarrow> string \<Rightarrow> 'h agent \<Rightarrow> 'h agent" where
  "log_line r i out line s =
     emit (From_run r) (JobLog i line (if out then ''stdout'' else ''stderr'')) s"

definition bytes_text :: "u8 list \<Rightarrow> string" where
  "bytes_text bs = map (\<lambda>b. char_of (unat b)) bs"

definition push_failed :: "nat \<Rightarrow> uuid \<Rightarrow> string \<Rightarrow> 'h agent \<Rightarrow> 'h agent" where
  "push_failed r i line s = complete r i (- 1) (log_line r i False line s)"

definition ensure_parent :: "'h os \<Rightarrow> string \<Rightarrow> ('h, string + unit) host_action" where
  "ensure_parent os destination = (case parent_dir os destination of
       None \<Rightarrow> ret (Inr ())
     | Some parent \<Rightarrow> if parent = [] then ret (Inr ()) else host_run (create_dirs os parent))"

definition push_file_windows ::
  "'h os \<Rightarrow> (string \<Rightarrow> string + u8 list) \<Rightarrow> nat \<Rightarrow> uuid \<Rightarrow> string \<Rightarrow> string \<Rightarrow> 'h agent \<Rightarrow> 'h agent" where
  "push_file_windows os decode r i destination content_b64 s = (let s0 = registry_remove i s in
     case decode (trim content_b64) of
       Inl e \<Rightarrow> push_failed r i (''base64 decode failed: '' @ e) s0
     | Inr bytes \<Rightarrow>
         (case on_host (ensure_parent os destination) (Inr ()) s0 of
            (Inl e, s1) \<Rightarrow> push_failed r i (''create parent dir failed: '' @ e) s1
          | (Inr _, s1) \<Rightarrow>
              (case on_host (host_run (write_file os destination (bytes_text bytes))) (Inr ()) s1 of
                 (Inl e, s2) \<Rightarrow> push_failed r i (''write failed: '' @ e) s2
               | (Inr _, s2) \<Rightarrow> complete r i 0 (log_line r i True
                   (''wrote '' @ show_nat (length bytes) @ '' bytes to '' @ destination) s2))))"

definition report_inventory :: "'h os \<Rightarrow> source \<Rightarrow> 'h agent \<Rightarrow> 'h agent" where
  "report_inventory os src s =
     (let (software, s1) = on_host (collect_software os) [] s;
          (patches, s2) = on_host (collect_patches os) [] s1
      in emit src (InventoryReport software patches) s2)"

text \<open>\<^verbatim>\<open>execute_script\<close> up to the running process: a process that cannot be started ends the run at once.\<close>

definition start_script :: "'h os \<Rightarrow> nat \<Rightarrow> uuid \<Rightarrow> shell_type \<Rightarrow> string \<Rightarrow> 'h agent \<Rightarrow> 'h agent" where
  "start_script os r i shell script s = (let (program, args) = interpreter shell script in
     case on_host (host_run (spawn os program args)) (Inr ()) s of
       (Inl e, s1) \<Rightarrow> complete r i (- 1) (log_line r i False (''Failed to spawn: '' @ e) s1)
     | (Inr _, s1) \<Rightarrow> set_phase r (Streaming True True) s1)"

text \<open>\<^verbatim>\<open>execute_job\<close>.\<close>

definition execute_job ::
  "'h os \<Rightarrow> (string \<Rightarrow> string + u8 list) \<Rightarrow> nat \<Rightarrow> 'h agent \<Rightarrow> 'h agent option" where
  "execute_job os decode r s =
     (if r < length (runs s) \<and> run_phase (runs s ! r) = Queued
      then let i = run_job (runs s ! r); payload = run_payload (runs s ! r);
               s0 = registry_register i r s
        in Some (case script_of (target os) payload of
             Some (shell, script, _) \<Rightarrow> start_script os r i shell script s0
           | None \<Rightarrow> (case payload of
               PushFile destination content_b64 _ \<Rightarrow>
                 push_file_windows os decode r i destination content_b64 s0
             | _ \<Rightarrow> complete r i 0 (report_inventory os (From_run r) (registry_remove i s0))))
      else None)"

text \<open>The tasks that read the two pipes: one line, and the end of a pipe (or a line that is not UTF-8).\<close>

fun pipe_open :: "phase \<Rightarrow> bool \<Rightarrow> bool" where
  "pipe_open (Streaming a b) out = (if out then a else b)"
| "pipe_open (Draining a b c) out = (if out then a else b)"
| "pipe_open _ out = False"

fun close_pipe :: "bool \<Rightarrow> phase \<Rightarrow> phase" where
  "close_pipe out (Streaming a b) = Streaming (a \<and> \<not> out) (b \<and> out)"
| "close_pipe out (Draining a b c) = Draining (a \<and> \<not> out) (b \<and> out) c"
| "close_pipe out ph = ph"

definition run_prints :: "nat \<Rightarrow> bool \<Rightarrow> string \<Rightarrow> 'h agent \<Rightarrow> 'h agent option" where
  "run_prints r out line s =
     (if r < length (runs s) \<and> pipe_open (run_phase (runs s ! r)) out
      then Some (log_line r (run_job (runs s ! r)) out line s) else None)"

definition pipe_ends :: "nat \<Rightarrow> bool \<Rightarrow> 'h agent \<Rightarrow> 'h agent option" where
  "pipe_ends r out s =
     (if r < length (runs s) \<and> pipe_open (run_phase (runs s ! r)) out
      then Some (set_phase r (close_pipe out (run_phase (runs s ! r))) s) else None)"

text \<open>
  The \<^verbatim>\<open>select!\<close>: the process ends with a status (None when it has no code or waiting failed),
  the kill channel resolves, or the time is up.
\<close>

datatype wake = Exited "i32 option" | Kill_received | Timed_out

fun exit_code_of :: "wake \<Rightarrow> i32" where
  "exit_code_of (Exited st) = (case st of Some c \<Rightarrow> c | None \<Rightarrow> - 1)"
| "exit_code_of Kill_received = - 4"
| "exit_code_of Timed_out = - 2"

definition run_wakes :: "nat \<Rightarrow> wake \<Rightarrow> 'h agent \<Rightarrow> 'h agent option" where
  "run_wakes r w s =
     (if r < length (runs s) \<and> (w = Kill_received \<longrightarrow> kill_ready s r)
      then (case run_phase (runs s ! r) of
          Streaming a b \<Rightarrow> Some (registry_remove (run_job (runs s ! r))
            (set_phase r (Draining a b (exit_code_of w)) s))
        | _ \<Rightarrow> None)
      else None)"

definition run_completes :: "nat \<Rightarrow> 'h agent \<Rightarrow> 'h agent option" where
  "run_completes r s =
     (if r < length (runs s)
      then (case run_phase (runs s ! r) of
          Draining False False c \<Rightarrow> Some (complete r (run_job (runs s ! r)) c s)
        | _ \<Rightarrow> None)
      else None)"

end
