(* ===== verification/Agent_Shell.thy ===== *)
theory Agent_Shell
  imports Agent_Jobs
begin

section \<open>Agent: remote shell sessions (shell/session.rs)\<close>

text \<open>
  \<^verbatim>\<open>ShellManager\<close> keeps the sending halves of a session (\<open>shells\<close>, from the session id to the
  number of its thread); each opened session is a thread of its own (\<open>ptys\<close>) that starts the
  shell, loops over the kill channel, the input queue and the exit status, and reports the end;
  a second thread copies the output of the terminal.
\<close>

definition set_pty :: "nat \<Rightarrow> (pty \<Rightarrow> pty) \<Rightarrow> 'h agent \<Rightarrow> 'h agent" where
  "set_pty t f s = s\<lparr>ptys := (ptys s)[t := f (ptys s ! t)]\<rparr>"

definition open_session :: "uuid \<Rightarrow> 'h agent \<Rightarrow> 'h agent" where
  "open_session i s = (if shells s i \<noteq> None then s
     else s\<lparr>shells := (shells s)(i := Some (length (ptys s))),
       ptys := ptys s @ [\<lparr>pty_session = i, pty_stage = Opening, pty_reading = False,
         pty_stdin = [], pty_kill = False, pty_written = []\<rparr>]\<rparr>)"

definition send_input :: "uuid \<Rightarrow> string \<Rightarrow> 'h agent \<Rightarrow> 'h agent" where
  "send_input i data s = (case shells s i of
       None \<Rightarrow> s
     | Some t \<Rightarrow> if pty_stage (ptys s ! t) = Closed then s
         else set_pty t (\<lambda>p. p\<lparr>pty_stdin := pty_stdin p @ [data]\<rparr>) s)"

definition close_session :: "uuid \<Rightarrow> 'h agent \<Rightarrow> 'h agent" where
  "close_session i s = (case shells s i of
       None \<Rightarrow> s
     | Some t \<Rightarrow> (set_pty t (\<lambda>p. p\<lparr>pty_kill := True\<rparr>) s)\<lparr>shells := (shells s)(i := None)\<rparr>)"

text \<open>\<^verbatim>\<open>finish\<close>: the last act of the session thread.\<close>

definition pty_finish :: "nat \<Rightarrow> i32 option \<Rightarrow> 'h agent \<Rightarrow> 'h agent" where
  "pty_finish t c s = set_pty t (\<lambda>p. p\<lparr>pty_stage := Closed\<rparr>)
     (emit (From_pty t) (ShellClosed (pty_session (ptys s ! t)) c) s)"

text \<open>
  The start of \<^verbatim>\<open>run_pty_blocking\<close>: \<open>ok\<close> when the terminal, the shell and both ends of the terminal
  were obtained.
\<close>

definition pty_opens :: "nat \<Rightarrow> bool \<Rightarrow> 'h agent \<Rightarrow> 'h agent option" where
  "pty_opens t ok s =
     (if t < length (ptys s) \<and> pty_stage (ptys s ! t) = Opening
      then Some (if ok then set_pty t (\<lambda>p. p\<lparr>pty_stage := Open, pty_reading := True\<rparr>) s
        else pty_finish t None s)
      else None)"

text \<open>The reader thread: a chunk of output, or its end.\<close>

definition pty_reads :: "nat \<Rightarrow> string \<Rightarrow> 'h agent \<Rightarrow> 'h agent option" where
  "pty_reads t data s =
     (if t < length (ptys s) \<and> pty_reading (ptys s ! t)
      then Some (emit (From_pty t) (ShellOutput (pty_session (ptys s ! t)) data) s) else None)"

definition pty_read_ends :: "nat \<Rightarrow> 'h agent \<Rightarrow> 'h agent option" where
  "pty_read_ends t s =
     (if t < length (ptys s) \<and> pty_reading (ptys s ! t)
      then Some (set_pty t (\<lambda>p. p\<lparr>pty_reading := False\<rparr>) s) else None)"

text \<open>
  One turn of the loop: \<open>status\<close> is what \<^verbatim>\<open>try_wait\<close> answers at its end, \<open>final\<close> what the shell exits
  with when it is killed.
\<close>

definition pty_poll :: "nat \<Rightarrow> i32 option \<Rightarrow> 'h agent \<Rightarrow> 'h agent" where
  "pty_poll t status s = (case status of Some c \<Rightarrow> pty_finish t (Some c) s | None \<Rightarrow> s)"

definition pty_turns :: "nat \<Rightarrow> i32 option \<Rightarrow> i32 option \<Rightarrow> 'h agent \<Rightarrow> 'h agent option" where
  "pty_turns t status final s =
     (if t < length (ptys s) \<and> pty_stage (ptys s ! t) = Open
      then Some (let p = ptys s ! t in
        if pty_kill p then pty_finish t final s
        else (case pty_stdin p of
            data # rest \<Rightarrow> pty_poll t status
              (set_pty t (\<lambda>p. p\<lparr>pty_stdin := rest, pty_written := pty_written p @ [data]\<rparr>) s)
          | [] \<Rightarrow> if shells s (pty_session p) \<noteq> Some t then pty_finish t final s
              else pty_poll t status s))
      else None)"

end
