(* ===== verification/Agent_Core.thy ===== *)
theory Agent_Core
  imports Agent_Shell Agent_Policy
begin

section \<open>Agent: the message loop (main.rs)\<close>

text \<open>
  \<^verbatim>\<open>verify_job_signature\<close>, \<^verbatim>\<open>handle_server_message\<close> and the agent as a state machine: \<open>agent_step\<close> is
  one step of one of its tasks and \<open>runs_to\<close> a history of steps in any interleaving.  Base64 and
  Ed25519 belong to the crates the agent uses and are the record \<open>crypto\<close>.
\<close>

record crypto =
  b64_decode :: "string \<Rightarrow> string + u8 list"
  key_error :: "u8 list \<Rightarrow> string option"
  sig_error :: "u8 list \<Rightarrow> string option"
  ed_verify :: "u8 list \<Rightarrow> u8 list \<Rightarrow> u8 list \<Rightarrow> bool"
  json_vec :: "json \<Rightarrow> u8 list option"

definition verify_job_signature ::
  "crypto \<Rightarrow> string \<Rightarrow> uuid \<Rightarrow> job_payload \<Rightarrow> string \<Rightarrow> string + unit" where
  "verify_job_signature C server_pubkey_b64 job_id payload signature_b64 =
     (if server_pubkey_b64 = []
      then Inl (''no server signing key configured '' @ em_dash @ '' re-enroll the agent'')
      else if signature_b64 = [] then Inl ''job has no signature''
      else case b64_decode C server_pubkey_b64 of
        Inl e \<Rightarrow> Inl (''invalid server pubkey encoding: '' @ e)
      | Inr pk_bytes \<Rightarrow>
          if length pk_bytes \<noteq> 32 then Inl ''server pubkey is not 32 bytes''
          else case key_error C pk_bytes of
            Some e \<Rightarrow> Inl (''invalid server pubkey: '' @ e)
          | None \<Rightarrow>
              (case b64_decode C signature_b64 of
                 Inl e \<Rightarrow> Inl (''invalid signature encoding: '' @ e)
               | Inr sig_bytes \<Rightarrow>
                   (case sig_error C sig_bytes of
                      Some e \<Rightarrow> Inl (''invalid signature: '' @ e)
                    | None \<Rightarrow>
                        if ed_verify C pk_bytes (canonical_job_signing_bytes (json_vec C) job_id payload) sig_bytes
                        then Inr () else Inl ''signature verification failed'')))"

record 'h agent_setup =
  sys :: "'h os"
  crypt :: crypto
  own_id :: uuid
  server_pubkey :: string

fun handle_server_message :: "'h agent_setup \<Rightarrow> server_message \<Rightarrow> 'h agent \<Rightarrow> 'h agent" where
  "handle_server_message S SHeartbeat s = s"
| "handle_server_message S RequestTelemetry s =
     emit From_task (TelemetryReport (collect_snapshot (sys S) (host s))) s"
| "handle_server_message S (PushPolicy policies) s = s\<lparr>tasks := tasks s @ [Evaluate policies]\<rparr>"
| "handle_server_message S (DispatchJob job_id payload signature) s =
     (case verify_job_signature (crypt S) (server_pubkey S) job_id payload signature of
        Inl reason \<Rightarrow> s\<lparr>tasks := tasks s @ [Reject job_id reason]\<rparr>
      | Inr _ \<Rightarrow> s\<lparr>runs := runs s @ [\<lparr>run_job = job_id, run_payload = payload, run_phase = Queued\<rparr>]\<rparr>)"
| "handle_server_message S (RevokeJob job_id) s = snd (registry_cancel job_id s)"
| "handle_server_message S RequestInventory s = report_inventory (sys S) From_task s"
| "handle_server_message S (OpenShell session_id) s = open_session session_id s"
| "handle_server_message S (ShellInput session_id data) s = send_input session_id data s"
| "handle_server_message S (CloseShell session_id) s = close_session session_id s"

text \<open>The tasks the loop spawns besides the runs.\<close>

fun perform_task :: "'h agent_setup \<Rightarrow> task \<Rightarrow> 'h agent \<Rightarrow> 'h agent" where
  "perform_task S (Evaluate policies) s =
     (let (ms, s1) = on_host (evaluate_policies (sys S) (own_id S) policies) [] s
      in fold (emit From_task) ms s1)"
| "perform_task S (Reject job_id reason) s =
     emit From_task (JobCompleted job_id (- 3))
       (emit From_task (JobLog job_id (''Job rejected: '' @ reason) ''stderr'') s)"

definition task_runs :: "'h agent_setup \<Rightarrow> nat \<Rightarrow> 'h agent \<Rightarrow> 'h agent option" where
  "task_runs S n s =
     (if n < length (tasks s)
      then Some (perform_task S (tasks s ! n) (s\<lparr>tasks := take n (tasks s) @ drop (Suc n) (tasks s)\<rparr>))
      else None)"

text \<open>The two loops \<^verbatim>\<open>main\<close> spawns: the heartbeat with its telemetry, and the batches of the monitor.\<close>

definition agent_version :: string where
  "agent_version = ''0.1.0''"

definition heartbeat_round :: "'h agent_setup \<Rightarrow> 'h agent \<Rightarrow> 'h agent" where
  "heartbeat_round S s = emit From_task (TelemetryReport (collect_snapshot (sys S) (host s)))
     (emit From_task (AHeartbeat agent_version) s)"

definition forward_batch :: "system_event list \<Rightarrow> 'h agent \<Rightarrow> 'h agent" where
  "forward_batch evs s = (if evs \<noteq> [] then emit From_task (SystemEventBatch evs) s else s)"

lemma spawned_loops_frame [simp]:
  "runs (heartbeat_round S s) = runs s" "runs (forward_batch evs s) = runs s"
  "job_registry (heartbeat_round S s) = job_registry s" "job_registry (forward_batch evs s) = job_registry s"
  by (simp_all add: heartbeat_round_def forward_batch_def emit_def)

subsection \<open>The agent as a state machine\<close>

datatype 'h event =
    World 'h
  | Interval_ticks
  | Batch_arrives "system_event list"
  | Deliver server_message
  | Task_runs nat
  | Run_starts nat
  | Run_prints nat bool string
  | Pipe_ends nat bool
  | Run_wakes nat wake
  | Run_completes nat
  | Pty_opens nat bool
  | Pty_reads nat string
  | Pty_read_ends nat
  | Pty_turns nat "i32 option" "i32 option"

fun agent_step :: "'h agent_setup \<Rightarrow> 'h event \<Rightarrow> 'h agent \<Rightarrow> 'h agent option" where
  "agent_step S (World h) s = Some (s\<lparr>host := h\<rparr>)"
| "agent_step S Interval_ticks s = Some (heartbeat_round S s)"
| "agent_step S (Batch_arrives evs) s = Some (forward_batch evs s)"
| "agent_step S (Deliver m) s = Some (handle_server_message S m s)"
| "agent_step S (Task_runs n) s = task_runs S n s"
| "agent_step S (Run_starts r) s = execute_job (sys S) (b64_decode (crypt S)) r s"
| "agent_step S (Run_prints r out line) s = run_prints r out line s"
| "agent_step S (Pipe_ends r out) s = pipe_ends r out s"
| "agent_step S (Run_wakes r w) s = run_wakes r w s"
| "agent_step S (Run_completes r) s = run_completes r s"
| "agent_step S (Pty_opens t ok) s = pty_opens t ok s"
| "agent_step S (Pty_reads t data) s = pty_reads t data s"
| "agent_step S (Pty_read_ends t) s = pty_read_ends t s"
| "agent_step S (Pty_turns t status final) s = pty_turns t status final s"

inductive runs_to :: "'h agent_setup \<Rightarrow> 'h agent \<Rightarrow> 'h event list \<Rightarrow> 'h agent \<Rightarrow> bool" where
  none: "runs_to S s [] s"
| more: "runs_to S s es t \<Longrightarrow> agent_step S e t = Some u \<Longrightarrow> runs_to S s (es @ [e]) u"

code_pred runs_to .

definition fresh_agent :: "'h \<Rightarrow> 'h agent" where
  "fresh_agent h = \<lparr>host = h, job_registry = (\<lambda>_. None), runs = [], tasks = [], shells = (\<lambda>_. None),
     ptys = [], outbox = []\<rparr>"

lemma runs_to_trans: "runs_to S t fs u \<Longrightarrow> runs_to S s es t \<Longrightarrow> runs_to S s (es @ fs) u"
proof (induction rule: runs_to.induct)
  case (none S s)
  then show ?case by simp
next
  case (more S t fs u e v)
  then have "runs_to S s ((es @ fs) @ [e]) v" by (blast intro: runs_to.more)
  then show ?case by simp
qed

text \<open>A history, executed.\<close>

fun play :: "'h agent_setup \<Rightarrow> 'h event list \<Rightarrow> 'h agent \<Rightarrow> 'h agent option" where
  "play S [] s = Some s"
| "play S (e # es) s = (case agent_step S e s of None \<Rightarrow> None | Some t \<Rightarrow> play S es t)"

lemma play_append: "play S (es @ fs) s = (case play S es s of None \<Rightarrow> None | Some t \<Rightarrow> play S fs t)"
  by (induction es arbitrary: s) (simp_all split: option.splits)

lemma runs_to_play: "runs_to S s es t \<longleftrightarrow> play S es s = Some t"
proof
  show "runs_to S s es t \<Longrightarrow> play S es s = Some t"
    by (induction rule: runs_to.induct) (simp_all add: play_append)
  show "play S es s = Some t \<Longrightarrow> runs_to S s es t"
  proof (induction es arbitrary: t rule: rev_induct)
    case Nil
    then show ?case by (simp add: runs_to.none)
  next
    case (snoc e es)
    then obtain u where "play S es s = Some u" "agent_step S e u = Some t"
      by (auto simp: play_append split: option.splits)
    then show ?case using snoc.IH by (blast intro: runs_to.more)
  qed
qed

subsection \<open>A simulated agent\<close>

text \<open>
  For the witnesses: the machine of \<open>sim_windows\<close> under another platform, and a key check that
  accepts the one signature \<open>s\<close>.
\<close>

definition sim_crypto :: crypto where
  "sim_crypto = \<lparr>b64_decode = \<lambda>t. Inr (map (\<lambda>c. of_nat (code c)) t), key_error = \<lambda>_. None,
     sig_error = \<lambda>_. None, ed_verify = \<lambda>pk msg sig. sig = [115], json_vec = \<lambda>_. Some []\<rparr>"

definition sim_setup :: "settings agent_setup" where
  "sim_setup = \<lparr>sys = sim_windows\<lparr>target := P_linux\<rparr>, crypt = sim_crypto, own_id = 7,
     server_pubkey = replicate 32 CHR ''k''\<rparr>"

definition sim_job :: server_message where
  "sim_job = DispatchJob 1 (RunScript Bash ''true'') ''s''"

lemma sim_verified:
  "verify_job_signature (crypt sim_setup) (server_pubkey sim_setup) i p ''s'' = Inr ()"
  by (simp add: verify_job_signature_def sim_setup_def sim_crypto_def code_def)

end
