(* ===== verification/Agent_Runs.thy ===== *)
theory Agent_Runs
  imports Agent_Core
begin

section \<open>Agent: what every history of the agent keeps\<close>

text \<open>
  The frame of every step (which runs, sessions and messages it touches), the invariants of runs
  and sessions by induction over the history, and the properties of jobs and shells.
\<close>

subsection \<open>Frames\<close>

lemma sent_by_emit [simp]: "sent_by a (emit b m s) = sent_by a s @ (if a = b then [m] else [])"
  by (simp add: sent_by_def emit_def)

lemma emit_frame [simp]:
  "runs (emit a m s) = runs s" "job_registry (emit a m s) = job_registry s" "ptys (emit a m s) = ptys s"
  "shells (emit a m s) = shells s" "tasks (emit a m s) = tasks s" "host (emit a m s) = host s"
  by (simp_all add: emit_def)

lemma on_host_frame:
  assumes "on_host m d s = (x, t)"
  shows "runs t = runs s" "job_registry t = job_registry s" "ptys t = ptys s" "shells t = shells s"
    "tasks t = tasks s" "outbox t = outbox s"
  using assms by (auto simp: on_host_def split: prod.splits sum.splits)

text \<open>A step of run \<open>r\<close>: it moves to phase \<open>ph\<close>, sends \<open>ms\<close> and touches no other run or session.\<close>

definition run_effect :: "nat \<Rightarrow> phase \<Rightarrow> agent_message list \<Rightarrow> 'h agent \<Rightarrow> 'h agent \<Rightarrow> bool" where
  "run_effect r ph ms s t \<longleftrightarrow> r < length (runs s)
     \<and> runs t = (runs s)[r := (runs s ! r)\<lparr>run_phase := ph\<rparr>]
     \<and> outbox t = outbox s @ map (Pair (From_run r)) ms
     \<and> ptys t = ptys s \<and> shells t = shells s \<and> tasks t = tasks s"

text \<open>A step of anything else: new runs are queued, the old ones stay, no run sends.\<close>

definition no_run_effect :: "'h agent \<Rightarrow> 'h agent \<Rightarrow> bool" where
  "no_run_effect s t \<longleftrightarrow> (\<exists>new. runs t = runs s @ new \<and> (\<forall>x \<in> set new. run_phase x = Queued))
     \<and> (\<exists>out. outbox t = outbox s @ out \<and> (\<forall>(src, m) \<in> set out. \<forall>r. src \<noteq> From_run r))"

lemma no_run_effect_refl [simp]: "no_run_effect s s"
  by (simp add: no_run_effect_def)

lemma complete_effect:
  assumes "run_effect r ph ms s t"
  shows "run_effect r Finished (ms @ [JobCompleted i c]) s (complete r i c t)"
  using assms by (simp add: run_effect_def complete_def set_phase_def emit_def)

lemma log_line_effect:
  "run_effect r ph ms s t \<Longrightarrow>
     run_effect r ph (ms @ [JobLog i line (if out then ''stdout'' else ''stderr'')]) s (log_line r i out line t)"
  by (simp add: run_effect_def log_line_def emit_def)

lemma same_phase_effect:
  "r < length (runs s) \<Longrightarrow> runs t = runs s \<Longrightarrow> outbox t = outbox s \<Longrightarrow> ptys t = ptys s \<Longrightarrow>
     shells t = shells s \<Longrightarrow> tasks t = tasks s \<Longrightarrow> run_effect r (run_phase (runs s ! r)) [] s t"
  by (simp add: run_effect_def)

lemma on_host_effect: "run_effect r ph ms s t \<Longrightarrow> on_host m d t = (x, u) \<Longrightarrow> run_effect r ph ms s u"
  using on_host_frame [of m d t x u] by (simp add: run_effect_def)

lemma registry_effect [simp]:
  "run_effect r ph ms s (registry_register i q t) = run_effect r ph ms s t"
  "run_effect r ph ms s (registry_remove i t) = run_effect r ph ms s t"
  by (simp_all add: run_effect_def registry_register_def registry_remove_def)

lemma set_phase_effect: "run_effect r ph ms s t \<Longrightarrow> run_effect r ph' ms s (set_phase r ph' t)"
  by (simp add: run_effect_def set_phase_def)

lemma emit_effect: "run_effect r ph ms s t \<Longrightarrow> run_effect r ph (ms @ [m]) s (emit (From_run r) m t)"
  by (simp add: run_effect_def emit_def)

text \<open>Messages of a job before its end.\<close>

definition progress :: "uuid \<Rightarrow> agent_message \<Rightarrow> bool" where
  "progress i m \<longleftrightarrow> (case m of JobLog j _ _ \<Rightarrow> j = i | InventoryReport _ _ \<Rightarrow> True | _ \<Rightarrow> False)"

lemma progress_simps [simp]: "progress i (JobLog j l st) \<longleftrightarrow> j = i" "progress i (InventoryReport a b)"
  "\<not> progress i (JobCompleted j c)"
  by (simp_all add: progress_def)

text \<open>A run that ends in the same step: progress, then one completion.\<close>

definition ends_run :: "nat \<Rightarrow> 'h agent \<Rightarrow> 'h agent \<Rightarrow> bool" where
  "ends_run r s t \<longleftrightarrow> (\<exists>ms c. run_effect r Finished (ms @ [JobCompleted (run_job (runs s ! r)) c]) s t
     \<and> (\<forall>m \<in> set ms. progress (run_job (runs s ! r)) m))"

lemma ends_runI:
  assumes "run_effect r ph ms s t" "i = run_job (runs s ! r)" "\<forall>m \<in> set ms. progress i m"
  shows "ends_run r s (complete r i c t)"
  using complete_effect [OF assms(1)] assms(2,3) unfolding ends_run_def by blast

lemma push_failed_ends:
  "run_effect r ph [] s t \<Longrightarrow> i = run_job (runs s ! r) \<Longrightarrow> ends_run r s (push_failed r i line t)"
  unfolding push_failed_def by (rule ends_runI [OF log_line_effect]) auto

lemma push_file_ends:
  assumes "run_effect r ph [] s t" and "i = run_job (runs s ! r)"
  shows "ends_run r s (push_file_windows os decode r i dest content t)"
proof -
  have t0: "run_effect r ph [] s (registry_remove i t)" using assms(1) by simp
  obtain x s1 where 1: "on_host (ensure_parent os dest) (Inr ()) (registry_remove i t) = (x, s1)"
    by (cases "on_host (ensure_parent os dest) (Inr ()) (registry_remove i t)")
  note e1 = on_host_effect [OF t0 1]
  show ?thesis
  proof (cases "decode (trim content)")
    case (Inl e)
    then show ?thesis by (simp add: push_file_windows_def push_failed_ends [OF t0 assms(2)])
  next
    case (Inr bytes)
    obtain y s2 where 2: "on_host (host_run (write_file os dest (bytes_text bytes))) (Inr ()) s1 = (y, s2)"
      by (cases "on_host (host_run (write_file os dest (bytes_text bytes))) (Inr ()) s1")
    note e2 = on_host_effect [OF e1 2]
    have ok: "ends_run r s (complete r i 0 (log_line r i True line s2))" for line
      by (rule ends_runI [OF log_line_effect [OF e2] assms(2)]) simp
    show ?thesis
      by (cases x; cases y) (simp_all add: push_file_windows_def Inr 1 2 Let_def
        push_failed_ends [OF e1 assms(2)] push_failed_ends [OF e2 assms(2)] ok)
  qed
qed

lemma report_inventory_effect:
  assumes "run_effect r ph ms s t"
  shows "\<exists>a b. run_effect r ph (ms @ [InventoryReport a b]) s (report_inventory os (From_run r) t)"
proof -
  obtain a t1 where 1: "on_host (collect_software os) [] t = (a, t1)" by (cases "on_host (collect_software os) [] t")
  obtain b t2 where 2: "on_host (collect_patches os) [] t1 = (b, t2)" by (cases "on_host (collect_patches os) [] t1")
  have "run_effect r ph ms s t2" by (rule on_host_effect [OF on_host_effect [OF assms 1] 2])
  then show ?thesis by (auto simp: report_inventory_def 1 2 intro!: emit_effect)
qed

lemma start_script_effect:
  assumes "run_effect r ph [] s t" and "i = run_job (runs s ! r)"
  shows "ends_run r s (start_script os r i shell script t) \<or>
    run_effect r (Streaming True True) [] s (start_script os r i shell script t)"
  unfolding start_script_def Let_def
  by (auto split: prod.splits sum.splits dest!: on_host_effect [OF assms(1)]
    intro: ends_runI [OF log_line_effect] set_phase_effect simp: assms(2))

lemma execute_job_effect:
  assumes "execute_job os decode r s = Some t"
  shows "run_phase (runs s ! r) = Queued" and "r < length (runs s)"
    and "ends_run r s t \<or> run_effect r (Streaming True True) [] s t"
proof -
  let ?i = "run_job (runs s ! r)"
  show q: "run_phase (runs s ! r) = Queued" and r: "r < length (runs s)"
    using assms by (auto simp: execute_job_def split: if_splits)
  have e: "run_effect r Queued [] s (registry_register ?i r s)"
    using same_phase_effect [OF r, of s] q by simp
  obtain a b where inv: "run_effect r Queued ([] @ [InventoryReport a b]) s
      (report_inventory os (From_run r) (registry_remove ?i (registry_register ?i r s)))"
    using report_inventory_effect [of r Queued "[]" s "registry_remove ?i (registry_register ?i r s)" os] e
    by auto
  have fin: "ends_run r s (complete r ?i 0
      (report_inventory os (From_run r) (registry_remove ?i (registry_register ?i r s))))"
    by (rule ends_runI [OF inv]) auto
  show "ends_run r s t \<or> run_effect r (Streaming True True) [] s t"
  proof (cases "script_of (target os) (run_payload (runs s ! r))")
    case None
    then show ?thesis using assms fin push_file_ends [OF e refl]
      by (cases "run_payload (runs s ! r)") (auto simp: execute_job_def Let_def q r)
  next
    case (Some w)
    obtain shell script lim where w: "w = (shell, script, lim)" by (cases w)
    show ?thesis using assms start_script_effect [OF e refl]
      by (auto simp: execute_job_def Let_def q r Some w)
  qed
qed

subsection \<open>Every step either moves one run or moves none\<close>

definition active :: "phase \<Rightarrow> bool" where
  "active ph \<longleftrightarrow> (case ph of Streaming _ _ \<Rightarrow> True | Draining _ _ _ \<Rightarrow> True | _ \<Rightarrow> False)"

lemma active_simps [simp]: "active (Streaming a b)" "active (Draining a b c)" "\<not> active Queued"
  "\<not> active Finished"
  by (simp_all add: active_def)

lemma active_close_pipe: "active (close_pipe out ph) = active ph"
  by (cases ph) simp_all

lemma pipe_open_active: "pipe_open ph out \<Longrightarrow> active ph"
  by (cases ph) simp_all

definition run_move :: "'h agent \<Rightarrow> 'h agent \<Rightarrow> bool" where
  "run_move s t \<longleftrightarrow> (\<exists>r. r < length (runs s) \<and> run_phase (runs s ! r) \<noteq> Finished \<and>
     (ends_run r s t \<or> (\<exists>ph ms. active ph \<and> run_effect r ph ms s t
        \<and> (\<forall>m \<in> set ms. progress (run_job (runs s ! r)) m))))"

lemma run_moveI:
  "run_effect r ph ms s t \<Longrightarrow> active ph \<Longrightarrow> run_phase (runs s ! r) \<noteq> Finished \<Longrightarrow>
     \<forall>m \<in> set ms. progress (run_job (runs s ! r)) m \<Longrightarrow> run_move s t"
  unfolding run_move_def run_effect_def by blast

lemma run_prints_move: "run_prints r out line s = Some t \<Longrightarrow> run_move s t"
proof -
  assume a: "run_prints r out line s = Some t"
  then have r: "r < length (runs s)" and o: "active (run_phase (runs s ! r))"
    and t: "t = log_line r (run_job (runs s ! r)) out line s"
    by (auto simp: run_prints_def pipe_open_active split: if_splits)
  have "run_effect r (run_phase (runs s ! r)) ([] @ [JobLog (run_job (runs s ! r)) line
      (if out then ''stdout'' else ''stderr'')]) s t"
    unfolding t by (rule log_line_effect) (simp add: same_phase_effect r)
  then show ?thesis using o by (rule run_moveI) (use o in auto)
qed

lemma pipe_ends_move: "pipe_ends r out s = Some t \<Longrightarrow> run_move s t"
proof -
  assume a: "pipe_ends r out s = Some t"
  then have r: "r < length (runs s)" and o: "active (run_phase (runs s ! r))"
    and t: "t = set_phase r (close_pipe out (run_phase (runs s ! r))) s"
    by (auto simp: pipe_ends_def pipe_open_active split: if_splits)
  have "run_effect r (close_pipe out (run_phase (runs s ! r))) [] s t"
    unfolding t by (rule set_phase_effect) (rule same_phase_effect, simp_all add: r)
  then show ?thesis by (rule run_moveI) (use o in \<open>auto simp: active_close_pipe\<close>)
qed

lemma run_wakes_move: "run_wakes r w s = Some t \<Longrightarrow> run_move s t"
proof -
  assume a: "run_wakes r w s = Some t"
  then obtain x y where r: "r < length (runs s)" and o: "run_phase (runs s ! r) = Streaming x y"
    and t: "t = registry_remove (run_job (runs s ! r)) (set_phase r (Draining x y (exit_code_of w)) s)"
    by (auto simp: run_wakes_def split: if_splits phase.splits)
  have "run_effect r (Draining x y (exit_code_of w)) [] s t"
    unfolding t registry_effect by (rule set_phase_effect) (rule same_phase_effect, simp_all add: r)
  then show ?thesis by (rule run_moveI) (use o in auto)
qed

lemma run_completes_ends:
  "run_completes r s = Some t \<Longrightarrow> r < length (runs s) \<and> active (run_phase (runs s ! r)) \<and> ends_run r s t"
proof -
  assume a: "run_completes r s = Some t"
  then obtain c where r: "r < length (runs s)" and o: "run_phase (runs s ! r) = Draining False False c"
    and t: "t = complete r (run_job (runs s ! r)) c s"
    by (auto simp: run_completes_def split: if_splits phase.splits bool.splits)
  have "ends_run r s t"
    unfolding t by (rule ends_runI [OF same_phase_effect]) (simp_all add: r)
  then show ?thesis by (simp add: r o)
qed

lemma no_run_set_pty [simp]: "runs (set_pty t f s) = runs s" "outbox (set_pty t f s) = outbox s"
  by (simp_all add: set_pty_def)

lemma no_run_effectI: "runs t = runs s \<Longrightarrow> outbox t = outbox s @ out \<Longrightarrow>
    \<forall>(src, m) \<in> set out. \<forall>r. src \<noteq> From_run r \<Longrightarrow> no_run_effect s t"
  by (auto simp: no_run_effect_def)

lemma pty_finish_frame [simp]: "runs (pty_finish t c s) = runs s"
  "outbox (pty_finish t c s) = outbox s @ [(From_pty t, ShellClosed (pty_session (ptys s ! t)) c)]"
  by (simp_all add: pty_finish_def emit_def)

lemma report_inventory_no_run: "no_run_effect s (report_inventory os From_task s)"
proof -
  obtain a t1 where 1: "on_host (collect_software os) [] s = (a, t1)" by (cases "on_host (collect_software os) [] s")
  obtain b t2 where 2: "on_host (collect_patches os) [] t1 = (b, t2)" by (cases "on_host (collect_patches os) [] t1")
  show ?thesis
    by (rule no_run_effectI [of _ _ "[(From_task, InventoryReport a b)]"])
      (simp_all add: report_inventory_def 1 2 emit_def on_host_frame [OF 1] on_host_frame [OF 2])
qed

lemma fold_emit_frame [simp]:
  "runs (fold (emit a) ms s) = runs s" "outbox (fold (emit a) ms s) = outbox s @ map (Pair a) ms"
  by (induction ms arbitrary: s) (simp_all, simp add: emit_def)

lemma perform_task_no_run: "no_run_effect s (perform_task S k s)"
proof (cases k)
  case (Evaluate ps)
  obtain ms t where 1: "on_host (evaluate_policies (sys S) (own_id S) ps) [] s = (ms, t)"
    by (cases "on_host (evaluate_policies (sys S) (own_id S) ps) [] s")
  show ?thesis
    by (rule no_run_effectI [of _ _ "map (Pair From_task) ms"])
      (auto simp: Evaluate 1 on_host_frame [OF 1])
next
  case (Reject i e)
  then show ?thesis
    by (auto simp: emit_def intro!: no_run_effectI)
qed

lemma handle_no_run: "no_run_effect s (handle_server_message S m s)"
proof (cases m)
  case (DispatchJob i p sig)
  then show ?thesis by (auto simp: no_run_effect_def split: sum.splits)
next
  case RequestInventory
  then show ?thesis by (simp add: report_inventory_no_run)
next
  case RequestTelemetry
  then show ?thesis by (auto simp: emit_def intro!: no_run_effectI)
qed (auto simp: no_run_effect_def registry_cancel_def registry_remove_def open_session_def
  send_input_def close_session_def split: option.splits)

lemma pty_turns_no_run: "pty_turns t status final s = Some u \<Longrightarrow> no_run_effect s u"
  by (auto simp: pty_turns_def Let_def pty_poll_def split: if_splits list.splits option.splits
    intro!: no_run_effectI)

lemma heartbeat_no_run: "no_run_effect s (heartbeat_round S s)"
  by (auto simp: heartbeat_round_def emit_def intro!: no_run_effectI)

lemma forward_batch_no_run: "no_run_effect s (forward_batch evs s)"
  by (auto simp: forward_batch_def emit_def intro!: no_run_effectI)

lemma agent_step_effect:
  assumes "agent_step S e s = Some t"
  shows "no_run_effect s t \<or> run_move s t"
proof (cases e)
  case (World h)
  with assms show ?thesis by (auto intro!: no_run_effectI)
next
  case Interval_ticks
  with assms show ?thesis using heartbeat_no_run by auto
next
  case (Batch_arrives evs)
  with assms show ?thesis using forward_batch_no_run by auto
next
  case (Deliver m)
  with assms show ?thesis using handle_no_run by auto
next
  case (Task_runs n)
  then have "no_run_effect (s\<lparr>tasks := take n (tasks s) @ drop (Suc n) (tasks s)\<rparr>) t"
    using assms perform_task_no_run by (auto simp: task_runs_def split: if_splits)
  then show ?thesis by (simp add: no_run_effect_def)
next
  case (Run_starts r)
  then have "execute_job (sys S) (b64_decode (crypt S)) r s = Some t" using assms by simp
  from execute_job_effect [OF this] show ?thesis
    by (auto simp: run_move_def) (metis active_simps(1) empty_iff list.set(1) phase.distinct(5))
next
  case (Run_completes r)
  then show ?thesis using assms run_completes_ends [of r s t]
    by (auto simp: run_move_def)
next
  case (Pty_turns n status final)
  then show ?thesis using assms pty_turns_no_run by auto
next
  case (Run_prints r out line)
  then show ?thesis using assms by (simp add: run_prints_move)
next
  case (Pipe_ends r out)
  then show ?thesis using assms by (simp add: pipe_ends_move)
next
  case (Run_wakes r w)
  then show ?thesis using assms by (simp add: run_wakes_move)
qed (use assms in \<open>auto simp: pty_opens_def pty_reads_def pty_read_ends_def emit_def split: if_splits
    intro!: no_run_effectI\<close>)

subsection \<open>Runs\<close>

text \<open>What a run has sent in each of its phases.\<close>

definition run_log_ok :: "run \<Rightarrow> agent_message list \<Rightarrow> bool" where
  "run_log_ok x ms \<longleftrightarrow> (case run_phase x of
       Queued \<Rightarrow> ms = []
     | Finished \<Rightarrow> \<exists>ps c. ms = ps @ [JobCompleted (run_job x) c] \<and> (\<forall>m \<in> set ps. progress (run_job x) m)
     | _ \<Rightarrow> \<forall>m \<in> set ms. progress (run_job x) m)"

definition runs_ok :: "'h agent \<Rightarrow> bool" where
  "runs_ok s \<longleftrightarrow> (\<forall>r < length (runs s). run_log_ok (runs s ! r) (sent_by (From_run r) s))
     \<and> (\<forall>r \<ge> length (runs s). sent_by (From_run r) s = [])"

lemma sent_by_append: "outbox t = outbox s @ out \<Longrightarrow>
    sent_by a t = sent_by a s @ map snd (filter (\<lambda>p. fst p = a) out)"
  by (simp add: sent_by_def)

lemma sent_by_run_effect:
  "run_effect r ph ms s t \<Longrightarrow> sent_by a t = sent_by a s @ (if a = From_run r then ms else [])"
  by (simp add: run_effect_def sent_by_append filter_map comp_def)

lemma sent_by_no_run:
  assumes "no_run_effect s t" shows "sent_by (From_run r) t = sent_by (From_run r) s"
proof -
  from assms obtain out where o: "outbox t = outbox s @ out" "\<forall>(src, m) \<in> set out. \<forall>r. src \<noteq> From_run r"
    by (auto simp: no_run_effect_def)
  then have "filter (\<lambda>p. fst p = From_run r) out = []" by (auto simp: filter_empty_conv)
  then show ?thesis by (simp add: sent_by_append [OF o(1)])
qed

lemma runs_ok_no_run:
  assumes "runs_ok s" and "no_run_effect s t"
  shows "runs_ok t"
proof -
  from assms(2) obtain new where n: "runs t = runs s @ new" "\<forall>x \<in> set new. run_phase x = Queued"
    by (auto simp: no_run_effect_def)
  show ?thesis unfolding runs_ok_def
  proof (intro conjI allI impI)
    fix r assume r: "r < length (runs t)"
    show "run_log_ok (runs t ! r) (sent_by (From_run r) t)"
    proof (cases "r < length (runs s)")
      case True
      then show ?thesis using assms(1) by (simp add: n nth_append runs_ok_def sent_by_no_run [OF assms(2)])
    next
      case False
      then have "run_phase (runs t ! r) = Queued" using r n by (simp add: nth_append)
      then show ?thesis using assms(1) False
        by (simp add: run_log_ok_def runs_ok_def sent_by_no_run [OF assms(2)])
    qed
  qed (use assms(1) n in \<open>auto simp: runs_ok_def sent_by_no_run [OF assms(2)]\<close>)
qed

lemma runs_ok_move:
  assumes ok: "runs_ok s" and "run_move s t"
  shows "runs_ok t"
proof -
  from assms(2) obtain r ph ms where r: "r < length (runs s)" and nf: "run_phase (runs s ! r) \<noteq> Finished"
    and e: "run_effect r ph ms s t"
    and m: "(active ph \<and> (\<forall>m \<in> set ms. progress (run_job (runs s ! r)) m)) \<or> (ph = Finished \<and>
      (\<exists>ps c. ms = ps @ [JobCompleted (run_job (runs s ! r)) c] \<and> (\<forall>m \<in> set ps. progress (run_job (runs s ! r)) m)))"
    unfolding run_move_def ends_run_def by blast
  have old: "\<forall>m \<in> set (sent_by (From_run r) s). progress (run_job (runs s ! r)) m"
  proof -
    have "run_log_ok (runs s ! r) (sent_by (From_run r) s)" using ok r by (simp add: runs_ok_def)
    with nf show ?thesis by (cases "run_phase (runs s ! r)") (simp_all add: run_log_ok_def)
  qed
  have t: "runs t = (runs s)[r := (runs s ! r)\<lparr>run_phase := ph\<rparr>]" using e by (simp add: run_effect_def)
  show ?thesis unfolding runs_ok_def
  proof (intro conjI allI impI)
    fix q assume q: "q < length (runs t)"
    show "run_log_ok (runs t ! q) (sent_by (From_run q) t)"
    proof (cases "q = r")
      case True
      have "run_log_ok (runs t ! r) (sent_by (From_run r) s @ ms)"
        using m
      proof
        assume "active ph \<and> (\<forall>m \<in> set ms. progress (run_job (runs s ! r)) m)"
        then show ?thesis using old r by (cases ph) (auto simp: run_log_ok_def t)
      next
        assume "ph = Finished \<and> (\<exists>ps c. ms = ps @ [JobCompleted (run_job (runs s ! r)) c]
          \<and> (\<forall>m \<in> set ps. progress (run_job (runs s ! r)) m))"
        then obtain ps c where "ph = Finished" "ms = ps @ [JobCompleted (run_job (runs s ! r)) c]"
          "\<forall>m \<in> set ps. progress (run_job (runs s ! r)) m" by blast
        then show ?thesis using old r
          by (auto simp: run_log_ok_def t intro!: exI [of _ "sent_by (From_run r) s @ ps"])
      qed
      then show ?thesis by (simp add: True sent_by_run_effect [OF e])
    next
      case False
      then show ?thesis using q ok by (simp add: t sent_by_run_effect [OF e] runs_ok_def)
    qed
  qed (use ok r in \<open>auto simp: runs_ok_def t sent_by_run_effect [OF e]\<close>)
qed

lemma runs_ok_reachable: "runs_to S s es t \<Longrightarrow> runs_ok s \<Longrightarrow> runs_ok t"
  by (induction rule: runs_to.induct) (auto dest!: agent_step_effect intro: runs_ok_no_run runs_ok_move)

lemma runs_ok_fresh [simp]: "runs_ok (fresh_agent h)"
  by (simp add: runs_ok_def fresh_agent_def sent_by_def)

text \<open>
  C16.  In every history of the agent, whatever the interleaving of its tasks, each run has sent
  only its own log lines (and the inventory) before its end, and a finished run has sent, after
  all of them, exactly one completion, as its last message.
\<close>

theorem job_completion_is_last:
  assumes "runs_to S (fresh_agent h) es s" and "r < length (runs s)"
  shows "if run_phase (runs s ! r) = Finished
    then \<exists>ps c. sent_by (From_run r) s = ps @ [JobCompleted (run_job (runs s ! r)) c]
      \<and> (\<forall>m \<in> set ps. progress (run_job (runs s ! r)) m)
    else \<forall>m \<in> set (sent_by (From_run r) s). progress (run_job (runs s ! r)) m"
proof -
  have "run_log_ok (runs s ! r) (sent_by (From_run r) s)"
    using runs_ok_reachable [OF assms(1) runs_ok_fresh] assms(2) by (simp add: runs_ok_def)
  then show ?thesis by (cases "run_phase (runs s ! r)") (auto simp: run_log_ok_def)
qed

subsection \<open>Where runs come from\<close>

text \<open>The jobs of the runs, and the payloads, never change and only a verified dispatch adds one.\<close>

definition job_of :: "run \<Rightarrow> uuid \<times> job_payload" where
  "job_of x = (run_job x, run_payload x)"

lemma run_effect_jobs: "run_effect r ph ms s t \<Longrightarrow> map job_of (runs t) = map job_of (runs s)"
  by (rule nth_equalityI) (auto simp: run_effect_def job_of_def nth_list_update)

lemma run_move_jobs: "run_move s t \<Longrightarrow> map job_of (runs t) = map job_of (runs s)"
  unfolding run_move_def ends_run_def using run_effect_jobs by blast

text \<open>
  The dispatches the agent is to accept, in terms of the crates alone: both texts decode, the key is
  a key, and the signature is one, by this key, over the bytes of this job.
\<close>

definition verified :: "'h agent_setup \<Rightarrow> uuid \<Rightarrow> job_payload \<Rightarrow> string \<Rightarrow> bool" where
  "verified S i p sig \<longleftrightarrow> server_pubkey S \<noteq> [] \<and> sig \<noteq> []
     \<and> (case (b64_decode (crypt S) (server_pubkey S), b64_decode (crypt S) sig) of
          (Inr pk, Inr sg) \<Rightarrow> length pk = 32 \<and> key_error (crypt S) pk = None \<and> sig_error (crypt S) sg = None
            \<and> ed_verify (crypt S) pk (canonical_job_signing_bytes (json_vec (crypt S)) i p) sg
        | _ \<Rightarrow> False)"

lemma verified_iff: "verified S i p sig \<longleftrightarrow>
    verify_job_signature (crypt S) (server_pubkey S) i p sig = Inr ()"
  by (simp add: verified_def verify_job_signature_def split: sum.split option.split)

fun accepted :: "'h agent_setup \<Rightarrow> 'h event \<Rightarrow> (uuid \<times> job_payload) list" where
  "accepted S (Deliver (DispatchJob i p sig)) = (if verified S i p sig then [(i, p)] else [])"
| "accepted S e = []"

lemma report_inventory_runs [simp]: "runs (report_inventory os a s) = runs s"
  by (simp add: report_inventory_def on_host_frame(1) split: prod.splits)

lemma perform_task_runs [simp]: "runs (perform_task S k s) = runs s"
  by (cases k) (auto split: prod.splits dest: on_host_frame(1))

lemma handle_runs: "map job_of (runs (handle_server_message S m s)) =
    map job_of (runs s) @ accepted S (Deliver m)"
  by (cases m) (auto simp: job_of_def verified_iff registry_cancel_def registry_remove_def
    open_session_def send_input_def close_session_def split: sum.splits option.splits)

lemma step_jobs: "agent_step S e s = Some t \<Longrightarrow>
    map job_of (runs t) = map job_of (runs s) @ accepted S e"
proof (cases e)
  case (Run_starts r)
  moreover assume "agent_step S e s = Some t"
  ultimately have "execute_job (sys S) (b64_decode (crypt S)) r s = Some t" by simp
  from execute_job_effect(3) [OF this] have "map job_of (runs t) = map job_of (runs s)"
    unfolding ends_run_def using run_effect_jobs by blast
  then show ?thesis by (simp add: Run_starts)
next
  case (Run_completes r)
  moreover assume "agent_step S e s = Some t"
  ultimately show ?thesis
    using run_completes_ends [of r s t] run_effect_jobs unfolding ends_run_def by auto
next
  case (Pty_turns n a b)
  moreover assume "agent_step S e s = Some t"
  ultimately show ?thesis
    by (auto simp: pty_turns_def Let_def pty_poll_def split: if_splits list.splits option.splits)
qed (auto simp: handle_runs run_move_jobs run_prints_move pipe_ends_move run_wakes_move
    task_runs_def pty_opens_def pty_reads_def pty_read_ends_def simp del: handle_server_message.simps
    split: if_splits)

text \<open>
  C1.  The agent runs exactly the jobs it verified: in every history the runs are, in order and
  with their payloads, the dispatches whose signature is one of the server's key over the bytes of
  the very job and payload; any other dispatch starts nothing.
\<close>

theorem runs_are_verified_dispatches:
  assumes "runs_to S (fresh_agent h) es s"
  shows "map job_of (runs s) = concat (map (accepted S) es)"
proof -
  have "runs_to S s0 es s \<Longrightarrow> map job_of (runs s) = map job_of (runs s0) @ concat (map (accepted S) es)" for s0
    by (induction rule: runs_to.induct) (simp_all add: step_jobs)
  from this [OF assms] show ?thesis by (simp add: fresh_agent_def)
qed

text \<open>A dispatch that does not verify is answered, when its task runs, with the reason and exit code -3.\<close>

lemma rejection_reported:
  assumes "verify_job_signature (crypt S) (server_pubkey S) i p sig = Inl e"
    and "tasks s = []"
  shows "runs_to S s [Deliver (DispatchJob i p sig), Task_runs 0]
    (emit From_task (JobCompleted i (- 3))
      (emit From_task (JobLog i (''Job rejected: '' @ e) ''stderr'') (s\<lparr>tasks := []\<rparr>)))"
proof -
  have "runs_to S s ([] @ [Deliver (DispatchJob i p sig)]) (s\<lparr>tasks := [Reject i e]\<rparr>)"
    by (rule runs_to.more [OF runs_to.none]) (simp add: assms)
  then have "runs_to S s (([] @ [Deliver (DispatchJob i p sig)]) @ [Task_runs 0])
      (emit From_task (JobCompleted i (- 3))
        (emit From_task (JobLog i (''Job rejected: '' @ e) ''stderr'') (s\<lparr>tasks := []\<rparr>)))"
    by (rule runs_to.more) (simp add: task_runs_def)
  then show ?thesis by simp
qed

subsection \<open>Killing a run\<close>

definition streaming :: "phase \<Rightarrow> bool" where
  "streaming ph \<longleftrightarrow> (case ph of Streaming _ _ \<Rightarrow> True | _ \<Rightarrow> False)"

lemma streaming_simps [simp]: "streaming (Streaming a b)" "\<not> streaming (Draining a b c)"
  "\<not> streaming Queued" "\<not> streaming Finished"
  by (simp_all add: streaming_def)

lemma registry_simps [simp]:
  "job_registry (registry_register i r s) j = (if j = i then Some r else job_registry s j)"
  "job_registry (registry_remove i s) j = (if j = i then None else job_registry s j)"
  "job_registry (set_phase r ph s) = job_registry s"
  "job_registry (set_pty t f s) = job_registry s"
  "job_registry (complete r i c s) = job_registry s"
  "job_registry (log_line r i out line s) = job_registry s"
  "job_registry (push_failed r i line s) = job_registry s"
  "job_registry (pty_finish t' c' s) = job_registry s"
  by (simp_all add: registry_register_def registry_remove_def set_phase_def set_pty_def complete_def
    log_line_def push_failed_def pty_finish_def)

lemma registry_on_host: "on_host m d s = (x, t) \<Longrightarrow> job_registry t = job_registry s"
  by (rule on_host_frame(2))

lemma registry_report [simp]: "job_registry (report_inventory os a s) = job_registry s"
  by (auto simp: report_inventory_def registry_on_host split: prod.splits)

lemma registry_push_file:
  "job_registry (push_file_windows os decode r i dest content s) j = (if j = i then None else job_registry s j)"
proof -
  obtain x s1 where 1: "on_host (ensure_parent os dest) (Inr ()) (registry_remove i s) = (x, s1)"
    by (cases "on_host (ensure_parent os dest) (Inr ()) (registry_remove i s)")
  show ?thesis
  proof (cases "decode (trim content)")
    case (Inr bytes)
    obtain y s2 where 2: "on_host (host_run (write_file os dest (bytes_text bytes))) (Inr ()) s1 = (y, s2)"
      by (cases "on_host (host_run (write_file os dest (bytes_text bytes))) (Inr ()) s1")
    show ?thesis
      by (cases x; cases y) (simp_all add: push_file_windows_def Inr 1 2 Let_def
        registry_on_host [OF 1] registry_on_host [OF 2])
  qed (simp add: push_file_windows_def)
qed

lemma start_script_registry [simp]: "job_registry (start_script os r i shell script s) = job_registry s"
  by (auto simp: start_script_def registry_on_host split: prod.splits sum.splits)

lemma execute_job_registry:
  assumes "execute_job os decode r s = Some t" and "j \<noteq> run_job (runs s ! r)"
  shows "job_registry t j = job_registry s j"
  using assms by (auto simp: execute_job_def Let_def registry_push_file split: if_splits option.splits
    job_payload.splits)

lemma execute_job_registered:
  assumes "execute_job os decode r s = Some t" and "run_effect r (Streaming True True) [] s t"
  shows "job_registry t (run_job (runs s ! r)) = Some r"
proof -
  let ?i = "run_job (runs s ! r)"
  have r: "r < length (runs s)" using assms(2) by (simp add: run_effect_def)
  have nf: "run_phase (runs t ! r) = Streaming True True" using assms(2) r by (simp add: run_effect_def)
  have "run_effect r Queued [] s (registry_register ?i r s)"
    using execute_job_effect(1) [OF assms(1)] same_phase_effect [OF r, of s] by simp
  note e = this
  have fin: "\<not> ends_run r s t" using nf by (auto simp: ends_run_def run_effect_def r)
  obtain a b where inv: "run_effect r Queued ([] @ [InventoryReport a b]) s
      (report_inventory os (From_run r) (registry_remove ?i (registry_register ?i r s)))"
    using report_inventory_effect [of r Queued "[]" s "registry_remove ?i (registry_register ?i r s)" os] e
    by auto
  have "ends_run r s (complete r ?i 0
      (report_inventory os (From_run r) (registry_remove ?i (registry_register ?i r s))))"
    by (rule ends_runI [OF inv]) auto
  then show ?thesis using assms(1) fin push_file_ends [OF e refl]
    by (auto simp: execute_job_def Let_def split: if_splits option.splits job_payload.splits)
qed

lemma streaming_close_pipe [simp]: "streaming (close_pipe out ph) = streaming ph"
  by (cases ph) simp_all

text \<open>The steps that change the entry of a job: its revocation, and the start or waking of a run of it.\<close>

definition touches :: "'h agent \<Rightarrow> uuid \<Rightarrow> 'h event \<Rightarrow> bool" where
  "touches s i e \<longleftrightarrow> e = Deliver (RevokeJob i) \<or>
     (\<exists>q < length (runs s). run_job (runs s ! q) = i \<and> (e = Run_starts q \<or> (\<exists>w. e = Run_wakes q w)))"

lemma task_registry: "task_runs S n s = Some t \<Longrightarrow> job_registry t = job_registry s"
proof -
  have "job_registry (perform_task S k u) = job_registry u" for k u
  proof (cases k)
    case (Evaluate ps)
    have "job_registry (fold (emit a) ms v) = job_registry v" for a ms and v :: "'a agent"
      by (induction ms arbitrary: v) simp_all
    then show ?thesis by (auto simp: Evaluate registry_on_host split: prod.splits)
  qed simp
  then show "task_runs S n s = Some t \<Longrightarrow> job_registry t = job_registry s"
    by (auto simp: task_runs_def split: if_splits)
qed

lemma handle_registry:
  "m \<noteq> RevokeJob i \<Longrightarrow> job_registry (handle_server_message S m s) i = job_registry s i"
  by (cases m) (auto simp: registry_cancel_def open_session_def send_input_def close_session_def
    split: option.splits sum.splits)

lemma step_registry:
  assumes "agent_step S e s = Some t" and "\<not> touches s i e"
  shows "job_registry t i = job_registry s i"
proof (cases e)
  case (Deliver m)
  with assms show ?thesis by (auto simp: handle_registry touches_def simp del: handle_server_message.simps)
next
  case (Run_starts q)
  with assms execute_job_effect(2) [of "sys S" _ q s t] show ?thesis
    by (auto simp: touches_def intro!: execute_job_registry)
next
  case (Run_wakes q w)
  with assms show ?thesis
    by (auto simp: touches_def run_wakes_def split: if_splits phase.splits)
next
  case (Pty_turns n a b)
  with assms show ?thesis
    by (auto simp: pty_turns_def Let_def pty_poll_def split: if_splits list.splits option.splits)
next
  case (Task_runs n)
  then show ?thesis using assms(1) task_registry [of S n s t] by simp
next
  case (Run_completes q)
  then show ?thesis using assms(1)
    by (auto simp: run_completes_def split: if_splits phase.splits bool.splits)
next
  case (World k)
  then show ?thesis using assms(1) by auto
next
  case Interval_ticks
  then show ?thesis using assms(1) by auto
next
  case (Batch_arrives evs)
  then show ?thesis using assms(1) by auto
next
  case (Run_prints q out line)
  then show ?thesis using assms(1) by (auto simp: run_prints_def split: if_splits)
next
  case (Pipe_ends q out)
  then show ?thesis using assms(1) by (auto simp: pipe_ends_def split: if_splits)
next
  case (Pty_opens n ok)
  then show ?thesis using assms(1) by (auto simp: pty_opens_def split: if_splits)
next
  case (Pty_reads n data)
  then show ?thesis using assms(1) by (auto simp: pty_reads_def split: if_splits)
next
  case (Pty_read_ends n)
  then show ?thesis using assms(1) by (auto simp: pty_read_ends_def split: if_splits)
qed

lemma step_streaming:
  assumes "agent_step S e s = Some t" and "r < length (runs s)" and "streaming (run_phase (runs t ! r))"
  shows "streaming (run_phase (runs s ! r)) \<or> e = Run_starts r"
proof (cases e)
  case (Run_starts q)
  then have "execute_job (sys S) (b64_decode (crypt S)) q s = Some t" using assms by simp
  from execute_job_effect(3) [OF this] have "\<exists>ph ms. run_effect q ph ms s t"
    unfolding ends_run_def by blast
  then show ?thesis using assms Run_starts by (cases "q = r") (auto simp: run_effect_def)
next
  case (Run_prints q out line)
  with assms show ?thesis by (auto simp: run_prints_def log_line_def split: if_splits)
next
  case (Pipe_ends q out)
  with assms show ?thesis
    by (cases "q = r") (auto simp: pipe_ends_def set_phase_def split: if_splits)
next
  case (Run_wakes q w)
  with assms show ?thesis
    by (cases "q = r") (auto simp: run_wakes_def set_phase_def registry_remove_def split: if_splits phase.splits)
next
  case (Run_completes q)
  with assms show ?thesis
    by (cases "q = r") (auto simp: run_completes_def complete_def set_phase_def
      split: if_splits phase.splits bool.splits)
next
  case (Deliver m)
  obtain new where "runs t = runs s @ new" using handle_no_run [of s S m] assms(1) Deliver
    by (auto simp: no_run_effect_def)
  then show ?thesis using assms by (simp add: nth_append)
next
  case (Pty_turns n a b)
  then have "runs t = runs s" using assms(1)
    by (auto simp: pty_turns_def Let_def pty_poll_def split: if_splits list.splits option.splits)
  then show ?thesis using assms by simp
qed (use assms in \<open>auto simp: task_runs_def pty_opens_def pty_reads_def pty_read_ends_def split: if_splits\<close>)

text \<open>Why the kill channel of a streaming run may have resolved.\<close>

definition revoked_or_repeated :: "'h event list \<Rightarrow> 'h agent \<Rightarrow> nat \<Rightarrow> bool" where
  "revoked_or_repeated es s r \<longleftrightarrow> Deliver (RevokeJob (run_job (runs s ! r))) \<in> set es \<or>
     (\<exists>q < length (runs s). q \<noteq> r \<and> run_job (runs s ! q) = run_job (runs s ! r))"

lemma jobs_grow:
  assumes "agent_step S e s = Some t" and "q < length (runs s)"
  shows "q < length (runs t) \<and> run_job (runs t ! q) = run_job (runs s ! q)"
proof -
  have m: "map job_of (runs t) = map job_of (runs s) @ accepted S e" by (rule step_jobs [OF assms(1)])
  have l: "length (runs s) \<le> length (runs t)" using arg_cong [OF m, of length] by simp
  have "map job_of (runs t) ! q = map job_of (runs s) ! q" using assms(2) by (simp add: m nth_append)
  then show ?thesis using assms(2) l by (simp add: job_of_def)
qed

lemma revoked_or_repeated_grows:
  "agent_step S e s = Some t \<Longrightarrow> r < length (runs s) \<Longrightarrow> revoked_or_repeated es s r \<Longrightarrow>
     revoked_or_repeated (es @ [e]) t r"
  unfolding revoked_or_repeated_def using jobs_grow [of S e s t] by fastforce

lemma kill_has_cause:
  assumes "runs_to S (fresh_agent h) es s" and "r < length (runs s)" and "streaming (run_phase (runs s ! r))"
  shows "job_registry s (run_job (runs s ! r)) = Some r \<or> revoked_or_repeated es s r"
  using assms
proof (induction S "fresh_agent h" es s rule: runs_to.induct)
  case (none S)
  then show ?case by (simp add: fresh_agent_def)
next
  case (more S es t e u)
  have "r < length (runs t)"
  proof (rule ccontr)
    assume n: "\<not> r < length (runs t)"
    from agent_step_effect [OF more(3)] show False
    proof
      assume "no_run_effect t u"
      then obtain new where u: "runs u = runs t @ new" and qd: "\<forall>x \<in> set new. run_phase x = Queued"
        by (auto simp: no_run_effect_def)
      have "runs u ! r \<in> set new" using n more.prems(1) by (simp add: u nth_append)
      then show False using qd more.prems(2) by auto
    next
      assume "run_move t u"
      then show False using n more.prems by (auto simp: run_move_def ends_run_def run_effect_def)
    qed
  qed
  note r = this and g = jobs_grow [OF more(3) this]
  show ?case
  proof (cases "e = Run_starts r")
    case True
    then have x: "execute_job (sys S) (b64_decode (crypt S)) r t = Some u" using more(3) by simp
    have "\<not> ends_run r t u" using more.prems r by (auto simp: ends_run_def run_effect_def)
    then have "run_effect r (Streaming True True) [] t u" using execute_job_effect(3) [OF x] by blast
    from execute_job_registered [OF x this] show ?thesis by (simp add: g)
  next
    case False
    then have st: "streaming (run_phase (runs t ! r))" using step_streaming [OF more(3) r more.prems(2)] by simp
    show ?thesis
    proof (cases "touches t (run_job (runs t ! r)) e")
      case True
      then show ?thesis
      proof (cases "\<exists>w. e = Run_wakes r w")
        case True
        then have "\<not> streaming (run_phase (runs u ! r))" using more(3) r
          by (auto simp: run_wakes_def set_phase_def registry_remove_def split: if_splits phase.splits)
        with more.prems show ?thesis by simp
      next
        case nw: False
        with True False have "revoked_or_repeated (es @ [e]) t r"
          unfolding touches_def revoked_or_repeated_def by fastforce
        then show ?thesis unfolding revoked_or_repeated_def using jobs_grow [OF more(3)] g by fastforce
      qed
    next
      case False
      then show ?thesis using more(2) [OF r st] step_registry [OF more(3) False]
          revoked_or_repeated_grows [OF more(3) r] g by auto
    qed
  qed
qed


text \<open>
  The simulated agent with one job started and revoked.
\<close>

definition sim_history :: "settings event list" where
  "sim_history = [Deliver sim_job, Run_starts 0, Deliver (RevokeJob 1)]"

lemmas sim_simps_all = sim_history_def sim_job_def fresh_agent_def execute_job_def start_script_def
  on_host_def host_run_def registry_register_def registry_remove_def registry_cancel_def set_phase_def

lemma sim_played:
  obtains s where "runs_to sim_setup (fresh_agent []) sim_history s" "length (runs s) = 1"
    "run_phase (runs s ! 0) = Streaming True True" "job_registry s 1 = None" "run_job (runs s ! 0) = 1"
proof -
  have sp: "spawn (sys sim_setup) p a h = (Inr (), h)" "target (sys sim_setup) = P_linux" for p a h
    by (simp_all add: sim_setup_def sim_windows_def)
  have "\<exists>s. play sim_setup sim_history (fresh_agent []) = Some s \<and> length (runs s) = 1
      \<and> run_phase (runs s ! 0) = Streaming True True \<and> job_registry s 1 = None \<and> run_job (runs s ! 0) = 1"
    by (simp add: sim_simps_all sim_verified sp)
  then show ?thesis using that by (auto simp: runs_to_play)
qed


theorem runs_are_verified_dispatches_witness:
  "\<exists>s :: settings agent. map job_of (runs s) = concat (map (accepted sim_setup) sim_history)"
proof -
  obtain s where "runs_to sim_setup (fresh_agent []) sim_history s" by (rule sim_played)
  from runs_are_verified_dispatches [OF this] show ?thesis by blast
qed

theorem job_completion_is_last_witness:
  "\<exists>s :: settings agent. length (runs s) = 1 \<and> run_phase (runs s ! 0) = Streaming True True
     \<and> (\<forall>m \<in> set (sent_by (From_run 0) s). progress 1 m)"
proof -
  obtain s where s: "runs_to sim_setup (fresh_agent []) sim_history s" "length (runs s) = 1"
    "run_phase (runs s ! 0) = Streaming True True" "run_job (runs s ! 0) = 1"
    by (rule sim_played)
  have "0 < length (runs s)" using s(2) by simp
  from job_completion_is_last [OF s(1) this] s show ?thesis by (intro exI [of _ s]) simp
qed

text \<open>
  Dispatching a job again while it runs kills both runs: the second one takes over the entry, so
  the channel of the first resolves, and the end of the first removes the entry of the second.
\<close>

lemma second_dispatch_kills_both:
  assumes "r < length (runs s)" "q < length (runs s)" "q \<noteq> r"
    and "run_job (runs s ! q) = run_job (runs s ! r)"
    and "run_phase (runs s ! r) = Streaming a b" "run_phase (runs s ! q) = Streaming c d"
    and "job_registry s (run_job (runs s ! r)) = Some q"
  shows "\<exists>t. run_wakes r Kill_received s = Some t \<and> kill_ready t q
    \<and> (\<exists>u. run_wakes q Kill_received t = Some u)"
proof -
  let ?t = "registry_remove (run_job (runs s ! r)) (set_phase r (Draining a b (- 4)) s)"
  have 1: "run_wakes r Kill_received s = Some ?t"
    using assms by (simp add: run_wakes_def kill_ready_def)
  have 2: "run_job (runs ?t ! q) = run_job (runs s ! r)" "run_phase (runs ?t ! q) = Streaming c d"
    "q < length (runs ?t)"
    using assms by (simp_all add: registry_remove_def set_phase_def)
  then have "kill_ready ?t q" by (simp add: kill_ready_def)
  with 1 2 show ?thesis by (simp add: run_wakes_def)
qed

subsection \<open>Every run can end\<close>

text \<open>At most \<open>n\<close> steps of run \<open>r\<close> alone, with the phase they lead to.\<close>

fun own_event :: "nat \<Rightarrow> 'h event \<Rightarrow> bool" where
  "own_event r (Run_starts q) = (q = r)"
| "own_event r (Pipe_ends q out) = (q = r)"
| "own_event r (Run_wakes q w) = (q = r \<and> w = Timed_out)"
| "own_event r (Run_completes q) = (q = r)"
| "own_event r e = False"

definition leads :: "nat \<Rightarrow> 'h agent_setup \<Rightarrow> nat \<Rightarrow> 'h agent \<Rightarrow> phase \<Rightarrow> bool" where
  "leads n S r s ph \<longleftrightarrow> (\<exists>es t. length es \<le> n \<and> list_all (own_event r) es \<and> play S es s = Some t
     \<and> r < length (runs t) \<and> run_phase (runs t ! r) = ph)"

lemma leads_step:
  assumes "own_event r e" "agent_step S e s = Some t" "leads n S r t ph"
  shows "leads (Suc n) S r s ph"
proof -
  from assms(3) obtain es u where "length es \<le> n" "list_all (own_event r) es" "play S es t = Some u"
    "r < length (runs u)" "run_phase (runs u ! r) = ph" by (auto simp: leads_def)
  then show ?thesis unfolding leads_def using assms(1,2) by (intro exI [of _ "e # es"]) simp
qed

lemma leads_here: "r < length (runs s) \<Longrightarrow> run_phase (runs s ! r) = ph \<Longrightarrow> leads n S r s ph"
  unfolding leads_def by (rule exI [of _ "[]"]) simp

lemma leads_more: "leads n S r s ph \<Longrightarrow> n \<le> m \<Longrightarrow> leads m S r s ph"
  unfolding leads_def by (elim exE conjE) (intro exI conjI, rule order_trans, assumption+)

lemma drained_ends:
  assumes "r < length (runs s)" "run_phase (runs s ! r) = Draining False False c"
  shows "leads 1 S r s Finished"
proof -
  have "leads 0 S r (complete r (run_job (runs s ! r)) c s) Finished"
    by (rule leads_here) (use assms in \<open>simp_all add: complete_def set_phase_def\<close>)
  then have "leads (Suc 0) S r s Finished"
    by (rule leads_step [of r "Run_completes r", rotated 2])
      (use assms in \<open>simp_all add: run_completes_def\<close>)
  then show ?thesis by simp
qed

lemma pipe_closed:
  assumes "r < length (runs s)" "run_phase (runs s ! r) = Draining a b c" "if out then a else b"
    and "leads n S r (set_phase r (Draining (a \<and> \<not> out) (b \<and> out) c) s) Finished"
  shows "leads (Suc n) S r s Finished"
  by (rule leads_step [of r "Pipe_ends r out" S s _ n, OF _ _ assms(4)])
    (use assms in \<open>auto simp: pipe_ends_def\<close>)

lemma draining_ends:
  assumes "r < length (runs s)" "run_phase (runs s ! r) = Draining a b c"
  shows "leads 3 S r s Finished"
proof -
  have e: "leads 2 S r u Finished"
    if u: "r < length (runs u)" "run_phase (runs u ! r) = Draining a' False c" for u :: "'a agent" and a'
  proof (cases a')
    case True
    have "leads 1 S r (set_phase r (Draining False False c) u) Finished"
      by (rule drained_ends) (use u in \<open>simp_all add: set_phase_def\<close>)
    then have "leads (Suc 1) S r u Finished"
      by (intro pipe_closed [where a = a' and b = False and c = c and out = True]) (use u True in simp_all)
    then show ?thesis by (simp add: numeral_2_eq_2)
  next
    case False
    then show ?thesis using drained_ends [of r u c S] u by (auto intro: leads_more)
  qed
  show ?thesis
  proof (cases b)
    case True
    have "leads 2 S r (set_phase r (Draining a False c) s) Finished"
      by (rule e) (use assms in \<open>simp_all add: set_phase_def\<close>)
    then have "leads (Suc 2) S r s Finished"
      by (intro pipe_closed [where a = a and b = b and c = c and out = False]) (use assms True in simp_all)
    then show ?thesis by (simp add: eval_nat_numeral)
  next
    case False
    then show ?thesis using e [of s a] assms by (auto intro: leads_more)
  qed
qed

lemma streaming_ends:
  assumes "r < length (runs s)" "run_phase (runs s ! r) = Streaming a b"
  shows "leads 4 S r s Finished"
proof -
  let ?t = "registry_remove (run_job (runs s ! r)) (set_phase r (Draining a b (- 2)) s)"
  have "leads 3 S r ?t Finished"
    by (rule draining_ends) (use assms in \<open>simp_all add: registry_remove_def set_phase_def\<close>)
  then have "leads (Suc 3) S r s Finished"
    by (rule leads_step [of r "Run_wakes r Timed_out", rotated 2])
      (use assms in \<open>simp_all add: run_wakes_def\<close>)
  then show ?thesis by (simp add: eval_nat_numeral)
qed

lemma started_ends:
  assumes "r < length (runs s)" "run_phase (runs s ! r) = Queued"
  shows "leads 5 S r s Finished"
proof -
  obtain t where t: "execute_job (sys S) (b64_decode (crypt S)) r s = Some t"
    using assms by (simp add: execute_job_def Let_def)
  have "leads 4 S r t Finished"
    using execute_job_effect(3) [OF t]
  proof
    assume "ends_run r s t"
    then show ?thesis by (auto simp: ends_run_def run_effect_def intro!: leads_here)
  next
    assume "run_effect r (Streaming True True) [] s t"
    then show ?thesis by (auto simp: run_effect_def intro!: streaming_ends)
  qed
  then have "leads (Suc 4) S r s Finished"
    by (rule leads_step [of r "Run_starts r", rotated 2]) (simp_all add: t)
  then show ?thesis by (simp add: eval_nat_numeral)
qed



text \<open>
  The time limit alone does not end a run: while a pipe is open (a child of the killed interpreter
  may hold it) the completion waits.
\<close>

lemma open_pipe_delays_completion:
  "run_phase (runs s ! r) = Draining a b c \<Longrightarrow> a \<or> b \<Longrightarrow> run_completes r s = None"
  by (cases a; cases b) (simp_all add: run_completes_def)

end
