(* ===== verification/Agent_Sessions.thy ===== *)
theory Agent_Sessions
  imports Agent_Runs
begin

section \<open>Agent: what every history keeps of the shell sessions\<close>

text \<open>
  The session threads of the agent along any history: which steps touch them, the invariant of the
  session table and of each thread's messages, the order of the input.
\<close>

subsection \<open>Steps that leave sessions alone\<close>

definition same_sessions :: "'h agent \<Rightarrow> 'h agent \<Rightarrow> bool" where
  "same_sessions s t \<longleftrightarrow> ptys t = ptys s \<and> shells t = shells s
     \<and> (\<forall>n. sent_by (From_pty n) t = sent_by (From_pty n) s)"

lemma run_effect_sessions: "run_effect r ph ms s t \<Longrightarrow> same_sessions s t"
  using sent_by_run_effect [of r ph ms s t] by (simp add: same_sessions_def run_effect_def)

lemma run_move_sessions: "run_move s t \<Longrightarrow> same_sessions s t"
  unfolding run_move_def ends_run_def using run_effect_sessions by blast

lemma sent_by_same_outbox: "outbox t = outbox s \<Longrightarrow> sent_by a t = sent_by a s"
  by (simp add: sent_by_def)

lemma on_host_sessions: "on_host m d s = (x, t) \<Longrightarrow> same_sessions s t"
  by (auto simp: same_sessions_def on_host_frame intro: sent_by_same_outbox)

lemma same_sessions_trans: "same_sessions s t \<Longrightarrow> same_sessions t u \<Longrightarrow> same_sessions s u"
  by (simp add: same_sessions_def)

lemma emit_sessions: "(\<And>n. a \<noteq> From_pty n) \<Longrightarrow> same_sessions s (emit a m s)"
  by (auto simp: same_sessions_def)

lemma report_inventory_sessions:
  "(\<And>n. a \<noteq> From_pty n) \<Longrightarrow> same_sessions s (report_inventory os a s)"
  by (auto simp: report_inventory_def split: prod.splits
    intro: same_sessions_trans [OF same_sessions_trans [OF on_host_sessions on_host_sessions] emit_sessions])

lemma fold_emit_sessions: "same_sessions s (fold (emit From_task) ms s)"
  by (induction ms arbitrary: s) (auto simp: same_sessions_def)

lemma perform_task_sessions: "same_sessions s (perform_task S k s)"
proof (cases k)
  case (Evaluate ps)
  then show ?thesis
    by (auto split: prod.splits intro: same_sessions_trans [OF on_host_sessions fold_emit_sessions])
qed (simp add: same_sessions_def)

lemma nth_updated: "t < length xs \<Longrightarrow> xs[i := x] ! t = (if i = t then x else xs ! t)"
  by (cases "i = t") simp_all

text \<open>The events of the sessions.\<close>

fun session_event :: "'h event \<Rightarrow> bool" where
  "session_event (Deliver (OpenShell i)) = True"
| "session_event (Deliver (ShellInput i d)) = True"
| "session_event (Deliver (CloseShell i)) = True"
| "session_event (Pty_opens t ok) = True"
| "session_event (Pty_reads t d) = True"
| "session_event (Pty_read_ends t) = True"
| "session_event (Pty_turns t a b) = True"
| "session_event e = False"

lemma other_steps_sessions:
  assumes "agent_step S e s = Some t" "\<not> session_event e"
  shows "same_sessions s t"
proof (cases e)
  case (Deliver m)
  show ?thesis
  proof (cases "m = RequestInventory")
    case True
    then show ?thesis using assms Deliver by (auto intro: report_inventory_sessions)
  next
    case False
    then show ?thesis using assms Deliver
      by (cases m) (auto simp: registry_cancel_def registry_remove_def same_sessions_def sent_by_def
        emit_def split: option.splits sum.splits)
  qed
next
  case (Task_runs n)
  then have "same_sessions (s\<lparr>tasks := take n (tasks s) @ drop (Suc n) (tasks s)\<rparr>) t"
    using assms(1) perform_task_sessions by (auto simp: task_runs_def split: if_splits)
  then show ?thesis by (simp add: same_sessions_def sent_by_def)
next
  case (Run_starts r)
  then have "execute_job (sys S) (b64_decode (crypt S)) r s = Some t" using assms by simp
  from execute_job_effect(3) [OF this] show ?thesis
    unfolding ends_run_def using run_effect_sessions by blast
next
  case (Run_completes r)
  then show ?thesis using assms run_completes_ends [of r s t] run_effect_sessions
    unfolding ends_run_def by auto
next
  case (Run_prints r out line)
  then show ?thesis using assms by (simp add: run_move_sessions run_prints_move)
next
  case (Pipe_ends r out)
  then show ?thesis using assms by (simp add: run_move_sessions pipe_ends_move)
next
  case (Run_wakes r w)
  then show ?thesis using assms by (simp add: run_move_sessions run_wakes_move)
next
  case (World h)
  then show ?thesis using assms by (auto simp: same_sessions_def sent_by_def)
next
  case Interval_ticks
  then show ?thesis using assms by (auto simp: same_sessions_def sent_by_def heartbeat_round_def emit_def)
next
  case (Batch_arrives evs)
  then show ?thesis using assms by (auto simp: same_sessions_def sent_by_def forward_batch_def emit_def)
qed (use assms in simp_all)

subsection \<open>The invariant of the sessions\<close>

definition of_session :: "uuid \<Rightarrow> agent_message \<Rightarrow> bool" where
  "of_session i m \<longleftrightarrow> (case m of ShellOutput j _ \<Rightarrow> j = i | ShellClosed j _ \<Rightarrow> j = i | _ \<Rightarrow> False)"

definition closing :: "agent_message \<Rightarrow> bool" where
  "closing m \<longleftrightarrow> (case m of ShellClosed _ _ \<Rightarrow> True | _ \<Rightarrow> False)"

definition pty_log_ok :: "pty \<Rightarrow> agent_message list \<Rightarrow> bool" where
  "pty_log_ok p ms \<longleftrightarrow> (\<forall>m \<in> set ms. of_session (pty_session p) m)
     \<and> length (filter closing ms) = (if pty_stage p = Closed then 1 else 0)"

definition sessions_ok :: "'h agent \<Rightarrow> bool" where
  "sessions_ok s \<longleftrightarrow> (\<forall>t < length (ptys s). pty_log_ok (ptys s ! t) (sent_by (From_pty t) s))
     \<and> (\<forall>t \<ge> length (ptys s). sent_by (From_pty t) s = [])
     \<and> (\<forall>i t. shells s i = Some t \<longrightarrow> t < length (ptys s) \<and> pty_session (ptys s ! t) = i)"

lemma sessions_ok_same: "sessions_ok s \<Longrightarrow> same_sessions s t \<Longrightarrow> sessions_ok t"
  by (simp add: sessions_ok_def same_sessions_def)

lemma sent_by_set_pty [simp]: "sent_by a (set_pty t f s) = sent_by a s"
  by (simp add: sent_by_def)

lemma ptys_set_pty [simp]: "ptys (set_pty t f s) = (ptys s)[t := f (ptys s ! t)]"
  "shells (set_pty t f s) = shells s"
  by (simp_all add: set_pty_def)

text \<open>Changing a thread but not its session or stage.\<close>

lemma sessions_ok_set_pty:
  assumes "sessions_ok s" "\<And>p. pty_session (f p) = pty_session p"
    "\<And>p. (pty_stage (f p) = Closed) = (pty_stage p = Closed)"
  shows "sessions_ok (set_pty t f s)"
  using assms by (auto simp: sessions_ok_def pty_log_ok_def nth_updated)

lemma closing_simps [simp]: "closing (ShellClosed i c)" "\<not> closing (ShellOutput i d)"
  "of_session i (ShellClosed j c) \<longleftrightarrow> j = i" "of_session i (ShellOutput j d) \<longleftrightarrow> j = i"
  by (simp_all add: closing_def of_session_def)

lemma sessions_ok_finish:
  assumes "sessions_ok s" "t < length (ptys s)" "pty_stage (ptys s ! t) \<noteq> Closed"
  shows "sessions_ok (pty_finish t c s)"
proof -
  have "pty_log_ok (ptys s ! t) (sent_by (From_pty t) s)" using assms by (simp add: sessions_ok_def)
  with assms show ?thesis
    by (auto simp: sessions_ok_def pty_finish_def pty_log_ok_def nth_updated)
qed

lemma sent_by_open [simp]: "sent_by a (open_session i s) = sent_by a s"
  by (rule sent_by_same_outbox) (simp add: open_session_def)

lemma sessions_ok_open:
  assumes "sessions_ok s" shows "sessions_ok (open_session i s)"
proof (cases "shells s i")
  case None
  have "pty_log_ok (ptys (open_session i s) ! t) (sent_by (From_pty t) s)"
    if "t < length (ptys (open_session i s))" for t
  proof (cases "t < length (ptys s)")
    case True
    then show ?thesis using assms by (simp add: open_session_def None nth_append sessions_ok_def)
  next
    case False
    then have "sent_by (From_pty t) s = []" using assms by (simp add: sessions_ok_def)
    then show ?thesis using False that by (simp add: open_session_def None nth_append pty_log_ok_def)
  qed
  moreover have "shells (open_session i s) j = Some t \<Longrightarrow>
      t < length (ptys (open_session i s)) \<and> pty_session (ptys (open_session i s) ! t) = j" for j t
    using assms by (auto simp: open_session_def None nth_append sessions_ok_def split: if_splits)
  moreover have "length (ptys (open_session i s)) = Suc (length (ptys s))"
    by (simp add: open_session_def None)
  ultimately show ?thesis using assms by (simp add: sessions_ok_def)
next
  case (Some t)
  then show ?thesis using assms by (simp add: open_session_def)
qed

lemma pty_log_ok_output:
  "pty_log_ok p ms \<Longrightarrow> pty_log_ok p (ms @ [ShellOutput (pty_session p) d])"
  by (auto simp: pty_log_ok_def)

lemma sessions_ok_reads:
  "sessions_ok s \<Longrightarrow> pty_reads n d s = Some t \<Longrightarrow> sessions_ok t"
  by (auto simp: pty_reads_def sessions_ok_def pty_log_ok_output split: if_splits)

lemma sessions_ok_input: "sessions_ok s \<Longrightarrow> sessions_ok (send_input i d s)"
  by (auto simp: send_input_def split: option.splits intro!: sessions_ok_set_pty)

lemma sessions_ok_close: "sessions_ok s \<Longrightarrow> sessions_ok (close_session i s)"
proof -
  assume ok: "sessions_ok s"
  show ?thesis
  proof (cases "shells s i")
    case (Some t)
    have "sessions_ok (set_pty t (\<lambda>p. p\<lparr>pty_kill := True\<rparr>) s)"
      by (rule sessions_ok_set_pty [OF ok]) simp_all
    then show ?thesis by (auto simp: close_session_def Some sessions_ok_def sent_by_def)
  qed (simp add: close_session_def ok)
qed

lemma sessions_ok_turn:
  assumes ok: "sessions_ok s" and t: "t < length (ptys s)" "pty_stage (ptys s ! t) = Open"
    and "pty_turns t status final s = Some u"
  shows "sessions_ok u"
proof -
  let ?w = "\<lambda>rest data. set_pty t (\<lambda>p. p\<lparr>pty_stdin := rest, pty_written := pty_written p @ [data]\<rparr>) s"
  have w: "sessions_ok (?w rest data)" for rest data
    by (rule sessions_ok_set_pty [OF ok]) simp_all
  have "sessions_ok (pty_finish t c (?w rest data))" for c rest data
    by (rule sessions_ok_finish [OF w]) (use t in simp_all)
  moreover have "sessions_ok (pty_finish t c s)" for c
    by (rule sessions_ok_finish [OF ok]) (use t in simp_all)
  ultimately show ?thesis using assms w
    by (auto simp: pty_turns_def Let_def pty_poll_def split: if_splits list.splits option.splits)
qed

lemma sessions_ok_step:
  assumes "sessions_ok s" "agent_step S e s = Some t"
  shows "sessions_ok t"
proof (cases "session_event e")
  case True
  then show ?thesis
  proof (cases e)
    case (Deliver m)
    then show ?thesis using True assms
      by (cases m) (auto simp: sessions_ok_open sessions_ok_input sessions_ok_close)
  next
    case (Pty_opens n ok)
    then show ?thesis using assms
      by (auto simp: pty_opens_def split: if_splits intro!: sessions_ok_finish)
        (auto simp: sessions_ok_def pty_log_ok_def nth_updated)
  next
    case (Pty_reads n d)
    then show ?thesis using assms sessions_ok_reads by auto
  next
    case (Pty_read_ends n)
    then show ?thesis using assms
      by (auto simp: pty_read_ends_def split: if_splits intro!: sessions_ok_set_pty)
  next
    case (Pty_turns n a b)
    then have "pty_turns n a b s = Some t" using assms(2) by simp
    moreover from this have "n < length (ptys s)" "pty_stage (ptys s ! n) = Open"
      by (auto simp: pty_turns_def split: if_splits)
    ultimately show ?thesis using sessions_ok_turn [OF assms(1)] by blast
  qed simp_all
next
  case False
  show ?thesis by (rule sessions_ok_same [OF assms(1) other_steps_sessions [OF assms(2) False]])
qed

lemma sessions_ok_reachable: "runs_to S (fresh_agent h) es s \<Longrightarrow> sessions_ok s"
proof -
  have "runs_to S s0 es s \<Longrightarrow> sessions_ok s0 \<Longrightarrow> sessions_ok s" for s0
    by (induction rule: runs_to.induct) (auto intro: sessions_ok_step)
  then show "runs_to S (fresh_agent h) es s \<Longrightarrow> sessions_ok s"
    by (auto simp: sessions_ok_def fresh_agent_def sent_by_def)
qed

text \<open>
  C20.  In every history of the agent each shell thread speaks only of its own session and
  announces the end of the session exactly once, when it has ended and never before, whichever way
  it ended (closed by the server, exited, or never started).
\<close>

theorem session_end_reported_once:
  assumes "runs_to S (fresh_agent h) es s" and "t < length (ptys s)"
  shows "(\<forall>m \<in> set (sent_by (From_pty t) s). of_session (pty_session (ptys s ! t)) m)
    \<and> length (filter closing (sent_by (From_pty t) s)) = (if pty_stage (ptys s ! t) = Closed then 1 else 0)"
  using sessions_ok_reachable [OF assms(1)] assms(2) by (simp add: sessions_ok_def pty_log_ok_def)

text \<open>A session opened, used and ended by its shell, whose last output arrives after its end.\<close>

definition sim_session :: "settings event list" where
  "sim_session = [Deliver (OpenShell 5), Pty_opens 0 True, Deliver (ShellInput 5 ''exit''),
     Pty_turns 0 (Some 0) None, Pty_reads 0 ''bye'']"

lemma sim_session_played:
  obtains s :: "settings agent" where "runs_to sim_setup (fresh_agent []) sim_session s"
    "length (ptys s) = 1" "sent_by (From_pty 0) s = [ShellClosed 5 (Some 0), ShellOutput 5 ''bye'']"
proof -
  have "\<exists>s. play sim_setup sim_session (fresh_agent []) = Some s \<and> length (ptys s) = 1
      \<and> sent_by (From_pty 0) s = [ShellClosed 5 (Some 0), ShellOutput 5 ''bye'']"
    by (simp add: sim_session_def fresh_agent_def open_session_def pty_opens_def send_input_def
      pty_turns_def pty_poll_def pty_finish_def pty_reads_def set_pty_def emit_def sent_by_def)
  then show ?thesis using that by (auto simp: runs_to_play)
qed

theorem session_end_reported_once_witness:
  "\<exists>s :: settings agent. length (ptys s) = 1
     \<and> length (filter closing (sent_by (From_pty 0) s)) = (if pty_stage (ptys s ! 0) = Closed then 1 else 0)"
proof -
  obtain s :: "settings agent" where s: "runs_to sim_setup (fresh_agent []) sim_session s" "length (ptys s) = 1"
    by (rule sim_session_played)
  then have "0 < length (ptys s)" by simp
  from session_end_reported_once [OF s(1) this] s(2) show ?thesis by blast
qed

subsection \<open>Input arrives in order\<close>

text \<open>What was typed into a thread: written to the terminal, then still queued.\<close>

definition typed :: "'h agent \<Rightarrow> nat \<Rightarrow> string list" where
  "typed s t = pty_written (ptys s ! t) @ pty_stdin (ptys s ! t)"

definition input_of :: "'h agent \<Rightarrow> nat \<Rightarrow> 'h event \<Rightarrow> string list" where
  "input_of s t e = (case e of
       Deliver (ShellInput i d) \<Rightarrow>
         if shells s i = Some t \<and> pty_stage (ptys s ! t) \<noteq> Closed then [d] else []
     | _ \<Rightarrow> [])"

lemma typed_grows:
  assumes "agent_step S e s = Some u" and t: "t < length (ptys s)"
  shows "typed u t = typed s t @ input_of s t e"
proof (cases "session_event e")
  case False
  then have "input_of s t e = []" by (cases e rule: session_event.cases) (simp_all add: input_of_def)
  then show ?thesis using other_steps_sessions [OF assms(1) False] by (simp add: same_sessions_def typed_def)
next
  case True
  then show ?thesis
  proof (cases e)
    case (Deliver m)
    then show ?thesis using True assms
      by (cases m) (auto simp: typed_def input_of_def open_session_def send_input_def close_session_def
        nth_append nth_updated split: option.splits)
  next
    case (Pty_opens n ok)
    then show ?thesis using assms
      by (auto simp: typed_def input_of_def pty_opens_def pty_finish_def nth_updated split: if_splits)
  next
    case (Pty_reads n d)
    then show ?thesis using assms
      by (auto simp: typed_def input_of_def pty_reads_def split: if_splits)
  next
    case (Pty_read_ends n)
    then show ?thesis using assms
      by (auto simp: typed_def input_of_def pty_read_ends_def nth_updated split: if_splits)
  next
    case (Pty_turns n a b)
    then show ?thesis using assms
      by (auto simp: typed_def input_of_def pty_turns_def Let_def pty_poll_def pty_finish_def
        nth_updated split: if_splits list.splits option.splits)
  qed simp_all
qed

text \<open>
  Shells need no signature: whatever key the agent holds, two unsigned messages of whoever is at
  the other end of the connection put a line of text into a shell of the agent.
\<close>

lemma shell_needs_no_signature:
  "\<exists>s. runs_to S (fresh_agent h) [Deliver (OpenShell i), Pty_opens 0 True, Deliver (ShellInput i line),
      Pty_turns 0 None None] s \<and> pty_written (ptys s ! 0) = [line]"
  by (simp add: runs_to_play fresh_agent_def open_session_def pty_opens_def set_pty_def send_input_def
    pty_turns_def pty_poll_def)

text \<open>
  A signature says neither for which device nor when: a verified dispatch delivered again is run
  again, and it is run by every other device that holds the same server key.
\<close>

lemma dispatch_replayed:
  assumes "verified S i p sig"
  shows "runs_to S (fresh_agent h) [Deliver (DispatchJob i p sig), Deliver (DispatchJob i p sig)]
      ((fresh_agent h)\<lparr>runs := replicate 2 \<lparr>run_job = i, run_payload = p, run_phase = Queued\<rparr>\<rparr>)"
  using assms by (simp add: runs_to_play verified_iff fresh_agent_def numeral_2_eq_2)

lemma dispatch_not_bound_to_device: "verified (S\<lparr>own_id := j, sys := os\<rparr>) i p sig = verified S i p sig"
  by (simp add: verified_iff)

end
