(* ===== verification/Agent_Monitor.thy ===== *)
theory Agent_Monitor
  imports Agent_Host "HOL-Library.AList"
begin

section \<open>Agent: the system monitor (system_monitor/*.rs)\<close>

text \<open>
  The event sources of the three platforms and the batching of their events.  A poll of the
  process table, of the watched files or of the connections compares a snapshot with the previous
  one; \<^verbatim>\<open>HashSet\<close> and \<^verbatim>\<open>HashMap\<close> are lists without repeated keys in the order of their iteration
  (which no property depends on).  The netlink and fanotify readers parse the bytes the kernel
  wrote.  The locale \<open>snapshot_diff\<close> is what makes a poller correct: replaying its events on the old
  snapshot gives the new one.
\<close>

subsection \<open>Snapshots and their differences\<close>

text \<open>The events of a loop of polls.\<close>

fun polls :: "('s \<Rightarrow> 's \<Rightarrow> 'e list) \<Rightarrow> 's \<Rightarrow> 's list \<Rightarrow> 'e list" where
  "polls diff known [] = []"
| "polls diff known (current # rest) = diff known current @ polls diff current rest"

locale snapshot_diff =
  fixes diff :: "'s \<Rightarrow> 's \<Rightarrow> 'e list"
    and members :: "'s \<Rightarrow> 'k set"
    and replay :: "'e \<Rightarrow> 'k set \<Rightarrow> 'k set"
  assumes replay_diff: "fold replay (diff old new) (members old) = members new"
begin

lemma replay_polls: "fold replay (polls diff old ss) (members old) = members (last (old # ss))"
  by (induction ss arbitrary: old) (simp_all add: replay_diff)

end

subsection \<open>Processes\<close>

definition started :: "i64 \<Rightarrow> (u32 \<Rightarrow> string \<times> string \<times> u32 \<times> string option) \<Rightarrow> u32 \<Rightarrow> system_event" where
  "started now info pid = (let (path, cmdline, ppid, user) = info pid in
     ProcessStarted pid ppid path cmdline user now)"

definition exited :: "i64 \<Rightarrow> u32 \<Rightarrow> system_event" where
  "exited now pid = ProcessExited pid (- 1) now"

text \<open>
  One round of \<^verbatim>\<open>poll_processes_fallback\<close> (Linux): the pids of \<^verbatim>\<open>/proc\<close> against the known ones.
\<close>

definition pid_of_name :: "string \<Rightarrow> u32 option" where
  "pid_of_name name = map_option of_nat (parse_uint 32 name)"

definition proc_pids :: "'h os \<Rightarrow> 'h \<Rightarrow> u32 list" where
  "proc_pids os h = remdups (case read_dir os ''/proc'' h of
       None \<Rightarrow> [] | Some es \<Rightarrow> List.map_filter (\<lambda>e. pid_of_name (de_name e)) es)"

definition pid_diff ::
  "i64 \<Rightarrow> (u32 \<Rightarrow> string \<times> string \<times> u32 \<times> string option) \<Rightarrow> u32 list \<Rightarrow> u32 list \<Rightarrow> system_event list" where
  "pid_diff now info known current =
     map (started now info) (filter (\<lambda>p. p \<notin> set known) current)
     @ map (exited now) (filter (\<lambda>p. p \<notin> set current) known)"

text \<open>\<^verbatim>\<open>read_process_info\<close> and \<^verbatim>\<open>resolve_uid\<close>.\<close>

definition tabbed :: "string \<Rightarrow> string" where
  "tabbed key = key @ '':'' @ [CHR 0x09]"

definition status_line :: "string \<Rightarrow> nat \<times> nat \<Rightarrow> nat \<times> nat" where
  "status_line line = (\<lambda>(ppid, uid).
     case strip_prefix (tabbed ''PPid'') line of
       Some v \<Rightarrow> (case parse_uint 32 (trim v) of Some n \<Rightarrow> n | None \<Rightarrow> 0, uid)
     | None \<Rightarrow> (case strip_prefix (tabbed ''Uid'') line of
         Some v \<Rightarrow> (ppid, case split_whitespace v of [] \<Rightarrow> 0
           | w # _ \<Rightarrow> (case parse_uint 32 w of Some n \<Rightarrow> n | None \<Rightarrow> 0))
       | None \<Rightarrow> (ppid, uid)))"

definition passwd_line :: "nat \<Rightarrow> string \<Rightarrow> string option" where
  "passwd_line uid line = (let fields = split_on CHR '':'' line in
     if 3 \<le> length fields \<and> parse_uint 32 (fields ! 2) = Some uid then Some (fields ! 0) else None)"

definition resolve_uid :: "'h os \<Rightarrow> 'h \<Rightarrow> nat \<Rightarrow> string option" where
  "resolve_uid os h uid = (case read_file os ''/etc/passwd'' h of
       Inl _ \<Rightarrow> None
     | Inr passwd \<Rightarrow> find_map (passwd_line uid) (lines_of passwd))"

definition read_process_info :: "'h os \<Rightarrow> 'h \<Rightarrow> u32 \<Rightarrow> string \<times> string \<times> u32 \<times> string option" where
  "read_process_info os h pid =
     (let proc_dir = ''/proc/'' @ show_nat (unat pid);
          path = (case read_link os (proc_dir @ ''/exe'') h of Some p \<Rightarrow> p | None \<Rightarrow> []);
          cmdline = (case read_file os (proc_dir @ ''/cmdline'') h of
            Inr t \<Rightarrow> trim (replace_char CHR 0x00 '' '' t) | Inl _ \<Rightarrow> []);
          (ppid, uid) = (case read_file os (proc_dir @ ''/status'') h of
            Inr t \<Rightarrow> fold status_line (lines_of t) (0, 0) | Inl _ \<Rightarrow> (0, 0))
      in (path, cmdline, of_nat ppid, resolve_uid os h uid))"

text \<open>One round of \<^verbatim>\<open>poll_processes\<close> (macOS and Windows): the same with the process table.\<close>

definition table_info :: "proc_info \<Rightarrow> i64 \<Rightarrow> system_event" where
  "table_info p now = ProcessStarted (pr_pid p) (pr_ppid p) (pr_path p) (pr_cmdline p) None now"

definition table_diff :: "i64 \<Rightarrow> u32 list \<Rightarrow> proc_info list \<Rightarrow> system_event list" where
  "table_diff now known infos =
     map (\<lambda>p. table_info p now) (filter (\<lambda>p. pr_pid p \<notin> set known) infos)
     @ map (exited now) (filter (\<lambda>p. p \<notin> pr_pid ` set infos) known)"

fun replay_process :: "system_event \<Rightarrow> u32 set \<Rightarrow> u32 set" where
  "replay_process (ProcessStarted pid _ _ _ _ _) K = insert pid K"
| "replay_process (ProcessExited pid _ _) K = K - {pid}"
| "replay_process _ K = K"

lemma fold_inserts: "(\<And>x K. f x K = insert (k x) K) \<Longrightarrow> fold f xs K = K \<union> k ` set xs"
  by (induction xs arbitrary: K) auto

lemma replay_started [simp]: "replay_process (started now info p) K = insert p K"
  by (simp add: started_def split: prod.splits)

lemma replay_table [simp]: "replay_process (table_info p now) K = insert (pr_pid p) K"
  by (simp add: table_info_def)

lemma fold_exited: "fold replay_process (map (exited now) ps) K = K - set ps"
  by (induction ps arbitrary: K) (auto simp: exited_def)

text \<open>A snapshot of the pids: what a round of the poller sees.\<close>

record pid_snapshot =
  ps_now :: i64
  ps_info :: "u32 \<Rightarrow> string \<times> string \<times> u32 \<times> string option"
  ps_pids :: "u32 list"

definition linux_poll :: "pid_snapshot \<Rightarrow> pid_snapshot \<Rightarrow> system_event list" where
  "linux_poll old new = pid_diff (ps_now new) (ps_info new) (ps_pids old) (ps_pids new)"

definition table_poll :: "i64 \<times> proc_info list \<Rightarrow> i64 \<times> proc_info list \<Rightarrow> system_event list" where
  "table_poll old new = table_diff (fst new) (map pr_pid (snd old)) (snd new)"

interpretation linux_processes: snapshot_diff linux_poll "\<lambda>s. set (ps_pids s)" replay_process
proof (unfold_locales, goal_cases)
  case (1 old new)
  have "fold replay_process (map (started (ps_now new) (ps_info new)) xs) K = K \<union> id ` set xs" for xs K
    unfolding fold_map by (rule fold_inserts) simp
  then show ?case by (auto simp: linux_poll_def pid_diff_def fold_exited)
qed

interpretation table_processes: snapshot_diff table_poll "\<lambda>s. pr_pid ` set (snd s)" replay_process
proof (unfold_locales, goal_cases)
  case (1 old new)
  have "fold replay_process (map (\<lambda>p. table_info p (fst new)) xs) K = K \<union> pr_pid ` set xs" for xs K
    unfolding fold_map by (rule fold_inserts) simp
  then show ?case by (auto simp: table_poll_def table_diff_def fold_exited)
qed

subsection \<open>Files\<close>

type_synonym files = "(string \<times> nat \<times> nat) list"

definition MAX_FILES_PER_SCAN :: nat where
  "MAX_FILES_PER_SCAN = 5000"

definition skipped_dirs :: "string list" where
  "skipped_dirs = [''System'', ''Library'', ''.DocumentRevisions-V100'', ''.Spotlight-V100'', ''.Trashes'']"

text \<open>
  \<^verbatim>\<open>walk_dir\<close>: \<open>fuel\<close> is seven less the depth, so that a directory at depth seven is not entered;
  only macOS skips names.
\<close>

function walk_dir :: "'h os \<Rightarrow> 'h \<Rightarrow> nat \<Rightarrow> string \<Rightarrow> files \<Rightarrow> files"
  and walk_entries :: "'h os \<Rightarrow> 'h \<Rightarrow> nat \<Rightarrow> dir_entry list \<Rightarrow> files \<Rightarrow> files" where
  "walk_dir os h 0 dir out = out"
| "walk_dir os h (Suc fuel) dir out =
     (if MAX_FILES_PER_SCAN \<le> length out then out
      else case read_dir os dir h of None \<Rightarrow> out | Some es \<Rightarrow> walk_entries os h fuel es out)"
| "walk_entries os h fuel [] out = out"
| "walk_entries os h fuel (e # es) out =
     (if de_is_dir e \<and> target os = P_macos \<and> de_name e \<in> set skipped_dirs
      then walk_entries os h fuel es out
      else let out' = (if de_is_dir e then walk_dir os h fuel (de_path e) out
               else case de_meta e of None \<Rightarrow> out | Some md \<Rightarrow> AList.update (de_path e) md out)
        in if MAX_FILES_PER_SCAN \<le> length out' then out' else walk_entries os h fuel es out')"
  by pat_completeness auto
termination
  by (relation "measures [\<lambda>x. case x of Inl (os, h, fuel, dir, out) \<Rightarrow> fuel | Inr (os, h, fuel, es, out) \<Rightarrow> fuel,
      \<lambda>x. case x of Inl _ \<Rightarrow> 0 | Inr (os, h, fuel, es, out) \<Rightarrow> Suc (length es)]") auto

fun scan_roots :: "'h os \<Rightarrow> 'h \<Rightarrow> string list \<Rightarrow> files \<Rightarrow> files" where
  "scan_roots os h [] out = out"
| "scan_roots os h (dir # dirs) out = (let out' = walk_dir os h 7 dir out in
     if MAX_FILES_PER_SCAN \<le> length out' then out' else scan_roots os h dirs out')"

text \<open>One round of \<^verbatim>\<open>poll_files\<close> (macOS and Windows).\<close>

definition file_event :: "i64 \<Rightarrow> string \<Rightarrow> file_operation \<Rightarrow> system_event" where
  "file_event now path oper = FileAccessed 0 path oper now"

definition file_change :: "i64 \<Rightarrow> files \<Rightarrow> string \<times> nat \<times> nat \<Rightarrow> system_event list" where
  "file_change now known = (\<lambda>(path, md). case map_of known path of
       None \<Rightarrow> [file_event now path OpCreate]
     | Some prev \<Rightarrow> if prev \<noteq> md then [file_event now path OpWrite] else [])"

definition file_diff :: "i64 \<Rightarrow> files \<Rightarrow> files \<Rightarrow> system_event list" where
  "file_diff now known current =
     concat (map (file_change now known) current)
     @ map (\<lambda>path. file_event now path OpDelete)
         (filter (\<lambda>path. path \<notin> fst ` set current) (map fst known))"

fun replay_file :: "system_event \<Rightarrow> string set \<Rightarrow> string set" where
  "replay_file (FileAccessed _ path OpCreate _) K = insert path K"
| "replay_file (FileAccessed _ path OpDelete _) K = K - {path}"
| "replay_file _ K = K"

definition file_poll :: "i64 \<times> files \<Rightarrow> i64 \<times> files \<Rightarrow> system_event list" where
  "file_poll old new = file_diff (fst new) (snd old) (snd new)"

lemma fold_file_change: "fold replay_file (file_change now known c) K =
    (if map_of known (fst c) = None then insert (fst c) K else K)"
  by (cases c) (simp add: file_change_def file_event_def split: option.split)

lemma fold_file_changes: "fold replay_file (concat (map (file_change now known) current)) K =
    K \<union> {p \<in> fst ` set current. map_of known p = None}"
  by (induction current arbitrary: K) (auto simp: fold_file_change)

lemma fold_deleted: "fold replay_file (map (\<lambda>p. file_event now p OpDelete) ps) K = K - set ps"
  by (induction ps arbitrary: K) (auto simp: file_event_def)

interpretation watched_files: snapshot_diff file_poll "\<lambda>s. fst ` set (snd s)" replay_file
proof (unfold_locales, goal_cases)
  case (1 old new)
  have "{p \<in> fst ` set (snd new). map_of (snd old) p = None} = fst ` set (snd new) - fst ` set (snd old)"
    by (auto simp: map_of_eq_None_iff)
  then show ?case by (auto simp: file_poll_def file_diff_def fold_file_changes fold_deleted)
qed

lemma length_update_le: "length (AList.update k v xs) \<le> Suc (length xs)"
  by (induction xs) (auto split: prod.splits)

lemma walk_bounded:
  "length out \<le> MAX_FILES_PER_SCAN \<Longrightarrow> length (walk_dir os h fuel dir out) \<le> MAX_FILES_PER_SCAN"
  "length out \<le> MAX_FILES_PER_SCAN - 1 \<Longrightarrow> length (walk_entries os h fuel es out) \<le> MAX_FILES_PER_SCAN"
proof (induction os h fuel dir out and os h fuel es out rule: walk_dir_walk_entries.induct)
  case (2 os h fuel dir out)
  then show ?case by (auto split: option.splits)
next
  case (4 os h fuel e es out)
  let ?out = "if de_is_dir e then walk_dir os h fuel (de_path e) out
    else case de_meta e of None \<Rightarrow> out | Some md \<Rightarrow> AList.update (de_path e) md out"
  show ?case
  proof (cases "de_is_dir e \<and> target os = P_macos \<and> de_name e \<in> set skipped_dirs")
    case True
    then show ?thesis using 4 by simp
  next
    case False
    have "length ?out \<le> MAX_FILES_PER_SCAN"
    proof (cases "de_is_dir e")
      case True
      then show ?thesis using 4(2) False 4(4) by simp
    next
      case nd: False
      then show ?thesis
        using 4(4) by (auto simp: MAX_FILES_PER_SCAN_def split: option.split
          intro: order_trans [OF length_update_le])
    qed
    then show ?thesis using 4(3) [OF False refl] False by (auto simp: Let_def)
  qed
qed (auto simp: MAX_FILES_PER_SCAN_def)

lemma scan_bounded: "length (scan_roots os h dirs []) \<le> MAX_FILES_PER_SCAN"
proof -
  have "length out \<le> MAX_FILES_PER_SCAN \<Longrightarrow> length (scan_roots os h dirs out) \<le> MAX_FILES_PER_SCAN" for out
    by (induction dirs arbitrary: out) (simp_all add: Let_def walk_bounded)
  then show ?thesis by simp
qed

text \<open>The first round has no known files: everything already there is reported as created.\<close>

lemma first_scan_creates_all: "file_poll (t, []) (now, fs) = map (\<lambda>(p, md). file_event now p OpCreate) fs"
  by (induction fs) (auto simp: file_poll_def file_diff_def file_change_def)

text \<open>
  The pollers lose nothing and invent nothing: replaying the events of any number of rounds
  on the snapshot the loop was seeded with gives exactly the last snapshot, for the processes of
  Linux, for the process tables of macOS and Windows and for the watched files.
\<close>

theorem polls_refine_snapshots:
  "fold replay_process (polls linux_poll p0 ps) (set (ps_pids p0)) = set (ps_pids (last (p0 # ps)))
   \<and> fold replay_process (polls table_poll t0 ts) (pr_pid ` set (snd t0)) = pr_pid ` set (snd (last (t0 # ts)))
   \<and> fold replay_file (polls file_poll f0 fs) (fst ` set (snd f0)) = fst ` set (snd (last (f0 # fs)))"
  using linux_processes.replay_polls table_processes.replay_polls watched_files.replay_polls by blast

subsection \<open>Connections\<close>

text \<open>\<^verbatim>\<open>/proc/net/tcp\<close>: an address in hexadecimal, with the bytes of each 32-bit group in host order.\<close>

definition le_bytes :: "nat \<Rightarrow> nat list" where
  "le_bytes n = [n mod 256, n div 256 mod 256, n div 65536 mod 256, n div 16777216 mod 256]"

definition hex_char :: "nat \<Rightarrow> char" where
  "hex_char n = char_of (if n < 10 then 48 + n else 87 + n)"

definition hex2 :: "nat \<Rightarrow> string" where
  "hex2 n = [hex_char (n div 16), hex_char (n mod 16)]"

definition or_zero :: "nat option \<Rightarrow> nat" where
  "or_zero v = (case v of Some n \<Rightarrow> n | None \<Rightarrow> 0)"

definition hex_group :: "string \<Rightarrow> nat \<Rightarrow> string" where
  "hex_group addr_hex i = (let bs = le_bytes (or_zero (parse_hex 32 (take 8 (drop i addr_hex)))) in
     hex2 (bs ! 0) @ hex2 (bs ! 1) @ '':'' @ hex2 (bs ! 2) @ hex2 (bs ! 3))"

definition parse_hex_addr :: "string \<Rightarrow> string" where
  "parse_hex_addr hex = (let parts = split_on CHR '':'' hex in
     if length parts \<noteq> 2 then hex
     else let addr_hex = parts ! 0; port = or_zero (parse_hex 16 (parts ! 1)) in
       if length addr_hex = 8
       then join ''.'' (map show_nat (le_bytes (or_zero (parse_hex 32 addr_hex)))) @ '':'' @ show_nat port
       else if length addr_hex = 32
       then ''['' @ join '':'' (map (hex_group addr_hex) [0, 8, 16, 24]) @ '']:'' @ show_nat port
       else hex)"

record tcp_entry =
  te_local :: string
  te_remote :: string
  te_state :: nat
  te_inode :: nat

definition tcp_line :: "string \<Rightarrow> tcp_entry option" where
  "tcp_line line = (let fields = split_whitespace line in
     if length fields < 10 then None
     else Some \<lparr>te_local = parse_hex_addr (fields ! 1), te_remote = parse_hex_addr (fields ! 2),
       te_state = or_zero (parse_hex 8 (fields ! 3)), te_inode = or_zero (parse_uint 64 (fields ! 9))\<rparr>)"

definition parse_proc_net_tcp :: "string \<Rightarrow> tcp_entry list" where
  "parse_proc_net_tcp text = List.map_filter tcp_line (drop 1 (lines_of text))"

definition resolve_socket_pid :: "'h os \<Rightarrow> 'h \<Rightarrow> nat \<Rightarrow> u32 option" where
  "resolve_socket_pid os h inode =
     (if inode = 0 then None
      else let wanted = ''socket:['' @ show_nat inode @ '']'' in
        case read_dir os ''/proc'' h of
          None \<Rightarrow> None
        | Some es \<Rightarrow> find_map (\<lambda>e. case pid_of_name (de_name e) of
              None \<Rightarrow> None
            | Some pid \<Rightarrow> (case read_dir os (''/proc/'' @ show_nat (unat pid) @ ''/fd'') h of
                None \<Rightarrow> None
              | Some fds \<Rightarrow> if list_ex (\<lambda>fd. read_link os (de_path fd) h = Some wanted) fds
                  then Some pid else None)) es)"

definition linux_connections :: "'h os \<Rightarrow> 'h \<Rightarrow> (string \<times> tcp_entry) list" where
  "linux_connections os h = fold (\<lambda>e. AList.update (te_local e @ '':'' @ te_remote e) e)
     (filter (\<lambda>e. te_state e = 1) (concat (map (\<lambda>path. case read_file os path h of
        Inl _ \<Rightarrow> [] | Inr text \<Rightarrow> parse_proc_net_tcp text) [''/proc/net/tcp'', ''/proc/net/tcp6'']))) []"

text \<open>\<^verbatim>\<open>netstat\<close> on macOS and Windows.\<close>

definition mac_connection :: "string \<Rightarrow> string option" where
  "mac_connection line = (let parts = split_whitespace line in
     if length parts < 6 \<or> parts ! 0 \<notin> {''tcp4'', ''tcp6'', ''tcp''} then None
     else if parts ! 5 \<noteq> ''ESTABLISHED'' then None
     else Some (parts ! 3 @ ''->'' @ parts ! 4))"

definition windows_connection :: "string \<Rightarrow> (string \<times> u32) option" where
  "windows_connection line = (let parts = split_whitespace line in
     if length parts < 5 \<or> parts ! 0 \<noteq> ''TCP'' then None
     else if parts ! 3 \<noteq> ''ESTABLISHED'' then None
     else Some (parts ! 1 @ ''->'' @ parts ! 2, of_nat (or_zero (parse_uint 32 (parts ! 4)))))"

definition netstat_text :: "tool_output option \<Rightarrow> string" where
  "netstat_text out = (case out of None \<Rightarrow> [] | Some ot \<Rightarrow> if success ot then stdout ot else [])"

definition mac_connections :: "tool_output option \<Rightarrow> (string \<times> u32) list" where
  "mac_connections out = map (\<lambda>k. (k, 0)) (remdups (List.map_filter mac_connection (lines_of (netstat_text out))))"

definition windows_connections :: "tool_output option \<Rightarrow> (string \<times> u32) list" where
  "windows_connections out = fold (\<lambda>(k, pid). AList.update k pid)
     (List.map_filter windows_connection (lines_of (netstat_text out))) []"

text \<open>\<^verbatim>\<open>splitn(2, "->")\<close>.\<close>

fun split_arrow :: "string \<Rightarrow> string \<times> string" where
  "split_arrow [] = ([], [])"
| "split_arrow (c # s) = (if starts_with ''->'' (c # s) then ([], drop 2 (c # s))
     else let (a, b) = split_arrow s in (c # a, b))"

text \<open>One round of a network poller: an event for every connection that was not there before.\<close>

definition table_connection :: "i64 \<Rightarrow> string \<times> u32 \<Rightarrow> system_event" where
  "table_connection now = (\<lambda>(key, pid). let (src, dst) = split_arrow key in
     NetworkConnected pid src dst Tcp now)"

definition linux_connection :: "'h os \<Rightarrow> 'h \<Rightarrow> i64 \<Rightarrow> string \<times> tcp_entry \<Rightarrow> system_event" where
  "linux_connection os h now = (\<lambda>(key, e).
     NetworkConnected (case resolve_socket_pid os h (te_inode e) of Some p \<Rightarrow> p | None \<Rightarrow> 0)
       (te_local e) (te_remote e) Tcp now)"

definition network_diff ::
  "(string \<times> 'e \<Rightarrow> system_event) \<Rightarrow> string list \<Rightarrow> (string \<times> 'e) list \<Rightarrow> system_event list" where
  "network_diff event known current = map event (filter (\<lambda>(key, e). key \<notin> set known) current)"

text \<open>The address text of the kernel: upper-case hexadecimal of fixed width, high digit first.\<close>

definition kernel_hex :: "nat \<Rightarrow> char" where
  "kernel_hex n = char_of (if n < 10 then 48 + n else 55 + n)"

fun hex_fixed :: "nat \<Rightarrow> nat \<Rightarrow> string" where
  "hex_fixed 0 n = []"
| "hex_fixed (Suc k) n = hex_fixed k (n div 16) @ [kernel_hex (n mod 16)]"

lemma length_hex_fixed [simp]: "length (hex_fixed k n) = k"
  by (induction k arbitrary: n) simp_all

lemma kernel_hex_code: "n < 16 \<Longrightarrow> code (kernel_hex n) = (if n < 10 then 48 + n else 55 + n)"
  by (simp add: kernel_hex_def)

lemma hex_digit_kernel [simp]: "n < 16 \<Longrightarrow> hex_digit (kernel_hex n) = Some n"
  by (auto simp: hex_digit_def is_digit_def kernel_hex_code)

lemma kernel_hex_range: "n < 16 \<Longrightarrow> kernel_hex n \<noteq> CHR '':'' \<and> kernel_hex n \<noteq> CHR ''+''"
proof -
  assume n: "n < 16"
  have "code (CHR '':'') = 58" "code (CHR ''+'') = 43" by (simp_all add: code_def)
  then show ?thesis using kernel_hex_code [OF n] by (auto split: if_splits)
qed

lemma hex_fixed_chars: "\<forall>c \<in> set (hex_fixed k n). c \<noteq> CHR '':'' \<and> c \<noteq> CHR ''+''"
  by (induction k arbitrary: n) (simp_all add: kernel_hex_range)

lemma colon_free: "CHR '':'' \<notin> set (hex_fixed k n)"
  using hex_fixed_chars by blast

lemma digits_hex_fixed: "n < 16 ^ k \<Longrightarrow> digits_value hex_digit 16 a (hex_fixed k n) = Some (a * 16 ^ k + n)"
proof (induction k arbitrary: n)
  case (Suc k)
  then have "n div 16 < 16 ^ k" by (simp add: less_mult_imp_div_less)
  then show ?case using Suc.IH by (simp add: digits_value_append algebra_simps)
qed simp

lemma parse_hex_fixed:
  assumes "n < 16 ^ k" "n < 2 ^ w" "0 < k"
  shows "parse_hex w (hex_fixed k n) = Some n"
proof -
  have "hex_fixed k n \<noteq> []" using assms(3) by (cases k) simp_all
  moreover have "strip_plus (hex_fixed k n) = hex_fixed k n"
    using hex_fixed_chars [of k n] by (auto simp: strip_plus_def split: list.split)
  ultimately show ?thesis using assms by (simp add: parse_hex_def digits_hex_fixed)
qed

lemma le_bytes_horner:
  assumes "a < 256" "b < 256" "c < 256" "d < 256"
  shows "le_bytes (a + 256 * b + 65536 * c + 16777216 * d) = [a, b, c, d]"
proof -
  let ?n = "a + 256 * (b + 256 * (c + 256 * d))"
  have 1: "?n div 256 = b + 256 * (c + 256 * d)" using assms by simp
  then have "?n div (256 * 256) = c + 256 * d" unfolding div_mult2_eq using assms by simp
  then have 2: "?n div 65536 = c + 256 * d" by simp
  have "?n div (256 * 65536) = d" unfolding mult.commute [of 256] div_mult2_eq 2 using assms by simp
  then have 3: "?n div 16777216 = d" by simp
  have "?n = a + 256 * b + 65536 * c + 16777216 * d" by simp
  moreover have m: "x < 256 \<Longrightarrow> (x + 256 * y) mod 256 = x" for x y :: nat by simp
  have "le_bytes ?n = [a, b, c, d]"
    unfolding le_bytes_def 1 2 3 m [OF assms(1)] m [OF assms(2)] m [OF assms(3)] using assms(4) by simp
  ultimately show ?thesis by (simp add: add.assoc)
qed

text \<open>
  An address of \<^verbatim>\<open>/proc/net/tcp\<close> is read back: from the hexadecimal text of an IPv4
  address in host byte order and of a port comes the dotted address and the port.
\<close>

theorem proc_address_roundtrip:
  assumes "a < 256" "b < 256" "c < 256" "d < 256" "port < 65536"
  shows "parse_hex_addr (hex_fixed 8 (a + 256 * b + 65536 * c + 16777216 * d) @ '':'' @ hex_fixed 4 port) =
    join ''.'' (map show_nat [a, b, c, d]) @ '':'' @ show_nat port"
proof -
  let ?n = "a + 256 * b + 65536 * c + 16777216 * d"
  have n: "parse_hex 32 (hex_fixed 8 ?n) = Some ?n" "parse_hex 16 (hex_fixed 4 port) = Some port"
    by (rule parse_hex_fixed; use assms in simp)+
  have "split_on CHR '':'' (hex_fixed 8 ?n @ CHR '':'' # hex_fixed 4 port) = [hex_fixed 8 ?n, hex_fixed 4 port]"
    by (simp add: split_on_append split_on_no_sep colon_free)
  moreover have "le_bytes ?n = [a, b, c, d]" by (rule le_bytes_horner) (use assms in simp_all)
  ultimately show ?thesis using n by (simp add: parse_hex_addr_def or_zero_def Let_def)
qed

theorem proc_address_roundtrip_witness:
  "parse_hex_addr (hex_fixed 8 (127 + 256 * 0 + 65536 * 0 + 16777216 * 1) @ '':'' @ hex_fixed 4 8080) =
    join ''.'' (map show_nat [127, 0, 0, 1]) @ '':'' @ show_nat 8080"
  by (rule proc_address_roundtrip) simp_all

subsection \<open>What the kernel writes\<close>

definition u32_at :: "u8 list \<Rightarrow> nat \<Rightarrow> u32" where
  "u32_at buf i = of_nat (unat (buf ! i) + 256 * unat (buf ! (i + 1)) + 65536 * unat (buf ! (i + 2))
     + 16777216 * unat (buf ! (i + 3)))"

definition u64_at :: "u8 list \<Rightarrow> nat \<Rightarrow> u64" where
  "u64_at buf i = ucast (u32_at buf i) + 4294967296 * ucast (u32_at buf (i + 4))"

datatype proc_event = Exec u32 | Exit u32 i32

text \<open>
  One message of the proc connector in \<^verbatim>\<open>read_proc_events\<close>: a netlink header of 16 bytes, a
  connector header of 20, and the event, whose data follows its kind, cpu and timestamp.
\<close>

definition parse_proc_message :: "u8 list \<Rightarrow> nat \<Rightarrow> proc_event option" where
  "parse_proc_message buf len =
     (let proc_event_offset = 16 + 20; event_data_offset = proc_event_offset + 4 + 4 + 8 in
      if len < 16 then None
      else if len < proc_event_offset + 4 then None
      else let what = u32_at buf proc_event_offset in
        if what = 2
        then (if event_data_offset + 8 \<le> len then Some (Exec (u32_at buf event_data_offset)) else None)
        else if what = 0x80000000
        then (if event_data_offset + 16 \<le> len
          then Some (Exit (u32_at buf event_data_offset) (u32_at buf (event_data_offset + 8))) else None)
        else None)"

definition process_event :: "'h os \<Rightarrow> 'h \<Rightarrow> i64 \<Rightarrow> proc_event \<Rightarrow> system_event" where
  "process_event os h now ev = (case ev of
       Exec pid \<Rightarrow> started now (read_process_info os h) pid
     | Exit pid exit_code \<Rightarrow> ProcessExited pid exit_code now)"

text \<open>
  The records in one read of the fanotify descriptor: 24 bytes of metadata, whose first field is
  the distance to the next record.
\<close>

record fan_record =
  fan_mask :: u64
  fan_fd :: i32
  fan_pid :: i32

function fan_records :: "u8 list \<Rightarrow> nat \<Rightarrow> nat \<Rightarrow> fan_record list" where
  "fan_records buf len offset =
     (if offset + 24 \<le> len
      then let event_len = unat (u32_at buf offset) in
        if event_len < 24 then []
        else \<lparr>fan_mask = u64_at buf (offset + 8), fan_fd = u32_at buf (offset + 16),
          fan_pid = u32_at buf (offset + 20)\<rparr> # fan_records buf len (offset + event_len)
      else [])"
  by pat_completeness auto
termination
  by (relation "measure (\<lambda>(buf, len, offset). len - offset)") auto

declare fan_records.simps [simp del]

definition FAN_MODIFY :: u64 where
  "FAN_MODIFY = 2"

definition fan_operation :: "u64 \<Rightarrow> file_operation" where
  "fan_operation m = (if and m FAN_MODIFY \<noteq> 0 then OpWrite else OpRead)"

definition fan_event :: "'h os \<Rightarrow> 'h \<Rightarrow> i64 \<Rightarrow> fan_record \<Rightarrow> system_event" where
  "fan_event os h now r = FileAccessed (fan_pid r)
     (if 0 \<le> sint (fan_fd r)
      then (case read_link os (''/proc/self/fd/'' @ show_nat (unat (fan_fd r))) h of Some p \<Rightarrow> p | None \<Rightarrow> [])
      else [])
     (fan_operation (fan_mask r)) now"

lemma u32_at_take: "i + 4 \<le> len \<Longrightarrow> len \<le> length buf \<Longrightarrow> u32_at (take len buf @ rest) i = u32_at buf i"
  by (simp add: u32_at_def nth_append)

lemma u64_at_take: "i + 8 \<le> len \<Longrightarrow> len \<le> length buf \<Longrightarrow> u64_at (take len buf @ rest) i = u64_at buf i"
  by (simp add: u64_at_def u32_at_take)

lemma fan_records_take:
  "len \<le> length buf \<Longrightarrow> fan_records (take len buf @ rest) len offset = fan_records buf len offset"
proof (induction buf len offset rule: fan_records.induct)
  case (1 buf len offset)
  show ?case
  proof (cases "offset + 24 \<le> len")
    case True
    then have e: "u32_at (take len buf @ rest) offset = u32_at buf offset"
      "u64_at (take len buf @ rest) (offset + 8) = u64_at buf (offset + 8)"
      "u32_at (take len buf @ rest) (offset + 16) = u32_at buf (offset + 16)"
      "u32_at (take len buf @ rest) (offset + 20) = u32_at buf (offset + 20)"
      using "1.prems" by (simp_all add: u32_at_take u64_at_take)
    show ?thesis
    proof (cases "unat (u32_at buf offset) < 24")
      case True
      then show ?thesis by (simp add: fan_records.simps [of _ len offset] e Let_def)
    next
      case False
      then have "fan_records (take len buf @ rest) len (offset + unat (u32_at buf offset)) =
          fan_records buf len (offset + unat (u32_at buf offset))"
        using "1.IH" [OF \<open>offset + 24 \<le> len\<close> refl] "1.prems" by simp
      then show ?thesis by (simp add: fan_records.simps [of _ len offset] e Let_def)
    qed
  qed (simp add: fan_records.simps [of _ len offset])
qed

lemma fan_records_count: "24 * length (fan_records buf len offset) \<le> len - offset"
proof (induction buf len offset rule: fan_records.induct)
  case (1 buf len offset)
  show ?case
  proof (cases "offset + 24 \<le> len \<and> 24 \<le> unat (u32_at buf offset)")
    case True
    then have "24 * length (fan_records buf len (offset + unat (u32_at buf offset)))
        \<le> len - (offset + unat (u32_at buf offset))" using "1.IH" by simp
    then have "24 + 24 * length (fan_records buf len (offset + unat (u32_at buf offset))) \<le> len - offset"
      using True by linarith
    with True show ?thesis by (subst fan_records.simps) (simp add: Let_def)
  next
    case False
    then have "fan_records buf len offset = []" by (subst fan_records.simps) (auto simp: Let_def)
    then show ?thesis by simp
  qed
qed

text \<open>
  The parsers of kernel messages stay inside the bytes that were read: what follows them
  in the buffer never matters, for a proc connector message and for a read of fanotify records; a
  read of \<open>len\<close> bytes yields at most one record per 24 bytes.
\<close>

theorem kernel_parsers_in_bounds:
  assumes "len \<le> length buf"
  shows "parse_proc_message (take len buf @ rest) len = parse_proc_message buf len
    \<and> fan_records (take len buf @ rest) len 0 = fan_records buf len 0
    \<and> 24 * length (fan_records buf len 0) \<le> len"
proof (intro conjI)
  show "parse_proc_message (take len buf @ rest) len = parse_proc_message buf len"
    using assms by (simp add: parse_proc_message_def Let_def u32_at_take)
  show "fan_records (take len buf @ rest) len 0 = fan_records buf len 0"
    by (rule fan_records_take [OF assms])
  show "24 * length (fan_records buf len 0) \<le> len" using fan_records_count [of buf len 0] by simp
qed

theorem kernel_parsers_in_bounds_witness:
  "24 * length (fan_records ([24, 0, 0, 0] @ replicate 20 0) 24 0) \<le> 24"
  using kernel_parsers_in_bounds [of 24 "[24, 0, 0, 0] @ replicate 20 0" "[]"] by simp

subsection \<open>Batching\<close>

text \<open>
  The collector of \<^verbatim>\<open>run_monitor\<close>: events are pushed to a batch, a tick of the interval sends it
  (\<open>ok\<close> is false when the receiver is gone, which ends the loop), the end of all sources sends what
  is left.  On Linux the interval is the configured one, and \<^verbatim>\<open>tokio::time::interval\<close> panics on zero.
\<close>

record monitor_config =
  mc_enabled :: bool
  mc_batch_interval_secs :: u64
  mc_monitor_paths :: "string list"
  mc_collect :: "string list"

definition default_monitor_config :: monitor_config where
  "default_monitor_config = \<lparr>mc_enabled = True, mc_batch_interval_secs = 5, mc_monitor_paths = [''/''],
     mc_collect = [''process'', ''file'', ''network'']\<rparr>"

definition monitor_starts :: "platform \<Rightarrow> monitor_config \<Rightarrow> bool" where
  "monitor_starts p c \<longleftrightarrow> mc_enabled c \<and> p \<noteq> P_other"

definition batch_interval :: "platform \<Rightarrow> monitor_config \<Rightarrow> u64 option" where
  "batch_interval p c = (let n = (if p = P_linux then mc_batch_interval_secs c
       else max (mc_batch_interval_secs c) 1)
     in if n = 0 then None else Some n)"

definition monitor_sources :: "monitor_config \<Rightarrow> string list" where
  "monitor_sources c = filter (\<lambda>k. k \<in> set (mc_collect c)) [''process'', ''file'', ''network'']"

datatype monitor_input = Collected system_event | Tick bool | Sources_gone

fun batches :: "system_event list \<Rightarrow> monitor_input list \<Rightarrow> system_event list list" where
  "batches batch [] = []"
| "batches batch (Collected e # rest) = batches (batch @ [e]) rest"
| "batches batch (Tick ok # rest) =
     (if batch = [] then batches batch rest else if ok then batch # batches [] rest else [])"
| "batches batch (Sources_gone # rest) = (if batch = [] then [] else [batch])"

text \<open>The events that came in before the sources were gone.\<close>

fun collected :: "monitor_input list \<Rightarrow> system_event list" where
  "collected [] = []"
| "collected (Collected e # rest) = e # collected rest"
| "collected (Tick ok # rest) = collected rest"
| "collected (Sources_gone # rest) = []"

lemma batches_prefix: "\<exists>rest. batch @ collected xs = concat (batches batch xs) @ rest"
proof (induction batch xs rule: batches.induct)
  case (3 batch ok rest)
  then show ?case by auto
qed auto

lemma batches_complete:
  "Tick False \<notin> set xs \<Longrightarrow> Sources_gone \<in> set xs \<Longrightarrow> concat (batches batch xs) = batch @ collected xs"
  by (induction batch xs rule: batches.induct) auto

lemma batches_nonempty: "b \<in> set (batches batch xs) \<Longrightarrow> b \<noteq> []"
  by (induction batch xs rule: batches.induct) (auto split: if_splits)

end
