(* ===== verification/Agent_Sources.thy ===== *)
theory Agent_Sources
  imports Agent_Monitor
begin

section \<open>Agent: the running system monitor\<close>

text \<open>
  \<^verbatim>\<open>run_monitor\<close> of the three platforms as a whole: how the sources are opened (on Linux with the
  system calls of the proc connector and of fanotify), their loops, the channel into which they send, and
  the collector that turns its events into batches.  \<open>monitor\<close> is the state of all these tasks, \<open>mon_move\<close>
  one step of one of them; the machine that is observed is an argument of every poll and every read, so it
  may change in any way in between.
\<close>

subsection \<open>System calls\<close>

text \<open>\<open>kn_answers\<close>: what the coming calls return (0 when the list is used up); \<open>kn_calls\<close>: the calls so far.\<close>

datatype syscall =
    Sys_socket int int int
  | Sys_bind int u32 u32
  | Sys_send int "u8 list"
  | Sys_close int
  | Fanotify_init u32 u32
  | Fanotify_mark int u32 u64 int string

record kernel =
  kn_answers :: "int list"
  kn_calls :: "syscall list"

type_synonym 'a sys = "(kernel, string, 'a) action"

definition syscall :: "syscall \<Rightarrow> int sys" where
  "syscall c k = (Inr (case kn_answers k of [] \<Rightarrow> 0 | a # _ \<Rightarrow> a),
     k\<lparr>kn_answers := tl (kn_answers k), kn_calls := kn_calls k @ [c]\<rparr>)"

text \<open>\<^verbatim>\<open>AF_NETLINK\<close> is 16, \<^verbatim>\<open>SOCK_DGRAM\<close> 2, \<^verbatim>\<open>NETLINK_CONNECTOR\<close> 11; the address is the pid and the group 1.\<close>

definition create_proc_connector_socket :: "u32 \<Rightarrow> int sys" where
  "create_proc_connector_socket pid =
     and_then (syscall (Sys_socket 16 2 11)) (\<lambda>fd.
     if fd < 0 then raise ''socket(AF_NETLINK, SOCK_DGRAM, NETLINK_CONNECTOR) failed''
     else and_then (syscall (Sys_bind fd pid 1)) (\<lambda>bound.
       if bound < 0 then and_then (syscall (Sys_close fd)) (\<lambda>_. raise ''bind(netlink) failed'')
       else ret fd))"

definition u16_le :: "u16 \<Rightarrow> u8 list" where
  "u16_le w = [ucast w, ucast (drop_bit 8 w)]"

definition u32_le :: "u32 \<Rightarrow> u8 list" where
  "u32_le w = [ucast w, ucast (drop_bit 8 w), ucast (drop_bit 16 w), ucast (drop_bit 24 w)]"

text \<open>\<^verbatim>\<open>ProcCnMcastOp\<close>: the netlink header (length, type, flags, sequence, pid), the connector message, the operation.\<close>

definition proc_cn_mcast_op :: "u32 \<Rightarrow> u8 list" where
  "proc_cn_mcast_op pid =
     u32_le 40 @ u16_le 0 @ u16_le 0 @ u32_le 0 @ u32_le pid
     @ u32_le 1 @ u32_le 1 @ u32_le 0 @ u32_le 0 @ u16_le 4 @ u16_le 0
     @ u32_le 1"

definition subscribe_proc_events :: "u32 \<Rightarrow> int \<Rightarrow> unit sys" where
  "subscribe_proc_events pid fd =
     and_then (syscall (Sys_send fd (proc_cn_mcast_op pid))) (\<lambda>sent.
     if sent < 0 then raise ''send(PROC_CN_MCAST_LISTEN) failed'' else ret ())"

text \<open>
  The start of \<^verbatim>\<open>monitor_processes\<close>: the connector, or polling when it cannot be opened or subscribed.  The
  second fallback still owns the socket, which stays open while it polls.
\<close>

datatype proc_source = Connector int | Polling "int option"

definition open_processes :: "u32 \<Rightarrow> proc_source sys" where
  "open_processes pid k = (case create_proc_connector_socket pid k of
       (Inl _, t) \<Rightarrow> (Inr (Polling None), t)
     | (Inr fd, t) \<Rightarrow> (case subscribe_proc_events pid fd t of
           (Inl _, u) \<Rightarrow> (Inr (Polling (Some fd)), u)
         | (Inr _, u) \<Rightarrow> (Inr (Connector fd), u)))"

text \<open>
  The start of \<^verbatim>\<open>monitor_files\<close> (Linux): \<^verbatim>\<open>FAN_CLASS_CONTENT | FAN_CLOEXEC | FAN_NONBLOCK\<close>, then one mark per
  path with \<^verbatim>\<open>FAN_MARK_ADD | FAN_MARK_MOUNT\<close> and \<^verbatim>\<open>FAN_ACCESS | FAN_MODIFY | FAN_OPEN\<close>, relative to
  \<^verbatim>\<open>AT_FDCWD\<close>.  A mark that fails is only logged; a path with a zero byte is an error.
\<close>

definition mark_path :: "int \<Rightarrow> string \<Rightarrow> unit sys" where
  "mark_path fd p =
     and_then (guard (CHR 0x00 \<notin> set p) (''Invalid path: '' @ p)) (\<lambda>_.
     ignore (syscall (Fanotify_mark fd 0x11 0x23 (- 100) p)))"

definition open_fanotify :: "string list \<Rightarrow> int sys" where
  "open_fanotify ps =
     and_then (syscall (Fanotify_init 7 0)) (\<lambda>fd.
     if fd < 0 then raise ''fanotify_init failed (need root/CAP_SYS_ADMIN)''
     else and_then (for_each ps (mark_path fd)) (\<lambda>_. ret fd))"

subsection \<open>Sources\<close>

datatype source = Processes | Files | Network

fun source_name :: "source \<Rightarrow> string" where
  "source_name Processes = ''process''"
| "source_name Files = ''file''"
| "source_name Network = ''network''"

text \<open>What a poller knows of its last snapshot.\<close>

record known =
  known_pids :: "u32 list"
  known_files :: files
  known_connections :: "string list"

definition pids_now :: "'h os \<Rightarrow> 'h \<Rightarrow> u32 list" where
  "pids_now os h = (if target os = P_linux then proc_pids os h else remdups (map pr_pid (process_table os h)))"

definition tcp_connections :: "'h os \<Rightarrow> 'h \<Rightarrow> (string \<times> u32) list" where
  "tcp_connections os h = (if target os = P_macos
     then mac_connections (fst (exec os ''netstat'' [''-an'', ''-p'', ''tcp''] h))
     else windows_connections (fst (exec os ''netstat'' [''-ano'', ''-p'', ''TCP''] h)))"

text \<open>One round of each poller: what it sends, and what it knows afterwards.\<close>

definition poll_processes_fallback :: "'h os \<Rightarrow> i64 \<Rightarrow> 'h \<Rightarrow> known \<Rightarrow> system_event list \<times> known" where [simp]:
  "poll_processes_fallback os now h k =
     (pid_diff now (read_process_info os h) (known_pids k) (proc_pids os h), k\<lparr>known_pids := proc_pids os h\<rparr>)"

definition poll_processes :: "'h os \<Rightarrow> i64 \<Rightarrow> 'h \<Rightarrow> known \<Rightarrow> system_event list \<times> known" where [simp]:
  "poll_processes os now h k = (let infos = process_table os h in
     (table_diff now (known_pids k) infos, k\<lparr>known_pids := remdups (map pr_pid infos)\<rparr>))"

definition poll_files :: "'h os \<Rightarrow> string list \<Rightarrow> i64 \<Rightarrow> 'h \<Rightarrow> known \<Rightarrow> system_event list \<times> known" where [simp]:
  "poll_files os ps now h k = (let current = scan_roots os h ps [] in
     (file_diff now (known_files k) current, k\<lparr>known_files := current\<rparr>))"

definition monitor_network :: "'h os \<Rightarrow> i64 \<Rightarrow> 'h \<Rightarrow> known \<Rightarrow> system_event list \<times> known" where [simp]:
  "monitor_network os now h k = (let current = linux_connections os h in
     (network_diff (linux_connection os h now) (known_connections k) current, k\<lparr>known_connections := map fst current\<rparr>))"

definition poll_network :: "'h os \<Rightarrow> i64 \<Rightarrow> 'h \<Rightarrow> known \<Rightarrow> system_event list \<times> known" where [simp]:
  "poll_network os now h k = (let current = tcp_connections os h in
     (network_diff (table_connection now) (known_connections k) current, k\<lparr>known_connections := map fst current\<rparr>))"

fun poll :: "'h os \<Rightarrow> string list \<Rightarrow> source \<Rightarrow> i64 \<Rightarrow> 'h \<Rightarrow> known \<Rightarrow> system_event list \<times> known" where
  "poll os ps Processes now h k =
     (if target os = P_linux then poll_processes_fallback os now h k else poll_processes os now h k)"
| "poll os ps Files now h k = poll_files os ps now h k"
| "poll os ps Network now h k = (if target os = P_linux then monitor_network os now h k else poll_network os now h k)"

text \<open>
  What the blocking readers of Linux get: \<open>Recv\<close> the result of \<^verbatim>\<open>recv\<close> and the buffer after it, the others
  the result of \<^verbatim>\<open>read\<close> on the fanotify descriptor.  No events and no end is another turn of the loop; \<open>None\<close> ends it.
\<close>

datatype kernel_read = Recv int "u8 list" | Read nat "u8 list" | Would_block | Read_error

definition read_proc_events :: "'h os \<Rightarrow> i64 \<Rightarrow> 'h \<Rightarrow> int \<Rightarrow> u8 list \<Rightarrow> system_event list option" where
  "read_proc_events os now h len buf =
     (if len \<le> 0 then None
      else Some (case parse_proc_message buf (nat len) of None \<Rightarrow> [] | Some e \<Rightarrow> [process_event os h now e]))"

fun read_fanotify_events :: "'h os \<Rightarrow> i64 \<Rightarrow> 'h \<Rightarrow> kernel_read \<Rightarrow> system_event list option" where
  "read_fanotify_events os now h (Read len buf) =
     Some (if len < 24 then [] else map (fan_event os h now) (fan_records buf len 0))"
| "read_fanotify_events os now h Read_error = None"
| "read_fanotify_events os now h _ = Some []"

fun reader_turn :: "'h os \<Rightarrow> source \<Rightarrow> i64 \<Rightarrow> 'h \<Rightarrow> kernel_read \<Rightarrow> system_event list option" where
  "reader_turn os Processes now h (Recv len buf) = read_proc_events os now h len buf"
| "reader_turn os Files now h r = read_fanotify_events os now h r"
| "reader_turn os src now h r = Some []"

subsection \<open>The tasks of the monitor\<close>

datatype mode = Polls | Reads

text \<open>
  \<open>mo_mode\<close>: how a source that runs works; \<open>mo_pending\<close>: the events of its current round it has not sent yet;
  \<open>mo_collecting\<close>: the collector runs; \<open>mo_receiver\<close>: the receiver of the batches is there; \<open>mo_seen\<close> is
  a ghost: all the events a source has had to send.
\<close>

record monitor =
  mo_mode :: "source \<Rightarrow> mode option"
  mo_known :: known
  mo_pending :: "source \<Rightarrow> system_event list"
  mo_channel :: "system_event list"
  mo_batch :: "system_event list"
  mo_sent :: "system_event list list"
  mo_collecting :: bool
  mo_receiver :: bool
  mo_seen :: "source \<Rightarrow> system_event list"

datatype 'h move =
    Polled source i64 'h
  | Has_read source i64 'h kernel_read
  | Sends source
  | Collects
  | Flushes
  | Drained
  | Receiver_gone

definition start_round :: "source \<Rightarrow> system_event list \<Rightarrow> monitor \<Rightarrow> monitor" where
  "start_round src es m = m\<lparr>mo_pending := (mo_pending m)(src := es), mo_seen := (mo_seen m)(src := mo_seen m src @ es)\<rparr>"

text \<open>A round starts when the events of the one before are sent; \<open>None\<close>: the move is not possible.\<close>

fun mon_move :: "'h os \<Rightarrow> string list \<Rightarrow> 'h move \<Rightarrow> monitor \<Rightarrow> monitor option" where
  "mon_move os ps (Polled src now h) m =
     (if mo_mode m src = Some Polls \<and> mo_pending m src = []
      then let (es, k) = poll os ps src now h (mo_known m) in Some (start_round src es (m\<lparr>mo_known := k\<rparr>))
      else None)"
| "mon_move os ps (Has_read src now h r) m =
     (if mo_mode m src = Some Reads \<and> mo_pending m src = []
      then (case reader_turn os src now h r of
          Some es \<Rightarrow> Some (start_round src es m)
        | None \<Rightarrow> Some (m\<lparr>mo_mode := (mo_mode m)(src := None)\<rparr>))
      else None)"
| "mon_move os ps (Sends src) m = (case mo_pending m src of
       [] \<Rightarrow> None
     | e # es \<Rightarrow>
         if mo_collecting m
         then Some (m\<lparr>mo_pending := (mo_pending m)(src := es), mo_channel := mo_channel m @ [e]\<rparr>)
         else Some (m\<lparr>mo_pending := (mo_pending m)(src := []), mo_mode := (mo_mode m)(src := None)\<rparr>))"
| "mon_move os ps Collects m = (case mo_channel m of
       [] \<Rightarrow> None
     | e # es \<Rightarrow> if mo_collecting m then Some (m\<lparr>mo_channel := es, mo_batch := mo_batch m @ [e]\<rparr>) else None)"
| "mon_move os ps Flushes m =
     (if mo_collecting m \<and> mo_batch m \<noteq> []
      then Some (if mo_receiver m then m\<lparr>mo_sent := mo_sent m @ [mo_batch m], mo_batch := []\<rparr>
        else m\<lparr>mo_batch := [], mo_collecting := False\<rparr>)
      else None)"
| "mon_move os ps Drained m =
     (if mo_collecting m \<and> mo_channel m = [] \<and> (\<forall>src \<in> {Processes, Files, Network}. mo_mode m src = None)
      then Some (m\<lparr>mo_sent := (if mo_batch m \<noteq> [] \<and> mo_receiver m then mo_sent m @ [mo_batch m] else mo_sent m),
        mo_batch := [], mo_collecting := False\<rparr>)
      else None)"
| "mon_move os ps Receiver_gone m = Some (m\<lparr>mo_receiver := False\<rparr>)"

fun mon_moves :: "'h os \<Rightarrow> string list \<Rightarrow> 'h move list \<Rightarrow> monitor \<Rightarrow> monitor option" where
  "mon_moves os ps [] m = Some m"
| "mon_moves os ps (x # xs) m = (case mon_move os ps x m of None \<Rightarrow> None | Some m' \<Rightarrow> mon_moves os ps xs m')"

text \<open>
  The start: the sources the configuration asks for, in the order they are spawned.  The collector of Linux
  panics at once on an interval of zero, which closes the channel.
\<close>

definition modes_at_start :: "'h os \<Rightarrow> monitor_config \<Rightarrow> u32 \<Rightarrow> kernel \<Rightarrow> (source \<Rightarrow> mode option) \<times> kernel" where
  "modes_at_start os c pid k =
     (let wanted = (\<lambda>src. source_name src \<in> set (mc_collect c)) in
      if target os \<noteq> P_linux then ((\<lambda>src. if wanted src then Some Polls else None), k)
      else
        let (p, k1) = (if \<not> wanted Processes then (None, k) else (case open_processes pid k of
              (Inr (Connector _), t) \<Rightarrow> (Some Reads, t) | (_, t) \<Rightarrow> (Some Polls, t)));
            (f, k2) = (if \<not> wanted Files then (None, k1) else (case open_fanotify (mc_monitor_paths c) k1 of
              (Inr _, t) \<Rightarrow> (Some Reads, t) | (Inl _, t) \<Rightarrow> (None, t)))
        in (\<lambda>src. case src of Processes \<Rightarrow> p | Files \<Rightarrow> f | Network \<Rightarrow> if wanted Network then Some Polls else None, k2))"

definition run_monitor :: "'h os \<Rightarrow> monitor_config \<Rightarrow> u32 \<Rightarrow> 'h \<Rightarrow> kernel \<Rightarrow> monitor \<times> kernel" where
  "run_monitor os c pid h k = (let (modes, k') = modes_at_start os c pid k in
     (\<lparr>mo_mode = modes, mo_known = \<lparr>known_pids = pids_now os h, known_files = [], known_connections = []\<rparr>,
       mo_pending = (\<lambda>_. []), mo_channel = [], mo_batch = [], mo_sent = [],
       mo_collecting = batch_interval (target os) c \<noteq> None, mo_receiver = True, mo_seen = (\<lambda>_. [])\<rparr>, k'))"

subsection \<open>Opening the sources\<close>

text \<open>The operation of the subscription stands where the reader looks for the kind of an event: after 36 bytes.\<close>

lemma subscription_layout:
  "length (proc_cn_mcast_op pid) = 40 \<and> u32_at (proc_cn_mcast_op pid) 0 = 40 \<and> u32_at (proc_cn_mcast_op pid) 36 = 1"
  by (simp add: proc_cn_mcast_op_def u32_le_def u16_le_def u32_at_def)

lemmas opening_defs = open_processes_def create_proc_connector_socket_def subscribe_proc_events_def open_fanotify_def
  syscall_def and_then_def ret_def raise_def guard_def ignore_def mark_path_def

lemma unbound_socket_closed:
  assumes "kn_answers k = [fd, r]" and "0 \<le> fd" and "r < 0"
  shows "open_processes pid k = (Inr (Polling None), k\<lparr>kn_answers := [],
    kn_calls := kn_calls k @ [Sys_socket 16 2 11, Sys_bind fd pid 1, Sys_close fd]\<rparr>)"
  using assms by (simp add: opening_defs)

lemma unsubscribed_socket_kept:
  assumes "kn_answers k = [fd, r, n]" and "0 \<le> fd" and "0 \<le> r" and "n < 0"
  shows "fst (open_processes pid k) = Inr (Polling (Some fd))"
    and "Sys_close fd \<notin> set (kn_calls k) \<Longrightarrow> Sys_close fd \<notin> set (kn_calls (snd (open_processes pid k)))"
  using assms by (simp_all add: opening_defs)

text \<open>A path with a zero byte ends the file monitor without closing its descriptor.\<close>

lemma invalid_path_keeps_descriptor:
  assumes "0 \<le> fd" and "kn_answers k = [fd]" and "CHR 0x00 \<in> set p"
  shows "open_fanotify [p] k = (Inl (''Invalid path: '' @ p), k\<lparr>kn_answers := [], kn_calls := kn_calls k @ [Fanotify_init 7 0]\<rparr>)"
  using assms by (simp add: opening_defs)

subsection \<open>Nothing is lost on the way\<close>

fun source_of :: "system_event \<Rightarrow> source option" where
  "source_of (ProcessStarted _ _ _ _ _ _) = Some Processes"
| "source_of (ProcessExited _ _ _) = Some Processes"
| "source_of (FileAccessed _ _ _ _) = Some Files"
| "source_of (NetworkConnected _ _ _ _ _) = Some Network"
| "source_of (RegistryChanged _ _ _ _) = None"

definition sent_by :: "source \<Rightarrow> system_event list \<Rightarrow> system_event list" where
  "sent_by src es = filter (\<lambda>e. source_of e = Some src) es"

lemma sent_by_simps [simp]:
  "sent_by src [] = []" "sent_by src (xs @ ys) = sent_by src xs @ sent_by src ys"
  "sent_by src (e # es) = (if source_of e = Some src then e # sent_by src es else sent_by src es)"
  by (simp_all add: sent_by_def)

lemma source_of_events [simp]:
  "source_of (started now info p) = Some Processes" "source_of (exited now p) = Some Processes"
  "source_of (table_info i now) = Some Processes" "source_of (file_event now path oper) = Some Files"
  "source_of (linux_connection os h now c) = Some Network" "source_of (table_connection now d) = Some Network"
  "source_of (process_event os h now e) = Some Processes" "source_of (fan_event os h now r) = Some Files"
  by (simp_all add: started_def exited_def table_info_def file_event_def linux_connection_def table_connection_def
    process_event_def fan_event_def split: prod.split proc_event.split)

lemma poll_own_events: "e \<in> set (fst (poll os ps src now h k)) \<Longrightarrow> source_of e = Some src"
  by (cases src) (auto simp: pid_diff_def table_diff_def file_diff_def file_change_def network_diff_def Let_def
    split: if_splits option.splits)

lemma reader_own_events: "reader_turn os src now h r = Some es \<Longrightarrow> e \<in> set es \<Longrightarrow> source_of e = Some src"
  by (cases src; cases r) (auto simp: read_proc_events_def split: if_splits option.splits)

text \<open>All events on their way to the receiver, in order.\<close>

definition way :: "monitor \<Rightarrow> system_event list" where
  "way m = concat (mo_sent m) @ mo_batch m @ mo_channel m"

definition lossless :: "monitor \<Rightarrow> bool" where
  "lossless m \<longleftrightarrow>
     (\<forall>src. \<forall>e \<in> set (mo_pending m src). source_of e = Some src)
     \<and> (\<forall>src. mo_mode m src = None \<longrightarrow> mo_pending m src = [])
     \<and> (mo_receiver m \<longrightarrow> (\<forall>src. mo_seen m src = sent_by src (way m) @ mo_pending m src))
     \<and> (mo_receiver m \<and> \<not> mo_collecting m \<longrightarrow> (\<forall>src. mo_mode m src = None) \<and> mo_batch m = [] \<and> mo_channel m = [])"

lemma all_sources: "(\<forall>src. P src) \<longleftrightarrow> P Processes \<and> P Files \<and> P Network"
  using source.exhaust by metis

lemma lossless_round:
  assumes "lossless m" and "mo_mode m src \<noteq> None" and "mo_pending m src = []" and "\<forall>e \<in> set es. source_of e = Some src"
  shows "lossless (start_round src es m)"
proof -
  have "way (start_round src es m) = way m" by (simp add: way_def start_round_def)
  then show ?thesis using assms by (auto simp: lossless_def start_round_def)
qed

lemma lossless_known: "lossless (m\<lparr>mo_known := k\<rparr>) = lossless m"
  by (simp add: lossless_def way_def)

lemma lossless_send:
  assumes "lossless m" and "mo_pending m src = e # es"
  shows "lossless (m\<lparr>mo_pending := (mo_pending m)(src := es), mo_channel := mo_channel m @ [e]\<rparr>)"
proof -
  have own: "source_of e = Some src" using assms by (fastforce simp: lossless_def)
  have mode: "mo_mode m src \<noteq> None" using assms by (auto simp: lossless_def)
  have "set es \<subseteq> set (mo_pending m src)" using assms(2) by auto
  moreover have "sent_by x (mo_channel m @ [e]) = sent_by x (mo_channel m) @ (if x = src then [e] else [])" for x
    using own by simp
  ultimately show ?thesis
    using assms mode unfolding lossless_def way_def by (auto simp del: sent_by_simps(3))
qed

lemma lossless_move: "lossless m \<Longrightarrow> mon_move os ps x m = Some m' \<Longrightarrow> lossless m'"
proof (induction os ps x m rule: mon_move.induct)
  case (1 os ps src now h m)
  obtain es k where p: "poll os ps src now h (mo_known m) = (es, k)" by force
  have "\<forall>e \<in> set es. source_of e = Some src" using poll_own_events [of _ os ps src now h "mo_known m"] p by auto
  with 1 p show ?case
    by (auto simp: lossless_known split: if_splits intro!: lossless_round)
next
  case (2 os ps src now h r m)
  show ?case
  proof (cases "reader_turn os src now h r")
    case None
    with 2 show ?thesis by (auto simp: lossless_def way_def split: if_splits)
  next
    case (Some es)
    with 2 reader_own_events [OF Some] show ?thesis
      by (auto split: if_splits intro!: lossless_round)
  qed
next
  case (3 os ps src m)
  show ?case
  proof (cases "mo_pending m src")
    case (Cons e es)
    show ?thesis
    proof (cases "mo_collecting m")
      case True
      with 3 Cons show ?thesis by (auto simp: lossless_send)
    next
      case False
      with 3 Cons have "\<not> mo_receiver m" by (auto simp: lossless_def)
      with 3 Cons False show ?thesis by (auto simp: lossless_def split: if_splits)
    qed
  qed (use 3 in simp)
next
  case (4 os ps m)
  then show ?case by (auto simp: lossless_def way_def split: list.splits if_splits)
next
  case (5 os ps m)
  then show ?case by (auto simp: lossless_def way_def split: if_splits)
next
  case (6 os ps m)
  then show ?case by (auto simp: lossless_def way_def all_sources split: if_splits)
next
  case (7 os ps m)
  then show ?case by (auto simp: lossless_def)
qed

lemma mon_moves_append: "mon_moves os ps (xs @ ys) m = Option.bind (mon_moves os ps xs m) (mon_moves os ps ys)"
  by (induction xs arbitrary: m) (simp_all split: option.split)

lemma lossless_moves: "lossless m \<Longrightarrow> mon_moves os ps xs m = Some m' \<Longrightarrow> lossless m'"
  by (induction xs arbitrary: m) (auto dest: lossless_move split: option.splits)

lemma lossless_start: "batch_interval (target os) c \<noteq> None \<Longrightarrow> lossless (fst (run_monitor os c pid h k))"
  by (simp add: run_monitor_def lossless_def way_def split: prod.split)

text \<open>On Linux an interval of zero ends the collector before it has received anything.\<close>

lemma zero_interval_sends_nothing:
  assumes "target os = P_linux" and "mc_batch_interval_secs c = 0"
    and "mon_moves os ps xs (fst (run_monitor os c pid h k)) = Some m"
  shows "mo_sent m = []"
proof -
  have move: "\<not> mo_collecting n \<Longrightarrow> mon_move os ps x n = Some n' \<Longrightarrow> \<not> mo_collecting n' \<and> mo_sent n' = mo_sent n" for x n n'
    by (induction os ps x n rule: mon_move.induct)
      (auto simp: start_round_def Let_def split: if_splits list.splits option.splits prod.splits)
  have moves: "\<not> mo_collecting n \<Longrightarrow> mon_moves os ps xs n = Some n' \<Longrightarrow> mo_sent n' = mo_sent n" for xs n n'
    by (induction xs arbitrary: n) (auto dest: move split: option.splits)
  have "\<not> mo_collecting (fst (run_monitor os c pid h k)) \<and> mo_sent (fst (run_monitor os c pid h k)) = []"
    using assms(1,2) by (simp add: run_monitor_def batch_interval_def split: prod.split)
  with moves assms(3) show ?thesis by metis
qed

subsection \<open>Everything seen can be delivered\<close>

lemma send_pending:
  assumes "mo_collecting m"
  shows "mon_moves os ps (replicate (length (mo_pending m src)) (Sends src)) m
    = Some (m\<lparr>mo_pending := (mo_pending m)(src := []), mo_channel := mo_channel m @ mo_pending m src\<rparr>)"
  using assms
proof (induction "mo_pending m src" arbitrary: m)
  case Nil
  then have "(mo_pending m)(src := []) = mo_pending m" by auto
  with Nil(1)[symmetric] show ?case by simp
next
  case (Cons e es)
  let ?m = "m\<lparr>mo_pending := (mo_pending m)(src := es), mo_channel := mo_channel m @ [e]\<rparr>"
  from Cons(1) [of ?m] Cons(3) have "mon_moves os ps (replicate (length es) (Sends src)) ?m
      = Some (m\<lparr>mo_pending := (mo_pending m)(src := []), mo_channel := mo_channel m @ e # es\<rparr>)" by simp
  with Cons(2)[symmetric] Cons(3) show ?case by simp
qed

lemma collect_channel:
  assumes "mo_collecting m"
  shows "mon_moves os ps (replicate (length (mo_channel m)) Collects) m
    = Some (m\<lparr>mo_channel := [], mo_batch := mo_batch m @ mo_channel m\<rparr>)"
  using assms
proof (induction "mo_channel m" arbitrary: m)
  case Nil
  from Nil(1)[symmetric] show ?case by simp
next
  case (Cons e es)
  let ?m = "m\<lparr>mo_channel := es, mo_batch := mo_batch m @ [e]\<rparr>"
  from Cons(1) [of ?m] Cons(3) have "mon_moves os ps (replicate (length es) Collects) ?m
      = Some (m\<lparr>mo_channel := [], mo_batch := mo_batch m @ e # es\<rparr>)" by simp
  with Cons(2)[symmetric] Cons(3) show ?case by simp
qed

text \<open>A move of the tasks alone: nothing new is observed, and the receiver stays.\<close>

fun inner :: "'h move \<Rightarrow> bool" where
  "inner (Sends _) = True"
| "inner Collects = True"
| "inner Flushes = True"
| "inner _ = False"

lemma inner_replicate: "inner x \<Longrightarrow> list_all inner (replicate n x)"
  by (induction n) auto

lemma deliver:
  fixes os :: "'h os"
  assumes "lossless m" and "mo_receiver m"
  shows "\<exists>ds m'. list_all inner ds \<and> mon_moves os ps ds m = Some m'
    \<and> (\<forall>src. sent_by src (concat (mo_sent m')) = mo_seen m src)"
proof (cases "mo_collecting m")
  case False
  with assms have "sent_by src (concat (mo_sent m)) = mo_seen m src" for src
    by (auto simp: lossless_def way_def)
  then show ?thesis by (intro exI [of _ "[]"] exI [of _ m]) simp
next
  case True
  let ?n = "\<lambda>src. replicate (length (mo_pending m src)) (Sends src :: 'h move)"
  let ?all = "mo_pending m Processes @ mo_pending m Files @ mo_pending m Network"
  define a where "a = m\<lparr>mo_pending := (mo_pending m)(Processes := [], Files := [], Network := []), mo_channel := mo_channel m @ ?all\<rparr>"
  define b where "b = a\<lparr>mo_channel := [], mo_batch := mo_batch a @ mo_channel a\<rparr>"
  define ds where "ds = (?n Processes @ ?n Files @ ?n Network) @ replicate (length (mo_channel a)) Collects
    @ (if mo_batch b = [] then [] else [Flushes])"
  define m' where "m' = (if mo_batch b = [] then b else b\<lparr>mo_sent := mo_sent b @ [mo_batch b], mo_batch := []\<rparr>)"
  have sends: "mon_moves os ps (?n Processes @ ?n Files @ ?n Network) m = Some a"
    using send_pending [of m os ps Processes] True
      send_pending [of "m\<lparr>mo_pending := (mo_pending m)(Processes := []), mo_channel := mo_channel m @ mo_pending m Processes\<rparr>" os ps Files]
      send_pending [of "m\<lparr>mo_pending := (mo_pending m)(Processes := [], Files := []),
        mo_channel := mo_channel m @ mo_pending m Processes @ mo_pending m Files\<rparr>" os ps Network]
    by (simp add: mon_moves_append a_def)
  have "mo_collecting a" using True by (simp add: a_def)
  then have "mon_moves os ps ds m = Some m'"
    using sends collect_channel [of a os ps] assms(2) True
    by (simp add: ds_def m'_def mon_moves_append [of os ps "?n Processes @ ?n Files @ ?n Network"]
      mon_moves_append [of os ps "replicate _ _"] b_def [symmetric] del: append_assoc) (simp add: b_def a_def)
  moreover have "list_all inner ds" by (simp add: ds_def inner_replicate)
  moreover have "sent_by src (concat (mo_sent m')) = mo_seen m src" for src
  proof -
    have own: "sent_by y (mo_pending m x) = (if x = y then mo_pending m x else [])" for x y
      using assms(1) by (auto simp: sent_by_def lossless_def filter_id_conv filter_empty_conv)
    have "concat (mo_sent m') = way m @ ?all" by (simp add: m'_def b_def a_def way_def)
    then have "sent_by src (concat (mo_sent m')) = sent_by src (way m) @ mo_pending m src"
      by (cases src) (simp_all add: own)
    with assms show ?thesis by (simp add: lossless_def)
  qed
  ultimately show ?thesis by blast
qed

subsection \<open>What the receiver can tell of the machine\<close>

lemma replay_own: "fold replay_process es K = fold replay_process (sent_by Processes es) K"
  "fold replay_file es K' = fold replay_file (sent_by Files es) K'"
proof (induction es arbitrary: K K')
  case (Cons e es)
  { case 1 show ?case using Cons by (cases e) simp_all }
  { case 2 show ?case using Cons by (cases e) simp_all }
qed simp_all

lemma replay_pids: "fold replay_process (pid_diff now info known current) (set known) = set current"
  using linux_processes.replay_diff [of "\<lparr>ps_now = now, ps_info = info, ps_pids = current\<rparr>"
    "\<lparr>ps_now = now, ps_info = info, ps_pids = known\<rparr>"]
    linux_processes.replay_diff [of "\<lparr>ps_now = now, ps_info = info, ps_pids = known\<rparr>"
    "\<lparr>ps_now = now, ps_info = info, ps_pids = current\<rparr>"]
  by (simp add: linux_poll_def)

lemma replay_infos: "fold replay_process (table_diff now known infos) (set known) = pr_pid ` set infos"
proof -
  let ?old = "map (\<lambda>p. \<lparr>pr_pid = p, pr_ppid = 0, pr_path = [], pr_cmdline = []\<rparr>) known"
  have "map pr_pid ?old = known" by (simp add: comp_def)
  moreover have "pr_pid ` set ?old = set known" by force
  ultimately show ?thesis using table_processes.replay_diff [of "(now, ?old)" "(now, infos)"] by (simp only: table_poll_def fst_conv snd_conv)
qed

lemma replay_scan: "fold replay_file (file_diff now known current) (fst ` set known) = fst ` set current"
  using watched_files.replay_diff [of "(now, known)" "(now, current)"] by (simp add: file_poll_def)

lemma poll_processes_known:
  assumes "poll os ps Processes now h k = (es, k')"
  shows "k' = k\<lparr>known_pids := pids_now os h\<rparr>"
    and "fold replay_process es (set (known_pids k)) = set (pids_now os h)"
  using assms by (auto simp: pids_now_def replay_pids replay_infos Let_def split: if_splits)

lemma poll_files_known:
  assumes "poll os ps Files now h k = (es, k')"
  shows "k' = k\<lparr>known_files := scan_roots os h ps []\<rparr>"
    and "fold replay_file es (fst ` set (known_files k)) = fst ` set (scan_roots os h ps [])"
proof -
  have "es = file_diff now (known_files k) (scan_roots os h ps [])" and k: "k' = k\<lparr>known_files := scan_roots os h ps []\<rparr>"
    using assms by (simp_all add: Let_def)
  then show "fold replay_file es (fst ` set (known_files k)) = fst ` set (scan_roots os h ps [])"
    by (simp only: replay_scan)
  show "k' = k\<lparr>known_files := scan_roots os h ps []\<rparr>" by (rule k)
qed

lemma poll_network_known:
  assumes "poll os ps Network now h k = (es, k')"
  shows "known_pids k' = known_pids k" and "known_files k' = known_files k"
  using assms by (auto simp: Let_def split: if_splits)

text \<open>The processes and the files at the last round of their poller; the first pids are there from the start.\<close>

fun pids_after :: "'h os \<Rightarrow> 'h move list \<Rightarrow> u32 list \<Rightarrow> u32 list" where
  "pids_after os [] pids = pids"
| "pids_after os (x # xs) pids = pids_after os xs (case x of Polled Processes _ h \<Rightarrow> pids_now os h | _ \<Rightarrow> pids)"

fun files_after :: "'h os \<Rightarrow> string list \<Rightarrow> 'h move list \<Rightarrow> files \<Rightarrow> files" where
  "files_after os ps [] fs = fs"
| "files_after os ps (x # xs) fs = files_after os ps xs (case x of Polled Files _ h \<Rightarrow> scan_roots os h ps [] | _ \<Rightarrow> fs)"

text \<open>What a poller knows is its last snapshot, and what it has seen leads there from its first.\<close>

definition tracks :: "monitor \<Rightarrow> u32 list \<Rightarrow> u32 list \<Rightarrow> files \<Rightarrow> monitor \<Rightarrow> bool" where
  "tracks m0 start pids fs m \<longleftrightarrow>
     (\<forall>src. mo_mode m0 src = Some Polls \<longrightarrow> mo_mode m src \<noteq> Some Reads)
     \<and> known_pids (mo_known m) = pids \<and> known_files (mo_known m) = fs
     \<and> (mo_mode m0 Processes = Some Polls \<longrightarrow> fold replay_process (mo_seen m Processes) (set start) = set pids)
     \<and> (mo_mode m0 Files = Some Polls \<longrightarrow> fold replay_file (mo_seen m Files) {} = fst ` set fs)"

lemma quiet_move:
  assumes "mon_move os ps x m = Some m'" and "\<And>src now h. x \<noteq> Polled src now h" and "\<And>src now h r. x \<noteq> Has_read src now h r"
  shows "mo_known m' = mo_known m \<and> mo_seen m' = mo_seen m
    \<and> (\<forall>src. mo_mode m' src = Some Reads \<longrightarrow> mo_mode m src = Some Reads)
    \<and> pids_after os [x] pids = pids \<and> files_after os ps [x] fs = fs"
  using assms by (cases x) (auto split: if_splits list.splits)

lemma tracks_quiet:
  assumes "tracks m0 start pids fs m" and "mo_known m' = mo_known m \<and> mo_seen m' = mo_seen m
    \<and> (\<forall>src. mo_mode m' src = Some Reads \<longrightarrow> mo_mode m src = Some Reads)
    \<and> pids' = pids \<and> fs' = fs"
  shows "tracks m0 start pids' fs' m'"
  using assms unfolding tracks_def by simp blast

lemma tracks_move:
  assumes "tracks m0 start pids fs m" and "mon_move os ps x m = Some m'"
  shows "tracks m0 start (pids_after os [x] pids) (files_after os ps [x] fs) m'"
proof (cases x)
  case (Polled src now h)
  obtain es k where p: "poll os ps src now h (mo_known m) = (es, k)" by force
  with Polled assms(2) have m': "m' = start_round src es (m\<lparr>mo_known := k\<rparr>)" by (simp split: if_splits)
  have seen: "mo_seen m' = (mo_seen m)(src := mo_seen m src @ es)" "mo_known m' = k" "mo_mode m' = mo_mode m"
    by (simp_all add: m' start_round_def)
  show ?thesis
  proof (cases src)
    case Processes
    from poll_processes_known [OF p [unfolded Processes]] assms(1) show ?thesis
      by (simp add: tracks_def seen Polled Processes)
  next
    case Files
    from poll_files_known [OF p [unfolded Files]] assms(1) show ?thesis
      by (simp add: tracks_def seen Polled Files)
  next
    case Network
    from poll_network_known [OF p [unfolded Network]] assms(1) show ?thesis
      by (simp add: tracks_def seen Polled Network)
  qed
next
  case (Has_read src now h r)
  with assms(2) have reads: "mo_mode m src = Some Reads"
    and m': "m' = (case reader_turn os src now h r of Some es \<Rightarrow> start_round src es m
      | None \<Rightarrow> m\<lparr>mo_mode := (mo_mode m)(src := None)\<rparr>)"
    by (auto simp del: reader_turn.simps split: if_splits option.splits)
  from assms(1) reads have "mo_mode m0 x = Some Polls \<Longrightarrow> mo_seen m' x = mo_seen m x" for x
    by (auto simp: tracks_def m' start_round_def split: option.splits)
  moreover have "mo_known m' = mo_known m" "mo_mode m' x = Some Reads \<Longrightarrow> mo_mode m x = Some Reads" for x
    by (auto simp: m' start_round_def split: option.splits if_splits)
  ultimately show ?thesis using assms(1) Has_read unfolding tracks_def by (auto; blast)
qed (rule tracks_quiet [OF assms(1) quiet_move [OF assms(2)]]; simp)+

lemma tracks_moves:
  "mon_moves os ps xs m = Some m' \<Longrightarrow> tracks m0 start pids fs m
    \<Longrightarrow> tracks m0 start (pids_after os xs pids) (files_after os ps xs fs) m'"
proof (induction xs arbitrary: m pids fs)
  case (Cons x xs)
  from Cons.prems(1) obtain m1 where "mon_move os ps x m = Some m1" and "mon_moves os ps xs m1 = Some m'"
    by (auto split: option.splits)
  with Cons.IH [of m1 "pids_after os [x] pids" "files_after os ps [x] fs"] tracks_move [OF Cons.prems(2), of os ps x m1]
  show ?case by simp
qed simp

lemma tracks_start: "run_monitor os c pid h k = (m, k') \<Longrightarrow> tracks m (pids_now os h) (pids_now os h) [] m"
  by (auto simp: run_monitor_def tracks_def split: prod.splits)


text \<open>A Mac whose process table is the whole machine.\<close>

definition table_mac :: "proc_info list os" where
  "table_mac = \<lparr>target = P_macos, exec = (\<lambda>_ _ h. (None, h)), spawn = (\<lambda>_ _ h. (Inl [], h)), path_exists = (\<lambda>_ _. False),
     read_file = (\<lambda>_ _. Inl []), write_file = (\<lambda>_ _ h. (Inl [], h)), remove_file = (\<lambda>_ h. (Inl [], h)),
     create_dirs = (\<lambda>_ h. (Inl [], h)), chmod = (\<lambda>_ _ h. (Inl [], h)), entries = (\<lambda>_ _. []), read_link = (\<lambda>_ _. None),
     read_dir = (\<lambda>_ _. None), process_table = id, parent_dir = (\<lambda>_. None), processes = (\<lambda>_. []),
     kill_process = (\<lambda>_ h. h), cpu_usage = (\<lambda>_. F_fin 0), total_memory = (\<lambda>_. 0), used_memory = (\<lambda>_. 0), disks = (\<lambda>_. []),
     uptime = (\<lambda>_. 0), clock = (\<lambda>_. 0)\<rparr>"

definition a_proc :: "u32 \<Rightarrow> proc_info" where
  "a_proc pid = \<lparr>pr_pid = pid, pr_ppid = 1, pr_path = [], pr_cmdline = []\<rparr>"


end
