(* ===== verification/Agent_Link.thy ===== *)
theory Agent_Link
  imports Agent_Monitor
begin

section \<open>Agent: configuration, enrollment and the connection to the server\<close>

text \<open>
  \<^verbatim>\<open>config.rs\<close>, \<^verbatim>\<open>enrollment.rs\<close>, \<^verbatim>\<open>tls.rs\<close> and \<^verbatim>\<open>transport/*.rs\<close>.  Certificates, hashing, TOML text and
  HTTP are the business of the crates the agent uses and come in as the record \<open>web\<close>; what the agent
  decides about them is here: which HTTP client may carry the enrollment token, what is written
  where with which permissions, how the websocket address, its TLS and the reconnect delays follow
  from the configuration, and what becomes of every frame and message of a connection.
\<close>

subsection \<open>Trust anchors (tls.rs)\<close>

type_synonym cert = "u8 list"

record http_client =
  accepts_invalid :: bool
  extra_root :: "string option"
  https_only :: bool

record enroll_request =
  eq_token :: string
  eq_hostname :: string
  eq_os :: string
  eq_os_version :: "string option"
  eq_arch :: "string option"

record enroll_data =
  ed_device_id :: uuid
  ed_cert_pem :: string
  ed_key_pem :: string
  ed_ca_pem :: string
  ed_server_url :: string
  ed_device_token :: string
  ed_signing_pubkey :: string

record enroll_response =
  er_data :: "enroll_data option"
  er_error :: "string option"

datatype http_request =
    Get_text http_client string
  | Post_enroll http_client string enroll_request

record web =
  pem_certs :: "string \<Rightarrow> (string + cert) list"
  sha256_hex :: "cert \<Rightarrow> string"
  root_error :: "cert \<Rightarrow> string option"
  client_error :: "string \<Rightarrow> string option"
  get_text :: "http_client \<Rightarrow> string \<Rightarrow> string + string"
  post_enroll :: "http_client \<Rightarrow> string \<Rightarrow> enroll_request \<Rightarrow> string + enroll_response"
  url_error :: "string \<Rightarrow> string option"
  header_valid :: "string \<Rightarrow> bool"
  toml_parse :: "string \<Rightarrow> string + json"
  toml_print :: "json \<Rightarrow> string + string"
  uuid_text :: "uuid \<Rightarrow> string"
  uuid_of_text :: "string \<Rightarrow> uuid option"
  home_dir :: "string option"
  host_name :: "string option"
  os_version :: "string option"
  arch_name :: string

fun oks :: "('e + 'a) list \<Rightarrow> 'a list" where
  "oks [] = []"
| "oks (Inr x # xs) = x # oks xs"
| "oks (Inl e # xs) = oks xs"

fun all_ok :: "('e + 'a) list \<Rightarrow> 'e + 'a list" where
  "all_ok [] = Inr []"
| "all_ok (Inl e # xs) = Inl e"
| "all_ok (Inr x # xs) = (case all_ok xs of Inl e \<Rightarrow> Inl e | Inr ys \<Rightarrow> Inr (x # ys))"

definition fingerprint_pem :: "web \<Rightarrow> string \<Rightarrow> string option" where
  "fingerprint_pem W pem = (case oks (pem_certs W pem) of [] \<Rightarrow> None | c # _ \<Rightarrow> Some (sha256_hex W c))"

definition normalize_fingerprint :: "string \<Rightarrow> string" where
  "normalize_fingerprint s = to_lowercase (filter (\<lambda>c. hex_digit c \<noteq> None) s)"

definition fingerprints_match :: "web \<Rightarrow> string \<Rightarrow> string \<Rightarrow> bool" where
  "fingerprints_match W pem expected = (case fingerprint_pem W pem of
       Some got \<Rightarrow> got = normalize_fingerprint expected
     | None \<Rightarrow> False)"

fun add_roots :: "web \<Rightarrow> cert list \<Rightarrow> string + unit" where
  "add_roots W [] = Inr ()"
| "add_roots W (c # cs) = (case root_error W c of Some e \<Rightarrow> Inl (''add CA: '' @ e) | None \<Rightarrow> add_roots W cs)"

text \<open>The root store of the websocket's TLS: the certificates of the PEM and nothing else.\<close>

definition rustls_config_from_ca_pem :: "web \<Rightarrow> string \<Rightarrow> string + cert list" where
  "rustls_config_from_ca_pem W pem = (case all_ok (pem_certs W pem) of
       Inl e \<Rightarrow> Inl (''parse CA: '' @ e)
     | Inr certs \<Rightarrow> (case add_roots W certs of
         Inl e \<Rightarrow> Inl e
       | Inr _ \<Rightarrow> if certs = [] then Inl ''CA PEM contained no certificates'' else Inr certs))"

subsection \<open>Configuration (config.rs)\<close>

record agent_config =
  ac_server_url :: string
  ac_device_id :: uuid
  ac_cert_path :: string
  ac_key_path :: string
  ac_ca_path :: string
  ac_heartbeat_interval :: u64
  ac_telemetry_interval :: u64
  ac_monitor_enabled :: bool
  ac_monitor_batch_interval :: u64
  ac_monitor_paths :: "string list"
  ac_device_token :: string
  ac_server_pubkey :: string

datatype config_error = NotEnrolled | Io string | Parse string

definition enc_config :: "web \<Rightarrow> agent_config \<Rightarrow> json" where
  "enc_config W c = JObj [
     (''server_url'', enc_str (ac_server_url c)), (''device_id'', enc_uuid (uuid_text W) (ac_device_id c)),
     (''cert_path'', enc_str (ac_cert_path c)), (''key_path'', enc_str (ac_key_path c)),
     (''ca_path'', enc_str (ac_ca_path c)), (''heartbeat_interval'', enc_u (ac_heartbeat_interval c)),
     (''telemetry_interval'', enc_u (ac_telemetry_interval c)),
     (''monitor_enabled'', enc_bool (ac_monitor_enabled c)),
     (''monitor_batch_interval'', enc_u (ac_monitor_batch_interval c)),
     (''monitor_paths'', enc_list enc_str (ac_monitor_paths c)),
     (''device_token'', enc_str (ac_device_token c)), (''server_pubkey'', enc_str (ac_server_pubkey c))]"

text \<open>The defaults of the fields that may be missing.\<close>

definition default_heartbeat_interval :: u64 where
  "default_heartbeat_interval = 60"

definition default_telemetry_interval :: u64 where
  "default_telemetry_interval = 60"

definition default_monitor_enabled :: bool where
  "default_monitor_enabled = True"

definition default_monitor_batch_interval :: u64 where
  "default_monitor_batch_interval = 5"

definition default_monitor_paths :: "string list" where
  "default_monitor_paths = [''/'']"

text \<open>A field with \<^verbatim>\<open>#[serde(default)]\<close>: the default when it is missing.\<close>

definition fld_or :: "'a \<Rightarrow> (json \<Rightarrow> 'a option) \<Rightarrow> string \<Rightarrow> obj \<Rightarrow> 'a option" where
  "fld_or d dec k ob = (case map_of ob k of None \<Rightarrow> Some d | Some v \<Rightarrow> dec v)"

definition dec_config :: "web \<Rightarrow> json \<Rightarrow> agent_config option" where
  "dec_config W v = do { ob \<leftarrow> dec_obj v; u \<leftarrow> fld dec_str ''server_url'' ob;
     i \<leftarrow> fld (dec_uuid (uuid_of_text W)) ''device_id'' ob; ct \<leftarrow> fld dec_str ''cert_path'' ob;
     ky \<leftarrow> fld dec_str ''key_path'' ob; ca \<leftarrow> fld dec_str ''ca_path'' ob;
     hb \<leftarrow> fld_or default_heartbeat_interval dec_u ''heartbeat_interval'' ob; tl \<leftarrow> fld_or default_telemetry_interval dec_u ''telemetry_interval'' ob;
     me \<leftarrow> fld_or default_monitor_enabled dec_bool ''monitor_enabled'' ob;
     mb \<leftarrow> fld_or default_monitor_batch_interval dec_u ''monitor_batch_interval'' ob;
     mp \<leftarrow> fld_or default_monitor_paths (dec_list dec_str) ''monitor_paths'' ob;
     dt \<leftarrow> fld_or [] dec_str ''device_token'' ob; sp \<leftarrow> fld_or [] dec_str ''server_pubkey'' ob;
     Some \<lparr>ac_server_url = u, ac_device_id = i, ac_cert_path = ct, ac_key_path = ky, ac_ca_path = ca,
       ac_heartbeat_interval = hb, ac_telemetry_interval = tl, ac_monitor_enabled = me,
       ac_monitor_batch_interval = mb, ac_monitor_paths = mp, ac_device_token = dt,
       ac_server_pubkey = sp\<rparr> }"

definition separator :: "platform \<Rightarrow> char" where
  "separator p = (if p = P_windows then CHR 0x5C else CHR ''/'')"

text \<open>\<^verbatim>\<open>Path::join\<close> of a relative name.\<close>

definition path_join :: "'h os \<Rightarrow> string \<Rightarrow> string \<Rightarrow> string" where
  "path_join os dir name = (if dir = [] then name
     else if last dir = separator (target os) then dir @ name
     else dir @ [separator (target os)] @ name)"

definition config_dir :: "'h os \<Rightarrow> web \<Rightarrow> string" where
  "config_dir os W = (case home_dir W of Some home \<Rightarrow> path_join os home ''.osfm_edm''
     | None \<Rightarrow> ''/etc/osfm_edm'')"

definition config_path :: "'h os \<Rightarrow> web \<Rightarrow> string" where
  "config_path os W = path_join os (config_dir os W) ''config.toml''"

definition load_config :: "'h os \<Rightarrow> web \<Rightarrow> 'h \<Rightarrow> config_error + agent_config" where
  "load_config os W h = (let path = config_path os W in
     if \<not> path_exists os path h then Inl NotEnrolled
     else case read_file os path h of
       Inl e \<Rightarrow> Inl (Io e)
     | Inr content \<Rightarrow> (case toml_parse W content of
         Inl e \<Rightarrow> Inl (Parse e)
       | Inr v \<Rightarrow> (case dec_config W v of None \<Rightarrow> Inl (Parse ''invalid configuration'') | Some c \<Rightarrow> Inr c)))"

text \<open>State passing with errors for what enrollment does: the machine and the requests sent.\<close>

record 'h enrolling =
  machine :: 'h
  requests :: "http_request list"

datatype enroll_error = E_http string | E_server string | E_config config_error | E_tls string

type_synonym ('h, 'a) enroll_action = "('h enrolling, enroll_error, 'a) action"

definition on_machine :: "(string \<Rightarrow> enroll_error) \<Rightarrow> ('h \<Rightarrow> (string + unit) \<times> 'h) \<Rightarrow> ('h, unit) enroll_action" where
  "on_machine err f w = (case f (machine w) of
       (Inl e, k) \<Rightarrow> (Inl (err e), w\<lparr>machine := k\<rparr>)
     | (Inr _, k) \<Rightarrow> (Inr (), w\<lparr>machine := k\<rparr>))"

definition set_permissions :: "'h os \<Rightarrow> string \<Rightarrow> nat \<Rightarrow> ('h, unit) enroll_action" where
  "set_permissions os path bits =
     (if target os = P_windows then ret () else ignore (on_machine (\<lambda>e. E_config (Io e)) (chmod os path bits)))"

definition io_error :: "string \<Rightarrow> enroll_error" where
  "io_error e = E_config (Io e)"

definition save_secret :: "'h os \<Rightarrow> web \<Rightarrow> string \<Rightarrow> string \<Rightarrow> ('h, string) enroll_action" where
  "save_secret os W filename content =
     (let dir = config_dir os W; path = path_join os dir filename in
      and_then (on_machine io_error (create_dirs os dir)) (\<lambda>_.
      and_then (set_permissions os dir 448) (\<lambda>_.
      and_then (on_machine io_error (write_file os path content)) (\<lambda>_.
      and_then (set_permissions os path 384) (\<lambda>_. ret path)))))"

definition save_pem :: "'h os \<Rightarrow> web \<Rightarrow> string \<Rightarrow> string \<Rightarrow> ('h, string) enroll_action" where
  "save_pem os W filename content = save_secret os W filename content"

text \<open>\<^verbatim>\<open>AgentConfig::save\<close>: the directory comes before the text is made.\<close>

definition save_config :: "'h os \<Rightarrow> web \<Rightarrow> agent_config \<Rightarrow> ('h, unit) enroll_action" where
  "save_config os W c =
     (let dir = config_dir os W; path = config_path os W in
      and_then (on_machine io_error (create_dirs os dir)) (\<lambda>_.
      and_then (set_permissions os dir 448) (\<lambda>_.
      and_then (map_err (\<lambda>e. E_config (Parse e)) (toml_print W (enc_config W c))) (\<lambda>content.
      and_then (on_machine io_error (write_file os path content)) (\<lambda>_.
      set_permissions os path 384)))))"

subsection \<open>Enrollment (enrollment.rs)\<close>

record enroll_opts =
  eo_ca_path :: "string option"
  eo_ca_fingerprint :: "string option"
  eo_insecure :: bool

definition plain_client :: http_client where
  "plain_client = \<lparr>accepts_invalid = False, extra_root = None, https_only = False\<rparr>"

definition invalid_client :: http_client where
  "invalid_client = plain_client\<lparr>accepts_invalid := True\<rparr>"

definition pinned_client :: "string \<Rightarrow> bool \<Rightarrow> http_client" where
  "pinned_client pem only = \<lparr>accepts_invalid = False, extra_root = Some pem, https_only = only\<rparr>"

definition https :: "string \<Rightarrow> bool" where
  "https url \<longleftrightarrow> starts_with ''https://'' url"

fun trim_end_slashes_rev :: "string \<Rightarrow> string" where
  "trim_end_slashes_rev [] = []"
| "trim_end_slashes_rev (c # s) = (if c = CHR ''/'' then trim_end_slashes_rev s else c # s)"

definition trim_end_slashes :: "string \<Rightarrow> string" where
  "trim_end_slashes s = rev (trim_end_slashes_rev (rev s))"

definition request :: "http_request \<Rightarrow> (string + 'a) \<Rightarrow> ('h, 'a) enroll_action" where
  "request r answer w = (case answer of
       Inl e \<Rightarrow> (Inl (E_http e), w\<lparr>requests := requests w @ [r]\<rparr>)
     | Inr x \<Rightarrow> (Inr x, w\<lparr>requests := requests w @ [r]\<rparr>))"

text \<open>\<^verbatim>\<open>Certificate::from_pem\<close> of a PEM text.\<close>

definition root_of_pem :: "web \<Rightarrow> string \<Rightarrow> ('h, string) enroll_action" where
  "root_of_pem W pem = (case client_error W pem of Some e \<Rightarrow> raise (E_tls e) | None \<Rightarrow> ret pem)"

definition needs_pin :: string where
  "needs_pin = ''HTTPS enrollment requires --ca PATH, --ca-fingerprint HEX (from the server log), or --insecure''"

definition build_enroll_client ::
  "'h os \<Rightarrow> web \<Rightarrow> string \<Rightarrow> enroll_opts \<Rightarrow> ('h, http_client) enroll_action" where
  "build_enroll_client os W server_url opts =
     (if eo_insecure opts then ret invalid_client
      else case eo_ca_path opts of
        Some path \<Rightarrow>
          and_then (gets (\<lambda>w. read_file os path (machine w))) (\<lambda>r.
          and_then (map_err E_tls r) (\<lambda>pem.
          and_then (root_of_pem W pem) (\<lambda>pem.
          ret (pinned_client pem (https server_url)))))
      | None \<Rightarrow>
          if https server_url
          then and_then (ok_or (E_tls needs_pin) (eo_ca_fingerprint opts)) (\<lambda>fp.
            let ca_url = trim_end_slashes server_url @ ''/ca.crt'' in
            and_then (request (Get_text invalid_client ca_url) (get_text W invalid_client ca_url)) (\<lambda>pem.
            and_then (guard (fingerprints_match W pem fp)
              (E_tls (''CA fingerprint mismatch (expected '' @ fp @ '')''))) (\<lambda>_.
            and_then (root_of_pem W pem) (\<lambda>pem. ret (pinned_client pem False)))))
          else ret plain_client)"

definition current_os :: "platform \<Rightarrow> string" where
  "current_os p = (case p of P_linux \<Rightarrow> ''linux'' | P_macos \<Rightarrow> ''macos'' | P_windows \<Rightarrow> ''windows''
     | P_other \<Rightarrow> ''unknown'')"

definition or_unknown :: "string option \<Rightarrow> string" where
  "or_unknown v = (case v of Some s \<Rightarrow> s | None \<Rightarrow> ''unknown'')"

definition enroll_request_of :: "'h os \<Rightarrow> web \<Rightarrow> string \<Rightarrow> enroll_request" where
  "enroll_request_of os W token = \<lparr>eq_token = token, eq_hostname = or_unknown (host_name W),
     eq_os = current_os (target os), eq_os_version = Some (or_unknown (os_version W)),
     eq_arch = Some (arch_name W)\<rparr>"

definition ca_matches_pin :: "web \<Rightarrow> enroll_opts \<Rightarrow> enroll_data \<Rightarrow> bool" where
  "ca_matches_pin W opts data \<longleftrightarrow> ed_ca_pem data = [] \<or> (case eo_ca_fingerprint opts of
       None \<Rightarrow> True | Some fp \<Rightarrow> fingerprints_match W (ed_ca_pem data) fp)"

definition enroll :: "'h os \<Rightarrow> web \<Rightarrow> string \<Rightarrow> string \<Rightarrow> enroll_opts \<Rightarrow> ('h, agent_config) enroll_action" where
  "enroll os W server_url token opts =
     (let url = trim_end_slashes server_url @ ''/api/v1/enroll''; rq = enroll_request_of os W token in
      and_then (build_enroll_client os W server_url opts) (\<lambda>client.
      and_then (request (Post_enroll client url rq) (post_enroll W client url rq)) (\<lambda>resp.
      and_then (case er_error resp of Some e \<Rightarrow> raise (E_server e) | None \<Rightarrow> ret ()) (\<lambda>_.
      and_then (ok_or (E_server ''Empty response from server'') (er_data resp)) (\<lambda>data.
      and_then (guard (ca_matches_pin W opts data)
        (E_tls ''server returned a CA that does not match --ca-fingerprint'')) (\<lambda>_.
      and_then (save_pem os W ''device.crt'' (ed_cert_pem data)) (\<lambda>cert_path.
      and_then (save_pem os W ''device.key'' (ed_key_pem data)) (\<lambda>key_path.
      and_then (save_pem os W ''ca.crt'' (ed_ca_pem data)) (\<lambda>ca_path.
      let config = \<lparr>ac_server_url = ed_server_url data, ac_device_id = ed_device_id data,
        ac_cert_path = cert_path, ac_key_path = key_path, ac_ca_path = ca_path,
        ac_heartbeat_interval = 60, ac_telemetry_interval = 60, ac_monitor_enabled = True,
        ac_monitor_batch_interval = 5, ac_monitor_paths = [''/''],
        ac_device_token = ed_device_token data, ac_server_pubkey = ed_signing_pubkey data\<rparr>
      in and_then (save_config os W config) (\<lambda>_. ret config))))))))))"

subsection \<open>What enrollment protects\<close>

text \<open>The clients a request may be sent with under the given options.\<close>

definition post_allowed :: "web \<Rightarrow> string \<Rightarrow> enroll_opts \<Rightarrow> http_request \<Rightarrow> bool" where
  "post_allowed W server_url opts r = (case r of
       Get_text c url \<Rightarrow> True
     | Post_enroll c url rq \<Rightarrow>
         eo_insecure opts
         \<or> \<not> accepts_invalid c \<and> (https server_url \<longrightarrow> (\<exists>pem. extra_root c = Some pem
             \<and> (eo_ca_path opts = None \<longrightarrow>
                 (\<exists>fp. eo_ca_fingerprint opts = Some fp \<and> fingerprints_match W pem fp)))))"

definition requests_allowed :: "web \<Rightarrow> string \<Rightarrow> enroll_opts \<Rightarrow> 'h enrolling \<Rightarrow> bool" where
  "requests_allowed W url opts w \<longleftrightarrow> (\<forall>r \<in> set (requests w). post_allowed W url opts r)"

lemma keeps_on_machine [keeps_intro]:
  "(\<And>w k. I w \<Longrightarrow> I (w\<lparr>machine := k\<rparr>)) \<Longrightarrow> keeps I (on_machine err f)"
  by (auto simp: keeps_def on_machine_def split: prod.splits sum.splits)

lemma requests_allowed_machine: "requests_allowed W url opts w \<Longrightarrow> requests_allowed W url opts (w\<lparr>machine := k\<rparr>)"
  by (simp add: requests_allowed_def)

lemma keeps_save_secret [keeps_intro]: "keeps (requests_allowed W url opts) (save_secret os V f c)"
  unfolding save_secret_def Let_def set_permissions_def
  by (intro keeps_intro requests_allowed_machine)

lemma keeps_save_config [keeps_intro]: "keeps (requests_allowed W url opts) (save_config os V c)"
  unfolding save_config_def Let_def set_permissions_def
  by (intro keeps_intro requests_allowed_machine)

lemma keeps_request:
  "post_allowed W url opts r \<Longrightarrow> keeps (requests_allowed W url opts) (request r a)"
  by (auto simp: keeps_def request_def requests_allowed_def split: sum.splits)

lemma root_of_pem_ok: "root_of_pem W pem w = (Inr c, v) \<longleftrightarrow> c = pem \<and> v = w \<and> client_error W pem = None"
  by (auto simp: root_of_pem_def action_simps split: option.splits)

lemma build_client_keeps: "keeps (requests_allowed W url opts) (build_enroll_client os W url opts)"
  unfolding build_enroll_client_def Let_def root_of_pem_def
  by (intro keeps_intro keeps_request) (auto simp: post_allowed_def)

lemma build_client_allowed:
  assumes "build_enroll_client os W url opts w = (Inr c, v)"
  shows "post_allowed W url opts (Post_enroll c u rq)"
proof (cases "eo_insecure opts")
  case True
  then show ?thesis by (simp add: post_allowed_def)
next
  case False
  then show ?thesis
  proof (cases "eo_ca_path opts")
    case (Some path)
    with False assms show ?thesis
      by (auto simp: build_enroll_client_def and_then_eq_Inr ok_simps root_of_pem_ok post_allowed_def
        pinned_client_def simp del: and_then_gets)
  next
    case None
    with False assms show ?thesis
      by (auto simp: build_enroll_client_def and_then_eq_Inr ok_simps root_of_pem_ok post_allowed_def
        pinned_client_def plain_client_def Let_def split: if_splits)
  qed
qed


text \<open>Without a CA, a fingerprint or \<^verbatim>\<open>--insecure\<close>, https enrollment fails before anything is sent.\<close>

lemma enrollment_needs_pin:
  assumes "https url" and "opts = \<lparr>eo_ca_path = None, eo_ca_fingerprint = None, eo_insecure = False\<rparr>"
  shows "enroll os W url token opts w = (Inl (E_tls needs_pin), w)"
  using assms by (simp add: enroll_def Let_def build_enroll_client_def raise_apply)

text \<open>An empty CA in the answer passes the fingerprint check; the websocket then refuses to start.\<close>

lemma empty_ca_passes_pin: "ed_ca_pem data = [] \<Longrightarrow> ca_matches_pin W opts data"
  by (simp add: ca_matches_pin_def)

lemma empty_ca_no_tls: "pem_certs W pem = [] \<Longrightarrow>
    rustls_config_from_ca_pem W pem = Inl ''CA PEM contained no certificates''"
  by (simp add: rustls_config_from_ca_pem_def)

subsection \<open>Saved configurations are loaded back\<close>

lemma fld_or_enc:
  assumes "map_of ob k = Some v" shows "fld_or d dec k ob = dec v"
  using assms by (simp add: fld_or_def)

lemma dec_enc_config:
  assumes "uuid_of_text W (uuid_text W (ac_device_id c)) = Some (ac_device_id c)"
  shows "dec_config W (enc_config W c) = Some c"
proof -
  have i: "dec_uuid (uuid_of_text W) (enc_uuid (uuid_text W) (ac_device_id c)) = Some (ac_device_id c)"
    using assms by (simp add: dec_uuid_def enc_uuid_def)
  show ?thesis
    by (simp add: dec_config_def enc_config_def fld_def fld_or_def i u_codec.dec_enc str_codec.dec_list_enc)
qed

text \<open>A file system that keeps what is written: the laws a save relies on.\<close>

definition keeps_files :: "'h os \<Rightarrow> bool" where
  "keeps_files os \<longleftrightarrow>
     (\<forall>p t h k. write_file os p t h = (Inr (), k) \<longrightarrow> path_exists os p k \<and> read_file os p k = Inr t)
     \<and> (\<forall>p q b h. path_exists os p (snd (chmod os q b h)) = path_exists os p h
         \<and> read_file os p (snd (chmod os q b h)) = read_file os p h)"

lemma on_machine_Inr: "on_machine err f w = (Inr u, v) \<longleftrightarrow>
    (\<exists>k. f (machine w) = (Inr (), k) \<and> v = w\<lparr>machine := k\<rparr>)"
  by (auto simp: on_machine_def split: prod.splits sum.splits)

lemma snd_on_machine: "machine (snd (on_machine err f w)) = snd (f (machine w))"
  by (simp add: on_machine_def split: prod.splits sum.splits)

lemma saved_config_loads:
  assumes fs: "keeps_files os"
    and toml: "\<And>v t. toml_print W v = Inr t \<Longrightarrow> toml_parse W t = Inr v"
    and uuid: "uuid_of_text W (uuid_text W (ac_device_id c)) = Some (ac_device_id c)"
    and saved: "save_config os W c w = (Inr (), v)"
  shows "load_config os W (machine v) = Inr c"
proof -
  from saved obtain t w1 k where t: "toml_print W (enc_config W c) = Inr t"
    and k: "write_file os (config_path os W) t (machine w1) = (Inr (), k)"
    and v: "set_permissions os (config_path os W) 384 (w1\<lparr>machine := k\<rparr>) = (Inr (), v)"
    by (auto simp: save_config_def Let_def and_then_eq_Inr on_machine_Inr ok_simps)
  have m: "path_exists os p (machine v) = path_exists os p k \<and> read_file os p (machine v) = read_file os p k" for p
    using v fs by (auto simp: set_permissions_def keeps_files_def ok_simps snd_on_machine split: if_splits)
  have "path_exists os (config_path os W) k" "read_file os (config_path os W) k = Inr t"
    using fs k by (auto simp: keeps_files_def)
  then show ?thesis using m toml [OF t] dec_enc_config [OF uuid]
    by (simp add: load_config_def Let_def)
qed

subsection \<open>The start of the agent (main.rs)\<close>

record cli =
  cli_server :: "string option"
  cli_token :: "string option"
  cli_no_monitor :: bool
  cli_ca :: "string option"
  cli_ca_fingerprint :: "string option"
  cli_insecure :: bool

datatype start_error = Not_enrolled | Enrollment_failed enroll_error | Load_failed config_error

definition start_config :: "'h os \<Rightarrow> web \<Rightarrow> cli \<Rightarrow> 'h enrolling \<Rightarrow> (start_error + agent_config) \<times> 'h enrolling" where
  "start_config os W c w = (case load_config os W (machine w) of
       Inr config \<Rightarrow> (Inr config, w)
     | Inl NotEnrolled \<Rightarrow>
         (case cli_token c of
            None \<Rightarrow> (Inl Not_enrolled, w)
          | Some token \<Rightarrow>
              (case enroll os W (case cli_server c of Some u \<Rightarrow> u | None \<Rightarrow> ''https://localhost:8443'') token
                  \<lparr>eo_ca_path = cli_ca c, eo_ca_fingerprint = cli_ca_fingerprint c,
                    eo_insecure = cli_insecure c\<rparr> w of
                 (Inr config, v) \<Rightarrow> (Inr config, v)
               | (Inl e, v) \<Rightarrow> (Inl (Enrollment_failed e), v)))
     | Inl e \<Rightarrow> (Inl (Load_failed e), w))"

definition start_monitor_config :: "cli \<Rightarrow> agent_config \<Rightarrow> monitor_config" where
  "start_monitor_config c config = \<lparr>mc_enabled = ac_monitor_enabled config \<and> \<not> cli_no_monitor c,
     mc_batch_interval_secs = ac_monitor_batch_interval config,
     mc_monitor_paths = ac_monitor_paths config, mc_collect = [''process'', ''file'', ''network'']\<rparr>"

text \<open>A successful enrollment ends with the saving of the configuration it returns.\<close>

lemma enroll_saves:
  assumes "enroll os W url token opts w = (Inr c, v)"
  shows "\<exists>u. save_config os W c u = (Inr (), v)"
  using assms by (auto simp: enroll_def Let_def and_then_eq_Inr ok_simps)

text \<open>
  C35.  Enrollment lasts: on a file system that keeps what is written, with a TOML printer and a
  UUID text that their parsers invert, every later start of the agent finds the very configuration
  the enrollment returned, whatever its command line, and contacts nobody.
\<close>

theorem enrollment_lasts:
  assumes "keeps_files os"
    and "\<And>v t. toml_print W v = Inr t \<Longrightarrow> toml_parse W t = Inr v"
    and "\<And>i. uuid_of_text W (uuid_text W i) = Some i"
    and "enroll os W url token opts w = (Inr config, v)"
  shows "start_config os W c v = (Inr config, v)"
proof -
  obtain u where "save_config os W config u = (Inr (), v)" using enroll_saves [OF assms(4)] by blast
  from saved_config_loads [OF assms(1,2,3) this] show ?thesis by (simp add: start_config_def)
qed

subsection \<open>A simulated machine with files\<close>

definition sim_disk :: "(string \<times> string) list os" where
  "sim_disk = \<lparr>target = P_linux, exec = \<lambda>p a h. (None, h), spawn = \<lambda>p a h. (Inr (), h),
     path_exists = \<lambda>p h. map_of h p \<noteq> None,
     read_file = \<lambda>p h. (case map_of h p of Some t \<Rightarrow> Inr t | None \<Rightarrow> Inl ''no file''),
     write_file = \<lambda>p t h. (Inr (), (p, t) # h), remove_file = \<lambda>p h. (Inr (), h),
     create_dirs = \<lambda>p h. (Inr (), h), chmod = \<lambda>p m h. (Inr (), h), entries = \<lambda>p h. [],
     read_link = \<lambda>p h. None, read_dir = \<lambda>p h. None, process_table = \<lambda>h. [], parent_dir = \<lambda>p. None,
     processes = \<lambda>h. [], kill_process = \<lambda>p h. h, cpu_usage = \<lambda>h. F_fin 0, total_memory = \<lambda>h. 0,
     used_memory = \<lambda>h. 0, disks = \<lambda>h. [], uptime = \<lambda>h. 0, clock = \<lambda>h. 0\<rparr>"

text \<open>The data of an enrollment's answer and the configuration it makes on this machine.\<close>

definition sim_data :: enroll_data where
  "sim_data = \<lparr>ed_device_id = 7, ed_cert_pem = ''CERT'', ed_key_pem = ''KEY'', ed_ca_pem = ''PEM'',
     ed_server_url = ''https://edm'', ed_device_token = ''t'', ed_signing_pubkey = ''k''\<rparr>"

definition sim_config :: "enroll_data \<Rightarrow> agent_config" where
  "sim_config d = \<lparr>ac_server_url = ed_server_url d, ac_device_id = ed_device_id d,
     ac_cert_path = ''/root/.osfm_edm/device.crt'', ac_key_path = ''/root/.osfm_edm/device.key'',
     ac_ca_path = ''/root/.osfm_edm/ca.crt'', ac_heartbeat_interval = 60, ac_telemetry_interval = 60,
     ac_monitor_enabled = True, ac_monitor_batch_interval = 5, ac_monitor_paths = [''/''],
     ac_device_token = ed_device_token d, ac_server_pubkey = ed_signing_pubkey d\<rparr>"

text \<open>A server that answers with \<open>d\<close> and a printer that prints the one value \<open>v\<close> or fails.\<close>

definition sim_network :: "enroll_data \<Rightarrow> json \<Rightarrow> web" where
  "sim_network d v = \<lparr>pem_certs = \<lambda>p. [Inr [1]], sha256_hex = \<lambda>c. ''ab'', root_error = \<lambda>c. None,
     client_error = \<lambda>p. None, get_text = \<lambda>c u. Inr ''PEM'',
     post_enroll = \<lambda>c u r. Inr \<lparr>er_data = Some d, er_error = None\<rparr>,
     url_error = \<lambda>u. None, header_valid = \<lambda>v. True, toml_parse = \<lambda>t. Inr v,
     toml_print = \<lambda>u. (if u = v then Inr ''toml'' else Inl ''unknown''),
     uuid_text = \<lambda>u. replicate (unat u) CHR ''u'', uuid_of_text = \<lambda>t. Some (of_nat (length t)),
     home_dir = Some ''/root'', host_name = None, os_version = None, arch_name = ''x86_64''\<rparr>"

definition sim_toml :: "enroll_data \<Rightarrow> json" where
  "sim_toml d = enc_config (sim_network d JNull) (sim_config d)"

definition sim_web :: "enroll_data \<Rightarrow> web" where
  "sim_web d = sim_network d (sim_toml d)"

lemma sim_web_simps [simp]:
  "toml_print (sim_web d) u = (if u = sim_toml d then Inr ''toml'' else Inl ''unknown'')"
  "toml_parse (sim_web d) t = Inr (sim_toml d)" "home_dir (sim_web d) = Some ''/root''"
  "uuid_text (sim_web d) i = replicate (unat i) CHR ''u''"
  "uuid_of_text (sim_web d) t = Some (of_nat (length t))"
  "post_enroll (sim_web d) c url rq = Inr \<lparr>er_data = Some d, er_error = None\<rparr>"
  "url_error (sim_web d) url = None" "header_valid (sim_web d) t" "pem_certs (sim_web d) p = [Inr [1]]"
  "root_error (sim_web d) ct = None"
  by (simp_all add: sim_web_def sim_network_def)

lemma sim_disk_keeps: "keeps_files sim_disk"
  by (auto simp: keeps_files_def sim_disk_def)

lemma sim_toml_law: "toml_print (sim_web d) v = Inr t \<Longrightarrow> toml_parse (sim_web d) t = Inr v"
  by (simp split: if_splits)

lemma sim_uuid_law: "uuid_of_text (sim_web d) (uuid_text (sim_web d) i) = Some i"
  by simp

lemma enc_sim_config [simp]: "enc_config (sim_web d) (sim_config d) = sim_toml d"
  by (simp add: enc_config_def sim_toml_def sim_web_def sim_network_def)

definition sim_opts :: enroll_opts where
  "sim_opts = \<lparr>eo_ca_path = None, eo_ca_fingerprint = None, eo_insecure = False\<rparr>"

lemma sim_disk_simps [simp]:
  "target sim_disk = P_linux" "create_dirs sim_disk p h = (Inr (), h)" "chmod sim_disk p n h = (Inr (), h)"
  "write_file sim_disk p t h = (Inr (), (p, t) # h)"
  "read_file sim_disk p h = (case map_of h p of Some t \<Rightarrow> Inr t | None \<Rightarrow> Inl ''no file'')"
  by (simp_all add: sim_disk_def)

lemmas sim_steps = and_then_def ret_apply on_machine_def set_permissions_def ignore_def map_err_def

lemma sim_dir [simp]: "config_dir sim_disk (sim_web d) = ''/root/.osfm_edm''"
  by (simp add: config_dir_def path_join_def separator_def)

lemma sim_save_pem [simp]: "save_pem sim_disk (sim_web d) f c w =
    (Inr (''/root/.osfm_edm/'' @ f), w\<lparr>machine := (''/root/.osfm_edm/'' @ f, c) # machine w\<rparr>)"
  by (simp add: save_pem_def save_secret_def Let_def path_join_def separator_def sim_steps)

lemma sim_save_config [simp]: "save_config sim_disk (sim_web d) (sim_config d) w =
    (Inr (), w\<lparr>machine := (''/root/.osfm_edm/config.toml'', ''toml'') # machine w\<rparr>)"
  by (simp add: save_config_def Let_def config_path_def path_join_def separator_def sim_steps)

lemma sim_enrolls: "\<exists>v. enroll sim_disk (sim_web d) ''http://edm'' tok sim_opts
      \<lparr>machine = [], requests = []\<rparr> = (Inr (sim_config d), v)
    \<and> machine v = [(''/root/.osfm_edm/config.toml'', ''toml''), (''/root/.osfm_edm/ca.crt'', ed_ca_pem d),
        (''/root/.osfm_edm/device.key'', ed_key_pem d), (''/root/.osfm_edm/device.crt'', ed_cert_pem d)]"
  by (simp add: enroll_def Let_def and_then_def [of "build_enroll_client _ _ _ _"]
    and_then_def [of "request _ _"] and_then_def [of "save_pem _ _ _ _"] and_then_def [of "save_config _ _ _"]
    build_enroll_client_def sim_opts_def https_def starts_with_def request_def ret_apply ca_matches_pin_def
    sim_config_def [symmetric])

theorem enrollment_lasts_witness:
  "\<exists>v. start_config sim_disk (sim_web sim_data) \<lparr>cli_server = None, cli_token = None, cli_no_monitor = False,
     cli_ca = None, cli_ca_fingerprint = None, cli_insecure = False\<rparr> v = (Inr (sim_config sim_data), v)"
proof -
  obtain v where "enroll sim_disk (sim_web sim_data) ''http://edm'' ''tok'' sim_opts
      \<lparr>machine = [], requests = []\<rparr> = (Inr (sim_config sim_data), v)" using sim_enrolls by blast
  from enrollment_lasts [OF sim_disk_keeps sim_toml_law sim_uuid_law this] show ?thesis by blast
qed


subsection \<open>The connection (transport/websocket.rs, transport/protocol.rs)\<close>

text \<open>\<^verbatim>\<open>str::replace\<close> of every occurrence of a non-empty text.\<close>

function replace_all :: "string \<Rightarrow> string \<Rightarrow> string \<Rightarrow> string" where
  "replace_all old new [] = []"
| "replace_all old new (c # s) =
     (if old \<noteq> [] \<and> starts_with old (c # s)
      then new @ replace_all old new (drop (length old) (c # s))
      else c # replace_all old new s)"
  by pat_completeness auto
termination
  by (relation "measure (\<lambda>(old, new, s). length s)") auto

definition ws_base :: "string \<Rightarrow> string" where
  "ws_base server_url = replace_all ''http://'' ''ws://'' (replace_all ''https://'' ''wss://'' server_url)"

definition ws_url :: "web \<Rightarrow> agent_config \<Rightarrow> string" where
  "ws_url W c = ws_base (ac_server_url c) @ ''/ws?device_id='' @ uuid_text W (ac_device_id c)"

datatype ws_error = Tungstenite string | Serde string | ConnectionClosed | RequestBuild string

text \<open>
  The start of \<^verbatim>\<open>connect_and_run\<close>: the address, the Authorization header and the roots TLS may
  trust (None for a plain connection).
\<close>

definition connect_request ::
  "'h os \<Rightarrow> web \<Rightarrow> agent_config \<Rightarrow> 'h \<Rightarrow> ws_error + (string \<times> string \<times> cert list option)" where
  "connect_request os W c h = (let url = ws_url W c; header = ''Bearer '' @ ac_device_token c in
     case url_error W url of
       Some e \<Rightarrow> Inl (Tungstenite e)
     | None \<Rightarrow>
       if \<not> header_valid W header then Inl (RequestBuild ''invalid token header value'')
       else if starts_with ''wss://'' url
       then case read_file os (ac_ca_path c) h of
           Inl e \<Rightarrow> Inl (RequestBuild (''read CA '' @ ac_ca_path c @ '': '' @ e))
         | Inr pem \<Rightarrow> (case rustls_config_from_ca_pem W pem of
             Inl e \<Rightarrow> Inl (RequestBuild e)
           | Inr roots \<Rightarrow> Inr (url, header, Some roots))
       else Inr (url, header, None))"

text \<open>
  The loop: a frame from the server or a message of the outbound channel at a time.  The flags say
  whether the forwarding or the write succeeded; the result is the end of the connection and is
  None while it lasts.
\<close>

datatype ws_input =
    In_text json bool
  | In_close
  | In_ping bool
  | In_other
  | In_failed string
  | Out_message agent_message bool
  | Out_closed

record ws_state =
  ws_forwarded :: "server_message list"
  ws_written :: "json list"
  ws_pongs :: nat
  ws_result :: "(ws_error + unit) option"

definition ws_start :: ws_state where
  "ws_start = \<lparr>ws_forwarded = [], ws_written = [], ws_pongs = 0, ws_result = None\<rparr>"

definition encode_agent_message :: "web \<Rightarrow> agent_message \<Rightarrow> json" where
  "encode_agent_message W m = enc_agent_message (uuid_text W) m"

definition decode_server_message :: "web \<Rightarrow> json \<Rightarrow> server_message option" where
  "decode_server_message W v = dec_server_message (uuid_of_text W) v"

definition ws_end :: "(ws_error + unit) \<Rightarrow> ws_state \<Rightarrow> ws_state" where
  "ws_end r s = s\<lparr>ws_result := Some r\<rparr>"

fun ws_step :: "web \<Rightarrow> ws_input \<Rightarrow> ws_state \<Rightarrow> ws_state" where
  "ws_step W (In_text v ok) s = (case decode_server_message W v of
       None \<Rightarrow> s
     | Some m \<Rightarrow> if ok then s\<lparr>ws_forwarded := ws_forwarded s @ [m]\<rparr> else ws_end (Inr ()) s)"
| "ws_step W In_close s = ws_end (Inl ConnectionClosed) s"
| "ws_step W (In_ping ok) s = (if ok then s\<lparr>ws_pongs := Suc (ws_pongs s)\<rparr>
     else ws_end (Inl (Tungstenite ''send'')) s)"
| "ws_step W In_other s = s"
| "ws_step W (In_failed e) s = ws_end (Inl (Tungstenite e)) s"
| "ws_step W (Out_message m ok) s = (if ok then s\<lparr>ws_written := ws_written s @ [encode_agent_message W m]\<rparr>
     else ws_end (Inl (Tungstenite ''send'')) s)"
| "ws_step W Out_closed s = ws_end (Inr ()) s"

fun ws_run :: "web \<Rightarrow> ws_input list \<Rightarrow> ws_state \<Rightarrow> ws_state" where
  "ws_run W [] s = s"
| "ws_run W (x # xs) s = (if ws_result s = None then ws_run W xs (ws_step W x s) else s)"

text \<open>One connection: the handshake's error, if it has one, comes from the network.\<close>

definition connect_and_run ::
  "'h os \<Rightarrow> web \<Rightarrow> agent_config \<Rightarrow> 'h \<Rightarrow> string option \<Rightarrow> ws_input list \<Rightarrow> ws_state" where
  "connect_and_run os W c h handshake inputs = (case connect_request os W c h of
       Inl e \<Rightarrow> ws_end (Inl e) ws_start
     | Inr _ \<Rightarrow> (case handshake of
         Some e \<Rightarrow> ws_end (Inl (Tungstenite e)) ws_start
       | None \<Rightarrow> ws_run W inputs ws_start))"

text \<open>The reconnect loop: the delay after each connection, from how the connections end.\<close>

definition max_backoff :: u64 where
  "max_backoff = 60"

definition delay_after :: "u64 \<Rightarrow> (ws_error + unit) \<Rightarrow> u64" where
  "delay_after b r = (case r of Inr _ \<Rightarrow> 1 | Inl _ \<Rightarrow> b)"

fun backoffs :: "u64 \<Rightarrow> (ws_error + unit) list \<Rightarrow> u64 list" where
  "backoffs b [] = []"
| "backoffs b (r # rs) = delay_after b r # backoffs (min (delay_after b r * 2) max_backoff) rs"

definition reconnect_delays :: "(ws_error + unit) list \<Rightarrow> u64 list" where
  "reconnect_delays rs = backoffs 1 rs"

text \<open>
  \<^verbatim>\<open>run_ws_loop\<close> over what each connection meets: the machine, the handshake and the frames.  A
  connection that does not end is the last one; the others come with the delay that follows them.
\<close>

fun ws_loop_from ::
  "u64 \<Rightarrow> 'h os \<Rightarrow> web \<Rightarrow> agent_config \<Rightarrow> ('h \<times> string option \<times> ws_input list) list
     \<Rightarrow> (ws_state \<times> u64 option) list" where
  "ws_loop_from b os W c [] = []"
| "ws_loop_from b os W c ((h, handshake, inputs) # conns) =
     (let s = connect_and_run os W c h handshake inputs in
      case ws_result s of
        None \<Rightarrow> [(s, None)]
      | Some r \<Rightarrow> (s, Some (delay_after b r)) # ws_loop_from (min (delay_after b r * 2) max_backoff) os W c conns)"

definition run_ws_loop ::
  "'h os \<Rightarrow> web \<Rightarrow> agent_config \<Rightarrow> ('h \<times> string option \<times> ws_input list) list \<Rightarrow> (ws_state \<times> u64 option) list" where
  "run_ws_loop os W c conns = ws_loop_from 1 os W c conns"

lemma ws_loop_from_delays: "List.map_filter snd (ws_loop_from b os W c conns) =
    backoffs b (List.map_filter (ws_result \<circ> fst) (ws_loop_from b os W c conns))"
  by (induction conns arbitrary: b)
    (auto simp: Let_def map_filter_simps split: option.splits)

lemma run_ws_loop_delays: "List.map_filter snd (run_ws_loop os W c conns) =
    reconnect_delays (List.map_filter (ws_result \<circ> fst) (run_ws_loop os W c conns))"
  by (simp add: run_ws_loop_def reconnect_delays_def ws_loop_from_delays)

subsection \<open>What the connection does\<close>

text \<open>The messages a run takes from the channel and from the wire, until it ends.\<close>

fun out_messages :: "ws_input list \<Rightarrow> (agent_message \<times> bool) list" where
  "out_messages [] = []"
| "out_messages (Out_message m ok # xs) = (m, ok) # out_messages xs"
| "out_messages (_ # xs) = out_messages xs"

lemma ws_run_ended: "ws_result s \<noteq> None \<Longrightarrow> ws_run W xs s = s"
  by (cases xs) auto

text \<open>
  Nothing is reordered or sent twice: what a connection writes is the encoding of a prefix of what
  the agent queued.
\<close>

lemma ws_written_prefix: "\<exists>n. ws_written (ws_run W xs s) =
    ws_written s @ map (\<lambda>p. encode_agent_message W (fst p)) (take n (out_messages xs))"
proof (induction xs arbitrary: s)
  case (Cons x xs)
  show ?case
  proof (cases "ws_result s")
    case None
    show ?thesis
    proof (cases "\<exists>m. x = Out_message m True")
      case True
      then obtain m where x: "x = Out_message m True" by blast
      obtain n where n: "ws_written (ws_run W xs (ws_step W x s)) = ws_written (ws_step W x s)
          @ map (\<lambda>p. encode_agent_message W (fst p)) (take n (out_messages xs))"
        using Cons.IH by blast
      then show ?thesis using None x by (intro exI [of _ "Suc n"]) simp
    next
      case False
      then have w: "ws_written (ws_step W x s) = ws_written s"
        by (cases x) (auto simp: ws_end_def split: option.splits)
      show ?thesis
      proof (cases "\<exists>m ok. x = Out_message m ok")
        case True
        then have "ws_result (ws_step W x s) \<noteq> None" using False by (auto simp: ws_end_def)
        then show ?thesis using None w by (intro exI [of _ 0]) (simp add: ws_run_ended)
      next
        case nm: False
        then have "out_messages (x # xs) = out_messages xs" by (cases x) auto
        then show ?thesis using Cons.IH [of "ws_step W x s"] None w by simp
      qed
    qed
  next
    case (Some r)
    then show ?thesis by (intro exI [of _ 0]) simp
  qed
qed simp

text \<open>A message whose write fails has left the queue and ends the connection: it is lost.\<close>

lemma failed_write_loses_message: "ws_result s = None \<Longrightarrow>
    ws_run W (Out_message m False # xs) s = ws_end (Inl (Tungstenite ''send'')) s"
  by (cases xs) (simp_all add: ws_end_def)

subsection \<open>The delays\<close>

lemma length_backoffs: "length (backoffs b rs) = length rs"
  by (induction rs arbitrary: b) simp_all

lemma backoffs_Suc: "Suc i < length rs \<Longrightarrow> backoffs b rs ! Suc i =
    delay_after (min (backoffs b rs ! i * 2) max_backoff) (rs ! Suc i)"
proof (induction rs arbitrary: b i)
  case (Cons r rs)
  then show ?case by (cases i; cases rs) auto
qed simp

lemma unat_doubled: "unat (x :: u64) \<le> 60 \<Longrightarrow> unat (min (x * 2) max_backoff) = min (2 * unat x) 60"
  by (simp add: min_def word_le_nat_alt unat_word_ariths max_backoff_def)

text \<open>
  The delay before reconnection number \<open>i\<close> is two to the number of failures since the last
  orderly end of a connection (or since the first connection), in seconds, and never above sixty.
\<close>

theorem reconnect_delay_exact:
  assumes "i < length rs"
  shows "unat (reconnect_delays rs ! i) = min 60 (2 ^ length (takeWhile isl (rev (take i (tl rs)))))"
  using assms
proof (induction i)
  case 0
  then show ?case by (cases rs) (auto simp: reconnect_delays_def delay_after_def split: sum.splits)
next
  case (Suc i)
  have i: "unat (backoffs 1 rs ! i) = min 60 (2 ^ length (takeWhile isl (rev (take i (tl rs)))))"
    using Suc by (simp add: reconnect_delays_def)
  have t: "take (Suc i) (tl rs) = take i (tl rs) @ [rs ! Suc i]"
    using Suc.prems by (simp add: take_Suc_conv_app_nth nth_tl)
  show ?case
  proof (cases "rs ! Suc i")
    case (Inl e)
    have "unat (backoffs 1 rs ! Suc i) = min (2 * unat (backoffs 1 rs ! i)) 60"
      using Suc.prems Inl i by (simp add: backoffs_Suc delay_after_def unat_doubled)
    then show ?thesis using Inl i t by (simp add: reconnect_delays_def min_def)
  next
    case (Inr u)
    then show ?thesis using Suc.prems t by (simp add: reconnect_delays_def backoffs_Suc delay_after_def)
  qed
qed

theorem reconnect_delay_exact_witness:
  "unat (reconnect_delays [Inl ConnectionClosed, Inr (), Inl ConnectionClosed] ! 2) = 2"
  using reconnect_delay_exact [of 2 "[Inl ConnectionClosed, Inr (), Inl ConnectionClosed]"] by simp

end
