(* ===== verification/Whole_System.thy ===== *)
theory Whole_System
  imports Enroll_Api Agent_Hub Agent_Sessions Agent_Link
begin

section \<open>Server and agent together\<close>

text \<open>
  What holds across the wire: the credentials an enrollment hands out are the ones the server
  later accepts, a job the server signs is a job the agent runs, and what becomes of it is what the
  server records.  The two sides use different crates for base64, Ed25519, JSON and UUIDs; \<open>keys_fit\<close>
  says what they must agree on.
\<close>

text \<open>The server's answer to an enrollment as the agent reads it (the same field names on both sides).\<close>

definition answer_of :: "Enroll_Api.enroll_response \<Rightarrow> enroll_data" where
  "answer_of r = \<lparr>ed_device_id = er_device_id r, ed_cert_pem = er_cert_pem r, ed_key_pem = er_key_pem r,
     ed_ca_pem = er_ca_pem r, ed_server_url = er_server_url r, ed_device_token = er_device_token r,
     ed_signing_pubkey = er_server_signing_pubkey r\<rparr>"

text \<open>
  The agent's crates read what the server's crates wrote: the public key is 32 bytes that make a
  key, a signature is read back and verifies under it, JSON text is the same on both sides.
\<close>

definition keys_fit :: "ext \<Rightarrow> crypto \<Rightarrow> signer \<Rightarrow> bool" where
  "keys_fit E C sg \<longleftrightarrow> sg_public_key_b64 sg \<noteq> [] \<and> json_vec C = json_bytes E
     \<and> (\<exists>pk. b64_decode C (sg_public_key_b64 sg) = Inr pk \<and> length pk = 32 \<and> key_error C pk = None
        \<and> (\<forall>msg. let sig = ed_sign E (sg_key sg) msg in b64_encode E sig \<noteq> []
             \<and> b64_decode C (b64_encode E sig) = Inr sig \<and> sig_error C sig = None \<and> ed_verify C pk msg sig))"

lemma signed_job_verifies:
  assumes "keys_fit E C sg" and "job_signer s = Some sg"
  shows "verify_job_signature C (sg_public_key_b64 sg) i p (sign_job E s i p) = Inr ()"
  using assms by (auto simp: keys_fit_def verify_job_signature_def sign_job_def signer_sign_job_def Let_def)

subsection \<open>Enrollment\<close>

lemma find_fresh: "\<forall>x \<in> set xs. \<not> P x \<Longrightarrow> P y \<Longrightarrow> List.find P (xs @ [y]) = Some y"
  by (induction xs) auto

lemma enroll_device_grants:
  assumes "enroll_device E b s = (Inr (st, r), t)"
  shows "stored_token_hash (er_device_id r) (db t) = Some (ext.sha256_hex E (er_device_token r))"
    and "job_signer t = job_signer s"
    and "job_signer s = Some sg \<Longrightarrow> er_server_signing_pubkey r = sg_public_key_b64 sg"
  using assms
  by (auto simp: enroll_device_def ok_simps Let_def stored_token_hash_def device_by_id_def find_fresh
    split: prod.splits)

lemma enroll_keeps_credentials:
  assumes "enroll os W url token opts w = (Inr config, v)"
    and "\<And>c u rq. post_enroll W c u rq = Inr \<lparr>er_data = Some d, er_error = None\<rparr>"
  shows "ac_device_id config = ed_device_id d" "ac_device_token config = ed_device_token d"
    "ac_server_pubkey config = ed_signing_pubkey d"
  using assms by (auto simp: enroll_def Let_def and_then_eq_Inr ok_simps request_def)

text \<open>
  C3.  An enrolled device is served: when the agent's enrollment rests on an answer of the
  server's enrollment, the server, with no database fault, lets in the connection request made
  from the configuration the agent saved, and every job the server signs passes the agent's check.
\<close>

theorem enrolled_agent_served:
  assumes "enroll_device E b s = (Inr (st, r), t)"
    and "enroll os W url token opts w = (Inr config, v)"
    and "\<And>c u rq. post_enroll W c u rq = Inr \<lparr>er_data = Some (answer_of r), er_error = None\<rparr>"
    and "job_signer s = Some sg" and "keys_fit E C sg"
    and "connect_request os W config h = Inr (u, header, roots)"
  shows "authenticate_agent E (ac_device_id config) [''Authorization'' \<mapsto> Visible header] (t\<lparr>faults := []\<rparr>) =
      (Inr True, t\<lparr>faults := []\<rparr>)
    \<and> verify_job_signature C (ac_server_pubkey config) i p (sign_job E t i p) = Inr ()"
proof -
  note c = enroll_keeps_credentials [OF assms(2,3), unfolded answer_of_def, simplified]
  note g = enroll_device_grants [OF assms(1)]
  have "header = ''Bearer '' @ er_device_token r"
    using assms(6) c(2) by (auto simp: connect_request_def Let_def split: if_splits sum.splits option.splits)
  then have "presented_token [''Authorization'' \<mapsto> Visible header] = Some (er_device_token r)"
    by (simp add: presented_token_def strip_prefix_def starts_with_def)
  then have "authenticate_agent E (ac_device_id config) [''Authorization'' \<mapsto> Visible header] (t\<lparr>faults := []\<rparr>) =
      (Inr True, t\<lparr>faults := []\<rparr>)"
    using g(1) c(1) by (simp add: authenticate_agent_def action_simps)
  moreover have "verify_job_signature C (sg_public_key_b64 sg) i p (sign_job E t i p) = Inr ()"
    using assms(4,5) g(2) by (simp add: signed_job_verifies)
  ultimately show ?thesis using c(3) g(3) [OF assms(4)] by simp
qed

subsection \<open>Jobs\<close>

text \<open>
  C12.  A signed job is run: what an enrolled agent reads off the wire, when the server sent a
  dispatch it signed, queues a run of exactly that job and payload and changes nothing else.
\<close>

theorem dispatched_job_runs:
  assumes "\<And>i. up (us i) = Some i"
    and "job_signer s = Some sg" and "keys_fit E (crypt S) sg"
    and "server_pubkey S = sg_public_key_b64 sg"
  shows "map_option (\<lambda>m. handle_server_message S m a)
      (dec_server_message up (enc_server_message us (DispatchJob i p (sign_job E s i p)))) =
    Some (a\<lparr>runs := runs a @ [\<lparr>run_job = i, run_payload = p, run_phase = Queued\<rparr>]\<rparr>)"
  using signed_job_verifies [OF assms(3,2)] assms(4)
  by (simp add: server_message_decodes [where up = up and us = us, OF assms(1)]
    del: enc_server_message.simps)

text \<open>
  C11.  The outcome is recorded: in every history of the agent the last message of a finished run
  decodes on the server to the completion of its job, and processing it, with no database fault,
  sets the job's status by the exit code and stores the code, leaving every other job as it was.
\<close>

theorem job_outcome_recorded:
  assumes "\<And>i. up (us i) = Some i"
    and "runs_to S (fresh_agent h) es a" and "r < length (runs a)" and "run_phase (runs a ! r) = Finished"
    and "faults s = []"
  shows "\<exists>c. dec_agent_message up (enc_agent_message us (last (sent_by (From_run r) a))) =
        Some (JobCompleted (run_job (runs a ! r)) c)
    \<and> jobs (db (snd (process_agent_message E d (JobCompleted (run_job (runs a ! r)) c) s))) =
        map (\<lambda>j. if j_id j = run_job (runs a ! r)
          then j\<lparr>j_status := if c = 0 then ''completed'' else ''failed'', j_exit_code := Some c,
            j_finished_at := Some (wall_ms s)\<rparr>
          else j) (jobs (db s))"
proof -
  have "run_log_ok (runs a ! r) (sent_by (From_run r) a)"
    using runs_ok_reachable [OF assms(2) runs_ok_fresh] assms(3) by (simp add: runs_ok_def)
  then obtain ps c where m: "sent_by (From_run r) a = ps @ [JobCompleted (run_job (runs a ! r)) c]"
    using assms(4) by (auto simp: run_log_ok_def)
  have "dec_agent_message up (enc_agent_message us (JobCompleted (run_job (runs a ! r)) c)) =
      Some (JobCompleted (run_job (runs a ! r)) c)"
    by (simp add: agent_message_decodes [where up = up and us = us, OF assms(1)]
      del: enc_agent_message.simps)
  moreover have "jobs (db (snd (process_agent_message E d (JobCompleted (run_job (runs a ! r)) c) s))) =
        map (\<lambda>j. if j_id j = run_job (runs a ! r)
          then j\<lparr>j_status := if c = 0 then ''completed'' else ''failed'', j_exit_code := Some c,
            j_finished_at := Some (wall_ms s)\<rparr>
          else j) (jobs (db s))"
    using assms(5) by (simp add: process_agent_message_def complete_job_def action_simps upd_where_def ignore_def)
  ultimately show ?thesis using m by auto
qed

subsection \<open>A simulated pair\<close>

definition sim_key :: signer where
  "sim_key = \<lparr>sg_key = [1], sg_public_key_b64 = replicate 32 CHR ''k''\<rparr>"

definition sim_ext :: ext where
  "sim_ext = no_ext\<lparr>ed_sign := \<lambda>k m. [115], b64_encode := \<lambda>b. ''s''\<rparr>"

definition sim_server :: app_state where
  "sim_server = some_state\<lparr>job_signer := Some sim_key\<rparr>"

lemma sim_keys_fit: "keys_fit sim_ext sim_crypto sim_key"
  by (simp add: keys_fit_def sim_ext_def sim_crypto_def sim_key_def no_ext_def code_def Let_def)

lemma sim_public_key: "sg_public_key_b64 sim_key = replicate 32 CHR ''k''"
  by (simp add: sim_key_def)

lemma sim_signer: "job_signer sim_server = Some sim_key"
  by (simp add: sim_server_def)

lemma sim_server_enrolls:
  "\<exists>c r t. enroll_device sim_ext \<lparr>en_token = ''enroll'', en_hostname = ''h'', en_os = ''linux'',
     en_os_version = None, en_arch = None\<rparr> sim_server = (Inr (c, r), t)"
  by (simp add: enroll_device_def action_simps and_then_assoc Let_def insert_device_def
    insert_certificate_def token_row_of_def sample_defs sim_server_def sim_ext_def)

theorem enrolled_agent_served_witness:
  "\<exists>(r :: Enroll_Api.enroll_response) t. authenticate_agent sim_ext (er_device_id r)
      [''Authorization'' \<mapsto> Visible (''Bearer '' @ er_device_token r)] (t\<lparr>faults := []\<rparr>) = (Inr True, t\<lparr>faults := []\<rparr>)"
proof -
  obtain c r t where e: "enroll_device sim_ext \<lparr>en_token = ''enroll'', en_hostname = ''h'', en_os = ''linux'',
      en_os_version = None, en_arch = None\<rparr> sim_server = (Inr (c, r), t)"
    using sim_server_enrolls by blast
  let ?d = "answer_of r"
  obtain v where v: "enroll sim_disk (sim_web ?d) ''http://edm'' ''tok'' sim_opts
      \<lparr>machine = [], requests = []\<rparr> = (Inr (sim_config ?d), v)" using sim_enrolls by blast
  have "\<exists>u roots. connect_request sim_disk (sim_web ?d) (sim_config ?d) [(''/root/.osfm_edm/ca.crt'', ''PEM'')] =
      Inr (u, ''Bearer '' @ er_device_token r, roots)"
    by (cases "starts_with ''wss://'' (ws_url (sim_web ?d) (sim_config ?d))")
      (simp_all add: connect_request_def Let_def sim_config_def answer_of_def rustls_config_from_ca_pem_def)
  then obtain u roots where q: "connect_request sim_disk (sim_web ?d) (sim_config ?d)
      [(''/root/.osfm_edm/ca.crt'', ''PEM'')] = Inr (u, ''Bearer '' @ er_device_token r, roots)" by blast
  have "authenticate_agent sim_ext (ac_device_id (sim_config ?d))
      [''Authorization'' \<mapsto> Visible (''Bearer '' @ er_device_token r)] (t\<lparr>faults := []\<rparr>) = (Inr True, t\<lparr>faults := []\<rparr>)"
    by (rule enrolled_agent_served [OF e v _ sim_signer sim_keys_fit q, THEN conjunct1]) simp
  then have "authenticate_agent sim_ext (er_device_id r)
      [''Authorization'' \<mapsto> Visible (''Bearer '' @ er_device_token r)] (t\<lparr>faults := []\<rparr>) = (Inr True, t\<lparr>faults := []\<rparr>)"
    by (simp only: sim_config_def answer_of_def agent_config.select_convs enroll_data.select_convs)
  then show ?thesis by (intro exI [of _ r] exI [of _ t])
qed

theorem dispatched_job_runs_witness:
  "map_option (\<lambda>m. runs (handle_server_message sim_setup m (fresh_agent [])))
     (dec_server_message (\<lambda>t. Some (of_nat (length t))) (enc_server_message (\<lambda>u. replicate (unat u) CHR ''u'')
       (DispatchJob 3 (Reboot 60) (sign_job sim_ext sim_server 3 (Reboot 60))))) =
   Some [\<lparr>run_job = 3, run_payload = Reboot 60, run_phase = Queued\<rparr>]"
proof -
  have "map_option (\<lambda>m. handle_server_message sim_setup m (fresh_agent []))
      (dec_server_message (\<lambda>t. Some (of_nat (length t))) (enc_server_message (\<lambda>u. replicate (unat u) CHR ''u'')
        (DispatchJob 3 (Reboot 60) (sign_job sim_ext sim_server 3 (Reboot 60))))) =
      Some ((fresh_agent [])\<lparr>runs := runs (fresh_agent [] :: settings agent)
        @ [\<lparr>run_job = 3, run_payload = Reboot 60, run_phase = Queued\<rparr>]\<rparr>)"
    by (rule dispatched_job_runs [where sg = sim_key and s = sim_server and E = sim_ext and S = sim_setup
        and a = "fresh_agent []"])
      (simp_all add: sim_signer sim_setup_def sim_keys_fit sim_public_key)
  then show ?thesis
    by (auto simp: fresh_agent_def simp del: enc_server_message.simps handle_server_message.simps)
qed

definition sim_finished :: "settings event list" where
  "sim_finished = [Deliver sim_job, Run_starts 0, Pipe_ends 0 True, Pipe_ends 0 False,
     Run_wakes 0 (Exited (Some 0)), Run_completes 0]"

lemma sim_finishes:
  "\<exists>a. runs_to sim_setup (fresh_agent []) sim_finished a \<and> length (runs a) = 1
     \<and> run_phase (runs a ! 0) = Finished \<and> run_job (runs a ! 0) = 1"
proof -
  have sp: "spawn (sys sim_setup) p a h = (Inr (), h)" "target (sys sim_setup) = P_linux" for p a h
    by (simp_all add: sim_setup_def sim_windows_def)
  show ?thesis
    by (simp add: runs_to_play sim_finished_def sim_simps_all sim_verified sp pipe_ends_def run_wakes_def
      run_completes_def complete_def emit_def)
qed

theorem job_outcome_recorded_witness:
  "\<exists>(a :: settings agent) c. dec_agent_message (\<lambda>t. Some (of_nat (length t)))
      (enc_agent_message (\<lambda>u. replicate (unat u) CHR ''u'') (last (sent_by (From_run 0) a))) = Some (JobCompleted 1 c)"
proof -
  obtain a where a: "runs_to sim_setup (fresh_agent []) sim_finished a" "length (runs a) = 1"
    "run_phase (runs a ! 0) = Finished" "run_job (runs a ! 0) = 1" using sim_finishes by blast
  have "0 < length (runs a)" using a(2) by simp
  from job_outcome_recorded [where up = "\<lambda>t. Some (of_nat (length t))" and us = "\<lambda>u. replicate (unat u) CHR ''u''"
      and s = some_state and E = no_ext and d = 7, OF _ a(1) this a(3)]
  have "\<exists>c. dec_agent_message (\<lambda>t. Some (of_nat (length t)))
      (enc_agent_message (\<lambda>u. replicate (unat u) CHR ''u'') (last (sent_by (From_run 0) a))) = Some (JobCompleted 1 c)"
    using a(4) by auto
  then show ?thesis by blast
qed

end
