(* ===== verification/Api_Wire.thy ===== *)
theory Api_Wire
  imports Auth_Api Enroll_Api Groups_Api Policies_Api Alerts Jobs_Api Shell_Api Reports_Api
begin

section \<open>The JSON of the REST API\<close>

text \<open>
  What the derived \<^verbatim>\<open>Serialize\<close> of the rows and the \<^verbatim>\<open>json!\<close> bodies of \<^verbatim>\<open>api/*.rs\<close> write, what the derived
  \<^verbatim>\<open>Deserialize\<close> of the request types reads, from a body or from a query string, and how an error
  becomes a response (\<^verbatim>\<open>error.rs\<close>).  The text of times (chrono), of floats and of SQL errors, the
  parsing of a path segment as a UUID (axum) and the splitting of a query into pairs
  (\<^verbatim>\<open>serde_urlencoded\<close>), the fingerprint of the CA's certificate and the refusal of a WebSocket upgrade are
  the record \<open>http_ext\<close>.
\<close>

record http_ext =
  time_text :: "time \<Rightarrow> string"
  time_parse :: "string \<Rightarrow> time option"
  flt_text :: "f64 \<Rightarrow> string"
  flt1_text :: "f64 \<Rightarrow> string"
  sql_text :: "sql_error \<Rightarrow> string"
  path_uuid :: "string \<Rightarrow> uuid option"
  query_pairs :: "string \<Rightarrow> (string \<times> string) list"
  ca_fingerprint :: "ca \<Rightarrow> string option"
  upgrade_refused :: "headers \<Rightarrow> nat option"

subsection \<open>Texts and errors\<close>

definition show_int :: "int \<Rightarrow> string" where
  "show_int i = (if i < 0 then ''-'' @ show_nat (nat (- i)) else show_nat (nat i))"

fun piece_text :: "ext \<Rightarrow> http_ext \<Rightarrow> piece \<Rightarrow> string" where
  "piece_text E X (Str s) = s"
| "piece_text E X (Uid u) = uuid_text E u"
| "piece_text E X (Num i) = show_int i"
| "piece_text E X (Flt x) = flt_text X x"
| "piece_text E X (Flt1 x) = flt1_text X x"

definition fmt_text :: "ext \<Rightarrow> http_ext \<Rightarrow> fmt \<Rightarrow> string" where
  "fmt_text E X ps = concat (map (piece_text E X) ps)"

text \<open>The \<^verbatim>\<open>#[error("\<dots>")]\<close> texts.\<close>

fun error_text :: "ext \<Rightarrow> http_ext \<Rightarrow> api_error \<Rightarrow> string" where
  "error_text E X (NotFound m) = ''Not found: '' @ fmt_text E X m"
| "error_text E X (BadRequest m) = ''Bad request: '' @ fmt_text E X m"
| "error_text E X (Unauthorized m) = ''Unauthorized: '' @ fmt_text E X m"
| "error_text E X (Forbidden m) = ''Forbidden: '' @ fmt_text E X m"
| "error_text E X (Conflict m) = ''Conflict: '' @ fmt_text E X m"
| "error_text E X (RateLimited m) = ''Rate limited: '' @ fmt_text E X m"
| "error_text E X (Internal m) = ''Internal server error: '' @ fmt_text E X m"
| "error_text E X (Database e) = ''Database error: '' @ sql_text X e"
| "error_text E X (JsonError e) = ''JSON error: '' @ e"
| "error_text E X (Jwt e) = ''JWT error: '' @ e"
| "error_text E X (Bcrypt e) = ''Bcrypt error: '' @ e"

text \<open>
  A response: its status, its body and the cookie it sets.  The text axum writes when an extractor or
  the router rejects a request is not modelled (\<open>Rejection\<close>), nor is the body of an event stream
  (\<open>Event_stream\<close>) or a WebSocket (\<open>Upgrade\<close>), which come after the response.
\<close>

datatype content = Json_content json | Text_content string | Rejection | Event_stream | Upgrade

record http_response =
  rs_status :: nat
  rs_body :: content
  rs_cookie :: "string option"

definition envelope :: "json \<Rightarrow> json \<Rightarrow> json" where
  "envelope data err = JObj [(''data'', data), (''error'', err)]"

definition into_response :: "ext \<Rightarrow> http_ext \<Rightarrow> api_error \<Rightarrow> http_response" where
  "into_response E X e = \<lparr>rs_status = status_code e,
     rs_body = Json_content (envelope JNull (JObj [(''code'', JStr (error_code e)),
       (''message'', JStr (error_text E X e))])), rs_cookie = None\<rparr>"

definition data_response :: "nat \<Rightarrow> json \<Rightarrow> http_response" where
  "data_response status data =
     \<lparr>rs_status = status, rs_body = Json_content (envelope data JNull), rs_cookie = None\<rparr>"

definition message_data :: "string \<Rightarrow> json" where
  "message_data m = JObj [(''message'', JStr m)]"

definition status_data :: "string \<Rightarrow> json" where
  "status_data m = JObj [(''status'', JStr m)]"

subsection \<open>What the handlers answer\<close>

definition enc_time :: "http_ext \<Rightarrow> time \<Rightarrow> json" where
  "enc_time X t = JStr (time_text X t)"

definition enc_nat :: "nat \<Rightarrow> json" where
  "enc_nat n = JInt (int n)"

definition enc_json :: "json \<Rightarrow> json" where
  "enc_json v = v"

definition enc_login_response :: "login_response \<Rightarrow> json" where
  "enc_login_response r = JObj [(''access_token'', enc_str (access_token r)),
     (''token_type'', enc_str (token_type r)), (''expires_in'', enc_u (expires_in r))]"

definition enc_user_info :: "ext \<Rightarrow> http_ext \<Rightarrow> user_info \<Rightarrow> json" where
  "enc_user_info E X u = JObj [(''id'', enc_uuid (uuid_text E) (ui_id u)),
     (''username'', enc_str (ui_username u)), (''role'', enc_str (ui_role u)),
     (''totp_enabled'', enc_bool (ui_totp_enabled u)),
     (''created_at'', enc_opt (enc_time X) (ui_created_at u)),
     (''last_login'', enc_opt (enc_time X) (ui_last_login u))]"

definition enc_mfa_setup :: "mfa_setup_response \<Rightarrow> json" where
  "enc_mfa_setup r = JObj [(''secret'', enc_str (ms_secret r)), (''otpauth_url'', enc_str (ms_otpauth_url r))]"

definition enc_enrollment_token :: "http_ext \<Rightarrow> string \<times> time \<Rightarrow> json" where
  "enc_enrollment_token X r = JObj [(''token'', enc_str (fst r)), (''expires_at'', enc_time X (snd r))]"

definition enc_enroll_response :: "ext \<Rightarrow> enroll_response \<Rightarrow> json" where
  "enc_enroll_response E r = JObj [(''device_id'', enc_uuid (uuid_text E) (er_device_id r)),
     (''cert_pem'', enc_str (er_cert_pem r)), (''key_pem'', enc_str (er_key_pem r)),
     (''ca_pem'', enc_str (er_ca_pem r)), (''server_url'', enc_str (er_server_url r)),
     (''device_token'', enc_str (er_device_token r)),
     (''server_signing_pubkey'', enc_str (er_server_signing_pubkey r))]"

definition enc_device :: "ext \<Rightarrow> http_ext \<Rightarrow> device_view \<Rightarrow> json" where
  "enc_device E X d = JObj [(''id'', enc_uuid (uuid_text E) (dv_id d)),
     (''hostname'', enc_str (dv_hostname d)), (''os'', enc_str (dv_os d)),
     (''os_version'', enc_opt enc_str (dv_os_version d)), (''arch'', enc_opt enc_str (dv_arch d)),
     (''ip_address'', enc_opt enc_str (dv_ip_address d)),
     (''agent_version'', enc_opt enc_str (dv_agent_version d)),
     (''enrolled_at'', enc_opt (enc_time X) (dv_enrolled_at d)),
     (''last_seen'', enc_opt (enc_time X) (dv_last_seen d)), (''status'', enc_str (dv_status d))]"

definition enc_metric :: "ext \<Rightarrow> http_ext \<Rightarrow> metric_row \<Rightarrow> json" where
  "enc_metric E X m = JObj [(''device_id'', enc_uuid (uuid_text E) (m_device_id m)),
     (''time'', enc_time X (m_time m)), (''cpu_pct'', enc_opt enc_f64 (m_cpu_pct m)),
     (''ram_used_mb'', enc_opt enc_i (m_ram_used_mb m)), (''ram_total_mb'', enc_opt enc_i (m_ram_total_mb m)),
     (''disk_used_gb'', enc_opt enc_f64 (m_disk_used_gb m)),
     (''disk_total_gb'', enc_opt enc_f64 (m_disk_total_gb m)),
     (''uptime_secs'', enc_opt enc_i (m_uptime_secs m))]"

definition enc_group :: "ext \<Rightarrow> http_ext \<Rightarrow> group_row \<Rightarrow> json" where
  "enc_group E X g = JObj [(''id'', enc_uuid (uuid_text E) (g_id g)), (''name'', enc_str (g_name g)),
     (''description'', enc_opt enc_str (g_description g)),
     (''created_at'', enc_opt (enc_time X) (g_created_at g))]"

definition enc_member :: "ext \<Rightarrow> member_view \<Rightarrow> json" where
  "enc_member E m = JObj [(''device_id'', enc_uuid (uuid_text E) (mv_device_id m)),
     (''hostname'', enc_str (mv_hostname m)), (''os'', enc_str (mv_os m)), (''status'', enc_str (mv_status m))]"

definition enc_policy_row :: "ext \<Rightarrow> http_ext \<Rightarrow> policy_row \<Rightarrow> json" where
  "enc_policy_row E X p = JObj [(''id'', enc_uuid (uuid_text E) (p_id p)), (''name'', enc_str (p_name p)),
     (''description'', enc_opt enc_str (p_description p)), (''rules'', p_rules p),
     (''version'', JInt (p_version p)), (''enabled'', enc_bool (p_enabled p)),
     (''created_at'', enc_opt (enc_time X) (p_created_at p)),
     (''updated_at'', enc_opt (enc_time X) (p_updated_at p))]"

definition enc_alert_rule :: "ext \<Rightarrow> http_ext \<Rightarrow> alert_rule_row \<Rightarrow> json" where
  "enc_alert_rule E X r = JObj [(''id'', enc_uuid (uuid_text E) (ar_id r)), (''name'', enc_str (ar_name r)),
     (''metric'', enc_opt enc_str (ar_metric r)), (''operator'', enc_opt enc_str (ar_operator r)),
     (''threshold'', enc_opt enc_f64 (ar_threshold r)), (''severity'', enc_opt enc_str (ar_severity r)),
     (''condition'', ar_condition r), (''channels'', ar_channels r), (''enabled'', enc_bool (ar_enabled r)),
     (''created_at'', enc_opt (enc_time X) (ar_created_at r))]"

definition enc_alert_event :: "ext \<Rightarrow> http_ext \<Rightarrow> alert_event_row \<Rightarrow> json" where
  "enc_alert_event E X e = JObj [(''id'', enc_uuid (uuid_text E) (ae_id e)),
     (''rule_id'', enc_uuid (uuid_text E) (ae_rule_id e)),
     (''device_id'', enc_opt (enc_uuid (uuid_text E)) (ae_device_id e)),
     (''severity'', enc_opt enc_str (ae_severity e)),
     (''message'', enc_opt (\<lambda>m. JStr (fmt_text E X m)) (ae_message e)),
     (''triggered_at'', enc_opt (enc_time X) (ae_triggered_at e)),
     (''resolved_at'', enc_opt (enc_time X) (ae_resolved_at e))]"

definition job_fields :: "ext \<Rightarrow> http_ext \<Rightarrow> job_row \<Rightarrow> obj" where
  "job_fields E X j = [(''id'', enc_uuid (uuid_text E) (j_id j)),
     (''device_id'', enc_uuid (uuid_text E) (j_device_id j)), (''payload'', j_payload j),
     (''status'', enc_str (j_status j)), (''exit_code'', enc_opt enc_i (j_exit_code j)),
     (''log_output'', enc_opt enc_json (j_log_output j)),
     (''created_by'', enc_opt (enc_uuid (uuid_text E)) (j_created_by j)),
     (''created_at'', enc_opt (enc_time X) (j_created_at j)),
     (''finished_at'', enc_opt (enc_time X) (j_finished_at j))]"

definition enc_job :: "ext \<Rightarrow> http_ext \<Rightarrow> job_row \<Rightarrow> json" where
  "enc_job E X j = JObj (job_fields E X j)"

definition enc_job_log :: "http_ext \<Rightarrow> job_log_view \<Rightarrow> json" where
  "enc_job_log X l = JObj [(''time'', enc_opt (enc_time X) (lv_time l)), (''line'', enc_str (lv_line l)),
     (''stream'', enc_str (lv_stream l))]"

definition enc_job_detail :: "ext \<Rightarrow> http_ext \<Rightarrow> job_row \<times> job_log_view list \<Rightarrow> json" where
  "enc_job_detail E X r = JObj (job_fields E X (fst r) @ [(''logs'', enc_list (enc_job_log X) (snd r))])"

definition enc_compliance :: "ext \<Rightarrow> http_ext \<Rightarrow> compliance_row \<Rightarrow> json" where
  "enc_compliance E X c = JObj [(''id'', enc_uuid (uuid_text E) (cr_id c)),
     (''device_id'', enc_uuid (uuid_text E) (cr_device_id c)),
     (''policy_id'', enc_uuid (uuid_text E) (cr_policy_id c)), (''compliant'', enc_bool (cr_compliant c)),
     (''detail'', enc_opt enc_json (cr_detail c)), (''reported_at'', enc_opt (enc_time X) (cr_reported_at c))]"

definition enc_fleet_report :: "ext \<Rightarrow> http_ext \<Rightarrow> fleet_report \<Rightarrow> json" where
  "enc_fleet_report E X r = JObj [(''total_evaluations'', JInt (fr_total r)),
     (''compliant'', JInt (fr_compliant r)), (''non_compliant'', JInt (fr_non_compliant r)),
     (''compliance_rate'', enc_f64 (fr_rate r)),
     (''recent_violations'', enc_list (enc_compliance E X) (fr_recent r))]"

definition enc_device_report :: "ext \<Rightarrow> http_ext \<Rightarrow> device_report \<Rightarrow> json" where
  "enc_device_report E X r = JObj [(''device_id'', enc_uuid (uuid_text E) (dr_device_id r)),
     (''total_policies'', enc_nat (dr_total r)), (''compliant'', enc_nat (dr_compliant r)),
     (''non_compliant'', enc_nat (dr_non_compliant r)),
     (''reports'', enc_list (enc_compliance E X) (dr_reports r))]"

definition enc_patch_row :: "http_ext \<Rightarrow> patch_row \<Rightarrow> json" where
  "enc_patch_row X p = JObj [(''patch_id'', enc_str (pt_patch_id p)), (''title'', enc_opt enc_str (pt_title p)),
     (''severity'', enc_opt enc_str (pt_severity p)), (''status'', enc_str (pt_status p)),
     (''detected_at'', enc_opt (enc_time X) (pt_detected_at p))]"

definition enc_patch_status :: "ext \<Rightarrow> http_ext \<Rightarrow> patch_status \<Rightarrow> json" where
  "enc_patch_status E X r = JObj [(''device_id'', enc_uuid (uuid_text E) (ps_device_id r)),
     (''pending_count'', enc_nat (ps_pending_count r)),
     (''patches'', enc_list (enc_patch_row X) (ps_patches r))]"

definition enc_patch_summary :: "patch_summary \<Rightarrow> json" where
  "enc_patch_summary r = JObj [(''total_devices'', enc_nat (psum_total_devices r)),
     (''devices_with_pending_patches'', enc_nat (psum_devices_with_pending r)),
     (''pending_by_severity'', enc_list (\<lambda>(sev, n).
       JObj [(''severity'', enc_opt enc_str sev), (''count'', enc_nat n)]) (psum_by_severity r))]"

definition enc_software_row :: "ext \<Rightarrow> software_row \<Rightarrow> json" where
  "enc_software_row E r = JObj [(''id'', enc_uuid (uuid_text E) (sw_id r)),
     (''device_id'', enc_uuid (uuid_text E) (sw_device_id r)), (''name'', enc_str (sw_name r)),
     (''version'', enc_opt enc_str (sw_version r)), (''publisher'', enc_opt enc_str (sw_publisher r)),
     (''install_date'', enc_opt enc_str (sw_install_date r))]"

definition enc_settings :: "settings_view \<Rightarrow> json" where
  "enc_settings r = JObj [(''server_port'', enc_u (sv_server_port r)), (''server_url'', enc_str (sv_server_url r)),
     (''tls_configured'', enc_bool (sv_tls_configured r)), (''ca_initialized'', enc_bool (sv_ca_initialized r))]"

definition server_version :: string where
  "server_version = ''0.1.0''"

definition enc_status :: "status_view \<Rightarrow> json" where
  "enc_status r = JObj [(''total_devices'', enc_nat (stv_total_devices r)),
     (''online_devices'', enc_nat (stv_online_devices r)),
     (''connected_agents'', enc_nat (stv_connected_agents r)), (''total_users'', enc_nat (stv_total_users r)),
     (''total_policies'', enc_nat (stv_total_policies r)), (''pending_jobs'', enc_nat (stv_pending_jobs r)),
     (''version'', enc_str server_version)]"

definition enc_shell_opened :: "ext \<Rightarrow> uuid \<times> uuid \<Rightarrow> json" where
  "enc_shell_opened E r = JObj [(''session_id'', enc_uuid (uuid_text E) (fst r)),
     (''device_id'', enc_uuid (uuid_text E) (snd r))]"

subsection \<open>What the handlers read\<close>

definition dec_login_request :: "json \<Rightarrow> login_request option" where
  "dec_login_request v = do { ob \<leftarrow> dec_obj v; u \<leftarrow> fld dec_str ''username'' ob;
     p \<leftarrow> fld dec_str ''password'' ob; t \<leftarrow> opt_fld dec_str ''totp_code'' ob;
     Some \<lparr>lr_username = u, lr_password = p, lr_totp_code = t\<rparr> }"

definition dec_mfa_verify :: "json \<Rightarrow> string option" where
  "dec_mfa_verify v = do { ob \<leftarrow> dec_obj v; fld dec_str ''code'' ob }"

definition dec_enroll_request :: "json \<Rightarrow> enroll_request option" where
  "dec_enroll_request v = do { ob \<leftarrow> dec_obj v; t \<leftarrow> fld dec_str ''token'' ob;
     h \<leftarrow> fld dec_str ''hostname'' ob; os \<leftarrow> fld dec_str ''os'' ob;
     w \<leftarrow> opt_fld dec_str ''os_version'' ob; a \<leftarrow> opt_fld dec_str ''arch'' ob;
     Some \<lparr>en_token = t, en_hostname = h, en_os = os, en_os_version = w, en_arch = a\<rparr> }"

definition dec_update_device :: "json \<Rightarrow> string option option" where
  "dec_update_device v = do { ob \<leftarrow> dec_obj v; opt_fld dec_str ''hostname'' ob }"

definition dec_create_group :: "json \<Rightarrow> (string \<times> string option) option" where
  "dec_create_group v = do { ob \<leftarrow> dec_obj v; n \<leftarrow> fld dec_str ''name'' ob;
     d \<leftarrow> opt_fld dec_str ''description'' ob; Some (n, d) }"

definition dec_add_member :: "ext \<Rightarrow> json \<Rightarrow> uuid option" where
  "dec_add_member E v = do { ob \<leftarrow> dec_obj v; fld (dec_uuid (uuid_parse E)) ''device_id'' ob }"

definition dec_create_policy :: "json \<Rightarrow> (string \<times> string option \<times> json) option" where
  "dec_create_policy v = do { ob \<leftarrow> dec_obj v; n \<leftarrow> fld dec_str ''name'' ob;
     d \<leftarrow> opt_fld dec_str ''description'' ob; r \<leftarrow> fld Some ''rules'' ob; Some (n, d, r) }"

definition dec_update_policy_request :: "json \<Rightarrow> update_policy_request option" where
  "dec_update_policy_request v = do { ob \<leftarrow> dec_obj v; n \<leftarrow> opt_fld dec_str ''name'' ob;
     d \<leftarrow> opt_fld dec_str ''description'' ob; r \<leftarrow> opt_fld Some ''rules'' ob;
     e \<leftarrow> opt_fld dec_bool ''enabled'' ob;
     Some \<lparr>up_name = n, up_description = d, up_rules = r, up_enabled = e\<rparr> }"

definition dec_assign :: "ext \<Rightarrow> json \<Rightarrow> (uuid option \<times> uuid option) option" where
  "dec_assign E v = do { ob \<leftarrow> dec_obj v; i \<leftarrow> opt_fld (dec_uuid (uuid_parse E)) ''device_id'' ob;
     g \<leftarrow> opt_fld (dec_uuid (uuid_parse E)) ''group_id'' ob; Some (i, g) }"

definition dec_create_rule :: "json \<Rightarrow> create_rule_request option" where
  "dec_create_rule v = do { ob \<leftarrow> dec_obj v; n \<leftarrow> fld dec_str ''name'' ob; m \<leftarrow> fld dec_str ''metric'' ob;
     r \<leftarrow> fld dec_str ''operator'' ob; t \<leftarrow> fld dec_f64 ''threshold'' ob;
     s \<leftarrow> opt_fld dec_str ''severity'' ob; c \<leftarrow> opt_fld Some ''channels'' ob;
     e \<leftarrow> opt_fld dec_bool ''enabled'' ob;
     Some \<lparr>cq_name = n, cq_metric = m, cq_operator = r, cq_threshold = t, cq_severity = s,
       cq_channels = c, cq_enabled = e\<rparr> }"

definition dec_update_rule :: "json \<Rightarrow> update_rule_request option" where
  "dec_update_rule v = do { ob \<leftarrow> dec_obj v; n \<leftarrow> opt_fld dec_str ''name'' ob;
     m \<leftarrow> opt_fld dec_str ''metric'' ob; r \<leftarrow> opt_fld dec_str ''operator'' ob;
     t \<leftarrow> opt_fld dec_f64 ''threshold'' ob; s \<leftarrow> opt_fld dec_str ''severity'' ob;
     c \<leftarrow> opt_fld Some ''channels'' ob; e \<leftarrow> opt_fld dec_bool ''enabled'' ob;
     Some \<lparr>uq_name = n, uq_metric = m, uq_operator = r, uq_threshold = t, uq_severity = s,
       uq_channels = c, uq_enabled = e\<rparr> }"

definition dec_create_job :: "ext \<Rightarrow> json \<Rightarrow> (uuid \<times> json) option" where
  "dec_create_job E v = do { ob \<leftarrow> dec_obj v; i \<leftarrow> fld (dec_uuid (uuid_parse E)) ''device_id'' ob;
     p \<leftarrow> fld Some ''payload'' ob; Some (i, p) }"

definition dec_shell_input :: "json \<Rightarrow> string option" where
  "dec_shell_input v = do { ob \<leftarrow> dec_obj v; fld dec_str ''data'' ob }"

text \<open>A field of a query: absent, or given once; given twice it is refused.\<close>

definition qfld :: "(string \<Rightarrow> 'a option) \<Rightarrow> string \<Rightarrow> (string \<times> string) list \<Rightarrow> 'a option option" where
  "qfld parse k q = (case map snd (filter (\<lambda>p. fst p = k) q) of
       [] \<Rightarrow> Some None
     | [v] \<Rightarrow> map_option Some (parse v)
     | _ \<Rightarrow> None)"

definition parse_bool :: "string \<Rightarrow> bool option" where
  "parse_bool s = (if s = ''true'' then Some True else if s = ''false'' then Some False else None)"

definition parse_i64 :: "string \<Rightarrow> i64 option" where
  "parse_i64 s = (case s of
       [] \<Rightarrow> None
     | c # r \<Rightarrow> if c = CHR ''-''
         then (if r = [] then None
           else case digits_value (\<lambda>d. if is_digit d then Some (code d - 48) else None) 10 0 r of
             None \<Rightarrow> None
           | Some n \<Rightarrow> if n \<le> 2 ^ 63 then Some (- of_nat n) else None)
         else map_option of_nat (parse_uint 63 s))"

definition dec_telemetry_query ::
  "http_ext \<Rightarrow> (string \<times> string) list \<Rightarrow> (time option \<times> time option) option" where
  "dec_telemetry_query X q = do { f \<leftarrow> qfld (time_parse X) ''from'' q; t \<leftarrow> qfld (time_parse X) ''to'' q;
     Some (f, t) }"

definition dec_ws_params :: "ext \<Rightarrow> (string \<times> string) list \<Rightarrow> uuid option" where
  "dec_ws_params E q = do { i \<leftarrow> qfld (uuid_parse E) ''device_id'' q; i }"

definition dec_jobs_query :: "ext \<Rightarrow> (string \<times> string) list \<Rightarrow> list_jobs_query option" where
  "dec_jobs_query E q = do { i \<leftarrow> qfld (uuid_parse E) ''device_id'' q; s \<leftarrow> qfld Some ''status'' q;
     Some \<lparr>lj_device_id = i, lj_status = s\<rparr> }"

definition dec_events_query :: "ext \<Rightarrow> (string \<times> string) list \<Rightarrow> list_events_query option" where
  "dec_events_query E q = do { i \<leftarrow> qfld (uuid_parse E) ''device_id'' q; s \<leftarrow> qfld Some ''severity'' q;
     u \<leftarrow> qfld parse_bool ''unresolved'' q; l \<leftarrow> qfld parse_i64 ''limit'' q; f \<leftarrow> qfld parse_i64 ''offset'' q;
     Some \<lparr>le_device_id = i, le_severity = s, le_unresolved = u, le_limit = l, le_offset = f\<rparr> }"

end
