(* ===== verification/Server_Routes.thy ===== *)
theory Server_Routes
  imports Api_Wire Agent_Hub
begin

section \<open>The server's routes\<close>

text \<open>
  The route tables (\<^verbatim>\<open>main.rs\<close>, \<^verbatim>\<open>api/mod.rs\<close> and the \<^verbatim>\<open>router()\<close> of every module), what axum's
  extractors do in front of each handler, the audit layer (\<^verbatim>\<open>middleware/audit.rs\<close>) and one request
  from its arrival to its response (\<open>serve\<close>).  An extractor that rejects answers with a text; the
  order of the extractors is the order of the handler's arguments.
\<close>

subsection \<open>Requests\<close>

datatype http_method = GET | HEAD | POST | PATCH | PUT | DELETE | OPTIONS | Other_method string

fun method_text :: "http_method \<Rightarrow> string" where
  "method_text GET = ''GET''"
| "method_text HEAD = ''HEAD''"
| "method_text POST = ''POST''"
| "method_text PATCH = ''PATCH''"
| "method_text PUT = ''PUT''"
| "method_text DELETE = ''DELETE''"
| "method_text OPTIONS = ''OPTIONS''"
| "method_text (Other_method m) = m"

text \<open>The body as the \<^verbatim>\<open>Json\<close> extractor finds it: not declared as JSON, not JSON, or a value.\<close>

datatype http_body = Not_declared_json | Broken_json | Json_value json

record http_request =
  rq_method :: http_method
  rq_path :: string
  rq_query :: string
  rq_headers :: headers
  rq_body :: http_body
  rq_content_length :: "nat option"
  rq_peer :: "string option"

subsection \<open>The route tables\<close>

datatype auth_endpoint = Login | Refresh | Logout | Me | Mfa_setup | Mfa_verify

datatype enroll_endpoint = Create_enrollment_token | Enroll_device

datatype device_endpoint = List_devices | Get_device string | Update_device string | Delete_device string
  | Get_telemetry string | Request_inventory string | Request_telemetry string

datatype policy_endpoint = List_policies | Create_policy | Get_policy string | Update_policy_row string
  | Delete_policy string | Assign_policy string | Unassign_policy string

datatype job_endpoint = List_jobs | Create_job | Get_job string | Cancel_job string

datatype group_endpoint = List_groups | Create_group | Get_group string | Delete_group string
  | List_members string | Add_member string | Remove_member string string

datatype report_endpoint = Fleet_compliance | Device_compliance string

datatype patch_endpoint = Device_patch_status string | Fleet_patch_summary

datatype settings_endpoint = Get_settings | Server_status

datatype shell_endpoint = Open_shell_on string | Close_shell_of string | Send_shell_input string | Stream_shell string

datatype alert_endpoint = List_rules | Create_rule | Get_rule string | Update_rule string | Delete_rule string
  | List_events | Resolve_event string

datatype endpoint =
    Health | Ca_crt | Ca_fingerprint | Enroll_sh | Enroll_ps1 | Agent_ws
  | Auth_route auth_endpoint
  | Enroll_route enroll_endpoint
  | Device_route device_endpoint
  | Policy_route policy_endpoint
  | Job_route job_endpoint
  | Group_route group_endpoint
  | Software_route string
  | Patch_route patch_endpoint
  | Report_route report_endpoint
  | Settings_route settings_endpoint
  | Shell_route shell_endpoint
  | Alert_route alert_endpoint

text \<open>
  Each table maps the segments of a path below its mount point to its methods; a \<^verbatim>\<open>:name\<close> matches one
  segment that is not empty.
\<close>

definition auth_router :: "string list \<Rightarrow> (http_method \<times> auth_endpoint) list" where
  "auth_router p =
     (if p = [''login''] then [(POST, Login)]
      else if p = [''refresh''] then [(POST, Refresh)]
      else if p = [''logout''] then [(POST, Logout)]
      else if p = [''me''] then [(GET, Me)]
      else if p = [''mfa'', ''setup''] then [(POST, Mfa_setup)]
      else if p = [''mfa'', ''verify''] then [(POST, Mfa_verify)]
      else [])"

definition enroll_router :: "string list \<Rightarrow> (http_method \<times> enroll_endpoint) list" where
  "enroll_router p =
     (if p = [''token''] then [(POST, Create_enrollment_token)]
      else if p = [] then [(POST, Enroll_device)]
      else [])"

definition devices_router :: "string list \<Rightarrow> (http_method \<times> device_endpoint) list" where
  "devices_router p = (case p of
       [] \<Rightarrow> [(GET, List_devices)]
     | [i] \<Rightarrow> if i = [] then []
         else [(GET, Get_device i), (PATCH, Update_device i), (DELETE, Delete_device i)]
     | [i, a] \<Rightarrow> if i = [] then []
         else if a = ''telemetry'' then [(GET, Get_telemetry i)]
         else if a = ''request-inventory'' then [(POST, Request_inventory i)]
         else if a = ''request-telemetry'' then [(POST, Request_telemetry i)]
         else []
     | _ \<Rightarrow> [])"

definition policies_router :: "string list \<Rightarrow> (http_method \<times> policy_endpoint) list" where
  "policies_router p = (case p of
       [] \<Rightarrow> [(GET, List_policies), (POST, Create_policy)]
     | [i] \<Rightarrow> if i = [] then []
         else [(GET, Get_policy i), (PATCH, Update_policy_row i), (DELETE, Delete_policy i)]
     | [i, a] \<Rightarrow> if i = [] then []
         else if a = ''assign'' then [(POST, Assign_policy i)]
         else if a = ''unassign'' then [(POST, Unassign_policy i)]
         else []
     | _ \<Rightarrow> [])"

definition jobs_router :: "string list \<Rightarrow> (http_method \<times> job_endpoint) list" where
  "jobs_router p = (case p of
       [] \<Rightarrow> [(GET, List_jobs), (POST, Create_job)]
     | [i] \<Rightarrow> if i = [] then [] else [(GET, Get_job i)]
     | [i, a] \<Rightarrow> if i \<noteq> [] \<and> a = ''cancel'' then [(POST, Cancel_job i)] else []
     | _ \<Rightarrow> [])"

definition groups_router :: "string list \<Rightarrow> (http_method \<times> group_endpoint) list" where
  "groups_router p = (case p of
       [] \<Rightarrow> [(GET, List_groups), (POST, Create_group)]
     | [i] \<Rightarrow> if i = [] then [] else [(GET, Get_group i), (DELETE, Delete_group i)]
     | [i, a] \<Rightarrow> if i \<noteq> [] \<and> a = ''members'' then [(GET, List_members i), (POST, Add_member i)] else []
     | [i, a, d] \<Rightarrow> if i \<noteq> [] \<and> a = ''members'' \<and> d \<noteq> [] then [(DELETE, Remove_member i d)] else []
     | _ \<Rightarrow> [])"

definition software_router :: "string list \<Rightarrow> (http_method \<times> string) list" where
  "software_router p = (case p of
       [a, i] \<Rightarrow> if a = ''device'' \<and> i \<noteq> [] then [(GET, i)] else []
     | _ \<Rightarrow> [])"

definition patches_router :: "string list \<Rightarrow> (http_method \<times> patch_endpoint) list" where
  "patches_router p = (case p of
       [a] \<Rightarrow> if a = ''summary'' then [(GET, Fleet_patch_summary)] else []
     | [a, i] \<Rightarrow> if a = ''device'' \<and> i \<noteq> [] then [(GET, Device_patch_status i)] else []
     | _ \<Rightarrow> [])"

definition reports_router :: "string list \<Rightarrow> (http_method \<times> report_endpoint) list" where
  "reports_router p = (case p of
       [a] \<Rightarrow> if a = ''compliance'' then [(GET, Fleet_compliance)] else []
     | [a, i] \<Rightarrow> if a = ''compliance'' \<and> i \<noteq> [] then [(GET, Device_compliance i)] else []
     | _ \<Rightarrow> [])"

definition settings_router :: "string list \<Rightarrow> (http_method \<times> settings_endpoint) list" where
  "settings_router p =
     (if p = [] then [(GET, Get_settings)]
      else if p = [''status''] then [(GET, Server_status)]
      else [])"

definition shell_router :: "string list \<Rightarrow> (http_method \<times> shell_endpoint) list" where
  "shell_router p = (case p of
       [i] \<Rightarrow> if i = [] then [] else [(POST, Open_shell_on i)]
     | [i, a] \<Rightarrow> if i = [] then []
         else if a = ''close'' then [(DELETE, Close_shell_of i)]
         else if a = ''input'' then [(POST, Send_shell_input i)]
         else if a = ''stream'' then [(GET, Stream_shell i)]
         else []
     | _ \<Rightarrow> [])"

definition alerts_router :: "string list \<Rightarrow> (http_method \<times> alert_endpoint) list" where
  "alerts_router p = (case p of
       [a] \<Rightarrow> if a = ''rules'' then [(GET, List_rules), (POST, Create_rule)]
         else if a = ''events'' then [(GET, List_events)] else []
     | [a, i] \<Rightarrow> if a = ''rules'' \<and> i \<noteq> []
         then [(GET, Get_rule i), (PATCH, Update_rule i), (DELETE, Delete_rule i)] else []
     | [a, i, b] \<Rightarrow> if a = ''events'' \<and> i \<noteq> [] \<and> b = ''resolve'' then [(POST, Resolve_event i)] else []
     | _ \<Rightarrow> [])"

definition mounted :: "('a \<Rightarrow> endpoint) \<Rightarrow> (http_method \<times> 'a) list \<Rightarrow> (http_method \<times> endpoint) list" where
  "mounted f rs = map (\<lambda>(m, e). (m, f e)) rs"

definition api_router :: "string \<Rightarrow> string list \<Rightarrow> (http_method \<times> endpoint) list" where
  "api_router a p =
     (if a = ''auth'' then mounted Auth_route (auth_router p)
      else if a = ''enroll'' then mounted Enroll_route (enroll_router p)
      else if a = ''devices'' then mounted Device_route (devices_router p)
      else if a = ''policies'' then mounted Policy_route (policies_router p)
      else if a = ''jobs'' then mounted Job_route (jobs_router p)
      else if a = ''groups'' then mounted Group_route (groups_router p)
      else if a = ''software'' then mounted Software_route (software_router p)
      else if a = ''patches'' then mounted Patch_route (patches_router p)
      else if a = ''reports'' then mounted Report_route (reports_router p)
      else if a = ''settings'' then mounted Settings_route (settings_router p)
      else if a = ''shell'' then mounted Shell_route (shell_router p)
      else if a = ''alerts'' then mounted Alert_route (alerts_router p)
      else [])"

definition app_router :: "string list \<Rightarrow> (http_method \<times> endpoint) list" where
  "app_router p =
     (if p = [''health''] then [(GET, Health)]
      else if p = [''ca.crt''] then [(GET, Ca_crt)]
      else if p = [''ca.fingerprint''] then [(GET, Ca_fingerprint)]
      else if p = [''enroll.sh''] then [(GET, Enroll_sh)]
      else if p = [''enroll.ps1''] then [(GET, Enroll_ps1)]
      else if p = [''ws''] then [(GET, Agent_ws)]
      else case p of
        api # v1 # a # q \<Rightarrow> if api = ''api'' \<and> v1 = ''v1'' then api_router a q else []
      | _ \<Rightarrow> [])"

definition segments :: "string \<Rightarrow> string list" where
  "segments path = (case path of c # r \<Rightarrow> if c = CHR ''/'' then split_on CHR ''/'' r else [] | [] \<Rightarrow> [])"

text \<open>A path that is known, but not for this method, is 405; a GET route answers HEAD.\<close>

datatype routing = Found endpoint | Method_not_allowed | No_route

definition route :: "http_method \<Rightarrow> string \<Rightarrow> routing" where
  "route m path = (let rs = app_router (segments path) in
     if rs = [] then No_route
     else case map_of rs (if m = HEAD then GET else m) of
       Some e \<Rightarrow> Found e
     | None \<Rightarrow> Method_not_allowed)"

subsection \<open>Extractors\<close>

type_synonym served = "(app_state, http_response, http_response) action"

definition rejected :: "nat \<Rightarrow> http_response" where
  "rejected status = \<lparr>rs_status = status, rs_body = Rejection, rs_cookie = None\<rparr>"

definition api :: "ext \<Rightarrow> http_ext \<Rightarrow> 'a handler \<Rightarrow> (app_state, http_response, 'a) action" where
  "api E X m s = (case m s of (Inl e, t) \<Rightarrow> (Inl (into_response E X e), t) | (Inr x, t) \<Rightarrow> (Inr x, t))"

definition authed :: "ext \<Rightarrow> http_ext \<Rightarrow> http_request \<Rightarrow> (app_state, http_response, auth_user) action" where
  "authed E X rq = api E X (from_request_parts E (rq_headers rq))"

definition path_id :: "http_ext \<Rightarrow> string \<Rightarrow> (app_state, http_response, uuid) action" where
  "path_id X seg = ok_or (rejected 400) (path_uuid X seg)"

definition query_of ::
  "http_ext \<Rightarrow> http_request \<Rightarrow> ((string \<times> string) list \<Rightarrow> 'a option) \<Rightarrow> (app_state, http_response, 'a) action" where
  "query_of X rq dec = ok_or (rejected 400) (dec (query_pairs X (rq_query rq)))"

definition json_body :: "http_request \<Rightarrow> (json \<Rightarrow> 'a option) \<Rightarrow> (app_state, http_response, 'a) action" where
  "json_body rq dec = (case rq_body rq of
       Not_declared_json \<Rightarrow> raise (rejected 415)
     | Broken_json \<Rightarrow> raise (rejected 400)
     | Json_value v \<Rightarrow> ok_or (rejected 422) (dec v))"

definition answer :: "ext \<Rightarrow> http_ext \<Rightarrow> 'a handler \<Rightarrow> ('a \<Rightarrow> http_response) \<Rightarrow> served" where
  "answer E X m f = and_then (api E X m) (\<lambda>x. ret (f x))"

definition data_ok :: "('a \<Rightarrow> json) \<Rightarrow> 'a \<Rightarrow> http_response" where
  "data_ok enc x = data_response 200 (enc x)"

definition data_with :: "('a \<Rightarrow> json) \<Rightarrow> nat \<times> 'a \<Rightarrow> http_response" where
  "data_with enc r = data_response (fst r) (enc (snd r))"

definition with_cookie :: "string \<Rightarrow> http_response \<Rightarrow> http_response" where
  "with_cookie c r = r\<lparr>rs_cookie := Some c\<rparr>"

subsection \<open>The handlers behind the routes\<close>

fun auth_handler :: "ext \<Rightarrow> http_ext \<Rightarrow> http_request \<Rightarrow> auth_endpoint \<Rightarrow> served" where
  "auth_handler E X rq Login = and_then (json_body rq dec_login_request) (\<lambda>b.
     answer E X (login E b) (\<lambda>r. with_cookie (snd r) (data_ok enc_login_response (fst r))))"
| "auth_handler E X rq Refresh = answer E X (refresh E (rq_headers rq)) (data_ok enc_login_response)"
| "auth_handler E X rq Logout = answer E X (logout E (rq_headers rq))
     (\<lambda>c. with_cookie c (data_ok message_data ''Logged out successfully''))"
| "auth_handler E X rq Me = and_then (authed E X rq) (\<lambda>a. answer E X (me a) (data_ok (enc_user_info E X)))"
| "auth_handler E X rq Mfa_setup = and_then (authed E X rq) (\<lambda>a.
     answer E X (mfa_setup E a) (data_ok enc_mfa_setup))"
| "auth_handler E X rq Mfa_verify = and_then (authed E X rq) (\<lambda>a.
     and_then (json_body rq dec_mfa_verify) (\<lambda>code. answer E X (mfa_verify E a code) (data_ok message_data)))"

fun enroll_handler :: "ext \<Rightarrow> http_ext \<Rightarrow> http_request \<Rightarrow> enroll_endpoint \<Rightarrow> served" where
  "enroll_handler E X rq Create_enrollment_token = and_then (authed E X rq) (\<lambda>a.
     answer E X (create_enrollment_token E a) (data_with (enc_enrollment_token X)))"
| "enroll_handler E X rq Enroll_device = and_then (json_body rq dec_enroll_request) (\<lambda>b.
     answer E X (enroll_device E b) (data_with (enc_enroll_response E)))"

fun devices_handler :: "ext \<Rightarrow> http_ext \<Rightarrow> http_request \<Rightarrow> device_endpoint \<Rightarrow> served" where
  "devices_handler E X rq List_devices = and_then (authed E X rq) (\<lambda>a.
     answer E X (list_devices a) (data_ok (enc_list (enc_device E X))))"
| "devices_handler E X rq (Get_device i) = and_then (authed E X rq) (\<lambda>a. and_then (path_id X i) (\<lambda>u.
     answer E X (get_device a u) (data_ok (enc_device E X))))"
| "devices_handler E X rq (Update_device i) = and_then (authed E X rq) (\<lambda>a. and_then (path_id X i) (\<lambda>u.
     and_then (json_body rq dec_update_device) (\<lambda>h. answer E X (update_device a u h) (data_ok (enc_device E X)))))"
| "devices_handler E X rq (Delete_device i) = and_then (authed E X rq) (\<lambda>a. and_then (path_id X i) (\<lambda>u.
     answer E X (delete_device a u) (data_ok message_data)))"
| "devices_handler E X rq (Get_telemetry i) = and_then (authed E X rq) (\<lambda>a. and_then (path_id X i) (\<lambda>u.
     and_then (query_of X rq (dec_telemetry_query X)) (\<lambda>q.
       answer E X (get_telemetry a u (fst q) (snd q)) (data_ok (enc_list (enc_metric E X))))))"
| "devices_handler E X rq (Request_inventory i) = and_then (authed E X rq) (\<lambda>a. and_then (path_id X i) (\<lambda>u.
     answer E X (request_inventory a u) (data_ok message_data)))"
| "devices_handler E X rq (Request_telemetry i) = and_then (authed E X rq) (\<lambda>a. and_then (path_id X i) (\<lambda>u.
     answer E X (request_telemetry a u) (data_ok message_data)))"

fun policies_handler :: "ext \<Rightarrow> http_ext \<Rightarrow> http_request \<Rightarrow> policy_endpoint \<Rightarrow> served" where
  "policies_handler E X rq List_policies = and_then (authed E X rq) (\<lambda>a.
     answer E X (list_policies a) (data_ok (enc_list (enc_policy_row E X))))"
| "policies_handler E X rq Create_policy = and_then (authed E X rq) (\<lambda>a.
     and_then (json_body rq dec_create_policy) (\<lambda>(n, d, r).
       answer E X (create_policy a n d r) (data_with (enc_policy_row E X))))"
| "policies_handler E X rq (Get_policy i) = and_then (authed E X rq) (\<lambda>a. and_then (path_id X i) (\<lambda>u.
     answer E X (get_policy a u) (data_ok (enc_policy_row E X))))"
| "policies_handler E X rq (Update_policy_row i) = and_then (authed E X rq) (\<lambda>a. and_then (path_id X i) (\<lambda>u.
     and_then (json_body rq dec_update_policy_request) (\<lambda>b.
       answer E X (Policies_Api.update_policy a u b) (data_ok (enc_policy_row E X)))))"
| "policies_handler E X rq (Delete_policy i) = and_then (authed E X rq) (\<lambda>a. and_then (path_id X i) (\<lambda>u.
     answer E X (delete_policy a u) (data_ok message_data)))"
| "policies_handler E X rq (Assign_policy i) = and_then (authed E X rq) (\<lambda>a. and_then (path_id X i) (\<lambda>u.
     and_then (json_body rq (dec_assign E)) (\<lambda>(d, g). answer E X (assign_policy a u d g) (data_with message_data))))"
| "policies_handler E X rq (Unassign_policy i) = and_then (authed E X rq) (\<lambda>a. and_then (path_id X i) (\<lambda>u.
     and_then (json_body rq (dec_assign E)) (\<lambda>(d, g). answer E X (unassign_policy a u d g) (data_ok message_data))))"

fun jobs_handler :: "ext \<Rightarrow> http_ext \<Rightarrow> http_request \<Rightarrow> job_endpoint \<Rightarrow> served" where
  "jobs_handler E X rq List_jobs = and_then (authed E X rq) (\<lambda>a. and_then (query_of X rq (dec_jobs_query E)) (\<lambda>q.
     answer E X (list_jobs a q) (data_ok (enc_list (enc_job E X)))))"
| "jobs_handler E X rq Create_job = and_then (authed E X rq) (\<lambda>a. and_then (json_body rq (dec_create_job E)) (\<lambda>(d, p).
     answer E X (create_job E a d p) (data_with (enc_job E X))))"
| "jobs_handler E X rq (Get_job i) = and_then (authed E X rq) (\<lambda>a. and_then (path_id X i) (\<lambda>u.
     answer E X (get_job a u) (data_ok (enc_job_detail E X))))"
| "jobs_handler E X rq (Cancel_job i) = and_then (authed E X rq) (\<lambda>a. and_then (path_id X i) (\<lambda>u.
     answer E X (cancel_job a u) (data_ok message_data)))"

fun groups_handler :: "ext \<Rightarrow> http_ext \<Rightarrow> http_request \<Rightarrow> group_endpoint \<Rightarrow> served" where
  "groups_handler E X rq List_groups = and_then (authed E X rq) (\<lambda>a.
     answer E X (list_groups E a) (data_ok (enc_list (enc_group E X))))"
| "groups_handler E X rq Create_group = and_then (authed E X rq) (\<lambda>a. and_then (json_body rq dec_create_group) (\<lambda>(n, d).
     answer E X (create_group a n d) (data_with (enc_group E X))))"
| "groups_handler E X rq (Get_group i) = and_then (authed E X rq) (\<lambda>a. and_then (path_id X i) (\<lambda>u.
     answer E X (get_group a u) (data_ok (enc_group E X))))"
| "groups_handler E X rq (Delete_group i) = and_then (authed E X rq) (\<lambda>a. and_then (path_id X i) (\<lambda>u.
     answer E X (delete_group a u) (data_ok message_data)))"
| "groups_handler E X rq (List_members i) = and_then (authed E X rq) (\<lambda>a. and_then (path_id X i) (\<lambda>u.
     answer E X (list_members E a u) (data_ok (enc_list (enc_member E)))))"
| "groups_handler E X rq (Add_member i) = and_then (authed E X rq) (\<lambda>a. and_then (path_id X i) (\<lambda>u.
     and_then (json_body rq (dec_add_member E)) (\<lambda>d. answer E X (add_member a u d) (data_with message_data))))"
| "groups_handler E X rq (Remove_member i j) = and_then (authed E X rq) (\<lambda>a. and_then (path_id X i) (\<lambda>u.
     and_then (path_id X j) (\<lambda>d. answer E X (remove_member a u d) (data_ok message_data))))"

fun alerts_handler :: "ext \<Rightarrow> http_ext \<Rightarrow> http_request \<Rightarrow> alert_endpoint \<Rightarrow> served" where
  "alerts_handler E X rq List_rules = and_then (authed E X rq) (\<lambda>a.
     answer E X (list_rules a) (data_ok (enc_list (enc_alert_rule E X))))"
| "alerts_handler E X rq Create_rule = and_then (authed E X rq) (\<lambda>a. and_then (json_body rq dec_create_rule) (\<lambda>b.
     answer E X (create_rule a b) (data_with (enc_alert_rule E X))))"
| "alerts_handler E X rq (Get_rule i) = and_then (authed E X rq) (\<lambda>a. and_then (path_id X i) (\<lambda>u.
     answer E X (get_rule a u) (data_ok (enc_alert_rule E X))))"
| "alerts_handler E X rq (Update_rule i) = and_then (authed E X rq) (\<lambda>a. and_then (path_id X i) (\<lambda>u.
     and_then (json_body rq dec_update_rule) (\<lambda>b. answer E X (update_rule a u b) (data_ok (enc_alert_rule E X)))))"
| "alerts_handler E X rq (Delete_rule i) = and_then (authed E X rq) (\<lambda>a. and_then (path_id X i) (\<lambda>u.
     answer E X (delete_rule a u) (data_ok message_data)))"
| "alerts_handler E X rq List_events = and_then (authed E X rq) (\<lambda>a. and_then (query_of X rq (dec_events_query E)) (\<lambda>q.
     answer E X (list_events a q) (data_ok (enc_list (enc_alert_event E X)))))"
| "alerts_handler E X rq (Resolve_event i) = and_then (authed E X rq) (\<lambda>a. and_then (path_id X i) (\<lambda>u.
     answer E X (resolve_event a u) (data_ok message_data)))"

fun patches_handler :: "ext \<Rightarrow> http_ext \<Rightarrow> http_request \<Rightarrow> patch_endpoint \<Rightarrow> served" where
  "patches_handler E X rq (Device_patch_status i) = and_then (authed E X rq) (\<lambda>a. and_then (path_id X i) (\<lambda>u.
     answer E X (device_patch_status a u) (data_ok (enc_patch_status E X))))"
| "patches_handler E X rq Fleet_patch_summary = and_then (authed E X rq) (\<lambda>a.
     answer E X (fleet_patch_summary a) (data_ok enc_patch_summary))"

fun reports_handler :: "ext \<Rightarrow> http_ext \<Rightarrow> http_request \<Rightarrow> report_endpoint \<Rightarrow> served" where
  "reports_handler E X rq Fleet_compliance = and_then (authed E X rq) (\<lambda>a.
     answer E X (fleet_compliance a) (data_ok (enc_fleet_report E X)))"
| "reports_handler E X rq (Device_compliance i) = and_then (authed E X rq) (\<lambda>a. and_then (path_id X i) (\<lambda>u.
     answer E X (device_compliance a u) (data_ok (enc_device_report E X))))"

fun settings_handler :: "ext \<Rightarrow> http_ext \<Rightarrow> http_request \<Rightarrow> settings_endpoint \<Rightarrow> served" where
  "settings_handler E X rq Get_settings = and_then (authed E X rq) (\<lambda>a.
     answer E X (get_settings a) (data_ok enc_settings))"
| "settings_handler E X rq Server_status = and_then (authed E X rq) (\<lambda>a.
     answer E X (server_status a) (data_ok enc_status))"

fun shell_handler :: "ext \<Rightarrow> http_ext \<Rightarrow> http_request \<Rightarrow> shell_endpoint \<Rightarrow> served" where
  "shell_handler E X rq (Open_shell_on i) = and_then (authed E X rq) (\<lambda>a. and_then (path_id X i) (\<lambda>u.
     answer E X (open_shell a u) (data_ok (enc_shell_opened E))))"
| "shell_handler E X rq (Close_shell_of i) = and_then (authed E X rq) (\<lambda>a. and_then (path_id X i) (\<lambda>u.
     answer E X (close_shell a u) (data_ok status_data)))"
| "shell_handler E X rq (Send_shell_input i) = and_then (authed E X rq) (\<lambda>a. and_then (path_id X i) (\<lambda>u.
     and_then (json_body rq dec_shell_input) (\<lambda>d. answer E X (Shell_Api.send_input a u d) (data_ok status_data))))"
| "shell_handler E X rq (Stream_shell i) = and_then (authed E X rq) (\<lambda>a. and_then (path_id X i) (\<lambda>u.
     answer E X (stream_shell a u) (\<lambda>_. \<lparr>rs_status = 200, rs_body = Event_stream, rs_cookie = None\<rparr>)))"

subsection \<open>The pages outside the API\<close>

definition text_response :: "nat \<Rightarrow> string \<Rightarrow> http_response" where
  "text_response status text = \<lparr>rs_status = status, rs_body = Text_content text, rs_cookie = None\<rparr>"

definition health_handler :: http_response where
  "health_handler = data_response 200 (JObj [(''status'', JStr ''ok''), (''version'', JStr server_version)])"

definition ca_crt_handler :: "app_state \<Rightarrow> http_response" where
  "ca_crt_handler s = (case ca_of s of
       Some c \<Rightarrow> text_response 200 (ca_cert_pem c)
     | None \<Rightarrow> text_response 404 ''CA not initialized'')"

definition ca_fp_handler :: "http_ext \<Rightarrow> app_state \<Rightarrow> http_response" where
  "ca_fp_handler X s = text_response 200 (case Option.bind (ca_of s) (ca_fingerprint X) of
       Some fp \<Rightarrow> fp
     | None \<Rightarrow> ''unavailable'')"

definition text_lines :: "string list \<Rightarrow> string" where
  "text_lines ls = concat (map (\<lambda>l. l @ [CHR 0x0A]) ls)"

definition enroll_sh :: "string \<Rightarrow> string" where
  "enroll_sh server = text_lines [''#!/bin/sh'', ''set -eu'',
     ''SERVER=\"${OSFM_SERVER:-'' @ server @ ''}\"'',
     ''FINGERPRINT=\"${OSFM_CA_FINGERPRINT:-}\"'',
     ''TOKEN=\"\"'',
     ''while [ $# -gt 0 ]; do'',
     ''  case \"$1\" in'',
     ''    --token) TOKEN=\"$2\"; shift 2 ;;'',
     ''    --server) SERVER=\"$2\"; shift 2 ;;'',
     ''    --ca-fingerprint) FINGERPRINT=\"$2\"; shift 2 ;;'',
     ''    *) echo \"unknown arg: $1\" >&2; exit 2 ;;'',
     ''  esac'',
     ''done'',
     ''if [ -z \"$TOKEN\" ] || [ -z \"$FINGERPRINT\" ]; then'',
     ''  echo \"usage: enroll.sh --token <token> --ca-fingerprint <hex-from-server-log> [--server URL]\" >&2'',
     ''  echo \"The fingerprint must come from the server console (CA SHA-256), not from this script.\" >&2'',
     ''  exit 2'',
     ''fi'',
     ''if ! command -v osfm-edm-agent >/dev/null 2>&1; then'',
     ''  echo \"osfm-edm-agent not on PATH. Build it: cargo install --path crates/osfm-edm-agent\" >&2'',
     ''  exit 1'',
     ''fi'',
     ''exec osfm-edm-agent --server \"$SERVER\" --token \"$TOKEN\" --ca-fingerprint \"$FINGERPRINT\"'']"

definition enroll_ps1 :: "string \<Rightarrow> string" where
  "enroll_ps1 server = text_lines [
     ''param([Parameter(Mandatory=$true)][string]$Token, [string]$Server = \"'' @ server
       @ ''\", [Parameter(Mandatory=$true)][string]$CaFingerprint)'',
     ''$agent = Get-Command osfm-edm-agent -ErrorAction SilentlyContinue'',
     ''if (-not $agent) { throw \"osfm-edm-agent not on PATH\" }'',
     ''& osfm-edm-agent --server $Server --token $Token --ca-fingerprint $CaFingerprint'']"

definition ws_answer :: "ext \<Rightarrow> http_ext \<Rightarrow> http_request \<Rightarrow> served" where
  "ws_answer E X rq = (case upgrade_refused X (rq_headers rq) of
       Some status \<Rightarrow> raise (rejected status)
     | None \<Rightarrow> and_then (query_of X rq (dec_ws_params E)) (\<lambda>i.
         answer E X (authenticate_agent E i (rq_headers rq)) (\<lambda>ok.
           if ok then \<lparr>rs_status = 101, rs_body = Upgrade, rs_cookie = None\<rparr>
           else text_response 401 ''invalid or missing device token'')))"

fun run_endpoint :: "ext \<Rightarrow> http_ext \<Rightarrow> http_request \<Rightarrow> endpoint \<Rightarrow> served" where
  "run_endpoint E X rq Health = ret health_handler"
| "run_endpoint E X rq Ca_crt = gets ca_crt_handler"
| "run_endpoint E X rq Ca_fingerprint = gets (ca_fp_handler X)"
| "run_endpoint E X rq Enroll_sh = gets (\<lambda>s. text_response 200 (enroll_sh (server_url (cfg s))))"
| "run_endpoint E X rq Enroll_ps1 = gets (\<lambda>s. text_response 200 (enroll_ps1 (server_url (cfg s))))"
| "run_endpoint E X rq Agent_ws = ws_answer E X rq"
| "run_endpoint E X rq (Auth_route e) = auth_handler E X rq e"
| "run_endpoint E X rq (Enroll_route e) = enroll_handler E X rq e"
| "run_endpoint E X rq (Device_route e) = devices_handler E X rq e"
| "run_endpoint E X rq (Policy_route e) = policies_handler E X rq e"
| "run_endpoint E X rq (Job_route e) = jobs_handler E X rq e"
| "run_endpoint E X rq (Group_route e) = groups_handler E X rq e"
| "run_endpoint E X rq (Software_route i) = and_then (authed E X rq) (\<lambda>a. and_then (path_id X i) (\<lambda>u.
     answer E X (list_device_software E a u) (data_ok (enc_list (enc_software_row E)))))"
| "run_endpoint E X rq (Patch_route e) = patches_handler E X rq e"
| "run_endpoint E X rq (Report_route e) = reports_handler E X rq e"
| "run_endpoint E X rq (Settings_route e) = settings_handler E X rq e"
| "run_endpoint E X rq (Shell_route e) = shell_handler E X rq e"
| "run_endpoint E X rq (Alert_route e) = alerts_handler E X rq e"

definition routed :: "ext \<Rightarrow> http_ext \<Rightarrow> http_request \<Rightarrow> app_state \<Rightarrow> http_response \<times> app_state" where
  "routed E X rq s = (case route (rq_method rq) (rq_path rq) of
       No_route \<Rightarrow> (rejected 404, s)
     | Method_not_allowed \<Rightarrow> (rejected 405, s)
     | Found e \<Rightarrow> (case run_endpoint E X rq e s of (Inl r, t) \<Rightarrow> (r, t) | (Inr r, t) \<Rightarrow> (r, t)))"

subsection \<open>The layers around the router\<close>

definition BODY_LIMIT :: nat where
  "BODY_LIMIT = 1024 * 1024"

definition too_long :: "http_request \<Rightarrow> bool" where
  "too_long rq \<longleftrightarrow> (case rq_content_length rq of None \<Rightarrow> False | Some n \<Rightarrow> BODY_LIMIT < n)"

definition limited :: "ext \<Rightarrow> http_ext \<Rightarrow> http_request \<Rightarrow> app_state \<Rightarrow> http_response \<times> app_state" where
  "limited E X rq s = (if too_long rq then (rejected 413, s) else routed E X rq s)"

definition extract_user_id_from_request :: "ext \<Rightarrow> headers \<Rightarrow> app_state \<Rightarrow> uuid option" where
  "extract_user_id_from_request E h s = (case h ''Authorization'' of
       Some (Visible v) \<Rightarrow>
         if \<not> starts_with ''Bearer '' v then None
         else (case jwt_decode E (jwt_secret (cfg s)) (wall_ms s) (drop 7 v) of
             Inl _ \<Rightarrow> None
           | Inr c \<Rightarrow> Some (cl_sub c))
     | _ \<Rightarrow> None)"

definition should_audit :: "http_method \<Rightarrow> bool" where
  "should_audit m \<longleftrightarrow> m \<in> {POST, PATCH, PUT, DELETE}"

definition audit_entry :: "uuid option \<Rightarrow> http_request \<Rightarrow> nat \<Rightarrow> audit_row" where
  "audit_entry user rq status = \<lparr>al_user_id = user, al_action = method_text (rq_method rq) @ '' '' @ rq_path rq,
     al_detail = JObj [(''status'', enc_nat status)], al_ip_address = rq_peer rq\<rparr>"

text \<open>The insertion runs in a task of its own; the foreign key to the users is a constraint of the table.\<close>

definition write_audit :: "audit_row \<Rightarrow> unit handler" where
  "write_audit r = ignore (perform_if
     (\<lambda>d. case al_user_id r of None \<Rightarrow> True | Some u \<Rightarrow> exists_where (\<lambda>x. u_id x = u) (users d))
     ''audit_log'' (\<lambda>d. ((), d\<lparr>audit_log := audit_log d @ [r]\<rparr>)))"

definition audit_layer ::
  "ext \<Rightarrow> (http_request \<Rightarrow> app_state \<Rightarrow> http_response \<times> app_state) \<Rightarrow> http_request \<Rightarrow> app_state
     \<Rightarrow> http_response \<times> app_state" where
  "audit_layer E next_layer rq s =
     (let user = extract_user_id_from_request E (rq_headers rq) s; (r, t) = next_layer rq s
      in if should_audit (rq_method rq)
         then (r, snd (write_audit (audit_entry user rq (rs_status r)) t)) else (r, t))"

text \<open>A request from its arrival to its response; OPTIONS is answered by the CORS layer.\<close>

definition serve :: "ext \<Rightarrow> http_ext \<Rightarrow> http_request \<Rightarrow> app_state \<Rightarrow> http_response \<times> app_state" where
  "serve E X rq s = (if rq_method rq = OPTIONS then (rejected 200, s)
     else audit_layer E (limited E X) rq s)"

end
