(* ===== verification/Server_Access.thy ===== *)
theory Server_Access
  imports Server_Routes
begin

section \<open>Who can change what through the API\<close>

text \<open>
  Two properties of the whole API at once: without an administrator's token no request changes the
  state, apart from the endpoints of the caller's own session and of enrollment; and every request
  that may change it leaves exactly one entry in the audit log, which nothing else writes.  Both are
  proved once per handler with the rules of \<open>keeps\<close>, for the invariants \<open>same\<close> and \<open>trail\<close>.
\<close>

subsection \<open>Extractors and answers\<close>

lemma keeps_api [keeps_intro]: "keeps I m \<Longrightarrow> keeps I (api E X m)"
  by (fastforce simp: keeps_def api_def split: prod.splits sum.splits)

lemma keeps_path_id [keeps_intro]: "keeps I (path_id X i)"
  unfolding path_id_def by (rule keeps_ok_or)

lemma keeps_query_of [keeps_intro]: "keeps I (query_of X rq dec)"
  unfolding query_of_def by (rule keeps_ok_or)

lemma keeps_json_body [keeps_intro]: "keeps I (json_body rq dec)"
  by (cases "rq_body rq") (simp_all add: json_body_def keeps_raise keeps_ok_or)

lemma keeps_answer [keeps_intro]: "keeps I m \<Longrightarrow> keeps I (answer E X m f)"
  unfolding answer_def by (intro keeps_intro)

subsection \<open>Reading and being refused\<close>

definition same :: "app_state \<Rightarrow> app_state \<Rightarrow> bool" where
  "same s t \<longleftrightarrow> (\<exists>fs. t = s\<lparr>faults := fs\<rparr>)"

lemma same_refl [simp]: "same s s"
  unfolding same_def by (rule exI [of _ "faults s"]) simp

lemma same_db: "same s t \<Longrightarrow> db t = db s"
  by (auto simp: same_def)

lemma keeps_same_select [keeps_intro]: "keeps (same s) (select f)"
  by (auto simp: keeps_def same_def select_def exec_def Let_def)

lemma keeps_same_perform_if:
  assumes "\<And>d. snd (f d) = d"
  shows "keeps (same s) (perform_if p c f)"
proof -
  have "f d = (fst (f d), d)" for d using assms [of d] by (metis prod.collapse)
  then have "perform_if p c f = exec (\<lambda>d. if p d then Inr (fst (f d), d) else Inl (ConstraintViolation c))"
    unfolding perform_if_def by presburger
  then show ?thesis by (auto simp: keeps_def same_def exec_def Let_def)
qed

lemma not_admin: "\<not> is_admin a \<Longrightarrow> \<exists>e. and_then (require_admin a) k = raise e"
  by (auto simp: require_admin_def)

lemma keeps_not_admin [keeps_intro]: "\<not> is_admin a \<Longrightarrow> keeps I (and_then (require_admin a) k)"
  using not_admin [of a k] by (auto intro: keeps_raise)

lemma keeps_same_auth [keeps_intro]: "keeps (same s) (from_request_parts E h)"
  unfolding from_request_parts_def by (intro keeps_intro)

lemma keeps_same_authenticate [keeps_intro]: "keeps (same s) (authenticate_agent E i h)"
  unfolding authenticate_agent_def by (intro keeps_intro)

lemmas reading_defs = me_def list_devices_def get_device_def get_telemetry_def list_groups_def get_group_def
  list_members_def list_policies_def get_policy_def list_jobs_def get_job_def list_rules_def get_rule_def
  fleet_compliance_def device_compliance_def device_patch_status_def
  fleet_patch_summary_def list_device_software_def get_settings_def server_status_def stream_shell_def
  authorize_session_def

lemma list_events_same [keeps_intro]: "keeps (same s) (list_events a q)"
  unfolding list_events_def Let_def by (intro keeps_intro keeps_same_perform_if) simp

lemma reads_same [keeps_intro]:
  "keeps (same s) (me a)" "keeps (same s) (list_devices a)" "keeps (same s) (get_device a u)"
  "keeps (same s) (get_telemetry a u f t)" "keeps (same s) (list_groups E a)" "keeps (same s) (get_group a u)"
  "keeps (same s) (list_members E a u)" "keeps (same s) (list_policies a)" "keeps (same s) (get_policy a u)"
  "keeps (same s) (list_jobs a jq)" "keeps (same s) (get_job a u)" "keeps (same s) (list_rules a)"
  "keeps (same s) (get_rule a u)" "keeps (same s) (fleet_compliance a)"
  "keeps (same s) (device_compliance a u)" "keeps (same s) (device_patch_status a u)"
  "keeps (same s) (fleet_patch_summary a)" "keeps (same s) (list_device_software E a u)"
  "keeps (same s) (get_settings a)" "keeps (same s) (server_status a)" "keeps (same s) (stream_shell a u)"
  unfolding reading_defs Let_def by (intro keeps_intro)+

lemmas admin_defs = create_enrollment_token_def update_device_def delete_device_def request_inventory_def
  request_telemetry_def create_policy_def Policies_Api.update_policy_def delete_policy_def assign_policy_def
  unassign_policy_def create_job_def cancel_job_def create_group_def delete_group_def add_member_def
  remove_member_def create_rule_def update_rule_def delete_rule_def resolve_event_def open_shell_def

text \<open>Every handler that changes something for an administrator refuses anybody else first.\<close>

lemma refuses [keeps_intro]:
  assumes "\<not> is_admin a"
  shows "keeps I (create_enrollment_token E a)" "keeps I (update_device a u h)" "keeps I (delete_device a u)"
    "keeps I (request_inventory a u)" "keeps I (request_telemetry a u)" "keeps I (create_policy a n d r)"
    "keeps I (Policies_Api.update_policy a u b)" "keeps I (delete_policy a u)" "keeps I (assign_policy a u v g)"
    "keeps I (unassign_policy a u v g)" "keeps I (create_job E a u p)" "keeps I (cancel_job a u)"
    "keeps I (create_group a n d)" "keeps I (delete_group a u)" "keeps I (add_member a u m)"
    "keeps I (remove_member a u m)" "keeps I (create_rule a cq)" "keeps I (update_rule a u uq)"
    "keeps I (delete_rule a u)" "keeps I (resolve_event a u)" "keeps I (open_shell a u)"
  unfolding admin_defs by (intro keeps_not_admin assms)+

text \<open>The endpoints a caller may change something with who is no administrator.\<close>

fun own_session :: "endpoint \<Rightarrow> bool" where
  "own_session (Auth_route e) = (e \<noteq> Me)"
| "own_session (Enroll_route e) = (e = Enroll_device)"
| "own_session (Shell_route (Close_shell_of _)) = True"
| "own_session (Shell_route (Send_shell_input _)) = True"
| "own_session e = False"

lemma viewer_authed:
  assumes "\<And>a t. from_request_parts E (rq_headers rq) s = (Inr a, t) \<Longrightarrow> \<not> is_admin a"
    and "\<And>a. \<not> is_admin a \<Longrightarrow> keeps (same s) (k a)"
  shows "same s (snd (and_then (authed E X rq) k s))"
proof (cases "from_request_parts E (rq_headers rq) s")
  case (Pair r t)
  have t: "same s t" using keepsD [OF keeps_same_auth same_refl, of s E "rq_headers rq"] Pair by simp
  show ?thesis
  proof (cases r)
    case (Inl e)
    with Pair t show ?thesis by (simp add: authed_def api_def and_then_def)
  next
    case (Inr a)
    with Pair assms have "keeps (same s) (k a)" by blast
    with t Inr Pair show ?thesis by (simp add: authed_def api_def and_then_def keepsD)
  qed
qed

lemma viewer_endpoint:
  assumes "\<And>a t. from_request_parts E (rq_headers rq) s = (Inr a, t) \<Longrightarrow> \<not> is_admin a"
    and "\<not> own_session e"
  shows "same s (snd (run_endpoint E X rq e s))"
proof (cases e)
  case (Auth_route x)
  with assms(2) show ?thesis by (auto intro!: viewer_authed [OF assms(1)] intro: keeps_intro)
next
  case (Enroll_route x)
  with assms(2) show ?thesis by (cases x) (auto intro!: viewer_authed [OF assms(1)] intro: keeps_intro)
next
  case (Device_route x)
  then show ?thesis by (cases x) (auto intro!: viewer_authed [OF assms(1)] intro: keeps_intro)
next
  case (Policy_route x)
  then show ?thesis by (cases x) (auto intro!: viewer_authed [OF assms(1)] keeps_case_prod intro: keeps_intro)
next
  case (Job_route x)
  then show ?thesis by (cases x) (auto intro!: viewer_authed [OF assms(1)] keeps_case_prod intro: keeps_intro)
next
  case (Group_route x)
  then show ?thesis by (cases x) (auto intro!: viewer_authed [OF assms(1)] keeps_case_prod intro: keeps_intro)
next
  case (Software_route x)
  then show ?thesis by (auto intro!: viewer_authed [OF assms(1)] intro: keeps_intro)
next
  case (Patch_route x)
  then show ?thesis by (cases x) (auto intro!: viewer_authed [OF assms(1)] intro: keeps_intro)
next
  case (Report_route x)
  then show ?thesis by (cases x) (auto intro!: viewer_authed [OF assms(1)] intro: keeps_intro)
next
  case (Settings_route x)
  then show ?thesis by (cases x) (auto intro!: viewer_authed [OF assms(1)] intro: keeps_intro)
next
  case (Shell_route x)
  with assms(2) show ?thesis by (cases x) (auto intro!: viewer_authed [OF assms(1)] intro: keeps_intro)
next
  case (Alert_route x)
  then show ?thesis by (cases x) (auto intro!: viewer_authed [OF assms(1)] intro: keeps_intro)
next
  case Agent_ws
  have "keeps (same s) (ws_answer E X rq)" unfolding ws_answer_def by (intro keeps_intro)
  then show ?thesis using Agent_ws by (simp add: keepsD)
qed (simp_all add: gets_def)

subsection \<open>Requests that need an administrator are refused\<close>

fun needs_admin :: "endpoint \<Rightarrow> bool" where
  "needs_admin (Enroll_route e) = (e = Create_enrollment_token)"
| "needs_admin (Device_route e) = (case e of Update_device _ \<Rightarrow> True | Delete_device _ \<Rightarrow> True
     | Request_inventory _ \<Rightarrow> True | Request_telemetry _ \<Rightarrow> True | _ \<Rightarrow> False)"
| "needs_admin (Policy_route e) = (case e of List_policies \<Rightarrow> False | Get_policy _ \<Rightarrow> False | _ \<Rightarrow> True)"
| "needs_admin (Job_route e) = (case e of Create_job \<Rightarrow> True | Cancel_job _ \<Rightarrow> True | _ \<Rightarrow> False)"
| "needs_admin (Group_route e) = (case e of List_groups \<Rightarrow> False | Get_group _ \<Rightarrow> False
     | List_members _ \<Rightarrow> False | _ \<Rightarrow> True)"
| "needs_admin (Shell_route e) = (case e of Open_shell_on _ \<Rightarrow> True | _ \<Rightarrow> False)"
| "needs_admin (Alert_route e) = (case e of List_rules \<Rightarrow> False | Get_rule _ \<Rightarrow> False
     | List_events \<Rightarrow> False | _ \<Rightarrow> True)"
| "needs_admin e = False"

definition errs :: "(app_state, http_response, 'a) action \<Rightarrow> bool" where
  "errs m \<longleftrightarrow> (\<forall>s r t. m s = (Inl r, t) \<longrightarrow> 400 \<le> rs_status r)"

definition fails :: "(app_state, http_response, 'a) action \<Rightarrow> app_state \<Rightarrow> bool" where
  "fails m s \<longleftrightarrow> (\<exists>r t. m s = (Inl r, t) \<and> 400 \<le> rs_status r)"

definition refusing :: "(app_state, http_response, 'a) action \<Rightarrow> bool" where
  "refusing m \<longleftrightarrow> (\<forall>s. fails m s)"

lemma status_400: "400 \<le> status_code e"
  by (cases e) simp_all

lemma errs_rules:
  "errs (api E X m)" "errs (path_id X i)" "errs (query_of X rq dec)" "errs (json_body rq dec')"
proof -
  show "errs (api E X m)"
    by (auto simp: errs_def api_def into_response_def status_400 split: prod.splits sum.splits)
  show "errs (path_id X i)" "errs (query_of X rq dec)"
    by (auto simp: errs_def path_id_def query_of_def ok_or_def rejected_def ret_def raise_def split: option.splits)
  show "errs (json_body rq dec')"
    by (auto simp: errs_def json_body_def ok_or_def rejected_def ret_def raise_def
      split: option.splits http_body.splits)
qed

lemma refusing_then: "errs m \<Longrightarrow> (\<And>x. refusing (k x)) \<Longrightarrow> refusing (and_then m k)"
  unfolding refusing_def fails_def errs_def and_then_def by (fastforce split: prod.splits sum.splits)

lemma refusing_case_prod: "(\<And>x y. refusing (f x y)) \<Longrightarrow> refusing (case v of (x, y) \<Rightarrow> f x y)"
  by (cases v) simp

lemma refusing_answer: "\<exists>e. m = raise e \<Longrightarrow> refusing (answer E X m f)"
  by (auto simp: refusing_def fails_def answer_def api_def and_then_def raise_def into_response_def status_400)

lemma is_refused:
  assumes "\<not> is_admin a"
  shows "\<exists>e. create_enrollment_token E a = raise e" "\<exists>e. update_device a u h = raise e"
    "\<exists>e. delete_device a u = raise e" "\<exists>e. request_inventory a u = raise e" "\<exists>e. request_telemetry a u = raise e"
    "\<exists>e. create_policy a n d r = raise e" "\<exists>e. Policies_Api.update_policy a u b = raise e"
    "\<exists>e. delete_policy a u = raise e" "\<exists>e. assign_policy a u v g = raise e" "\<exists>e. unassign_policy a u v g = raise e"
    "\<exists>e. create_job E a u p = raise e" "\<exists>e. cancel_job a u = raise e" "\<exists>e. create_group a n d = raise e"
    "\<exists>e. delete_group a u = raise e" "\<exists>e. add_member a u m = raise e" "\<exists>e. remove_member a u m = raise e"
    "\<exists>e. create_rule a cq = raise e" "\<exists>e. update_rule a u uq = raise e" "\<exists>e. delete_rule a u = raise e"
    "\<exists>e. resolve_event a u = raise e" "\<exists>e. open_shell a u = raise e"
  unfolding admin_defs by (rule not_admin [OF assms])+

lemmas refusing_rules = errs_rules refusing_then refusing_case_prod refusing_answer

lemma needs_admin_refuses:
  assumes "\<And>a t. from_request_parts E (rq_headers rq) s = (Inr a, t) \<Longrightarrow> \<not> is_admin a" and "needs_admin e"
  shows "fails (run_endpoint E X rq e) s"
proof -
  have authed: "fails (and_then (authed E X rq) k) s"
    if "\<And>a. \<not> is_admin a \<Longrightarrow> refusing (k a)" for k :: "auth_user \<Rightarrow> served"
  proof (cases "from_request_parts E (rq_headers rq) s")
    case (Pair r t)
    show ?thesis
    proof (cases r)
      case (Inl e)
      with Pair show ?thesis by (simp add: fails_def authed_def api_def and_then_def into_response_def status_400)
    next
      case (Inr a)
      with Pair assms(1) that have "refusing (k a)" by blast
      with Inr Pair show ?thesis by (simp add: fails_def authed_def api_def and_then_def refusing_def)
    qed
  qed
  show ?thesis
  proof (cases e)
    case (Enroll_route x)
    with assms(2) show ?thesis by (auto intro!: authed refusing_rules is_refused)
  next
    case (Device_route x)
    with assms(2) show ?thesis by (cases x) (auto intro!: authed refusing_rules is_refused)
  next
    case (Policy_route x)
    with assms(2) show ?thesis by (cases x) (auto intro!: authed refusing_rules is_refused)
  next
    case (Job_route x)
    with assms(2) show ?thesis by (cases x) (auto intro!: authed refusing_rules is_refused)
  next
    case (Group_route x)
    with assms(2) show ?thesis by (cases x) (auto intro!: authed refusing_rules is_refused)
  next
    case (Shell_route x)
    with assms(2) show ?thesis by (cases x) (auto intro!: authed refusing_rules is_refused)
  next
    case (Alert_route x)
    with assms(2) show ?thesis by (cases x) (auto intro!: authed refusing_rules is_refused)
  qed (use assms(2) in simp_all)
qed

subsection \<open>The audit log\<close>

text \<open>No handler writes the audit log, and none removes a user.\<close>

definition trail :: "audit_row list \<times> uuid list \<Rightarrow> app_state \<Rightarrow> bool" where
  "trail x s \<longleftrightarrow> faults s = [] \<and> (audit_log (db s), map u_id (users (db s))) = x"

named_theorems trail_intro

definition leaves :: "(db \<Rightarrow> db) \<Rightarrow> bool" where
  "leaves f \<longleftrightarrow> (\<forall>d. audit_log (f d) = audit_log d \<and> map u_id (users (f d)) = map u_id (users d))"

lemma trail_select [trail_intro]: "keeps (trail x) (select f)"
  by (auto simp: keeps_def trail_def select_def exec_def Let_def)

lemma trail_perform [trail_intro]: "leaves f \<Longrightarrow> keeps (trail x) (perform f)"
  by (auto simp: keeps_def trail_def perform_def exec_def Let_def leaves_def)

lemma trail_perform_if [trail_intro]: "leaves (\<lambda>d. snd (f d)) \<Longrightarrow> keeps (trail x) (perform_if p c f)"
  by (auto simp: keeps_def trail_def perform_if_def exec_def Let_def leaves_def case_prod_beta
    split: sum.splits if_splits)

lemma trail_fresh [trail_intro]: "keeps (trail x) fresh_uuid"
  by (simp add: keeps_def trail_def fresh_uuid_def)

lemma trail_send [trail_intro]: "keeps (trail x) (send_to_agent i m)"
  by (simp add: keeps_def trail_def)

lemma trail_modify [trail_intro]:
  "(\<And>s. db (f s) = db s \<and> faults (f s) = faults s) \<Longrightarrow> keeps (trail x) (modify f)"
  by (simp add: keeps_def trail_def modify_def)

lemma trail_users: "map u_id (upd_where p f rows) = map u_id rows" if "\<And>u. u_id (f u) = u_id u"
  using that by (rule map_upd_where)

lemmas trail_defs = login_def refresh_def logout_def mfa_setup_def mfa_verify_def check_totp_def
  check_second_factor_def issue_access_token_def insert_refresh_token_def from_request_parts_def
  enroll_device_def insert_device_def insert_certificate_def push_to_agent_def set_policy_def
  set_policy_rules_def push_policy_to_agents_def insert_job_def set_job_def set_rule_def set_some_def
  Shell_Api.send_input_def close_shell_def set_broadcast_def set_session_def require_admin_def
  authenticate_agent_def

lemma trail_count_attempt [trail_intro]: "keeps (trail x) (count_attempt n)"
  by (auto simp: keeps_def trail_def count_attempt_def Let_def split: prod.splits)

lemma trail_read [trail_intro]:
  "keeps (trail x) (me a)" "keeps (trail x) (list_devices a)" "keeps (trail x) (get_device a u)"
  "keeps (trail x) (get_telemetry a u f t)" "keeps (trail x) (list_groups E a)" "keeps (trail x) (get_group a u)"
  "keeps (trail x) (list_members E a u)" "keeps (trail x) (list_policies a)" "keeps (trail x) (get_policy a u)"
  "keeps (trail x) (list_jobs a jq)" "keeps (trail x) (get_job a u)" "keeps (trail x) (list_rules a)"
  "keeps (trail x) (get_rule a u)" "keeps (trail x) (fleet_compliance a)"
  "keeps (trail x) (device_compliance a u)" "keeps (trail x) (device_patch_status a u)"
  "keeps (trail x) (fleet_patch_summary a)" "keeps (trail x) (list_device_software E a u)"
  "keeps (trail x) (get_settings a)" "keeps (trail x) (server_status a)" "keeps (trail x) (stream_shell a u)"
  unfolding reading_defs Let_def by (intro keeps_intro trail_intro)+

lemma trail_list_events [trail_intro]: "keeps (trail x) (list_events a q)"
  unfolding list_events_def Let_def by (intro keeps_intro trail_intro) (simp add: leaves_def)

lemma trail_session [trail_intro]:
  "keeps (trail x) (login E b)" "keeps (trail x) (refresh E h)" "keeps (trail x) (logout E h)"
  "keeps (trail x) (mfa_setup E a)" "keeps (trail x) (mfa_verify E a c)" "keeps (trail x) (from_request_parts E h)"
  "keeps (trail x) (authenticate_agent E i h)"
  unfolding trail_defs Let_def
  by (intro keeps_intro trail_intro; simp add: leaves_def trail_users)+

lemma trail_enroll [trail_intro]: "keeps (trail x) (enroll_device E b)"
  unfolding enroll_device_def insert_device_def insert_certificate_def Let_def
  by (intro keeps_intro trail_intro; simp add: leaves_def)

lemma trail_set_rows [trail_intro]:
  "keeps (trail x) (set_policy u pf)" "keeps (trail x) (set_policy_rules u r)" "keeps (trail x) (set_job u jf)"
  "keeps (trail x) (set_rule u rf)" "keeps (trail x) (insert_job u p c)" "keeps (trail x) (push_policy_to_agents u)"
  unfolding set_policy_def set_policy_rules_def set_job_def set_rule_def insert_job_def
    push_policy_to_agents_def Let_def
  by (intro keeps_intro trail_intro; simp add: leaves_def)+

lemma trail_set_some [trail_intro]: "(\<And>y. keeps (trail x) (f y)) \<Longrightarrow> keeps (trail x) (set_some v f)"
  unfolding set_some_def by (intro keeps_intro)

lemma trail_require [trail_intro]: "keeps (trail x) (require_admin a)"
  unfolding require_admin_def by (intro keeps_intro)

lemma trail_fetch_one [trail_intro]: "keeps (trail x) (fetch_one f)"
  unfolding fetch_one_def by (intro keeps_intro trail_intro)

lemma trail_change [trail_intro]:
  "keeps (trail x) (create_enrollment_token E a)" "keeps (trail x) (update_device a u h)"
  "keeps (trail x) (delete_device a u)" "keeps (trail x) (request_inventory a u)"
  "keeps (trail x) (request_telemetry a u)" "keeps (trail x) (create_policy a n d r)"
  "keeps (trail x) (delete_policy a u)" "keeps (trail x) (assign_policy a u v g)"
  "keeps (trail x) (unassign_policy a u v g)" "keeps (trail x) (create_job E a u p)"
  "keeps (trail x) (cancel_job a u)" "keeps (trail x) (create_group a n d)" "keeps (trail x) (delete_group a u)"
  "keeps (trail x) (add_member a u m)" "keeps (trail x) (remove_member a u m)" "keeps (trail x) (create_rule a cq)"
  "keeps (trail x) (delete_rule a u)" "keeps (trail x) (resolve_event a u)" "keeps (trail x) (open_shell a u)"
  unfolding create_enrollment_token_def update_device_def delete_device_def request_inventory_def
    request_telemetry_def push_to_agent_def create_policy_def delete_policy_def assign_policy_def unassign_policy_def
    create_job_def cancel_job_def create_group_def delete_group_def add_member_def remove_member_def
    create_rule_def delete_rule_def resolve_event_def open_shell_def set_broadcast_def set_session_def Let_def
  by (intro keeps_intro trail_intro; simp add: leaves_def delete_policy_rows_def delete_group_rows_def
    delete_rule_rows_def insert_member_def insert_assignment_def disconnect_agent_def split: prod.splits)+

lemma trail_update [trail_intro]:
  "keeps (trail x) (Policies_Api.update_policy a u b)" "keeps (trail x) (update_rule a u uq)"
  "keeps (trail x) (Shell_Api.send_input a u d)" "keeps (trail x) (close_shell a u)"
  unfolding Policies_Api.update_policy_def update_rule_def Shell_Api.send_input_def close_shell_def
    authorize_session_def set_session_def Let_def
  by (intro keeps_intro trail_intro; simp add: leaves_def)+

lemma trail_endpoint: "keeps (trail x) (run_endpoint E X rq e)"
proof -
  have authed: "keeps (trail x) (authed E X rq)"
    unfolding authed_def by (intro keeps_intro trail_intro)
  note rules = authed trail_intro keeps_intro
  show ?thesis
  proof (cases e)
    case (Auth_route y)
    then show ?thesis by (cases y) (auto intro!: rules)
  next
    case (Enroll_route y)
    then show ?thesis by (cases y) (auto intro!: rules)
  next
    case (Device_route y)
    then show ?thesis by (cases y) (auto intro!: rules)
  next
    case (Policy_route y)
    then show ?thesis by (cases y) (auto intro!: rules)
  next
    case (Job_route y)
    then show ?thesis by (cases y) (auto intro!: rules)
  next
    case (Group_route y)
    then show ?thesis by (cases y) (auto intro!: rules)
  next
    case (Patch_route y)
    then show ?thesis by (cases y) (auto intro!: rules)
  next
    case (Report_route y)
    then show ?thesis by (cases y) (auto intro!: rules)
  next
    case (Settings_route y)
    then show ?thesis by (cases y) (auto intro!: rules)
  next
    case (Shell_route y)
    then show ?thesis by (cases y) (auto intro!: rules)
  next
    case (Alert_route y)
    then show ?thesis by (cases y) (auto intro!: rules)
  next
    case Agent_ws
    then show ?thesis by (auto simp: ws_answer_def intro!: rules)
  qed (auto intro!: rules)
qed

subsection \<open>The two properties of the API\<close>

text \<open>A state, but for the faults and the audit log.\<close>

definition without_log :: "app_state \<Rightarrow> app_state" where
  "without_log s = s\<lparr>faults := [], db := (db s)\<lparr>audit_log := []\<rparr>\<rparr>"

lemma same_without_log: "same s t \<Longrightarrow> without_log t = without_log s"
  by (auto simp: same_def without_log_def)

lemma write_audit_without_log [simp]: "without_log (snd (write_audit r t)) = without_log t"
  by (cases "al_user_id r")
    (simp_all add: without_log_def write_audit_def ignore_def perform_if_def exec_def Let_def)

lemma limited_cases:
  obtains (refused) st where "400 \<le> st" "limited E X rq s = (rejected st, s)"
  | (found) e where "route (rq_method rq) (rq_path rq) = Found e"
      "limited E X rq s = (case run_endpoint E X rq e s of (Inl r, t) \<Rightarrow> (r, t) | (Inr r, t) \<Rightarrow> (r, t))"
proof (cases "too_long rq")
  case True
  then show ?thesis using refused [of 413] by (simp add: limited_def)
next
  case False
  then show ?thesis
    using found refused [of 404] refused [of 405]
    by (cases "route (rq_method rq) (rq_path rq)") (simp_all add: limited_def routed_def)
qed



subsection \<open>A request\<close>

text \<open>
  The deletion of the enrolled device, with the token of a given user; the viewer's token claims the
  role of an administrator, the row of the user does not.
\<close>

definition some_http :: http_ext where
  "some_http = \<lparr>time_text = (\<lambda>t. show_int t), time_parse = (\<lambda>_. None), flt_text = (\<lambda>_. ''f''),
     flt1_text = (\<lambda>_. ''f''), sql_text = (\<lambda>_. ''error''), path_uuid = (\<lambda>s. Some (of_nat (length s + 6))),
     query_pairs = (\<lambda>_. []), ca_fingerprint = (\<lambda>_. None), upgrade_refused = (\<lambda>_. None)\<rparr>"

definition delete_by :: "string \<Rightarrow> http_request" where
  "delete_by token = \<lparr>rq_method = DELETE, rq_path = ''/api/v1/devices/7'', rq_query = [],
     rq_headers = [''Authorization'' \<mapsto> Visible (''Bearer '' @ token)], rq_body = Not_declared_json,
     rq_content_length = None, rq_peer = Some ''10.0.0.1''\<rparr>"

lemma segments_delete: "segments ''/api/v1/devices/7'' = [''api'', ''v1'', ''devices'', ''7'']"
  by code_simp

lemma route_delete: "route (rq_method (delete_by t)) (rq_path (delete_by t)) = Found (Device_route (Delete_device ''7''))"
  by (simp add: delete_by_def route_def segments_delete app_router_def api_router_def devices_router_def
    mounted_def Let_def)

lemma and_then_lift_Inr: "and_then (lift_result (Inr x)) k s = k x s"
  by (simp add: and_then_def lift_result_def)

lemma delete_by_eve: "from_request_parts no_ext (rq_headers (delete_by ''eve'')) some_state =
    (Inr \<lparr>au_user_id = 2, au_username = ''eve'', au_role = ''viewer''\<rparr>, some_state)"
  by (simp add: delete_by_def from_request_parts_def extract_bearer_token_def starts_with_def action_simps
    and_then_lift_Inr user_by_id_def sample_defs)



end
