(* ===== verification/Server_Answers.thy ===== *)
theory Server_Answers
  imports Server_Access
begin

section \<open>The type of what the API answers\<close>

text \<open>
  Every JSON body the server sends has one of the two shapes of \<^verbatim>\<open>ApiResponse\<close> (error.rs), and the status fits:
  data and a null error under 200 or 201, or null data and an error with a code and a message under the status
  of that code.  \<open>gives\<close> states what the result of a handler satisfies, \<open>raises\<close> what its early returns do.
\<close>

subsection \<open>The two shapes\<close>

text \<open>The status that belongs to the code of an error body.\<close>

fun status_of_code :: "string \<Rightarrow> nat option" where
  "status_of_code c = map_of [(''NOT_FOUND'', 404), (''BAD_REQUEST'', 400), (''UNAUTHORIZED'', 401),
     (''FORBIDDEN'', 403), (''CONFLICT'', 409), (''RATE_LIMITED'', 429), (''INTERNAL_ERROR'', 500),
     (''DATABASE_ERROR'', 500), (''INVALID_JSON'', 400), (''INVALID_TOKEN'', 401)] c"

fun error_body :: "nat \<Rightarrow> json \<Rightarrow> bool" where
  "error_body status (JObj [(k, JStr c), (l, JStr m)]) =
     (k = ''code'' \<and> l = ''message'' \<and> status_of_code c = Some status)"
| "error_body _ _ = False"

fun api_body :: "nat \<Rightarrow> json \<Rightarrow> bool" where
  "api_body status (JObj [(k, d), (l, e)]) = (k = ''data'' \<and> l = ''error'' \<and>
     (if status < 400 then status \<in> {200, 201} \<and> d \<noteq> JNull \<and> e = JNull else d = JNull \<and> error_body status e))"
| "api_body _ _ = False"

text \<open>An event stream starts with 200 and a WebSocket with 101; texts are answered by the pages outside the API.\<close>

definition typed :: "http_response \<Rightarrow> bool" where
  "typed r = (case rs_body r of
       Json_content v \<Rightarrow> api_body (rs_status r) v
     | Text_content _ \<Rightarrow> rs_status r \<in> {200, 401, 404}
     | Event_stream \<Rightarrow> rs_status r = 200
     | Upgrade \<Rightarrow> rs_status r = 101
     | Rejection \<Rightarrow> True)"

lemma code_fits: "status_of_code (error_code e) = Some (status_code e)"
  by (cases e) simp_all

lemma typed_error: "typed (into_response E X e)"
proof -
  have "error_body (status_code e) (JObj [(''code'', JStr (error_code e)), (''message'', JStr (error_text E X e))])"
    by (simp only: error_body.simps code_fits simp_thms)
  with status_400 [of e] show ?thesis by (simp add: typed_def into_response_def envelope_def)
qed

lemma typed_rejected [simp]: "typed (rejected n)"
  by (simp add: typed_def rejected_def)

lemma typed_data: "n \<in> {200, 201} \<Longrightarrow> d \<noteq> JNull \<Longrightarrow> typed (data_response n d)"
  by (auto simp: typed_def data_response_def envelope_def)

lemma typed_cookie [simp]: "typed (with_cookie c r) = typed r"
  by (simp add: typed_def with_cookie_def split: content.split)

subsection \<open>Rules for the actions\<close>

definition gives :: "('a \<Rightarrow> bool) \<Rightarrow> ('s, 'e, 'a) action \<Rightarrow> bool" where
  "gives P m \<longleftrightarrow> (\<forall>s x t. m s = (Inr x, t) \<longrightarrow> P x)"

definition raises :: "('e \<Rightarrow> bool) \<Rightarrow> ('s, 'e, 'a) action \<Rightarrow> bool" where
  "raises P m \<longleftrightarrow> (\<forall>s e t. m s = (Inl e, t) \<longrightarrow> P e)"

named_theorems gives_intro

lemma gives_ret [gives_intro]: "P x \<Longrightarrow> gives P (ret x)"
  by (simp add: gives_def ret_def)

lemma gives_raise [gives_intro]: "gives P (raise e)"
  by (simp add: gives_def raise_def)

lemma gives_and_then [gives_intro]: "(\<And>x. gives P (k x)) \<Longrightarrow> gives P (and_then m k)"
  unfolding gives_def and_then_def by (auto split: prod.splits sum.splits)

lemma gives_if [gives_intro]: "gives P m \<Longrightarrow> gives P n \<Longrightarrow> gives P (if c then m else n)"
  by simp

lemma gives_option [gives_intro]: "gives P m \<Longrightarrow> (\<And>x. gives P (k x)) \<Longrightarrow> gives P (case v of None \<Rightarrow> m | Some x \<Rightarrow> k x)"
  by (cases v) simp_all

lemma gives_sum [gives_intro]:
  "(\<And>x. gives P (f x)) \<Longrightarrow> (\<And>x. gives P (g x)) \<Longrightarrow> gives P (case v of Inl x \<Rightarrow> f x | Inr x \<Rightarrow> g x)"
  by (cases v) simp_all

lemma gives_prod [gives_intro]: "(\<And>x y. gives P (f x y)) \<Longrightarrow> gives P (case v of (x, y) \<Rightarrow> f x y)"
  by (cases v) simp

lemma raises_and_then: "raises P m \<Longrightarrow> (\<And>x. raises P (k x)) \<Longrightarrow> raises P (and_then m k)"
  unfolding raises_def and_then_def by (fastforce split: prod.splits sum.splits)

lemma raises_prod: "(\<And>x y. raises P (f x y)) \<Longrightarrow> raises P (case v of (x, y) \<Rightarrow> f x y)"
  by (cases v) simp

text \<open>What is answered either way is typed.\<close>

definition answers :: "served \<Rightarrow> bool" where
  "answers m \<longleftrightarrow> gives typed m \<and> raises typed m"

lemma api_typed [simp]: "raises typed (api E X m)"
  by (auto simp: raises_def api_def typed_error split: prod.splits sum.splits)

lemma refusals_typed [simp]:
  "raises typed (path_id X i)" "raises typed (query_of X rq dec)"
  "raises typed (json_body rq dec')" "raises typed (authed E X rq)"
proof -
  show "raises typed (authed E X rq)" by (simp add: authed_def)
  show "raises typed (path_id X i)" "raises typed (query_of X rq dec)"
    by (auto simp: raises_def path_id_def query_of_def ok_or_def ret_def raise_def split: option.splits)
  show "raises typed (json_body rq dec')"
    by (auto simp: raises_def json_body_def ok_or_def ret_def raise_def split: option.splits http_body.splits)
qed

lemma answers_then: "raises typed m \<Longrightarrow> (\<And>x. answers (k x)) \<Longrightarrow> answers (and_then m k)"
  by (simp add: answers_def gives_and_then raises_and_then)

lemma answers_prod: "(\<And>x y. answers (f x y)) \<Longrightarrow> answers (case v of (x, y) \<Rightarrow> f x y)"
  by (cases v) simp

lemma answers_answer:
  assumes "gives (\<lambda>x. typed (f x)) m"
  shows "answers (answer E X m f)"
proof -
  have "gives (\<lambda>x. typed (f x)) (api E X m)"
    using assms by (auto simp: gives_def api_def split: prod.splits sum.splits)
  then show ?thesis
    by (auto simp: answers_def answer_def gives_def raises_def and_then_def ret_def api_def typed_error
      split: prod.splits sum.splits)
qed

lemma answers_data:
  assumes "\<And>x. enc x \<noteq> JNull"
  shows "answers (answer E X m (data_ok enc))"
  by (rule answers_answer) (simp add: gives_def data_ok_def typed_data assms)

lemma answers_data_with:
  assumes "\<And>x. enc x \<noteq> JNull" and "gives (\<lambda>r. fst r = 201) m"
  shows "answers (answer E X m (data_with enc))"
proof (rule answers_answer)
  have "typed (data_with enc r)" if "fst r = 201" for r
    using that by (simp add: data_with_def typed_data assms(1))
  with assms(2) show "gives (\<lambda>r. typed (data_with enc r)) m" unfolding gives_def by blast
qed

subsection \<open>The handlers\<close>

text \<open>The handlers that answer with a status of their own create something.\<close>

lemma creates [gives_intro]:
  "gives (\<lambda>r. fst r = 201) (create_enrollment_token E a)" "gives (\<lambda>r. fst r = 201) (enroll_device E eb)"
  "gives (\<lambda>r. fst r = 201) (create_group a n d)" "gives (\<lambda>r. fst r = 201) (add_member a u v)"
  "gives (\<lambda>r. fst r = 201) (create_job E a u p)" "gives (\<lambda>r. fst r = 201) (create_policy a n d rs)"
  "gives (\<lambda>r. fst r = 201) (assign_policy a u x y)" "gives (\<lambda>r. fst r = 201) (create_rule a cq)"
  unfolding create_enrollment_token_def enroll_device_def create_group_def add_member_def create_job_def
    create_policy_def assign_policy_def create_rule_def Let_def
  by (intro gives_intro; simp)+

lemma not_null [simp]:
  "enc_login_response l \<noteq> JNull" "enc_user_info E X ui \<noteq> JNull" "enc_mfa_setup ms \<noteq> JNull" "message_data m \<noteq> JNull"
  "status_data m \<noteq> JNull" "enc_enrollment_token X et \<noteq> JNull" "enc_enroll_response E er \<noteq> JNull"
  "enc_list enc xs \<noteq> JNull" "enc_device E X d \<noteq> JNull" "enc_policy_row E X pr \<noteq> JNull" "enc_job E X j \<noteq> JNull"
  "enc_job_detail E X jd \<noteq> JNull" "enc_group E X g \<noteq> JNull" "enc_alert_rule E X ar \<noteq> JNull"
  "enc_patch_status E X ps \<noteq> JNull" "enc_patch_summary pm \<noteq> JNull" "enc_fleet_report E X fr \<noteq> JNull"
  "enc_device_report E X dr \<noteq> JNull" "enc_settings st \<noteq> JNull" "enc_status ss \<noteq> JNull" "enc_shell_opened E so \<noteq> JNull"
  by (simp_all add: enc_login_response_def enc_user_info_def enc_mfa_setup_def message_data_def status_data_def
    enc_enrollment_token_def enc_enroll_response_def enc_list_def enc_device_def enc_policy_row_def enc_job_def
    enc_job_detail_def enc_group_def enc_alert_rule_def enc_patch_status_def enc_patch_summary_def enc_fleet_report_def
    enc_device_report_def enc_settings_def enc_status_def enc_shell_opened_def split: prod.split)

lemmas answers_rules = answers_then answers_prod answers_data answers_data_with not_null api_typed refusals_typed creates

lemma auth_answers: "answers (auth_handler E X rq e)"
proof (cases e)
  case Login
  then show ?thesis
    by (auto intro!: answers_then answers_answer simp: gives_def data_ok_def typed_data)
next
  case Logout
  then show ?thesis by (auto intro!: answers_answer simp: gives_def data_ok_def typed_data)
qed (auto intro!: answers_rules)

lemma stream_answers: "answers (shell_handler E X rq (Stream_shell i))"
  by (auto intro!: answers_then answers_answer simp: gives_def typed_def)

lemma ws_answers: "answers (ws_answer E X rq)"
proof -
  have "answers (and_then (query_of X rq (dec_ws_params E)) (\<lambda>i. answer E X (authenticate_agent E i (rq_headers rq))
      (\<lambda>ok. if ok then \<lparr>rs_status = 101, rs_body = Upgrade, rs_cookie = None\<rparr>
         else text_response 401 ''invalid or missing device token'')))"
    by (auto intro!: answers_then answers_answer simp: gives_def typed_def text_response_def)
  then show ?thesis
    by (auto simp: ws_answer_def answers_def gives_def raises_def raise_def split: option.splits)
qed

lemma endpoint_answers: "answers (run_endpoint E X rq e)"
proof -
  have health: "typed health_handler" by (simp add: health_handler_def typed_data)
  have pages: "answers (ret health_handler)" "answers (gets ca_crt_handler)" "answers (gets (ca_fp_handler X))"
    "answers (gets (\<lambda>s. text_response 200 (f s)))" for f
    by (auto simp: answers_def gives_def raises_def ret_def gets_def health) (auto simp: typed_def
      ca_crt_handler_def ca_fp_handler_def text_response_def split: option.splits)
  show ?thesis
  proof (cases e)
    case (Enroll_route x) then show ?thesis by (cases x) (auto intro!: answers_rules)
  next
    case (Device_route x) then show ?thesis by (cases x) (auto intro!: answers_rules)
  next
    case (Policy_route x) then show ?thesis by (cases x) (auto intro!: answers_rules)
  next
    case (Job_route x) then show ?thesis by (cases x) (auto intro!: answers_rules)
  next
    case (Group_route x) then show ?thesis by (cases x) (auto intro!: answers_rules)
  next
    case (Software_route x) then show ?thesis by (auto intro!: answers_rules)
  next
    case (Patch_route x) then show ?thesis by (cases x) (auto intro!: answers_rules)
  next
    case (Report_route x) then show ?thesis by (cases x) (auto intro!: answers_rules)
  next
    case (Settings_route x) then show ?thesis by (cases x) (auto intro!: answers_rules)
  next
    case (Shell_route x)
    then show ?thesis by (cases x) (auto intro!: answers_rules stream_answers simp del: shell_handler.simps(4))
  next
    case (Alert_route x) then show ?thesis by (cases x) (auto intro!: answers_rules)
  qed (simp_all add: pages ws_answers auth_answers)
qed

text \<open>
  C15.  Whatever request arrives in whatever state, a JSON answer is an envelope of the API: data that is not null
  under 200 or 201, or an error with a message and a code that determines the status; anything else is the text of a
  page outside the API, an opened stream, an accepted WebSocket or a rejection of the framework.
\<close>

theorem every_answer_is_typed: "typed (fst (serve E X rq s))"
proof -
  have "typed (fst (routed E X rq t))" for t
    using endpoint_answers [of E X rq]
    by (fastforce simp: routed_def answers_def gives_def raises_def split: routing.splits prod.splits sum.splits)
  then have "typed (fst (limited E X rq s))" by (simp add: limited_def)
  then show ?thesis
    by (auto simp: serve_def audit_layer_def Let_def split: prod.splits)
qed

end
