(* ===== verification/Server_Keys.thy ===== *)
theory Server_Keys
  imports Server_State
begin

section \<open>The server's key files\<close>

text \<open>
  \<^verbatim>\<open>services/pki.rs\<close> and the key file of \<^verbatim>\<open>services/signing.rs\<close>: the CA, the certificates it issues and the
  signing key, loaded from the data directory or created there.  \<open>key_store\<close> is the directory tree: a file
  is its bytes; \<open>ks_private\<close> are the files only the owner may read, \<open>ks_outcomes\<close> says how each coming
  operation on files ends (no entry: it works; a write that is cut leaves its first bytes), \<open>ks_drawn\<close>
  counts the keys drawn.  \<^verbatim>\<open>rcgen\<close>, \<^verbatim>\<open>rustls_pemfile\<close>, Ed25519 and the UTF-8 check are the record \<open>keygen\<close>.
\<close>

subsection \<open>Files\<close>

datatype io_outcome = Works | Refused | Cut nat

record key_store =
  ks_files :: "string \<Rightarrow> string option"
  ks_private :: "string \<Rightarrow> bool"
  ks_outcomes :: "io_outcome list"
  ks_drawn :: nat

datatype pki_error = Pki_io | Pki_rcgen

datatype signing_error = Signing_io | Invalid_key string

type_synonym ('e, 'a) key_action = "(key_store, 'e, 'a) action"

definition next_outcome :: "key_store \<Rightarrow> io_outcome" where
  "next_outcome k = (case ks_outcomes k of [] \<Rightarrow> Works | f # _ \<Rightarrow> f)"

definition used :: "key_store \<Rightarrow> key_store" where
  "used k = k\<lparr>ks_outcomes := tl (ks_outcomes k)\<rparr>"

definition path_exists :: "string \<Rightarrow> ('e, bool) key_action" where
  "path_exists p k = (Inr (next_outcome k = Works \<and> ks_files k p \<noteq> None), used k)"

definition read_bytes :: "'e \<Rightarrow> string \<Rightarrow> ('e, string) key_action" where
  "read_bytes e p k = (if next_outcome k = Works
     then (case ks_files k p of Some c \<Rightarrow> (Inr c, used k) | None \<Rightarrow> (Inl e, used k))
     else (Inl e, used k))"

definition write_file :: "'e \<Rightarrow> string \<Rightarrow> string \<Rightarrow> ('e, unit) key_action" where
  "write_file e p c k = (case next_outcome k of
       Works \<Rightarrow> (Inr (), (used k)\<lparr>ks_files := (ks_files k)(p \<mapsto> c)\<rparr>)
     | Refused \<Rightarrow> (Inl e, used k)
     | Cut n \<Rightarrow> (Inl e, (used k)\<lparr>ks_files := (ks_files k)(p \<mapsto> take n c)\<rparr>))"

definition create_dir_all :: "'e \<Rightarrow> ('e, unit) key_action" where
  "create_dir_all e k = (if next_outcome k = Works then Inr () else Inl e, used k)"

text \<open>A failure to restrict the permissions is only logged.\<close>

definition restrict_permissions :: "string \<Rightarrow> ('e, unit) key_action" where
  "restrict_permissions p k = (Inr (), if next_outcome k = Works
     then (used k)\<lparr>ks_private := (ks_private k)(p := True)\<rparr> else used k)"

definition in_dir :: "string \<Rightarrow> string \<Rightarrow> string" where
  "in_dir dir name = dir @ ''/'' @ name"

subsection \<open>Certificates\<close>

datatype san = Dns_name string | Ip_address string

record cert_spec =
  cs_common_name :: string
  cs_organization :: "string option"
  cs_is_ca :: bool
  cs_key_usages :: "string list"
  cs_extended_usages :: "string list"
  cs_sans :: "san list"

text \<open>
  \<open>key_pem\<close>: the n-th key pair drawn; \<open>self_signed\<close>, \<open>signed_by\<close>: the certificate of a key; \<open>issuer_ok\<close>:
  the CA's key and certificate parse; \<open>first_der\<close>: the first certificate in a PEM text;
  \<open>ed_new\<close>, \<open>ed_public\<close>: the n-th signing key drawn and the public key of one.
\<close>

record keygen =
  key_pem :: "nat \<Rightarrow> string option"
  self_signed :: "cert_spec \<Rightarrow> string \<Rightarrow> string option"
  signed_by :: "cert_spec \<Rightarrow> string \<Rightarrow> ca \<Rightarrow> string option"
  issuer_ok :: "ca \<Rightarrow> bool"
  ip_ok :: "string \<Rightarrow> bool"
  dns_ok :: "string \<Rightarrow> bool"
  first_der :: "string \<Rightarrow> string option"
  utf8_ok :: "string \<Rightarrow> bool"
  ed_new :: "nat \<Rightarrow> u8 list"
  ed_public :: "u8 list \<Rightarrow> u8 list"

definition read_to_string :: "keygen \<Rightarrow> 'e \<Rightarrow> string \<Rightarrow> ('e, string) key_action" where
  "read_to_string G e p = and_then (read_bytes e p) (\<lambda>c. and_then (guard (utf8_ok G c) e) (\<lambda>_. ret c))"

definition new_key :: "keygen \<Rightarrow> (pki_error, string) key_action" where
  "new_key G = and_then (gets ks_drawn) (\<lambda>n. and_then (modify (\<lambda>k. k\<lparr>ks_drawn := Suc (ks_drawn k)\<rparr>)) (\<lambda>_.
     ok_or Pki_rcgen (key_pem G n)))"

definition ca_spec :: cert_spec where
  "ca_spec = \<lparr>cs_common_name = ''OSFM-EDM Internal CA'', cs_organization = Some ''OSFM-EDM'', cs_is_ca = True,
     cs_key_usages = [''KeyCertSign'', ''CrlSign''], cs_extended_usages = [], cs_sans = []\<rparr>"

definition load_or_create_ca :: "keygen \<Rightarrow> string \<Rightarrow> (pki_error, ca) key_action" where
  "load_or_create_ca G dir = (let cert_path = in_dir dir ''ca.crt''; key_path = in_dir dir ''ca.key'' in
     and_then (path_exists cert_path) (\<lambda>a. and_then (if a then path_exists key_path else ret False) (\<lambda>b.
     if b then
       and_then (read_to_string G Pki_io cert_path) (\<lambda>c. and_then (read_to_string G Pki_io key_path) (\<lambda>y.
       ret \<lparr>ca_cert_pem = c, ca_key_pem = y\<rparr>))
     else
       and_then (create_dir_all Pki_io) (\<lambda>_.
       and_then (new_key G) (\<lambda>y.
       and_then (ok_or Pki_rcgen (self_signed G ca_spec y)) (\<lambda>c.
       and_then (write_file Pki_io cert_path c) (\<lambda>_.
       and_then (write_file Pki_io key_path y) (\<lambda>_.
       and_then (restrict_permissions key_path) (\<lambda>_.
       ret \<lparr>ca_cert_pem = c, ca_key_pem = y\<rparr>)))))))))"

text \<open>\<open>id_text\<close> is the text of the device's UUID.\<close>

definition device_spec :: "string \<Rightarrow> cert_spec" where
  "device_spec id_text = \<lparr>cs_common_name = ''device:'' @ id_text, cs_organization = Some ''OSFM-EDM Device'',
     cs_is_ca = False, cs_key_usages = [], cs_extended_usages = [], cs_sans = [Dns_name (''device:'' @ id_text)]\<rparr>"

definition issue_device_cert :: "keygen \<Rightarrow> ca \<Rightarrow> string \<Rightarrow> (pki_error, string \<times> string) key_action" where
  "issue_device_cert G c id_text =
     and_then (guard (dns_ok G (''device:'' @ id_text)) Pki_rcgen) (\<lambda>_.
     and_then (new_key G) (\<lambda>y.
     and_then (guard (issuer_ok G c) Pki_rcgen) (\<lambda>_.
     and_then (ok_or Pki_rcgen (signed_by G (device_spec id_text) y c)) (\<lambda>p.
     ret (p, y)))))"

fun sans_of :: "keygen \<Rightarrow> string list \<Rightarrow> san list" where
  "sans_of G [] = []"
| "sans_of G (h # hs) =
     (if ip_ok G h then Ip_address h # sans_of G hs
      else if dns_ok G h then Dns_name h # sans_of G hs
      else sans_of G hs)"

definition server_spec :: "keygen \<Rightarrow> string list \<Rightarrow> cert_spec" where
  "server_spec G hosts = \<lparr>cs_common_name = (case hosts of h # _ \<Rightarrow> h | [] \<Rightarrow> ''localhost''),
     cs_organization = None, cs_is_ca = False, cs_key_usages = [''DigitalSignature''],
     cs_extended_usages = [''ServerAuth''], cs_sans = sans_of G hosts\<rparr>"

definition issue_server_cert :: "keygen \<Rightarrow> ca \<Rightarrow> string list \<Rightarrow> (pki_error, string \<times> string) key_action" where
  "issue_server_cert G c hosts =
     and_then (new_key G) (\<lambda>y.
     and_then (guard (issuer_ok G c) Pki_rcgen) (\<lambda>_.
     and_then (ok_or Pki_rcgen (signed_by G (server_spec G hosts) y c)) (\<lambda>p.
     ret (p, y))))"

definition fingerprint_der_pem :: "keygen \<Rightarrow> (string \<Rightarrow> string) \<Rightarrow> string \<Rightarrow> string" where
  "fingerprint_der_pem G sha pem = sha (case first_der G pem of Some d \<Rightarrow> d | None \<Rightarrow> pem)"

definition load_or_create_server_material ::
  "keygen \<Rightarrow> string \<Rightarrow> ca \<Rightarrow> string list \<Rightarrow> (pki_error, string \<times> string) key_action" where
  "load_or_create_server_material G dir c hosts =
     (let cert_path = in_dir dir ''server.crt''; key_path = in_dir dir ''server.key'' in
     and_then (path_exists cert_path) (\<lambda>a. and_then (if a then path_exists key_path else ret False) (\<lambda>b.
     if b then
       and_then (read_to_string G Pki_io cert_path) (\<lambda>p. and_then (read_to_string G Pki_io key_path) (\<lambda>y.
       ret (p, y)))
     else
       and_then (issue_server_cert G c hosts) (\<lambda>(p, y).
       and_then (write_file Pki_io cert_path p) (\<lambda>_.
       and_then (write_file Pki_io key_path y) (\<lambda>_.
       and_then (restrict_permissions key_path) (\<lambda>_.
       ret (p, y))))))))"

subsection \<open>The job signing key\<close>

definition file_bytes :: "u8 list \<Rightarrow> string" where
  "file_bytes bs = map (\<lambda>b. char_of (unat b)) bs"

definition bytes_of_file :: "string \<Rightarrow> u8 list" where
  "bytes_of_file s = map of_char s"

definition load_or_create_signer :: "keygen \<Rightarrow> ext \<Rightarrow> string \<Rightarrow> (signing_error, signer) key_action" where
  "load_or_create_signer G E dir = (let key_path = in_dir dir ''job_signing.key'' in
     and_then (path_exists key_path) (\<lambda>there.
     and_then
       (if there then
          and_then (read_bytes Signing_io key_path) (\<lambda>raw.
          and_then (guard (length raw = 32) (Invalid_key (''expected 32 bytes, found '' @ show_nat (length raw)))) (\<lambda>_.
          ret (bytes_of_file raw)))
        else
          and_then (create_dir_all Signing_io) (\<lambda>_.
          and_then (gets ks_drawn) (\<lambda>n.
          and_then (modify (\<lambda>k. k\<lparr>ks_drawn := Suc (ks_drawn k)\<rparr>)) (\<lambda>_.
          and_then (write_file Signing_io key_path (file_bytes (ed_new G n))) (\<lambda>_.
          and_then (restrict_permissions key_path) (\<lambda>_.
          ret (ed_new G n))))))) (\<lambda>key.
     ret \<lparr>sg_key = key, sg_public_key_b64 = b64_encode E (ed_public G key)\<rparr>)))"

subsection \<open>What is on disk after a load\<close>

lemma used_simps [simp]:
  "ks_files (used k) = ks_files k" "ks_outcomes (used k) = tl (ks_outcomes k)" "ks_drawn (used k) = ks_drawn k"
  "ks_private (used k) = ks_private k"
  by (simp_all add: used_def)

lemma path_exists_ok [ok_simps]:
  "path_exists p k = (Inr b, t) \<longleftrightarrow> b = (next_outcome k = Works \<and> ks_files k p \<noteq> None) \<and> t = used k"
  by (auto simp: path_exists_def)

lemma read_bytes_ok [ok_simps]:
  "read_bytes e p k = (Inr c, t) \<longleftrightarrow> next_outcome k = Works \<and> ks_files k p = Some c \<and> t = used k"
  by (auto simp: read_bytes_def split: option.splits)

lemma write_file_ok [ok_simps]:
  "write_file e p c k = (Inr u, t) \<longleftrightarrow> next_outcome k = Works \<and> t = (used k)\<lparr>ks_files := (ks_files k)(p \<mapsto> c)\<rparr>"
  by (auto simp: write_file_def split: io_outcome.splits)

lemma create_dir_all_ok [ok_simps]:
  "create_dir_all e k = (Inr u, t) \<longleftrightarrow> next_outcome k = Works \<and> t = used k"
  by (auto simp: create_dir_all_def)

lemma restrict_permissions_ok [ok_simps]:
  "restrict_permissions p k = (Inr u, t) \<longleftrightarrow> t = (if next_outcome k = Works
     then (used k)\<lparr>ks_private := (ks_private k)(p := True)\<rparr> else used k)"
  by (auto simp: restrict_permissions_def)

lemma in_dir_eq [simp]: "in_dir d x = in_dir d y \<longleftrightarrow> x = y"
  by (simp add: in_dir_def)

text \<open>The texts \<^verbatim>\<open>rcgen\<close> writes are UTF-8, and an Ed25519 key has 32 bytes.\<close>

definition keygen_ok :: "keygen \<Rightarrow> bool" where
  "keygen_ok G \<longleftrightarrow> (\<forall>n. length (ed_new G n) = 32) \<and> (\<forall>n y. key_pem G n = Some y \<longrightarrow> utf8_ok G y)
     \<and> (\<forall>s y c. self_signed G s y = Some c \<longrightarrow> utf8_ok G c)
     \<and> (\<forall>s y a c. signed_by G s y a = Some c \<longrightarrow> utf8_ok G c)"

definition has_text :: "keygen \<Rightarrow> key_store \<Rightarrow> string \<Rightarrow> string \<Rightarrow> bool" where
  "has_text G k p c \<longleftrightarrow> ks_files k p = Some c \<and> utf8_ok G c"

definition only_changes :: "string set \<Rightarrow> key_store \<Rightarrow> key_store \<Rightarrow> bool" where
  "only_changes ps k t \<longleftrightarrow> (\<forall>p. p \<notin> ps \<longrightarrow> ks_files t p = ks_files k p)"

lemma byte_char [simp]: "of_char (char_of (unat b) :: char) = (b :: 8 word)"
proof -
  have "of_nat (of_char (char_of (unat b) :: char)) = (of_nat (unat b mod 256) :: 8 word)"
    by (simp only: of_char_of)
  moreover have "unat b mod 256 = unat b"
    using unsigned_less [of b, where ?'a = nat] by simp
  ultimately show ?thesis by (simp only: of_nat_of_char) simp
qed

lemma bytes_of_file_bytes [simp]: "bytes_of_file (file_bytes bs) = bs"
  by (simp add: bytes_of_file_def file_bytes_def comp_def)

lemma length_file_bytes [simp]: "length (file_bytes bs) = length bs"
  by (simp add: file_bytes_def)

lemma ca_on_disk:
  assumes "load_or_create_ca G dir k = (Inr c, t)" and "keygen_ok G"
  shows "has_text G t (in_dir dir ''ca.crt'') (ca_cert_pem c) \<and> has_text G t (in_dir dir ''ca.key'') (ca_key_pem c)
    \<and> only_changes {in_dir dir ''ca.crt'', in_dir dir ''ca.key''} k t"
  using assms
  by (auto simp: load_or_create_ca_def Let_def read_to_string_def new_key_def ok_simps has_text_def
      only_changes_def keygen_ok_def split: if_splits)

lemma material_on_disk:
  assumes "load_or_create_server_material G dir c hosts k = (Inr m, t)" and "keygen_ok G"
  shows "has_text G t (in_dir dir ''server.crt'') (fst m) \<and> has_text G t (in_dir dir ''server.key'') (snd m)
    \<and> only_changes {in_dir dir ''server.crt'', in_dir dir ''server.key''} k t"
  using assms
  by (auto simp: load_or_create_server_material_def issue_server_cert_def Let_def read_to_string_def new_key_def
      ok_simps has_text_def only_changes_def keygen_ok_def split: if_splits)

lemma signer_on_disk:
  assumes "load_or_create_signer G E dir k = (Inr sg, t)" and "keygen_ok G"
  shows "(\<exists>raw. ks_files t (in_dir dir ''job_signing.key'') = Some raw \<and> length raw = 32 \<and> bytes_of_file raw = sg_key sg)
    \<and> sg_public_key_b64 sg = b64_encode E (ed_public G (sg_key sg))
    \<and> only_changes {in_dir dir ''job_signing.key''} k t"
  using assms
  by (auto simp: load_or_create_signer_def Let_def ok_simps only_changes_def keygen_ok_def split: if_splits)

subsection \<open>Loading again\<close>

lemma quiet [simp]: "ks_outcomes k = [] \<Longrightarrow> next_outcome k = Works" "ks_outcomes k = [] \<Longrightarrow> used k = k"
  by (simp_all add: next_outcome_def used_def)

lemma read_text_again: "ks_outcomes k = [] \<Longrightarrow> has_text G k p c \<Longrightarrow> read_to_string G e p k = (Inr c, k)"
  by (simp add: read_to_string_def read_bytes_def and_then_def has_text_def ret_def)

lemma exists_again: "ks_outcomes k = [] \<Longrightarrow> has_text G k p c \<Longrightarrow> path_exists p k = (Inr True, k)"
  by (simp add: path_exists_def has_text_def)

lemma ca_again:
  assumes "ks_outcomes k = []" and "has_text G k (in_dir dir ''ca.crt'') (ca_cert_pem c)"
    and "has_text G k (in_dir dir ''ca.key'') (ca_key_pem c)"
  shows "load_or_create_ca G dir k = (Inr c, k)"
  by (simp add: load_or_create_ca_def Let_def and_then_def ret_def read_text_again [OF assms(1,2)]
      read_text_again [OF assms(1,3)] exists_again [OF assms(1,2)] exists_again [OF assms(1,3)])

lemma material_again:
  assumes "ks_outcomes k = []" and "has_text G k (in_dir dir ''server.crt'') (fst m)"
    and "has_text G k (in_dir dir ''server.key'') (snd m)"
  shows "load_or_create_server_material G dir c hosts k = (Inr m, k)"
  by (simp add: load_or_create_server_material_def Let_def and_then_def ret_def read_text_again [OF assms(1,2)]
      read_text_again [OF assms(1,3)] exists_again [OF assms(1,2)] exists_again [OF assms(1,3)])

lemma signer_again:
  assumes "ks_outcomes k = []" and "ks_files k (in_dir dir ''job_signing.key'') = Some raw" and "length raw = 32"
    and "bytes_of_file raw = sg_key sg" and "sg_public_key_b64 sg = b64_encode E (ed_public G (sg_key sg))"
  shows "load_or_create_signer G E dir k = (Inr sg, k)"
  using assms by (simp add: load_or_create_signer_def Let_def and_then_def ret_def path_exists_def read_bytes_def)

text \<open>
  A write that is cut leaves a file that every later start takes for the key: the signing key is refused for
  ever, and a CA whose key file is cut is loaded as it is.
\<close>

lemma cut_signing_key_stays:
  assumes "ks_outcomes k = []" and "ks_files k (in_dir dir ''job_signing.key'') = Some raw" and "length raw \<noteq> 32"
  shows "load_or_create_signer G E dir k
    = (Inl (Invalid_key (''expected 32 bytes, found '' @ show_nat (length raw))), k)"
  using assms by (simp add: load_or_create_signer_def Let_def and_then_def raise_def path_exists_def read_bytes_def)

lemma cut_ca_key_loaded:
  assumes "ks_outcomes k = []" and "ks_files k (in_dir dir ''ca.crt'') = Some c" and "utf8_ok G c"
    and "ks_files k (in_dir dir ''ca.key'') = Some []" and "utf8_ok G []"
  shows "load_or_create_ca G dir k = (Inr \<lparr>ca_cert_pem = c, ca_key_pem = []\<rparr>, k)"
  by (rule ca_again) (use assms in \<open>simp_all add: has_text_def\<close>)

end
