(* ===== verification/Server_Start.thy ===== *)
theory Server_Start
  imports Server_Keys Server_Config Auth_Api Samples
begin

section \<open>Starting the server (main.rs)\<close>

text \<open>
  \<^verbatim>\<open>main\<close> from the environment to the listening socket.  \<open>outside\<close> is what the start finds: whether the
  database is reached and what it holds, its migration, the clocks and random numbers, whether the
  socket can be bound and whether rustls takes the certificate.
\<close>

record outside =
  connects :: "string \<Rightarrow> bool"
  stored :: db
  migrated :: "db \<Rightarrow> db option"
  sql_faults :: "bool list"
  start_ms :: time
  start_instant :: nat
  draws :: "nat \<Rightarrow> uuid"
  binds :: "u16 \<Rightarrow> bool"
  tls_ok :: "string \<Rightarrow> string \<Rightarrow> bool"

datatype start_error = Bad_config config_error | No_database | Migration_failed | No_admin api_error
  | Tls_file | No_ca | Tls_material pki_error | Bad_tls | No_listener

datatype listener = Plain_http u16 | Https u16 string string

type_synonym 'a start = "(key_store, start_error, 'a) action"

definition attempt :: "('s, 'e, 'a) action \<Rightarrow> ('s, 'f, 'a option) action" where
  "attempt m s = (case m s of (Inl e, t) \<Rightarrow> (Inr None, t) | (Inr x, t) \<Rightarrow> (Inr (Some x), t))"

definition failing_as :: "('e \<Rightarrow> 'f) \<Rightarrow> ('s, 'e, 'a) action \<Rightarrow> ('s, 'f, 'a) action" where
  "failing_as f m s = (case m s of (Inl e, t) \<Rightarrow> (Inl (f e), t) | (Inr x, t) \<Rightarrow> (Inr x, t))"

definition data_dir :: string where
  "data_dir = ''data''"

definition load_tls_material :: "keygen \<Rightarrow> config \<Rightarrow> ca option \<Rightarrow> string \<Rightarrow> (string \<times> string) start" where
  "load_tls_material G c caopt dir = (case (tls_cert_path c, tls_key_path c) of
       (Some cert, Some key) \<Rightarrow>
         and_then (read_to_string G Tls_file cert) (\<lambda>p. and_then (read_to_string G Tls_file key) (\<lambda>y. ret (p, y)))
     | _ \<Rightarrow> and_then (ok_or No_ca caopt) (\<lambda>authority.
         failing_as Tls_material (load_or_create_server_material G dir authority (tls_hostnames c))))"

definition start_server :: "keygen \<Rightarrow> ext \<Rightarrow> outside \<Rightarrow> env \<Rightarrow> (app_state \<times> listener) start" where
  "start_server G E S env =
     and_then (map_err Bad_config (from_env env)) (\<lambda>c.
     and_then (guard (connects S (database_url c)) No_database) (\<lambda>_.
     and_then (ok_or Migration_failed (migrated S (stored S))) (\<lambda>d.
     and_then (attempt (load_or_create_ca G data_dir)) (\<lambda>authority.
     and_then (attempt (load_or_create_signer G E data_dir)) (\<lambda>sg.
     and_then (map_err No_admin (let (r, s) = ensure_admin_user E (app_state_new d c authority sg
         (sql_faults S) (start_ms S) (start_instant S) (draws S)) in map_sum id (\<lambda>_. s) r)) (\<lambda>s.
     if allow_insecure_http c then
       and_then (guard (binds S (server_port c)) No_listener) (\<lambda>_.
       ret (s, Plain_http (server_port c)))
     else
       and_then (load_tls_material G c authority data_dir) (\<lambda>(p, y).
       and_then (guard (tls_ok S p y) Bad_tls) (\<lambda>_.
       and_then (guard (binds S (server_port c)) No_listener) (\<lambda>_.
       ret (s, Https (server_port c) p y))))))))))"

subsection \<open>What a start guarantees\<close>

lemma attempt_ok [ok_simps]:
  "attempt m s = (Inr r, t) \<longleftrightarrow> (\<exists>x. m s = (Inr x, t) \<and> r = Some x) \<or> (\<exists>e. m s = (Inl e, t) \<and> r = None)"
  by (auto simp: attempt_def split: prod.splits sum.splits)

lemma failing_as_ok [ok_simps]: "failing_as f m s = (Inr x, t) \<longleftrightarrow> m s = (Inr x, t)"
  by (auto simp: failing_as_def split: prod.splits sum.splits)

lemma map_sum_Inr: "map_sum f g r = Inr y \<longleftrightarrow> (\<exists>x. r = Inr x \<and> y = g x)"
  by (cases r) auto

text \<open>The stages of a start that ends well.\<close>

lemma start_stages:
  assumes "start_server G E S env k = (Inr (s, l), t)"
  obtains c d authority sg k1 k2 where
    "from_env env = Inr c" "(attempt (load_or_create_ca G data_dir) :: ca option start) k = (Inr authority, k1)"
    "(attempt (load_or_create_signer G E data_dir) :: signer option start) k1 = (Inr sg, k2)"
    "ensure_admin_user E (app_state_new d c authority sg (sql_faults S) (start_ms S) (start_instant S) (draws S)) = (Inr (), s)"
    "if allow_insecure_http c then l = Plain_http (server_port c) \<and> t = k2
     else \<exists>p y. load_tls_material G c authority data_dir k2 = (Inr (p, y), t) \<and> tls_ok S p y \<and> l = Https (server_port c) p y"
proof -
  from assms obtain c d authority sg k1 k2 where c: "from_env env = Inr c"
      "(attempt (load_or_create_ca G data_dir) :: ca option start) k = (Inr authority, k1)"
      "(attempt (load_or_create_signer G E data_dir) :: signer option start) k1 = (Inr sg, k2)"
      "(let (r, s) = ensure_admin_user E (app_state_new d c authority sg
         (sql_faults S) (start_ms S) (start_instant S) (draws S)) in map_sum id (\<lambda>_. s) r) = Inr s"
      "if allow_insecure_http c then l = Plain_http (server_port c) \<and> t = k2
       else \<exists>p y. load_tls_material G c authority data_dir k2 = (Inr (p, y), t) \<and> tls_ok S p y \<and> l = Https (server_port c) p y"
    unfolding start_server_def
    by (simp only: ok_simps) (auto simp: ok_simps split: if_splits; blast)
  show ?thesis
    by (rule that [OF c(1,2,3) _ c(5)]) (use c(4) in \<open>auto simp: Let_def map_sum_Inr split: prod.splits\<close>)
qed

lemma ensure_admin_frame:
  "ensure_admin_user E s = (Inr (), t) \<Longrightarrow> cfg t = cfg s \<and> ca_of t = ca_of s \<and> job_signer t = job_signer s
    \<and> connected_agents t = connected_agents s \<and> shell_sessions t = shell_sessions s \<and> login_attempts t = login_attempts s"
  by (auto simp: ensure_admin_user_def ok_simps split: if_splits)

text \<open>
  C33.  A server that came up has a JWT secret of at least 32 characters and at least one user; it serves plain
  HTTP exactly when its configuration says so, and otherwise only with a certificate and key rustls took, read from
  the configured files or issued by its own CA; nobody is connected yet and nobody is locked out.
\<close>

theorem server_starts_safely:
  assumes "start_server G E S env k = (Inr (s, l), t)"
  shows "from_env env = Inr (cfg s) \<and> 32 \<le> length (jwt_secret (cfg s)) \<and> users (db s) \<noteq> []
    \<and> (allow_insecure_http (cfg s) = (l = Plain_http (server_port (cfg s))))
    \<and> (\<not> allow_insecure_http (cfg s) \<longrightarrow> (\<exists>p y. l = Https (server_port (cfg s)) p y \<and> tls_ok S p y
        \<and> (ca_of s = None \<longrightarrow> tls_cert_path (cfg s) \<noteq> None \<and> tls_key_path (cfg s) \<noteq> None)))
    \<and> connected_agents s = (\<lambda>_. None) \<and> shell_sessions s = (\<lambda>_. None) \<and> login_attempts s = (\<lambda>_. None)"
  using assms
proof (rule start_stages)
  fix c d authority sg and k1 k2 :: key_store
  assume c: "from_env env = Inr c"
    and admin: "ensure_admin_user E (app_state_new d c authority sg (sql_faults S) (start_ms S) (start_instant S) (draws S)) = (Inr (), s)"
    and l: "if allow_insecure_http c then l = Plain_http (server_port c) \<and> t = k2
     else \<exists>p y. load_tls_material G c authority data_dir k2 = (Inr (p, y), t) \<and> tls_ok S p y \<and> l = Https (server_port c) p y"
  have f: "cfg s = c" "ca_of s = authority" "connected_agents s = (\<lambda>_. None)" "shell_sessions s = (\<lambda>_. None)"
      "login_attempts s = (\<lambda>_. None)"
    using ensure_admin_frame [OF admin] by (simp_all add: app_state_new_def)
  have u: "users (db s) \<noteq> []" using ensure_admin_user_ok [OF admin] by blast
  have m: "load_tls_material G c None data_dir k2 = (Inr x, t) \<Longrightarrow> tls_cert_path c \<noteq> None \<and> tls_key_path c \<noteq> None" for x
    by (auto simp: load_tls_material_def ok_simps split: option.splits)
  show ?thesis using c from_env_secret [OF c] u l by (auto simp: f dest: m split: if_splits)
qed

text \<open>What a start leaves on disk.\<close>

lemma material_from_ca:
  assumes "load_tls_material G c authority dir k = (Inr m, t)" and "tls_cert_path c = None"
  shows "\<exists>x. authority = Some x \<and> load_or_create_server_material G dir x (tls_hostnames c) k = (Inr m, t)"
  using assms by (auto simp: load_tls_material_def ok_simps split: option.splits)

definition keys_on_disk :: "keygen \<Rightarrow> ext \<Rightarrow> key_store \<Rightarrow> ca \<Rightarrow> signer \<Rightarrow> bool" where
  "keys_on_disk G E k a sg \<longleftrightarrow>
     has_text G k (in_dir data_dir ''ca.crt'') (ca_cert_pem a) \<and> has_text G k (in_dir data_dir ''ca.key'') (ca_key_pem a)
     \<and> (\<exists>raw. ks_files k (in_dir data_dir ''job_signing.key'') = Some raw \<and> length raw = 32 \<and> bytes_of_file raw = sg_key sg)
     \<and> sg_public_key_b64 sg = b64_encode E (ed_public G (sg_key sg))"

lemma keys_on_disk_after:
  assumes "load_or_create_ca G data_dir k = (Inr a, k1)" and "load_or_create_signer G E data_dir k1 = (Inr sg, k2)"
    and "keygen_ok G"
  shows "keys_on_disk G E k2 a sg"
  using ca_on_disk [OF assms(1,3)] signer_on_disk [OF assms(2,3)]
  by (auto simp: keys_on_disk_def has_text_def only_changes_def)

lemma keys_on_disk_kept:
  "keys_on_disk G E k a sg \<Longrightarrow> only_changes {in_dir data_dir ''server.crt'', in_dir data_dir ''server.key''} k t
   \<Longrightarrow> keys_on_disk G E t a sg"
  by (auto simp: keys_on_disk_def has_text_def only_changes_def)

lemma keys_on_disk_files: "ks_files t = ks_files k \<Longrightarrow> keys_on_disk G E t a sg = keys_on_disk G E k a sg"
  by (simp add: keys_on_disk_def has_text_def)

lemma load_keys_again:
  assumes "keys_on_disk G E k a sg" and "ks_outcomes k = []"
  shows "load_or_create_ca G data_dir k = (Inr a, k) \<and> load_or_create_signer G E data_dir k = (Inr sg, k)"
  using assms ca_again [of k G data_dir a] signer_again [of k data_dir _ sg E G] by (auto simp: keys_on_disk_def)

lemma from_env_tls: "from_env env = Inr c \<Longrightarrow> tls_cert_path c = non_empty (env ''TLS_CERT_PATH'')"
  by (auto simp: from_env_def split: option.splits if_splits)

text \<open>What a start with a CA and a signing key of its own leaves on disk.\<close>

lemma start_leaves:
  assumes "keygen_ok G" and "start_server G E S env k = (Inr (s, l), t)"
    and "ca_of s = Some a" and "job_signer s = Some sg" and "non_empty (env ''TLS_CERT_PATH'') = None"
  shows "keys_on_disk G E t a sg"
    and "l = Https q p y \<Longrightarrow> has_text G t (in_dir data_dir ''server.crt'') p \<and> has_text G t (in_dir data_dir ''server.key'') y"
proof -
  obtain c d authority sg' k1 k2 where c: "from_env env = Inr c"
      and a: "(attempt (load_or_create_ca G data_dir) :: ca option start) k = (Inr authority, k1)"
      and b: "(attempt (load_or_create_signer G E data_dir) :: signer option start) k1 = (Inr sg', k2)"
      and adm: "ensure_admin_user E (app_state_new d c authority sg' (sql_faults S) (start_ms S) (start_instant S) (draws S)) = (Inr (), s)"
      and l: "if allow_insecure_http c then l = Plain_http (server_port c) \<and> t = k2
        else \<exists>p y. load_tls_material G c authority data_dir k2 = (Inr (p, y), t) \<and> tls_ok S p y \<and> l = Https (server_port c) p y"
    using start_stages [OF assms(2)] by metis
  have f: "authority = Some a" "sg' = Some sg"
    using ensure_admin_frame [OF adm] assms(3,4) by (simp_all add: app_state_new_def)
  have kd: "keys_on_disk G E k2 a sg"
    by (rule keys_on_disk_after [OF _ _ assms(1)]) (use a b f in \<open>auto simp: attempt_ok\<close>)
  have m: "has_text G t (in_dir data_dir ''server.crt'') p' \<and> has_text G t (in_dir data_dir ''server.key'') y'
      \<and> keys_on_disk G E t a sg" if loaded: "load_tls_material G c authority data_dir k2 = (Inr (p', y'), t)" for p' y'
  proof -
    obtain x where "load_or_create_server_material G data_dir x (tls_hostnames c) k2 = (Inr (p', y'), t)"
      using material_from_ca [OF loaded] from_env_tls [OF c] assms(5) by auto
    from material_on_disk [OF this assms(1)] show ?thesis using keys_on_disk_kept [OF kd] by simp
  qed
  show "keys_on_disk G E t a sg" using l kd m by (auto split: if_splits)
  show "l = Https q p y \<Longrightarrow> has_text G t (in_dir data_dir ''server.crt'') p \<and> has_text G t (in_dir data_dir ''server.key'') y"
    using l m by (auto split: if_splits)
qed

text \<open>
  C10.  A restart keeps the server's identity, whatever else changed in between.  If a start created or loaded the
  CA and the signing key, the next start over the files it left, none of whose file operations fails, has the same CA and
  the same signing key, so that it signs every job as before; and a TLS certificate of its own is the same and nothing is written.
\<close>

theorem restart_keeps_identity:
  assumes "keygen_ok G" and "start_server G E S env k = (Inr (s, l), t)"
    and "ca_of s = Some a" and "job_signer s = Some sg"
    and "ks_files k' = ks_files t" and "ks_outcomes k' = []"
    and "start_server G E S' env' k' = (Inr (s', l'), t')"
    and "non_empty (env ''TLS_CERT_PATH'') = None" and "non_empty (env' ''TLS_CERT_PATH'') = None"
  shows "ca_of s' = Some a \<and> job_signer s' = Some sg \<and> sign_job E s' = sign_job E s
    \<and> (\<forall>q p y. l = Https q p y \<longrightarrow> ks_files t' = ks_files t \<and> (\<forall>q' p' y'. l' = Https q' p' y' \<longrightarrow> p' = p \<and> y' = y))"
proof -
  note left = start_leaves [OF assms(1-4,8)]
  obtain c d authority sg' k1 k2 where c: "from_env env' = Inr c"
      and a: "(attempt (load_or_create_ca G data_dir) :: ca option start) k' = (Inr authority, k1)"
      and b: "(attempt (load_or_create_signer G E data_dir) :: signer option start) k1 = (Inr sg', k2)"
      and adm: "ensure_admin_user E (app_state_new d c authority sg' (sql_faults S') (start_ms S') (start_instant S') (draws S')) = (Inr (), s')"
      and l: "if allow_insecure_http c then l' = Plain_http (server_port c) \<and> t' = k2
        else \<exists>p y. load_tls_material G c authority data_dir k2 = (Inr (p, y), t') \<and> tls_ok S' p y \<and> l' = Https (server_port c) p y"
    using start_stages [OF assms(7)] by metis
  have "keys_on_disk G E k' a sg" using left(1) keys_on_disk_files [OF assms(5)] by simp
  note again = load_keys_again [OF this assms(6)]
  have f: "authority = Some a" "sg' = Some sg" "k1 = k'" "k2 = k'"
    using a b again by (auto simp: attempt_ok)
  have g: "ca_of s' = Some a" "job_signer s' = Some sg"
    using ensure_admin_frame [OF adm] f by (simp_all add: app_state_new_def)
  have "ks_files t' = ks_files t \<and> (\<forall>q' p' y'. l' = Https q' p' y' \<longrightarrow> p' = p \<and> y' = y)"
    if https: "l = Https q p y" for q p y
  proof -
    have "has_text G k' (in_dir data_dir ''server.crt'') p" "has_text G k' (in_dir data_dir ''server.key'') y"
      using left(2) [OF https] assms(5) by (simp_all add: has_text_def)
    then have "load_or_create_server_material G data_dir x h k' = (Inr (p, y), k')" for x h
      using material_again [OF assms(6), of G data_dir "(p, y)"] by simp
    then have "m = (p, y) \<and> t' = k'" if "load_tls_material G c authority data_dir k' = (Inr m, t')" for m
      using material_from_ca [OF that] from_env_tls [OF c] assms(9) by auto
    then show ?thesis using l f assms(5) by (auto split: if_splits)
  qed
  moreover have "sign_job E s' = sign_job E s"
    by (intro HOL.ext) (simp add: sign_job_def g assms(4))
  ultimately show ?thesis using g by blast
qed

subsection \<open>A start\<close>

definition first_env :: env where
  "first_env v = (if v = ''DATABASE_URL'' then Some ''db'' else if v = ''JWT_SECRET'' then Some (replicate 32 CHR ''s'')
     else if v = ''SERVER_URL'' then Some ''host'' else None)"

definition first_config :: config where
  "first_config = \<lparr>database_url = ''db'', jwt_secret = replicate 32 CHR ''s'', server_port = 8080, server_url = ''host'',
     admin_username = ''admin'', admin_password = ''admin'', tls_cert_path = None, tls_key_path = None,
     dashboard_origin = ''http://localhost:3000'', smtp_host = None, smtp_port = 587, smtp_user = None,
     smtp_password = None, smtp_from = ''osfm-edm@localhost'', webhook_url = None, ntfy_topic = None,
     ntfy_server = ''https://ntfy.sh'', allow_insecure_http = False\<rparr>"

definition first_keygen :: keygen where
  "first_keygen = \<lparr>key_pem = (\<lambda>n. Some ''key''), self_signed = (\<lambda>_ _. Some ''ca''),
     signed_by = (\<lambda>_ _ _. Some ''cert''), issuer_ok = (\<lambda>_. True), ip_ok = (\<lambda>_. False), dns_ok = (\<lambda>_. True),
     first_der = Some, utf8_ok = (\<lambda>_. True), ed_new = (\<lambda>n. replicate 32 (of_nat n)), ed_public = id\<rparr>"

definition first_outside :: outside where
  "first_outside = \<lparr>connects = (\<lambda>_. True), stored = some_db, migrated = Some, sql_faults = [], start_ms = 0,
     start_instant = 0, draws = (\<lambda>n. of_nat n), binds = (\<lambda>_. True), tls_ok = (\<lambda>_ _. True)\<rparr>"

definition empty_store :: key_store where
  "empty_store = \<lparr>ks_files = (\<lambda>_. None), ks_private = (\<lambda>_. False), ks_outcomes = [], ks_drawn = 0\<rparr>"

lemma first_ports: "parse_uint 16 ''8080'' = Some 8080" "parse_uint 16 ''587'' = Some 587"
  by (simp_all add: parse_uint_def strip_plus_def is_digit_def code_def)

lemma first_from_env: "from_env first_env = Inr first_config"
  by (simp add: from_env_def first_env_def first_config_def unwrap_or_def non_empty_def first_ports)

definition first_store :: "nat \<Rightarrow> key_store" where
  "first_store n = \<lparr>ks_files = [''data/ca.crt'' \<mapsto> ''ca'', ''data/ca.key'' \<mapsto> ''key'',
       ''data/job_signing.key'' \<mapsto> file_bytes (replicate 32 1), ''data/server.crt'' \<mapsto> ''cert'', ''data/server.key'' \<mapsto> ''key''],
     ks_private = (\<lambda>_. False)(''data/ca.key'' := True, ''data/job_signing.key'' := True, ''data/server.key'' := True),
     ks_outcomes = [], ks_drawn = n\<rparr>"

definition first_state :: app_state where
  "first_state = app_state_new some_db first_config (Some \<lparr>ca_cert_pem = ''ca'', ca_key_pem = ''key''\<rparr>)
     (Some \<lparr>sg_key = replicate 32 1, sg_public_key_b64 = ''sig''\<rparr>) [] 0 0 (\<lambda>n. of_nat n)"

lemmas start_simps = start_server_def first_from_env and_then_def first_outside_def first_config_def action_defs attempt_def
  load_or_create_ca_def Let_def path_exists_def next_outcome_def used_def create_dir_all_def new_key_def write_file_def
  restrict_permissions_def first_keygen_def load_or_create_signer_def ensure_admin_user_def select_def exec_def next_fault_def
  app_state_new_def some_db_def load_tls_material_def failing_as_def load_or_create_server_material_def issue_server_cert_def
  in_dir_def data_dir_def first_store_def first_state_def read_to_string_def read_bytes_def

lemma no_ext_b64: "b64_encode no_ext bs = ''sig''"
  by (simp add: no_ext_def)

lemma first_start:
  "start_server first_keygen no_ext first_outside first_env empty_store
   = (Inr (first_state, Https 8080 ''cert'' ''key''), first_store 3)"
  by (simp add: start_simps no_ext_b64 empty_store_def)

lemma second_start:
  "start_server first_keygen no_ext first_outside first_env (first_store 9)
   = (Inr (first_state, Https 8080 ''cert'' ''key''), first_store 9)"
  by (simp add: start_simps no_ext_b64)

theorem server_starts_safely_witness:
  "connected_agents first_state = (\<lambda>_. None) \<and> users (db first_state) \<noteq> [] \<and> 32 \<le> length (jwt_secret (cfg first_state))"
  using server_starts_safely [OF first_start] by blast

lemma first_keygen_ok: "keygen_ok first_keygen"
  by (simp add: keygen_ok_def first_keygen_def)

theorem restart_keeps_identity_witness:
  "ca_of first_state = Some \<lparr>ca_cert_pem = ''ca'', ca_key_pem = ''key''\<rparr> \<and> ks_files (first_store 9) = ks_files (first_store 3)"
  using restart_keeps_identity [OF first_keygen_ok first_start _ _ _ _ second_start,
    of "\<lparr>ca_cert_pem = ''ca'', ca_key_pem = ''key''\<rparr>" "\<lparr>sg_key = replicate 32 1, sg_public_key_b64 = ''sig''\<rparr>"]
  by (simp add: first_state_def app_state_new_def first_store_def first_env_def non_empty_def)

text \<open>New host names do not reach a certificate that exists already.\<close>

lemma new_hosts_ignored:
  assumes "load_or_create_server_material G dir c hosts k = (Inr m, t)" and "keygen_ok G" and "ks_outcomes t = []"
  shows "load_or_create_server_material G dir c hosts' t = (Inr m, t)"
  using material_on_disk [OF assms(1,2)] material_again [OF assms(3)] by blast

end
