(* ===== verification/Console_Model.thy ===== *)
theory Console_Model
  imports Messages
begin

section \<open>Console: the data it reads (model.rs)\<close>

text \<open>
  The types of \<^verbatim>\<open>model.rs\<close> and the derived \<^verbatim>\<open>Deserialize\<close> of each: the console reads fewer fields than
  the server writes, times stay text, and a field with \<^verbatim>\<open>#[serde(default)]\<close> may be missing but not null.
  \<open>up\<close> parses a UUID.
\<close>

definition default_fld :: "(json \<Rightarrow> 'a option) \<Rightarrow> 'a \<Rightarrow> string \<Rightarrow> obj \<Rightarrow> 'a option" where
  "default_fld dec d k ob = (case map_of ob k of None \<Rightarrow> Some d | Some v \<Rightarrow> dec v)"

definition default_server_port :: u16 where
  "default_server_port = 8080"

text \<open>The envelope of every response.\<close>

record api_err_body =
  aeb_code :: string
  aeb_message :: string

definition dec_api_err_body :: "json \<Rightarrow> api_err_body option" where
  "dec_api_err_body v = do { ob \<leftarrow> dec_obj v; c \<leftarrow> fld dec_str ''code'' ob; m \<leftarrow> fld dec_str ''message'' ob;
     Some \<lparr>aeb_code = c, aeb_message = m\<rparr> }"

definition dec_envelope :: "(json \<Rightarrow> 'a option) \<Rightarrow> json \<Rightarrow> ('a option \<times> api_err_body option) option" where
  "dec_envelope dec v = do { ob \<leftarrow> dec_obj v; d \<leftarrow> opt_fld dec ''data'' ob;
     e \<leftarrow> opt_fld dec_api_err_body ''error'' ob; Some (d, e) }"

definition dec_login_data :: "json \<Rightarrow> string option" where
  "dec_login_data v = do { ob \<leftarrow> dec_obj v; fld dec_str ''access_token'' ob }"

text \<open>\<^verbatim>\<open>LoginReq\<close>: the code is left out when there is none.\<close>

definition enc_login_req :: "string \<Rightarrow> string \<Rightarrow> string option \<Rightarrow> json" where
  "enc_login_req user pass totp = JObj ([(''username'', JStr user), (''password'', JStr pass)]
     @ (case totp of None \<Rightarrow> [] | Some c \<Rightarrow> [(''totp_code'', JStr c)]))"

text \<open>\<^verbatim>\<open>User\<close>\<close>

record c_user =
  usr_id :: uuid
  usr_username :: string
  usr_role :: string
  usr_totp_enabled :: bool

definition dec_c_user :: "(string \<Rightarrow> uuid option) \<Rightarrow> json \<Rightarrow> c_user option" where
  "dec_c_user up v = do { ob \<leftarrow> dec_obj v;
     v0 \<leftarrow> fld (dec_uuid up) ''id'' ob; v1 \<leftarrow> fld dec_str ''username'' ob;
     v2 \<leftarrow> fld dec_str ''role'' ob; v3 \<leftarrow> fld dec_bool ''totp_enabled'' ob;
     Some \<lparr>usr_id = v0, usr_username = v1, usr_role = v2, usr_totp_enabled = v3\<rparr> }"

text \<open>\<^verbatim>\<open>Device\<close>\<close>

record c_device =
  dev_id :: uuid
  dev_hostname :: string
  dev_os :: string
  dev_os_version :: "string option"
  dev_arch :: "string option"
  dev_agent_version :: "string option"
  dev_last_seen :: "string option"
  dev_status :: string

definition dec_c_device :: "(string \<Rightarrow> uuid option) \<Rightarrow> json \<Rightarrow> c_device option" where
  "dec_c_device up v = do { ob \<leftarrow> dec_obj v;
     v0 \<leftarrow> fld (dec_uuid up) ''id'' ob; v1 \<leftarrow> fld dec_str ''hostname'' ob;
     v2 \<leftarrow> fld dec_str ''os'' ob; v3 \<leftarrow> opt_fld dec_str ''os_version'' ob;
     v4 \<leftarrow> opt_fld dec_str ''arch'' ob; v5 \<leftarrow> opt_fld dec_str ''agent_version'' ob;
     v6 \<leftarrow> opt_fld dec_str ''last_seen'' ob; v7 \<leftarrow> fld dec_str ''status'' ob;
     Some \<lparr>dev_id = v0, dev_hostname = v1, dev_os = v2, dev_os_version = v3, dev_arch = v4,
       dev_agent_version = v5, dev_last_seen = v6, dev_status = v7\<rparr> }"

text \<open>\<^verbatim>\<open>Metric\<close>\<close>

record c_metric =
  met_time :: string
  met_cpu_pct :: "f64 option"
  met_ram_used_mb :: "i64 option"
  met_ram_total_mb :: "i64 option"
  met_disk_used_gb :: "f64 option"
  met_disk_total_gb :: "f64 option"
  met_uptime_secs :: "i64 option"

definition dec_c_metric :: "json \<Rightarrow> c_metric option" where
  "dec_c_metric v = do { ob \<leftarrow> dec_obj v;
     v0 \<leftarrow> fld dec_str ''time'' ob; v1 \<leftarrow> opt_fld dec_f64 ''cpu_pct'' ob;
     v2 \<leftarrow> opt_fld dec_i ''ram_used_mb'' ob; v3 \<leftarrow> opt_fld dec_i ''ram_total_mb'' ob;
     v4 \<leftarrow> opt_fld dec_f64 ''disk_used_gb'' ob; v5 \<leftarrow> opt_fld dec_f64 ''disk_total_gb'' ob;
     v6 \<leftarrow> opt_fld dec_i ''uptime_secs'' ob;
     Some \<lparr>met_time = v0, met_cpu_pct = v1, met_ram_used_mb = v2, met_ram_total_mb = v3,
       met_disk_used_gb = v4, met_disk_total_gb = v5, met_uptime_secs = v6\<rparr> }"

text \<open>\<^verbatim>\<open>JobLog\<close>\<close>

record c_job_log =
  jbl_line :: string
  jbl_stream :: string

definition dec_c_job_log :: "json \<Rightarrow> c_job_log option" where
  "dec_c_job_log v = do { ob \<leftarrow> dec_obj v;
     v0 \<leftarrow> fld dec_str ''line'' ob; v1 \<leftarrow> fld dec_str ''stream'' ob;
     Some \<lparr>jbl_line = v0, jbl_stream = v1\<rparr> }"

text \<open>\<^verbatim>\<open>Job\<close>\<close>

record c_job =
  jb_id :: uuid
  jb_device_id :: uuid
  jb_payload :: json
  jb_status :: string
  jb_exit_code :: "i32 option"
  jb_created_at :: "string option"
  jb_finished_at :: "string option"
  jb_logs :: "c_job_log list"

definition dec_c_job :: "(string \<Rightarrow> uuid option) \<Rightarrow> json \<Rightarrow> c_job option" where
  "dec_c_job up v = do { ob \<leftarrow> dec_obj v;
     v0 \<leftarrow> fld (dec_uuid up) ''id'' ob; v1 \<leftarrow> fld (dec_uuid up) ''device_id'' ob;
     v2 \<leftarrow> fld Some ''payload'' ob; v3 \<leftarrow> fld dec_str ''status'' ob;
     v4 \<leftarrow> opt_fld dec_i ''exit_code'' ob; v5 \<leftarrow> opt_fld dec_str ''created_at'' ob;
     v6 \<leftarrow> opt_fld dec_str ''finished_at'' ob;
     v7 \<leftarrow> default_fld (dec_list dec_c_job_log) [] ''logs'' ob;
     Some \<lparr>jb_id = v0, jb_device_id = v1, jb_payload = v2, jb_status = v3, jb_exit_code = v4,
       jb_created_at = v5, jb_finished_at = v6, jb_logs = v7\<rparr> }"

text \<open>\<^verbatim>\<open>Policy\<close>\<close>

record c_policy =
  pol_id :: uuid
  pol_name :: string
  pol_description :: "string option"
  pol_rules :: json
  pol_version :: i32
  pol_enabled :: bool

definition dec_c_policy :: "(string \<Rightarrow> uuid option) \<Rightarrow> json \<Rightarrow> c_policy option" where
  "dec_c_policy up v = do { ob \<leftarrow> dec_obj v;
     v0 \<leftarrow> fld (dec_uuid up) ''id'' ob; v1 \<leftarrow> fld dec_str ''name'' ob;
     v2 \<leftarrow> opt_fld dec_str ''description'' ob; v3 \<leftarrow> fld Some ''rules'' ob;
     v4 \<leftarrow> fld dec_i ''version'' ob; v5 \<leftarrow> fld dec_bool ''enabled'' ob;
     Some \<lparr>pol_id = v0, pol_name = v1, pol_description = v2, pol_rules = v3, pol_version = v4,
       pol_enabled = v5\<rparr> }"

text \<open>\<^verbatim>\<open>Group\<close>\<close>

record c_group =
  grp_id :: uuid
  grp_name :: string
  grp_description :: "string option"

definition dec_c_group :: "(string \<Rightarrow> uuid option) \<Rightarrow> json \<Rightarrow> c_group option" where
  "dec_c_group up v = do { ob \<leftarrow> dec_obj v;
     v0 \<leftarrow> fld (dec_uuid up) ''id'' ob; v1 \<leftarrow> fld dec_str ''name'' ob;
     v2 \<leftarrow> opt_fld dec_str ''description'' ob;
     Some \<lparr>grp_id = v0, grp_name = v1, grp_description = v2\<rparr> }"

text \<open>\<^verbatim>\<open>GroupMember\<close>\<close>

record c_member =
  mem_device_id :: uuid
  mem_hostname :: string
  mem_os :: string
  mem_status :: string

definition dec_c_member :: "(string \<Rightarrow> uuid option) \<Rightarrow> json \<Rightarrow> c_member option" where
  "dec_c_member up v = do { ob \<leftarrow> dec_obj v;
     v0 \<leftarrow> fld (dec_uuid up) ''device_id'' ob; v1 \<leftarrow> fld dec_str ''hostname'' ob;
     v2 \<leftarrow> fld dec_str ''os'' ob; v3 \<leftarrow> fld dec_str ''status'' ob;
     Some \<lparr>mem_device_id = v0, mem_hostname = v1, mem_os = v2, mem_status = v3\<rparr> }"

text \<open>\<^verbatim>\<open>AlertRule\<close>\<close>

record c_alert_rule =
  rul_id :: uuid
  rul_name :: string
  rul_metric :: "string option"
  rul_operator :: "string option"
  rul_threshold :: "f64 option"
  rul_severity :: "string option"
  rul_enabled :: bool

definition dec_c_alert_rule :: "(string \<Rightarrow> uuid option) \<Rightarrow> json \<Rightarrow> c_alert_rule option" where
  "dec_c_alert_rule up v = do { ob \<leftarrow> dec_obj v;
     v0 \<leftarrow> fld (dec_uuid up) ''id'' ob; v1 \<leftarrow> fld dec_str ''name'' ob;
     v2 \<leftarrow> opt_fld dec_str ''metric'' ob; v3 \<leftarrow> opt_fld dec_str ''operator'' ob;
     v4 \<leftarrow> opt_fld dec_f64 ''threshold'' ob; v5 \<leftarrow> opt_fld dec_str ''severity'' ob;
     v6 \<leftarrow> fld dec_bool ''enabled'' ob;
     Some \<lparr>rul_id = v0, rul_name = v1, rul_metric = v2, rul_operator = v3, rul_threshold = v4,
       rul_severity = v5, rul_enabled = v6\<rparr> }"

text \<open>\<^verbatim>\<open>AlertEvent\<close>\<close>

record c_alert_event =
  evt_id :: uuid
  evt_message :: "string option"
  evt_severity :: "string option"
  evt_triggered_at :: "string option"
  evt_resolved_at :: "string option"

definition dec_c_alert_event :: "(string \<Rightarrow> uuid option) \<Rightarrow> json \<Rightarrow> c_alert_event option" where
  "dec_c_alert_event up v = do { ob \<leftarrow> dec_obj v;
     v0 \<leftarrow> fld (dec_uuid up) ''id'' ob; v1 \<leftarrow> opt_fld dec_str ''message'' ob;
     v2 \<leftarrow> opt_fld dec_str ''severity'' ob; v3 \<leftarrow> opt_fld dec_str ''triggered_at'' ob;
     v4 \<leftarrow> opt_fld dec_str ''resolved_at'' ob;
     Some \<lparr>evt_id = v0, evt_message = v1, evt_severity = v2, evt_triggered_at = v3, evt_resolved_at = v4\<rparr> }"

text \<open>\<^verbatim>\<open>SoftwareItem\<close>\<close>

record c_software =
  sft_name :: string
  sft_version :: "string option"
  sft_publisher :: "string option"

definition dec_c_software :: "json \<Rightarrow> c_software option" where
  "dec_c_software v = do { ob \<leftarrow> dec_obj v;
     v0 \<leftarrow> fld dec_str ''name'' ob; v1 \<leftarrow> opt_fld dec_str ''version'' ob;
     v2 \<leftarrow> opt_fld dec_str ''publisher'' ob;
     Some \<lparr>sft_name = v0, sft_version = v1, sft_publisher = v2\<rparr> }"

text \<open>\<^verbatim>\<open>PatchItem\<close>\<close>

record c_patch =
  pit_patch_id :: string
  pit_title :: "string option"
  pit_status :: string
  pit_severity :: "string option"

definition dec_c_patch :: "json \<Rightarrow> c_patch option" where
  "dec_c_patch v = do { ob \<leftarrow> dec_obj v;
     v0 \<leftarrow> fld dec_str ''patch_id'' ob; v1 \<leftarrow> opt_fld dec_str ''title'' ob;
     v2 \<leftarrow> fld dec_str ''status'' ob; v3 \<leftarrow> opt_fld dec_str ''severity'' ob;
     Some \<lparr>pit_patch_id = v0, pit_title = v1, pit_status = v2, pit_severity = v3\<rparr> }"

text \<open>\<^verbatim>\<open>DevicePatches\<close>\<close>

record c_device_patches =
  dpt_pending_count :: i64
  dpt_patches :: "c_patch list"

definition dec_c_device_patches :: "json \<Rightarrow> c_device_patches option" where
  "dec_c_device_patches v = do { ob \<leftarrow> dec_obj v;
     v0 \<leftarrow> fld dec_i ''pending_count'' ob; v1 \<leftarrow> fld (dec_list dec_c_patch) ''patches'' ob;
     Some \<lparr>dpt_pending_count = v0, dpt_patches = v1\<rparr> }"

text \<open>\<^verbatim>\<open>ServerStatus\<close>\<close>

record c_server_status =
  sst_total_devices :: i64
  sst_online_devices :: i64
  sst_connected_agents :: i64
  sst_total_policies :: i64
  sst_pending_jobs :: i64
  sst_version :: string

definition dec_c_server_status :: "json \<Rightarrow> c_server_status option" where
  "dec_c_server_status v = do { ob \<leftarrow> dec_obj v;
     v0 \<leftarrow> fld dec_i ''total_devices'' ob; v1 \<leftarrow> fld dec_i ''online_devices'' ob;
     v2 \<leftarrow> fld dec_i ''connected_agents'' ob; v3 \<leftarrow> fld dec_i ''total_policies'' ob;
     v4 \<leftarrow> fld dec_i ''pending_jobs'' ob; v5 \<leftarrow> fld dec_str ''version'' ob;
     Some \<lparr>sst_total_devices = v0, sst_online_devices = v1, sst_connected_agents = v2,
       sst_total_policies = v3, sst_pending_jobs = v4, sst_version = v5\<rparr> }"

text \<open>\<^verbatim>\<open>ComplianceRow\<close>\<close>

record c_compliance_row =
  cpr_device_id :: uuid
  cpr_policy_id :: uuid
  cpr_compliant :: bool
  cpr_reported_at :: "string option"

definition dec_c_compliance_row :: "(string \<Rightarrow> uuid option) \<Rightarrow> json \<Rightarrow> c_compliance_row option" where
  "dec_c_compliance_row up v = do { ob \<leftarrow> dec_obj v;
     v0 \<leftarrow> fld (dec_uuid up) ''device_id'' ob; v1 \<leftarrow> fld (dec_uuid up) ''policy_id'' ob;
     v2 \<leftarrow> fld dec_bool ''compliant'' ob; v3 \<leftarrow> opt_fld dec_str ''reported_at'' ob;
     Some \<lparr>cpr_device_id = v0, cpr_policy_id = v1, cpr_compliant = v2, cpr_reported_at = v3\<rparr> }"

text \<open>\<^verbatim>\<open>ComplianceFleet\<close>\<close>

record c_compliance_fleet =
  cpf_compliance_rate :: f64
  cpf_compliant :: i64
  cpf_non_compliant :: i64
  cpf_recent_violations :: "c_compliance_row list"

definition dec_c_compliance_fleet :: "(string \<Rightarrow> uuid option) \<Rightarrow> json \<Rightarrow> c_compliance_fleet option" where
  "dec_c_compliance_fleet up v = do { ob \<leftarrow> dec_obj v;
     v0 \<leftarrow> fld dec_f64 ''compliance_rate'' ob; v1 \<leftarrow> fld dec_i ''compliant'' ob;
     v2 \<leftarrow> fld dec_i ''non_compliant'' ob;
     v3 \<leftarrow> fld (dec_list (dec_c_compliance_row up)) ''recent_violations'' ob;
     Some \<lparr>cpf_compliance_rate = v0, cpf_compliant = v1, cpf_non_compliant = v2,
       cpf_recent_violations = v3\<rparr> }"

text \<open>\<^verbatim>\<open>Settings\<close>\<close>

record c_settings =
  stg_server_url :: string
  stg_server_port :: u16
  stg_tls_configured :: bool
  stg_ca_initialized :: bool

definition dec_c_settings :: "json \<Rightarrow> c_settings option" where
  "dec_c_settings v = do { ob \<leftarrow> dec_obj v;
     v0 \<leftarrow> fld dec_str ''server_url'' ob;
     v1 \<leftarrow> default_fld dec_u default_server_port ''server_port'' ob;
     v2 \<leftarrow> default_fld dec_bool False ''tls_configured'' ob;
     v3 \<leftarrow> default_fld dec_bool False ''ca_initialized'' ob;
     Some \<lparr>stg_server_url = v0, stg_server_port = v1, stg_tls_configured = v2, stg_ca_initialized = v3\<rparr> }"

text \<open>\<^verbatim>\<open>EnrollToken\<close>\<close>

record c_enroll_token =
  etk_token :: string
  etk_expires_at :: string

definition dec_c_enroll_token :: "json \<Rightarrow> c_enroll_token option" where
  "dec_c_enroll_token v = do { ob \<leftarrow> dec_obj v;
     v0 \<leftarrow> fld dec_str ''token'' ob; v1 \<leftarrow> fld dec_str ''expires_at'' ob;
     Some \<lparr>etk_token = v0, etk_expires_at = v1\<rparr> }"

text \<open>\<^verbatim>\<open>ShellOpen\<close>\<close>

record c_shell_open =
  sho_session_id :: uuid

definition dec_c_shell_open :: "(string \<Rightarrow> uuid option) \<Rightarrow> json \<Rightarrow> c_shell_open option" where
  "dec_c_shell_open up v = do { ob \<leftarrow> dec_obj v;
     v0 \<leftarrow> fld (dec_uuid up) ''session_id'' ob;
     Some \<lparr>sho_session_id = v0\<rparr> }"

end
