(* ===== verification/Console_Api.thy ===== *)
theory Console_Api
  imports Console_Model Server_Config
begin

section \<open>Console: the HTTP client (api.rs, main.rs)\<close>

text \<open>
  \<^verbatim>\<open>Api\<close> with its token, one call and the retry after a refresh, the trust the console starts with
  (\<^verbatim>\<open>resolve_tls\<close>) and the reader of a shell's event stream.  The HTTP client of \<^verbatim>\<open>reqwest\<close>, with the
  network, the server and its own cookie store behind it, is the record \<open>net\<close> over a state \<open>'w\<close>.
\<close>

datatype con_error = Message string | Http nat string

text \<open>\<^verbatim>\<open>ApiError\<close> as the user reads it (\<^verbatim>\<open>e.to_string()\<close>).\<close>

fun con_error_text :: "con_error \<Rightarrow> string" where
  "con_error_text (Message m) = m"
| "con_error_text (Http status m) = ''HTTP '' @ show_nat status @ '': '' @ m"

datatype con_method = C_GET | C_POST | C_PATCH | C_DELETE

record con_request =
  cr_method :: con_method
  cr_url :: string
  cr_bearer :: "string option"
  cr_json :: "json option"

text \<open>
  \<open>exchange\<close>: an error of the transport, or the status and the body, which is JSON or is refused with a
  text; \<open>header_ok\<close>: a token that can stand in a header; \<open>bad_body\<close>: serde's text for a value that is not
  of the type asked for; \<open>uuid_shown\<close>, \<open>uuid_read\<close>: the text of a UUID.
\<close>

record 'w net =
  exchange :: "con_request \<Rightarrow> 'w \<Rightarrow> (string + nat \<times> (string + json)) \<times> 'w"
  header_ok :: "string \<Rightarrow> bool"
  bad_body :: "json \<Rightarrow> string"
  uuid_shown :: "uuid \<Rightarrow> string"
  uuid_read :: "string \<Rightarrow> uuid option"

record 'w api =
  base :: string
  world :: 'w
  session_token :: "string option"

type_synonym ('w, 'a) con_action = "('w api, con_error, 'a) action"

definition set_token :: "string option \<Rightarrow> 'w api \<Rightarrow> 'w api" where
  "set_token t s = s\<lparr>session_token := t\<rparr>"

definition request_of :: "'w net \<Rightarrow> con_method \<Rightarrow> string \<Rightarrow> json option \<Rightarrow> 'w api \<Rightarrow> con_request" where
  "request_of N m path body s = \<lparr>cr_method = m, cr_url = base s @ path,
     cr_bearer = (case session_token s of None \<Rightarrow> None
       | Some t \<Rightarrow> if header_ok N t then Some (''Bearer '' @ t) else None),
     cr_json = body\<rparr>"

definition request_failed :: "nat \<Rightarrow> string" where
  "request_failed status = ''request failed ('' @ show_nat status @ '')''"

definition read_envelope :: "'w net \<Rightarrow> (json \<Rightarrow> 'a option) \<Rightarrow> nat \<Rightarrow> json \<Rightarrow> con_error + 'a" where
  "read_envelope N dec status v = (case dec_envelope dec v of
       None \<Rightarrow> Inl (Message (bad_body N v))
     | Some (data, err) \<Rightarrow> (case data of
           Some x \<Rightarrow> if \<not> (200 \<le> status \<and> status < 300) \<or> err \<noteq> None
             then Inl (Http status (case err of Some e \<Rightarrow> aeb_message e | None \<Rightarrow> request_failed status))
             else Inr x
         | None \<Rightarrow> Inl (Http status (case err of Some e \<Rightarrow> aeb_message e | None \<Rightarrow> request_failed status))))"

definition call_once ::
  "'w net \<Rightarrow> con_method \<Rightarrow> string \<Rightarrow> json option \<Rightarrow> (json \<Rightarrow> 'a option) \<Rightarrow> ('w, 'a) con_action" where
  "call_once N m path body dec s = (let (r, w) = exchange N (request_of N m path body s) (world s) in
     (case r of
        Inl e \<Rightarrow> Inl (Message e)
      | Inr (status, payload) \<Rightarrow> (case payload of
            Inl e \<Rightarrow> Inl (Message e)
          | Inr v \<Rightarrow> read_envelope N dec status v), s\<lparr>world := w\<rparr>))"

definition refresh_path :: string where
  "refresh_path = ''/api/v1/auth/refresh''"

definition refresh_session :: "'w net \<Rightarrow> 'w api \<Rightarrow> bool \<times> 'w api" where
  "refresh_session N s = (case call_once N C_POST refresh_path None dec_login_data s of
       (Inr t, s') \<Rightarrow> (True, set_token (Some t) s')
     | (Inl _, s') \<Rightarrow> (False, set_token None s'))"

definition session_expired :: con_error where
  "session_expired = Message (''session expired '' @ em_dash @ '' sign in again'')"

definition call :: "'w net \<Rightarrow> con_method \<Rightarrow> string \<Rightarrow> json option \<Rightarrow> (json \<Rightarrow> 'a option) \<Rightarrow> ('w, 'a) con_action" where
  "call N m path body dec s = (case call_once N m path body dec s of
       (Inl (Http status e), s1) \<Rightarrow>
         if status = 401 \<and> \<not> starts_with ''/api/v1/auth/'' path
         then (case refresh_session N s1 of
             (True, s2) \<Rightarrow> call_once N m path body dec s2
           | (False, s2) \<Rightarrow> (Inl session_expired, s2))
         else (Inl (Http status e), s1)
     | other \<Rightarrow> other)"

definition get_json :: "'w net \<Rightarrow> (json \<Rightarrow> 'a option) \<Rightarrow> string \<Rightarrow> ('w, 'a) con_action" where
  "get_json N dec path = call N C_GET path None dec"

definition post_no_body :: "'w net \<Rightarrow> (json \<Rightarrow> 'a option) \<Rightarrow> string \<Rightarrow> ('w, 'a) con_action" where
  "post_no_body N dec path = call N C_POST path None dec"

definition patch_json :: "'w net \<Rightarrow> (json \<Rightarrow> 'a option) \<Rightarrow> string \<Rightarrow> json \<Rightarrow> ('w, 'a) con_action" where
  "patch_json N dec path body = call N C_PATCH path (Some body) dec"

text \<open>Calls whose data only has to be there.\<close>

definition post_empty :: "'w net \<Rightarrow> string \<Rightarrow> json option \<Rightarrow> ('w, unit) con_action" where
  "post_empty N path body = and_then (call N C_POST path body Some) (\<lambda>_. ret ())"

definition delete_path :: "'w net \<Rightarrow> string \<Rightarrow> ('w, unit) con_action" where
  "delete_path N path = and_then (call N C_DELETE path None Some) (\<lambda>_. ret ())"

definition sign_in :: "'w net \<Rightarrow> string \<Rightarrow> string \<Rightarrow> string \<Rightarrow> ('w, unit) con_action" where
  "sign_in N user pass totp = (let code = trim totp in
     and_then (call N C_POST ''/api/v1/auth/login''
       (Some (enc_login_req user pass (if code = [] then None else Some code))) dec_login_data) (\<lambda>t.
     modify (set_token (Some t))))"

definition sign_out :: "'w net \<Rightarrow> ('w, unit) con_action" where
  "sign_out N = and_then (call N C_POST ''/api/v1/auth/logout'' None (Some :: json \<Rightarrow> json option)) (\<lambda>_.
     modify (set_token None))"

subsection \<open>Starting: whom to trust\<close>

record con_tls =
  ct_ca_pem :: "string option"
  ct_insecure :: bool

definition no_end_slashes :: "string \<Rightarrow> string" where
  "no_end_slashes s = rev (dropWhile (\<lambda>c. c = CHR ''/'') (rev s))"

definition wanted_fingerprint :: "string \<Rightarrow> string" where
  "wanted_fingerprint fp = to_lowercase (filter (\<lambda>c. hex_digit c \<noteq> None) fp)"

text \<open>
  \<open>read_pem\<close> reads a file, \<open>fetch\<close> is a GET by a client that accepts any certificate, \<open>cert_hash\<close> is
  \<^verbatim>\<open>fingerprint_der\<close>: the SHA-256 in hex of the first certificate of a PEM text.
\<close>

definition resolve_tls ::
  "(string \<Rightarrow> string + string) \<Rightarrow> (string \<Rightarrow> string + string) \<Rightarrow> (string \<Rightarrow> string option)
     \<Rightarrow> string \<Rightarrow> string option \<Rightarrow> string option \<Rightarrow> bool \<Rightarrow> string + con_tls" where
  "resolve_tls read_pem fetch cert_hash url ca_path fingerprint insecure =
     (if insecure then Inr \<lparr>ct_ca_pem = None, ct_insecure = True\<rparr>
      else case ca_path of
        Some path \<Rightarrow> (case read_pem path of
            Inl e \<Rightarrow> Inl e
          | Inr pem \<Rightarrow> Inr \<lparr>ct_ca_pem = Some pem, ct_insecure = False\<rparr>)
      | None \<Rightarrow>
          if starts_with ''https://'' url
          then (case fingerprint of
              None \<Rightarrow> Inl ''HTTPS requires --ca, --ca-fingerprint (from the server log), or --insecure''
            | Some fp \<Rightarrow> (case fetch (no_end_slashes url @ ''/ca.crt'') of
                Inl e \<Rightarrow> Inl e
              | Inr pem \<Rightarrow> (case cert_hash pem of
                  None \<Rightarrow> Inl ''CA PEM had no cert''
                | Some got \<Rightarrow>
                    if got \<noteq> wanted_fingerprint fp then Inl (''CA fingerprint mismatch (got '' @ got @ '')'')
                    else Inr \<lparr>ct_ca_pem = Some pem, ct_insecure = False\<rparr>)))
          else Inr \<lparr>ct_ca_pem = None, ct_insecure = False\<rparr>)"

text \<open>\<^verbatim>\<open>Api::new\<close>: \<open>build_error\<close> says why reqwest cannot build a client with this trust.\<close>

definition new_api :: "(con_tls \<Rightarrow> string option) \<Rightarrow> string \<Rightarrow> con_tls \<Rightarrow> 'w \<Rightarrow> con_error + 'w api" where
  "new_api build_error url tls w = (case build_error tls of
       Some e \<Rightarrow> Inl (Message e)
     | None \<Rightarrow> Inr \<lparr>base = no_end_slashes url, world = w, session_token = None\<rparr>)"

text \<open>
  Over HTTPS and without a CA file or the flag that turns verification off, the console starts only with a
  CA whose certificate has the fingerprint the user gave.
\<close>

lemma console_pins_ca:
  assumes "resolve_tls read_pem fetch cert_hash url None fingerprint False = Inr tls" and "starts_with ''https://'' url"
  shows "\<exists>fp pem. fingerprint = Some fp \<and> ct_ca_pem tls = Some pem \<and> \<not> ct_insecure tls
    \<and> cert_hash pem = Some (wanted_fingerprint fp)"
  using assms by (auto simp: resolve_tls_def split: option.splits sum.splits if_splits)

subsection \<open>What a call does to the session\<close>

text \<open>The requests a call sends, in order.\<close>

definition recording :: "'w net \<Rightarrow> ('w \<times> con_request list) net" where
  "recording N = \<lparr>exchange = (\<lambda>q (w, qs). let (r, w') = exchange N q w in (r, w', qs @ [q])),
     header_ok = header_ok N, bad_body = bad_body N, uuid_shown = uuid_shown N, uuid_read = uuid_read N\<rparr>"

definition sent_requests :: "('w \<times> con_request list) api \<Rightarrow> con_request list" where
  "sent_requests s = snd (world s)"

lemma set_token_simps [simp]:
  "sent_requests (set_token t s) = sent_requests s" "session_token (set_token t s) = t" "base (set_token t s) = base s"
  by (simp_all add: set_token_def sent_requests_def)

lemma call_once_records:
  "sent_requests (snd (call_once (recording N) m path body dec s)) =
     sent_requests s @ [request_of (recording N) m path body s]"
  "session_token (snd (call_once (recording N) m path body dec s)) = session_token s"
  "base (snd (call_once (recording N) m path body dec s)) = base s"
  by (cases "world s", auto simp: call_once_def recording_def request_of_def sent_requests_def Let_def
    split: prod.splits)+

lemma request_of_cong:
  "base t = base s \<Longrightarrow> session_token t = session_token s \<Longrightarrow> request_of N m path body t = request_of N m path body s"
  by (simp add: request_of_def)


end
