(* ===== verification/Console_Stream.thy ===== *)
theory Console_Stream
  imports Console_Api Shell_Api
begin

section \<open>Console: the event stream of a shell (api.rs, stream_sse)\<close>

text \<open>
  The reader of a \<^verbatim>\<open>text/event-stream\<close>: chunks of bytes are turned into text one by one
  (\<open>from_utf8_lossy\<close>, written out), collected, cut at blank lines, and each block is read line by line.
  The result is the list of texts put on the channel to the terminal view.
\<close>

subsection \<open>String::from\_utf8\_lossy\<close>

definition byte_in :: "nat \<Rightarrow> nat \<Rightarrow> char \<Rightarrow> bool" where
  "byte_in a b c \<longleftrightarrow> a \<le> code c \<and> code c \<le> b"

definition continuation :: "char \<Rightarrow> bool" where
  "continuation = byte_in 128 191"

text \<open>The second byte of a sequence of three or four, by its first byte.\<close>

definition second_byte :: "char \<Rightarrow> char \<Rightarrow> bool" where
  "second_byte a b =
     (if code a = 224 then byte_in 160 191 b
      else if code a = 237 then byte_in 128 159 b
      else if code a = 240 then byte_in 144 191 b
      else if code a = 244 then byte_in 128 143 b
      else continuation b)"

text \<open>How many bytes the next character takes, and whether they are one; of a broken sequence the longest part is taken.\<close>

definition next_char :: "char \<Rightarrow> string \<Rightarrow> nat \<times> bool" where
  "next_char a s =
     (if code a < 128 then (1, True)
      else if byte_in 194 223 a then (case s of b # _ \<Rightarrow> if continuation b then (2, True) else (1, False) | [] \<Rightarrow> (1, False))
      else if byte_in 224 239 a then (case s of
          b # c # _ \<Rightarrow> if second_byte a b then (if continuation c then (3, True) else (2, False)) else (1, False)
        | [b] \<Rightarrow> if second_byte a b then (2, False) else (1, False)
        | [] \<Rightarrow> (1, False))
      else if byte_in 240 244 a then (case s of
          b # c # d # _ \<Rightarrow> if second_byte a b
            then (if continuation c then (if continuation d then (4, True) else (3, False)) else (2, False))
            else (1, False)
        | [b, c] \<Rightarrow> if second_byte a b then (if continuation c then (3, False) else (2, False)) else (1, False)
        | [b] \<Rightarrow> if second_byte a b then (2, False) else (1, False)
        | [] \<Rightarrow> (1, False))
      else (1, False))"

lemma next_char_pos: "0 < fst (next_char a s)"
  by (simp add: next_char_def split: list.split)

definition replacement :: string where
  "replacement = [char_of (239 :: nat), char_of (191 :: nat), char_of (189 :: nat)]"

function from_utf8_lossy :: "string \<Rightarrow> string" where
  "from_utf8_lossy [] = []"
| "from_utf8_lossy (a # s) = (let (n, ok) = next_char a s in
     (if ok then take n (a # s) else replacement) @ from_utf8_lossy (drop n (a # s)))"
  by pat_completeness auto

termination
proof (relation "measure length", simp, goal_cases)
  case (1 a s x n ok)
  then have "0 < n" using next_char_pos [of a s] by (metis fst_conv)
  then show ?case by (cases n) simp_all
qed

definition ascii :: "string \<Rightarrow> bool" where
  "ascii s \<longleftrightarrow> (\<forall>c \<in> set s. code c < 128)"

lemma from_utf8_lossy_ascii [simp]: "ascii s \<Longrightarrow> from_utf8_lossy s = s"
  by (induction s) (simp_all add: ascii_def next_char_def)

subsection \<open>The reader\<close>

definition newline_text :: string where
  "newline_text = [CHR 0x0A]"

definition blank_line :: string where
  "blank_line = [CHR 0x0A, CHR 0x0A]"

fun sse_line :: "string \<times> string \<Rightarrow> string \<Rightarrow> string \<times> string" where
  "sse_line (event, data) line = (case strip_prefix ''event:'' line of
       Some rest \<Rightarrow> (trim rest, data)
     | None \<Rightarrow> (case strip_prefix ''data:'' line of
         Some rest \<Rightarrow> (event, data @ trim_start rest)
       | None \<Rightarrow> (event, data)))"

definition sse_block :: "string \<Rightarrow> string \<times> string" where
  "sse_block block = foldl sse_line (''message'', []) (lines_of block)"

definition closed_text :: "string \<Rightarrow> string" where
  "closed_text data = newline_text @ ''[session closed '' @ data @ '']'' @ newline_text"

lemma cut_at_shorter: "cut_at sub s = Some (a, b) \<Longrightarrow> sub \<noteq> [] \<Longrightarrow> length b < length s"
  by (induction s arbitrary: a b) (auto split: if_splits option.splits simp: Suc_le_eq less_Suc_eq,
    (cases sub, simp_all))

text \<open>All complete blocks of the buffer: what they put on the channel, and the rest, or None once the session is closed.\<close>

function drain :: "string \<Rightarrow> string list \<times> string option" where
  "drain buf = (case cut_at blank_line buf of
       None \<Rightarrow> ([], Some buf)
     | Some (block, rest) \<Rightarrow> (let (event, data) = sse_block block in
         if event = ''closed'' then ([closed_text data], None)
         else let (outs, r) = drain rest in (if data = [] then outs else data # outs, r)))"
  by pat_completeness auto

termination
  by (relation "measure length") (auto simp: blank_line_def dest: cut_at_shorter)

declare drain.simps [simp del]

text \<open>What one read of the response returns; the end of the list is the end of the body.\<close>

datatype read_result = Chunk string | Read_error string

fun read_stream :: "string \<Rightarrow> read_result list \<Rightarrow> string list" where
  "read_stream buf [] = []"
| "read_stream buf (Chunk c # rs) = (case drain (buf @ from_utf8_lossy c) of
       (outs, None) \<Rightarrow> outs
     | (outs, Some rest) \<Rightarrow> outs @ read_stream rest rs)"
| "read_stream buf (Read_error e # rs) = [''[sse read] '' @ e @ newline_text]"

definition stream_sse :: "string + nat \<times> read_result list \<Rightarrow> string list" where
  "stream_sse response = (case response of
       Inl e \<Rightarrow> [''[sse error] '' @ e @ newline_text]
     | Inr (status, reads) \<Rightarrow>
         if \<not> (200 \<le> status \<and> status < 300)
         then [''[sse http '' @ show_nat status @ '']'' @ newline_text]
         else read_stream [] reads)"

subsection \<open>Chunks do not matter\<close>

lemma starts_with_iff: "starts_with p s \<longleftrightarrow> (\<exists>r. s = p @ r)"
  unfolding starts_with_def by (metis append_eq_conv_conj append_take_drop_id)

lemma starts_with_length: "starts_with p s \<Longrightarrow> length p \<le> length s"
  by (auto simp: starts_with_iff)

lemma cut_at_length: "cut_at sub s = Some (a, b) \<Longrightarrow> length sub \<le> length s"
proof (induction s arbitrary: a b)
  case (Cons c s)
  then show ?case using starts_with_length [of sub "c # s"] by (fastforce split: if_splits option.splits)
qed simp

lemma cut_at_more: "cut_at sub s = Some (a, b) \<Longrightarrow> cut_at sub (s @ t) = Some (a, b @ t)"
proof (induction s arbitrary: a b)
  case (Cons c s)
  show ?case
  proof (cases "starts_with sub (c # s)")
    case True
    then obtain r where r: "c # s = sub @ r" by (auto simp: starts_with_iff)
    then have e: "c # s @ t = sub @ r @ t" by (metis append_Cons append_assoc)
    have "starts_with sub (c # s @ t)" unfolding e by (auto simp: starts_with_iff)
    moreover have "drop (length sub) (c # s @ t) = r @ t" unfolding e by simp
    moreover have "drop (length sub) (c # s) = r" unfolding r by simp
    ultimately show ?thesis using Cons.prems True by auto
  next
    case False
    with Cons.prems obtain a' where cut: "cut_at sub s = Some (a', b)" and a: "a = c # a'"
      by (auto split: option.splits)
    have "\<not> starts_with sub (c # s @ t)"
      using False cut_at_length [OF cut] by (simp add: starts_with_def take_Cons' split: if_splits)
    then show ?thesis using Cons.IH [OF cut] a by simp
  qed
qed simp

lemma drain_Some:
  assumes "cut_at blank_line buf = Some (block, rest)"
  shows "drain buf = (let (event, data) = sse_block block in
    if event = ''closed'' then ([closed_text data], None)
    else let (outs, r) = drain rest in (if data = [] then outs else data # outs, r))"
  by (subst drain.simps) (simp add: assms)

lemma drain_None: "cut_at blank_line buf = None \<Longrightarrow> drain buf = ([], Some buf)"
  by (subst drain.simps) simp

lemma drain_more: "drain (x @ y) = (case drain x of (outs, None) \<Rightarrow> (outs, None)
    | (outs, Some r) \<Rightarrow> (let (outs', r') = drain (r @ y) in (outs @ outs', r')))"
proof (induction x rule: drain.induct)
  case (1 x)
  show ?case
  proof (cases "cut_at blank_line x")
    case None
    then show ?thesis by (simp add: drain_None)
  next
    case (Some p)
    then obtain block rest where cut: "cut_at blank_line x = Some (block, rest)" by (cases p) auto
    obtain event data where b: "sse_block block = (event, data)" by (cases "sse_block block")
    show ?thesis
    proof (cases "event = ''closed''")
      case True
      then show ?thesis by (simp add: drain_Some [OF cut] drain_Some [OF cut_at_more [OF cut]] b)
    next
      case False
      with "1.IH" [OF cut refl b [symmetric]] show ?thesis
        by (simp add: drain_Some [OF cut] drain_Some [OF cut_at_more [OF cut]] b Let_def
          split: prod.splits option.splits)
    qed
  qed
qed

lemma drain_rest: "drain x = (outs, Some r) \<Longrightarrow> cut_at blank_line r = None"
proof (induction x arbitrary: outs rule: drain.induct)
  case (1 x)
  show ?case
  proof (cases "cut_at blank_line x")
    case None
    with "1.prems" show ?thesis by (simp add: drain_None)
  next
    case (Some p)
    then obtain block rest where cut: "cut_at blank_line x = Some (block, rest)" by (cases p) auto
    obtain event data where b: "sse_block block = (event, data)" by (cases "sse_block block")
    with "1.prems" cut have "event \<noteq> ''closed''" by (auto simp: drain_Some [OF cut])
    moreover from this obtain outs' where "drain rest = (outs', Some r)"
      using "1.prems" by (auto simp: drain_Some [OF cut] b Let_def split: prod.splits)
    ultimately show ?thesis using "1.IH" [OF cut refl b [symmetric]] by blast
  qed
qed

lemma read_stream_whole:
  assumes "\<And>c. c \<in> set cs \<Longrightarrow> ascii c" and "cut_at blank_line buf = None"
  shows "read_stream buf (map Chunk cs) = fst (drain (buf @ concat cs))"
  using assms
proof (induction cs arbitrary: buf)
  case Nil
  then show ?case by (simp add: drain_None)
next
  case (Cons c cs)
  obtain outs r where d: "drain (buf @ c) = (outs, r)" by (cases "drain (buf @ c)")
  show ?case
  proof (cases r)
    case None
    then show ?thesis using d Cons.prems drain_more [of "buf @ c" "concat cs"] by simp
  next
    case (Some rest)
    with d have "cut_at blank_line rest = None" by (auto dest: drain_rest)
    then show ?thesis using d Some Cons drain_more [of "buf @ c" "concat cs"]
      by (simp add: Let_def split: prod.splits)
  qed
qed



subsection \<open>What arrives of the server's events\<close>

text \<open>
  axum writes an event as a line with its name and one \<^verbatim>\<open>data:\<close> line for each line of its data, and ends
  it with an empty line; \<open>framed\<close> is that format.
\<close>

definition framed :: "string \<Rightarrow> string list \<Rightarrow> string" where
  "framed name ls = ''event: '' @ name @ newline_text
     @ concat (map (\<lambda>l. ''data: '' @ l @ newline_text) ls) @ newline_text"

text \<open>A text that survives: one line, not empty, without blanks in front and without a carriage return.\<close>

definition plain_line :: "string \<Rightarrow> bool" where
  "plain_line d \<longleftrightarrow> ascii d \<and> d \<noteq> [] \<and> \<not> is_ws (hd d) \<and> CHR 0x0A \<notin> set d \<and> CHR 0x0D \<notin> set d"

lemma cut_skip:
  "CHR 0x0A \<notin> set l \<Longrightarrow> cut_at blank_line (l @ s) = map_option (\<lambda>(a, b). (l @ a, b)) (cut_at blank_line s)"
proof (induction l)
  case Nil
  show ?case by (cases "cut_at blank_line s") auto
next
  case (Cons c l)
  then have "\<not> starts_with blank_line (c # l @ s)" by (auto simp: starts_with_def blank_line_def)
  with Cons show ?case by (cases "cut_at blank_line s") auto
qed

lemma cut_line:
  assumes "CHR 0x0A \<notin> set l" and "s \<noteq> []" and "hd s \<noteq> CHR 0x0A"
  shows "cut_at blank_line (l @ newline_text @ s) =
    map_option (\<lambda>(a, b). (l @ newline_text @ a, b)) (cut_at blank_line s)"
proof -
  have "cut_at blank_line (newline_text @ s) = map_option (\<lambda>(a, b). (newline_text @ a, b)) (cut_at blank_line s)"
    using assms(2,3) by (cases s; cases "cut_at blank_line s")
      (auto simp: newline_text_def blank_line_def starts_with_def)
  then show ?thesis by (cases "cut_at blank_line s") (auto simp: cut_skip [OF assms(1)])
qed

lemma cut_end: "CHR 0x0A \<notin> set l \<Longrightarrow> cut_at blank_line (l @ blank_line @ r) = Some (l, r)"
  by (simp add: cut_skip) (simp add: blank_line_def starts_with_def)

lemma cut_framed:
  assumes "CHR 0x0A \<notin> set name" and "CHR 0x0A \<notin> set d"
  shows "cut_at blank_line (framed name [d] @ r) =
    Some (''event: '' @ name @ newline_text @ ''data: '' @ d, r)"
proof -
  have "cut_at blank_line ((''data: '' @ d) @ blank_line @ r) = Some (''data: '' @ d, r)"
    by (rule cut_end) (use assms in simp)
  moreover have "cut_at blank_line ((''event: '' @ name) @ newline_text @ (''data: '' @ d) @ blank_line @ r) =
      map_option (\<lambda>(a, b). ((''event: '' @ name) @ newline_text @ a, b))
        (cut_at blank_line ((''data: '' @ d) @ blank_line @ r))"
    by (rule cut_line) (use assms in simp_all)
  ultimately show ?thesis by (simp add: framed_def newline_text_def blank_line_def)
qed

lemma lines_two:
  assumes "CHR 0x0A \<notin> set l" "CHR 0x0A \<notin> set m" "m \<noteq> []" "CHR 0x0D \<notin> set l" "CHR 0x0D \<notin> set m"
  shows "lines_of (l @ newline_text @ m) = [l, m]"
proof -
  have "strip_cr l = l" "strip_cr m = m"
    using assms(4,5) by (auto simp: strip_cr_def dest: last_in_set)
  then show ?thesis
    using assms(1-3) by (simp add: lines_of_def newline_text_def split_on_append split_on_no_sep Let_def)
qed

lemma block_framed:
  assumes "plain_line d"
  shows "sse_block (''event: output'' @ newline_text @ ''data: '' @ d) = (''output'', d)"
proof -
  have l: "lines_of (''event: output'' @ newline_text @ (''data: '' @ d)) = [''event: output'', ''data: '' @ d]"
    by (rule lines_two) (use assms in \<open>auto simp: plain_line_def\<close>)
  have "is_ws CHR '' ''" "trim '' output'' = ''output''" by code_simp+
  moreover from this have "trim_start ('' '' @ d) = d"
    using assms by (cases d) (simp_all add: plain_line_def trim_start_def)
  ultimately have blanks: "trim_start (CHR '' '' # d) = d" "trim '' output'' = ''output''" by simp_all
  then show ?thesis
    using l by (simp add: sse_block_def strip_prefix_def starts_with_def blanks)
qed

lemma drain_framed:
  "(\<And>d. d \<in> set ds \<Longrightarrow> plain_line d) \<Longrightarrow>
    drain (concat (map (\<lambda>d. framed ''output'' [d]) ds)) = (ds, Some [])"
proof (induction ds)
  case Nil
  show ?case by (simp add: drain_None)
next
  case (Cons d ds)
  then have d: "plain_line d" by simp
  then have "cut_at blank_line (framed ''output'' [d] @ concat (map (\<lambda>d. framed ''output'' [d]) ds)) =
      Some (''event: output'' @ newline_text @ ''data: '' @ d, concat (map (\<lambda>d. framed ''output'' [d]) ds))"
    using cut_framed [of "''output''" d] by (simp add: plain_line_def)
  from drain_Some [OF this] show ?case
    using Cons d block_framed [OF d] by (simp add: plain_line_def)
qed



text \<open>
  The line breaks of a longer text are lost, as are blanks in front of a line: the \<^verbatim>\<open>data:\<close> lines of one
  event are joined without the newlines that separated them.
\<close>

lemma line_breaks_lost:
  "stream_sse (Inr (200, [Chunk (framed ''output'' [''total 8'', ''  file''])])) = [''total 8file'']"
  by code_simp

text \<open>A character that straddles two reads is replaced by two replacement characters and more.\<close>

lemma split_character_replaced:
  "stream_sse (Inr (200, [Chunk ''data: '', Chunk [CHR 0xC3], Chunk ([CHR 0xA9] @ blank_line)])) =
     [replacement @ replacement]"
  "stream_sse (Inr (200, [Chunk (''data: '' @ [CHR 0xC3, CHR 0xA9] @ blank_line)])) = [[CHR 0xC3, CHR 0xA9]]"
  by code_simp+

end
