(* ===== verification/Console_App.thy ===== *)
theory Console_App
  imports Console_Stream
begin

section \<open>Console: the worker and the window (app.rs)\<close>

text \<open>
  The two threads of the console.  The worker turns each \<open>work\<close> into calls and one \<open>reply\<close> (\<open>run_work\<close>).
  The window keeps the state that is drawn: \<open>receive\<close> is one reply in \<^verbatim>\<open>pump\<close>, \<open>press\<close> is a
  widget that is used, with the condition under which the code shows it and what it does.  Labels, plots and
  layout are not modelled.
\<close>

subsection \<open>Works and replies\<close>

datatype screen = Overview | Devices | Device | Jobs | Job | Policies | Groups | Alerts | Reports | Settings | Shell

datatype work =
    W_Login string string string
  | W_Logout
  | W_LoadOverview
  | W_LoadDevices
  | W_LoadDevice uuid
  | W_LoadJobs
  | W_LoadJob uuid
  | W_DispatchJob uuid json
  | W_CancelJob uuid
  | W_LoadPolicies
  | W_CreatePolicy string json
  | W_TogglePolicy uuid bool
  | W_DeletePolicy uuid
  | W_AssignPolicy uuid "uuid option" "uuid option"
  | W_LoadGroups
  | W_CreateGroup string string
  | W_DeleteGroup uuid
  | W_AddMember uuid uuid
  | W_RemoveMember uuid uuid
  | W_LoadAlerts bool
  | W_CreateAlert string string string f64 string
  | W_DeleteAlert uuid
  | W_ResolveEvent uuid
  | W_LoadReports
  | W_LoadSettings
  | W_EnrollToken
  | W_MfaSetup
  | W_MfaVerify string
  | W_RequestInventory uuid
  | W_RequestTelemetry uuid
  | W_RevokeDevice uuid
  | W_OpenShell uuid
  | W_ShellInput uuid string
  | W_CloseShell uuid

datatype reply =
    R_Error string
  | R_LoggedIn c_user
  | R_LoggedOut
  | R_Overview c_server_status "c_device list" "c_job list" "c_alert_event list"
  | R_Devices "c_device list"
  | R_Device c_device "c_metric list" "c_software list" c_device_patches
  | R_Jobs "c_job list"
  | R_Job c_job
  | R_Policies "c_policy list" "c_device list" "c_group list"
  | R_Groups "c_group list" "(uuid \<times> c_member list) list" "c_device list"
  | R_Alerts "c_alert_rule list" "c_alert_event list"
  | R_Reports c_compliance_fleet
  | R_Settings c_settings c_server_status
  | R_Token c_enroll_token
  | R_MfaUrl string
  | R_MfaEnabled
  | R_ShellOpened uuid
  | R_ShellClosed
  | R_OkRefresh

subsection \<open>The worker\<close>

definition enc_id :: "'w net \<Rightarrow> uuid \<Rightarrow> json" where
  "enc_id N = enc_uuid (uuid_shown N)"

definition sub_path :: "'w net \<Rightarrow> string \<Rightarrow> uuid \<Rightarrow> string \<Rightarrow> string" where
  "sub_path N prefix i suffix = prefix @ uuid_shown N i @ suffix"

definition load_devices :: "'w net \<Rightarrow> ('w, c_device list) con_action" where
  "load_devices N = get_json N (dec_list (dec_c_device (uuid_read N))) ''/api/v1/devices''"

definition load_jobs :: "'w net \<Rightarrow> ('w, c_job list) con_action" where
  "load_jobs N = get_json N (dec_list (dec_c_job (uuid_read N))) ''/api/v1/jobs''"

definition load_group_list :: "'w net \<Rightarrow> ('w, c_group list) con_action" where
  "load_group_list N = get_json N (dec_list (dec_c_group (uuid_read N))) ''/api/v1/groups''"

definition load_status :: "'w net \<Rightarrow> ('w, c_server_status) con_action" where
  "load_status N = get_json N dec_c_server_status ''/api/v1/settings/status''"

definition load_job :: "'w net \<Rightarrow> uuid \<Rightarrow> ('w, reply) con_action" where
  "load_job N i = and_then (get_json N (dec_c_job (uuid_read N)) (sub_path N ''/api/v1/jobs/'' i [])) (\<lambda>j. ret (R_Job j))"

definition load_overview :: "'w net \<Rightarrow> ('w, reply) con_action" where
  "load_overview N =
     and_then (load_status N) (\<lambda>st.
     and_then (load_devices N) (\<lambda>ds.
     and_then (load_jobs N) (\<lambda>js.
     and_then (get_json N (dec_list (dec_c_alert_event (uuid_read N)))
       ''/api/v1/alerts/events?unresolved=true&limit=8'') (\<lambda>es.
     ret (R_Overview st ds js es)))))"

definition load_device :: "'w net \<Rightarrow> uuid \<Rightarrow> ('w, reply) con_action" where
  "load_device N i =
     and_then (get_json N (dec_c_device (uuid_read N)) (sub_path N ''/api/v1/devices/'' i [])) (\<lambda>d.
     and_then (get_json N (dec_list dec_c_metric) (sub_path N ''/api/v1/devices/'' i ''/telemetry'')) (\<lambda>ms.
     and_then (get_json N (dec_list dec_c_software) (sub_path N ''/api/v1/software/device/'' i [])) (\<lambda>sw.
     and_then (get_json N dec_c_device_patches (sub_path N ''/api/v1/patches/device/'' i [])) (\<lambda>ps.
     ret (R_Device d ms sw ps)))))"

definition load_policies :: "'w net \<Rightarrow> ('w, reply) con_action" where
  "load_policies N =
     and_then (get_json N (dec_list (dec_c_policy (uuid_read N))) ''/api/v1/policies'') (\<lambda>ps.
     and_then (load_devices N) (\<lambda>ds.
     and_then (load_group_list N) (\<lambda>gs.
     ret (R_Policies ps ds gs))))"

primrec load_members :: "'w net \<Rightarrow> c_group list \<Rightarrow> ('w, (uuid \<times> c_member list) list) con_action" where
  "load_members N [] = ret []"
| "load_members N (g # gs) =
     and_then (get_json N (dec_list (dec_c_member (uuid_read N)))
       (sub_path N ''/api/v1/groups/'' (grp_id g) ''/members'')) (\<lambda>m.
     and_then (load_members N gs) (\<lambda>ms. ret ((grp_id g, m) # ms)))"

definition load_groups :: "'w net \<Rightarrow> ('w, reply) con_action" where
  "load_groups N =
     and_then (load_group_list N) (\<lambda>gs.
     and_then (load_devices N) (\<lambda>ds.
     and_then (load_members N gs) (\<lambda>ms.
     ret (R_Groups gs ms ds))))"

definition load_alerts :: "'w net \<Rightarrow> bool \<Rightarrow> ('w, reply) con_action" where
  "load_alerts N unresolved =
     and_then (get_json N (dec_list (dec_c_alert_rule (uuid_read N))) ''/api/v1/alerts/rules'') (\<lambda>rs.
     and_then (get_json N (dec_list (dec_c_alert_event (uuid_read N)))
       (''/api/v1/alerts/events'' @ (if unresolved then ''?unresolved=true'' else []))) (\<lambda>es.
     ret (R_Alerts rs es)))"

definition otpauth_url :: "json \<Rightarrow> string" where
  "otpauth_url v = (case v of
       JObj ob \<Rightarrow> (case map_of ob ''otpauth_url'' of Some (JStr u) \<Rightarrow> u | _ \<Rightarrow> [])
     | _ \<Rightarrow> [])"

fun run_work :: "'w net \<Rightarrow> work \<Rightarrow> ('w, reply) con_action" where
  "run_work N (W_Login user pass totp) = and_then (sign_in N user pass totp) (\<lambda>_.
     and_then (get_json N (dec_c_user (uuid_read N)) ''/api/v1/auth/me'') (\<lambda>u. ret (R_LoggedIn u)))"
| "run_work N W_Logout = and_then (ignore (sign_out N)) (\<lambda>_. ret R_LoggedOut)"
| "run_work N W_LoadOverview = load_overview N"
| "run_work N W_LoadDevices = and_then (load_devices N) (\<lambda>ds. ret (R_Devices ds))"
| "run_work N (W_LoadDevice i) = load_device N i"
| "run_work N W_LoadJobs = and_then (load_jobs N) (\<lambda>js. ret (R_Jobs js))"
| "run_work N (W_LoadJob i) = load_job N i"
| "run_work N (W_DispatchJob d payload) = and_then (post_empty N ''/api/v1/jobs''
     (Some (JObj [(''device_id'', enc_id N d), (''payload'', payload)]))) (\<lambda>_.
     and_then (load_jobs N) (\<lambda>js. ret (R_Jobs js)))"
| "run_work N (W_CancelJob i) = and_then (post_empty N (sub_path N ''/api/v1/jobs/'' i ''/cancel'') None) (\<lambda>_.
     load_job N i)"
| "run_work N W_LoadPolicies = load_policies N"
| "run_work N (W_CreatePolicy name rules) = and_then (post_empty N ''/api/v1/policies''
     (Some (JObj [(''name'', JStr name), (''rules'', rules)]))) (\<lambda>_. load_policies N)"
| "run_work N (W_TogglePolicy i enabled) = and_then (patch_json N (dec_c_policy (uuid_read N))
     (sub_path N ''/api/v1/policies/'' i []) (JObj [(''enabled'', JBool enabled)])) (\<lambda>_. load_policies N)"
| "run_work N (W_DeletePolicy i) = and_then (delete_path N (sub_path N ''/api/v1/policies/'' i [])) (\<lambda>_.
     load_policies N)"
| "run_work N (W_AssignPolicy i d g) = and_then (post_empty N (sub_path N ''/api/v1/policies/'' i ''/assign'')
     (Some (JObj [(''device_id'', enc_opt (enc_id N) d), (''group_id'', enc_opt (enc_id N) g)]))) (\<lambda>_. ret R_OkRefresh)"
| "run_work N W_LoadGroups = load_groups N"
| "run_work N (W_CreateGroup name description) = and_then (post_empty N ''/api/v1/groups''
     (Some (JObj [(''name'', JStr name), (''description'', JStr description)]))) (\<lambda>_. load_groups N)"
| "run_work N (W_DeleteGroup i) = and_then (delete_path N (sub_path N ''/api/v1/groups/'' i [])) (\<lambda>_. load_groups N)"
| "run_work N (W_AddMember g d) = and_then (post_empty N (sub_path N ''/api/v1/groups/'' g ''/members'')
     (Some (JObj [(''device_id'', enc_id N d)]))) (\<lambda>_. load_groups N)"
| "run_work N (W_RemoveMember g d) = and_then (delete_path N
     (sub_path N (sub_path N ''/api/v1/groups/'' g ''/members/'') d [])) (\<lambda>_. load_groups N)"
| "run_work N (W_LoadAlerts unresolved) = load_alerts N unresolved"
| "run_work N (W_CreateAlert name metric operator threshold severity) = and_then (post_empty N ''/api/v1/alerts/rules''
     (Some (JObj [(''name'', JStr name), (''metric'', JStr metric), (''operator'', JStr operator),
       (''threshold'', enc_f64 threshold), (''severity'', JStr severity)]))) (\<lambda>_. load_alerts N True)"
| "run_work N (W_DeleteAlert i) = and_then (delete_path N (sub_path N ''/api/v1/alerts/rules/'' i [])) (\<lambda>_.
     load_alerts N True)"
| "run_work N (W_ResolveEvent i) = and_then (post_empty N (sub_path N ''/api/v1/alerts/events/'' i ''/resolve'') None) (\<lambda>_.
     load_alerts N True)"
| "run_work N W_LoadReports = and_then (get_json N (dec_c_compliance_fleet (uuid_read N))
     ''/api/v1/reports/compliance'') (\<lambda>r. ret (R_Reports r))"
| "run_work N W_LoadSettings = and_then (get_json N dec_c_settings ''/api/v1/settings'') (\<lambda>c.
     and_then (load_status N) (\<lambda>st. ret (R_Settings c st)))"
| "run_work N W_EnrollToken = and_then (post_no_body N dec_c_enroll_token ''/api/v1/enroll/token'') (\<lambda>t.
     ret (R_Token t))"
| "run_work N W_MfaSetup = and_then (post_no_body N Some ''/api/v1/auth/mfa/setup'') (\<lambda>v.
     ret (R_MfaUrl (otpauth_url v)))"
| "run_work N (W_MfaVerify otp) = and_then (post_empty N ''/api/v1/auth/mfa/verify''
     (Some (JObj [(''code'', JStr otp)]))) (\<lambda>_. ret R_MfaEnabled)"
| "run_work N (W_RequestInventory i) = and_then (post_empty N
     (sub_path N ''/api/v1/devices/'' i ''/request-inventory'') None) (\<lambda>_. load_device N i)"
| "run_work N (W_RequestTelemetry i) = and_then (post_empty N
     (sub_path N ''/api/v1/devices/'' i ''/request-telemetry'') None) (\<lambda>_. load_device N i)"
| "run_work N (W_RevokeDevice i) = and_then (delete_path N (sub_path N ''/api/v1/devices/'' i [])) (\<lambda>_.
     and_then (load_devices N) (\<lambda>ds. ret (R_Devices ds)))"
| "run_work N (W_OpenShell i) = and_then (post_no_body N (dec_c_shell_open (uuid_read N))
     (sub_path N ''/api/v1/shell/'' i [])) (\<lambda>r. ret (R_ShellOpened (sho_session_id r)))"
| "run_work N (W_ShellInput session data) = and_then (post_empty N (sub_path N ''/api/v1/shell/'' session ''/input'')
     (Some (JObj [(''data'', JStr data)]))) (\<lambda>_. ret R_OkRefresh)"
| "run_work N (W_CloseShell session) = and_then (delete_path N (sub_path N ''/api/v1/shell/'' session ''/close'')) (\<lambda>_.
     ret R_ShellClosed)"

text \<open>One turn of the worker: exactly one reply for a work.\<close>

definition worker_reply :: "'w net \<Rightarrow> work \<Rightarrow> 'w api \<Rightarrow> reply \<times> 'w api" where
  "worker_reply N w s = (case run_work N w s of
       (Inr r, s') \<Rightarrow> (r, s')
     | (Inl e, s') \<Rightarrow> (R_Error (con_error_text e), s'))"

end
