(* ===== verification/Console_Window.thy ===== *)
theory Console_Window
  imports Console_App
begin

section \<open>Console: the window (app.rs)\<close>

text \<open>
  The state of the window with its two channels, what it does with a reply, and the start of a frame.
\<close>

subsection \<open>State\<close>

text \<open>
  \<open>works\<close> is the channel to the worker, \<open>replies\<close> the channel back, \<open>shell_channel\<close> the receiving end of a
  stream: the texts not yet taken and whether its thread still runs; \<open>streams\<close> are the sessions whose
  reader threads were started, in order.  Times are seconds.
\<close>

record console =
  works :: "work list"
  replies :: "reply list"
  streams :: "uuid list"
  con_screen :: screen
  con_user :: "c_user option"
  busy :: bool
  con_error :: "string option"
  last_refresh :: nat
  api_url :: string
  con_username :: string
  con_password :: string
  con_totp :: string
  con_status :: "c_server_status option"
  con_devices :: "c_device list"
  selected_device :: "uuid option"
  con_metrics :: "c_metric list"
  con_software :: "c_software list"
  con_patches :: c_device_patches
  con_jobs :: "c_job list"
  selected_job :: "uuid option"
  job_detail :: "c_job option"
  con_policies :: "c_policy list"
  con_groups :: "c_group list"
  con_members :: "(uuid \<times> c_member list) list"
  con_rules :: "c_alert_rule list"
  con_events :: "c_alert_event list"
  unresolved_only :: bool
  con_reports :: "c_compliance_fleet option"
  con_settings :: "c_settings option"
  con_token :: "c_enroll_token option"
  mfa_url :: "string option"
  mfa_code :: string
  job_script :: string
  job_kind :: nat
  policy_name :: string
  policy_fw :: bool
  policy_usb :: bool
  group_name :: string
  alert_name :: string
  alert_metric :: nat
  alert_threshold :: f64
  shell_session :: "uuid option"
  shell_out :: string
  shell_in :: string
  shell_channel :: "(string list \<times> bool) option"

definition new_console :: "string \<Rightarrow> nat \<Rightarrow> console" where
  "new_console url now = \<lparr>works = [], replies = [], streams = [], con_screen = Overview, con_user = None,
     busy = False, con_error = None, last_refresh = now, api_url = url, con_username = ''admin'',
     con_password = [], con_totp = [], con_status = None, con_devices = [], selected_device = None,
     con_metrics = [], con_software = [], con_patches = \<lparr>dpt_pending_count = 0, dpt_patches = []\<rparr>,
     con_jobs = [], selected_job = None, job_detail = None, con_policies = [], con_groups = [],
     con_members = [], con_rules = [], con_events = [], unresolved_only = True, con_reports = None,
     con_settings = None, con_token = None, mfa_url = None, mfa_code = [], job_script = ''uname -a'',
     job_kind = 0, policy_name = [], policy_fw = True, policy_usb = False, group_name = [],
     alert_name = ''High CPU'', alert_metric = 0, alert_threshold = F_fin 90, shell_session = None,
     shell_out = [], shell_in = [], shell_channel = None\<rparr>"

definition con_is_admin :: "console \<Rightarrow> bool" where
  "con_is_admin s \<longleftrightarrow> (case con_user s of None \<Rightarrow> False | Some u \<Rightarrow> usr_role u = ''admin'')"

definition send_work :: "work \<Rightarrow> console \<Rightarrow> console" where
  "send_work w s = s\<lparr>busy := True, con_error := None, works := works s @ [w]\<rparr>"

lemma send_work_simps [simp]:
  "works (send_work x s) = works s @ [x]" "replies (send_work x s) = replies s" "busy (send_work x s)"
  "last_refresh (send_work x s) = last_refresh s" "con_user (send_work x s) = con_user s"
  "con_screen (send_work x s) = con_screen s"
  by (simp_all add: send_work_def)

subsection \<open>pump\<close>

definition ok_refresh :: "console \<Rightarrow> console" where
  "ok_refresh s = (case con_screen s of
       Overview \<Rightarrow> send_work W_LoadOverview s
     | Devices \<Rightarrow> send_work W_LoadDevices s
     | Device \<Rightarrow> (case selected_device s of Some i \<Rightarrow> send_work (W_LoadDevice i) s | None \<Rightarrow> s)
     | Jobs \<Rightarrow> send_work W_LoadJobs s
     | Job \<Rightarrow> (case selected_job s of Some i \<Rightarrow> send_work (W_LoadJob i) s | None \<Rightarrow> s)
     | Policies \<Rightarrow> send_work W_LoadPolicies s
     | Groups \<Rightarrow> send_work W_LoadGroups s
     | Alerts \<Rightarrow> send_work (W_LoadAlerts (unresolved_only s)) s
     | Reports \<Rightarrow> send_work W_LoadReports s
     | Settings \<Rightarrow> send_work W_LoadSettings s
     | Shell \<Rightarrow> s)"

text \<open>One reply; \<open>busy\<close> is already reset.\<close>

fun receive_idle :: "reply \<Rightarrow> console \<Rightarrow> console" where
  "receive_idle (R_Error e) s = s\<lparr>con_error := Some e\<rparr>"
| "receive_idle (R_LoggedIn u) s = send_work W_LoadOverview (s\<lparr>con_user := Some u\<rparr>)"
| "receive_idle R_LoggedOut s = s\<lparr>con_user := None, con_screen := Overview\<rparr>"
| "receive_idle (R_Overview st ds js es) s =
     s\<lparr>con_status := Some st, con_devices := ds, con_jobs := js, con_events := es\<rparr>"
| "receive_idle (R_Devices ds) s = s\<lparr>con_devices := ds\<rparr>"
| "receive_idle (R_Device d ms sw ps) s = s\<lparr>selected_device := Some (dev_id d),
     con_devices := d # filter (\<lambda>x. dev_id x \<noteq> dev_id d) (con_devices s), con_metrics := ms,
     con_software := sw, con_patches := ps\<rparr>"
| "receive_idle (R_Jobs js) s = s\<lparr>con_jobs := js\<rparr>"
| "receive_idle (R_Job j) s = s\<lparr>selected_job := Some (jb_id j), job_detail := Some j\<rparr>"
| "receive_idle (R_Policies ps ds gs) s = s\<lparr>con_policies := ps, con_devices := ds, con_groups := gs\<rparr>"
| "receive_idle (R_Groups gs ms ds) s = s\<lparr>con_groups := gs, con_members := ms, con_devices := ds\<rparr>"
| "receive_idle (R_Alerts rs es) s = s\<lparr>con_rules := rs, con_events := es\<rparr>"
| "receive_idle (R_Reports r) s = s\<lparr>con_reports := Some r\<rparr>"
| "receive_idle (R_Settings c st) s = s\<lparr>con_settings := Some c, con_status := Some st\<rparr>"
| "receive_idle (R_Token t) s = s\<lparr>con_token := Some t\<rparr>"
| "receive_idle (R_MfaUrl u) s = s\<lparr>mfa_url := Some u\<rparr>"
| "receive_idle R_MfaEnabled s = s\<lparr>mfa_url := None,
     con_user := map_option (\<lambda>u. u\<lparr>usr_totp_enabled := True\<rparr>) (con_user s)\<rparr>"
| "receive_idle (R_ShellOpened i) s = s\<lparr>shell_session := Some i, shell_out := [],
     shell_channel := Some ([], True), streams := streams s @ [i]\<rparr>"
| "receive_idle R_ShellClosed s = s\<lparr>shell_session := None\<rparr>"
| "receive_idle R_OkRefresh s = ok_refresh s"

definition receive :: "reply \<Rightarrow> console \<Rightarrow> console" where
  "receive r s = receive_idle r (s\<lparr>busy := False\<rparr>)"

definition pump_shell :: "console \<Rightarrow> console" where
  "pump_shell s = (case shell_channel s of
       None \<Rightarrow> s
     | Some (texts, alive) \<Rightarrow> s\<lparr>shell_out := shell_out s @ concat texts,
         shell_channel := (if alive then Some ([], True) else None)\<rparr>)"

definition pump :: "console \<Rightarrow> console" where
  "pump s = pump_shell (fold receive (replies s) (s\<lparr>replies := []\<rparr>))"

text \<open>The start of \<^verbatim>\<open>update\<close>: the replies, then the periodic refresh.\<close>

definition due_work :: "nat \<Rightarrow> console \<Rightarrow> work option" where
  "due_work now s =
     (if con_screen s = Overview \<and> 15 \<le> now - last_refresh s then Some W_LoadOverview
      else if con_screen s = Job \<and> 2 \<le> now - last_refresh s then map_option W_LoadJob (selected_job s)
      else None)"

definition frame :: "nat \<Rightarrow> console \<Rightarrow> console" where
  "frame now s = (let s1 = pump s in
     if con_user s1 \<noteq> None \<and> \<not> busy s1
     then (case due_work now s1 of None \<Rightarrow> s1 | Some w \<Rightarrow> send_work w (s1\<lparr>last_refresh := now\<rparr>))
     else s1)"

end
