(* ===== verification/Console_Screens.thy ===== *)
theory Console_Screens
  imports Console_Window
begin

section \<open>Console: the screens (app.rs)\<close>

text \<open>
  One function per screen: what each of its widgets does when it is used, \<open>None\<close> where the code does not
  draw the widget (nobody is signed in, no administrator, no such row).  A number is the position of
  a row in the list that is drawn.  The texts and plots themselves are not modelled.
\<close>

subsection \<open>What is computed for the screens\<close>

definition short_id :: "'w net \<Rightarrow> uuid \<Rightarrow> string" where
  "short_id N i = take 8 (uuid_shown N i)"

definition ram_pct :: "c_metric \<Rightarrow> f64" where
  "ram_pct m = (case (met_ram_used_mb m, met_ram_total_mb m) of
       (Some u, Some t) \<Rightarrow>
         if 0 < sint t then f64_mul (f64_div (f64_of_int (sint u)) (f64_of_int (sint t))) (F_fin 100) else F_fin 0
     | _ \<Rightarrow> F_fin 0)"

definition default_shell :: "bool \<Rightarrow> string" where
  "default_shell on_windows = (if on_windows then ''cmd'' else ''bash'')"

definition job_payload_of :: "bool \<Rightarrow> console \<Rightarrow> json" where
  "job_payload_of on_windows s =
     (if job_kind s = 1 then JObj [(''type'', JStr ''reboot''), (''delay_seconds'', JInt 60)]
      else if job_kind s = 2 then JObj [(''type'', JStr ''collect_inventory'')]
      else JObj [(''type'', JStr ''run_script''), (''shell'', JStr (default_shell on_windows)),
        (''script'', JStr (job_script s))])"

definition policy_rules_of :: "console \<Rightarrow> json" where
  "policy_rules_of s = JArr [JObj [(''type'', JStr ''firewall''), (''enabled'', JBool (policy_fw s))],
     JObj [(''type'', JStr ''usb_storage''), (''allow'', JBool (\<not> policy_usb s))]]"

definition metric_names :: "string list" where
  "metric_names = [''cpu_pct'', ''ram_pct'', ''disk_pct'']"

definition target :: "c_device \<Rightarrow> c_device list \<Rightarrow> c_device list" where
  "target d ds = d # filter (\<lambda>x. dev_id x \<noteq> dev_id d) ds"

definition final_states :: "string list" where
  "final_states = [''completed'', ''done'', ''failed'', ''cancelled'']"

definition members_shown :: "console \<Rightarrow> uuid \<Rightarrow> c_member list" where
  "members_shown s g = (case List.find (\<lambda>p. fst p = g) (con_members s) of None \<Rightarrow> [] | Some p \<Rightarrow> snd p)"

definition with_newline :: "string \<Rightarrow> string" where
  "with_newline t = (if t \<noteq> [] \<and> last t = CHR 0x0A then t else t @ newline_text)"

text \<open>\<open>offered\<close>: a widget under a condition; \<open>on_row\<close>: a widget of one row of a list.\<close>

definition offered :: "bool \<Rightarrow> console \<Rightarrow> console option" where
  "offered drawn t = (if drawn then Some t else None)"

definition on_row :: "'a list \<Rightarrow> nat \<Rightarrow> ('a \<Rightarrow> console option) \<Rightarrow> console option" where
  "on_row xs n f = (if n < length xs then f (xs ! n) else None)"

subsection \<open>Signing in, the side panel\<close>

datatype login_widget = Type_url string | Type_user string | Type_password string | Type_totp string | Sign_in

fun login_ui :: "login_widget \<Rightarrow> console \<Rightarrow> console option" where
  "login_ui (Type_url t) s = Some (s\<lparr>api_url := t\<rparr>)"
| "login_ui (Type_user t) s = Some (s\<lparr>con_username := t\<rparr>)"
| "login_ui (Type_password t) s = Some (s\<lparr>con_password := t\<rparr>)"
| "login_ui (Type_totp t) s = Some (s\<lparr>con_totp := t\<rparr>)"
| "login_ui Sign_in s =
     Some ((send_work (W_Login (con_username s) (con_password s) (con_totp s)) s)\<lparr>con_password := []\<rparr>)"

datatype nav_widget = Go screen | Sign_out

definition nav_screens :: "screen list" where
  "nav_screens = [Overview, Devices, Jobs, Policies, Groups, Alerts, Reports, Settings]"

definition nav_btn :: "screen \<Rightarrow> console \<Rightarrow> console" where
  "nav_btn sc s = (let t = s\<lparr>con_screen := sc\<rparr> in case sc of
       Overview \<Rightarrow> send_work W_LoadOverview t
     | Devices \<Rightarrow> send_work W_LoadDevices t
     | Jobs \<Rightarrow> send_work W_LoadJobs t
     | Policies \<Rightarrow> send_work W_LoadPolicies t
     | Groups \<Rightarrow> send_work W_LoadGroups t
     | Alerts \<Rightarrow> send_work (W_LoadAlerts (unresolved_only t)) t
     | Reports \<Rightarrow> send_work W_LoadReports t
     | Settings \<Rightarrow> send_work W_LoadSettings t
     | _ \<Rightarrow> t)"

fun side_panel :: "nav_widget \<Rightarrow> console \<Rightarrow> console option" where
  "side_panel (Go sc) s = offered (sc \<in> set nav_screens) (nav_btn sc s)"
| "side_panel Sign_out s = Some (send_work W_Logout s)"

subsection \<open>The screens\<close>

datatype overview_widget = Open_device nat | Open_job nat

fun ui_overview :: "overview_widget \<Rightarrow> console \<Rightarrow> console option" where
  "ui_overview (Open_device n) s = on_row (take 12 (con_devices s)) n (\<lambda>d.
     Some (send_work (W_LoadDevice (dev_id d)) (s\<lparr>con_screen := Device\<rparr>)))"
| "ui_overview (Open_job n) s = on_row (take 12 (con_jobs s)) n (\<lambda>j.
     Some (send_work (W_LoadJob (jb_id j)) (s\<lparr>con_screen := Job\<rparr>)))"

definition ui_devices :: "nat \<Rightarrow> console \<Rightarrow> console option" where
  "ui_devices n s = on_row (con_devices s) n (\<lambda>d.
     Some (send_work (W_LoadDevice (dev_id d)) (s\<lparr>con_screen := Device\<rparr>)))"

datatype device_widget = Back_to_devices | Open_its_shell | Refresh_inventory | Snapshot | Revoke

fun ui_device :: "device_widget \<Rightarrow> console \<Rightarrow> console option" where
  "ui_device p s = (case selected_device s of None \<Rightarrow> None | Some i \<Rightarrow> (case p of
       Back_to_devices \<Rightarrow> Some (s\<lparr>con_screen := Devices\<rparr>)
     | Open_its_shell \<Rightarrow> offered (con_is_admin s) (send_work (W_OpenShell i) (s\<lparr>con_screen := Shell\<rparr>))
     | Refresh_inventory \<Rightarrow> offered (con_is_admin s) (send_work (W_RequestInventory i) s)
     | Snapshot \<Rightarrow> offered (con_is_admin s) (send_work (W_RequestTelemetry i) s)
     | Revoke \<Rightarrow> offered (con_is_admin s) (send_work (W_RevokeDevice i) s)))"

datatype jobs_widget = Choose_kind nat | Type_script string | Run_on_first | Target nat | Open_listed_job nat

fun ui_jobs :: "bool \<Rightarrow> jobs_widget \<Rightarrow> console \<Rightarrow> console option" where
  "ui_jobs w (Choose_kind n) s = offered (con_is_admin s \<and> n < 3) (s\<lparr>job_kind := n\<rparr>)"
| "ui_jobs w (Type_script t) s = offered (con_is_admin s \<and> job_kind s = 0) (s\<lparr>job_script := t\<rparr>)"
| "ui_jobs w Run_on_first s = offered (con_is_admin s) (case con_devices s of
       [] \<Rightarrow> s
     | d # _ \<Rightarrow> send_work (W_DispatchJob (dev_id d) (job_payload_of w s)) s)"
| "ui_jobs w (Target n) s = on_row (con_devices s) n (\<lambda>d.
     offered (con_is_admin s) (s\<lparr>con_devices := target d (con_devices s)\<rparr>))"
| "ui_jobs w (Open_listed_job n) s = on_row (con_jobs s) n (\<lambda>j.
     Some (send_work (W_LoadJob (jb_id j)) (s\<lparr>con_screen := Job\<rparr>)))"

datatype job_widget = Back_to_jobs | Cancel | Reload_job

fun ui_job :: "job_widget \<Rightarrow> console \<Rightarrow> console option" where
  "ui_job p s = (case job_detail s of None \<Rightarrow> None | Some j \<Rightarrow> (case p of
       Back_to_jobs \<Rightarrow> Some (send_work W_LoadJobs (s\<lparr>con_screen := Jobs\<rparr>))
     | Cancel \<Rightarrow> offered (con_is_admin s \<and> jb_status j \<notin> set final_states) (send_work (W_CancelJob (jb_id j)) s)
     | Reload_job \<Rightarrow> Some (send_work (W_LoadJob (jb_id j)) s)))"

datatype policies_widget = Type_policy_name string | Check_firewall bool | Check_usb bool | Create_named
  | Toggle nat | Delete_listed nat | Assign nat nat

fun ui_policies :: "policies_widget \<Rightarrow> console \<Rightarrow> console option" where
  "ui_policies (Type_policy_name t) s = offered (con_is_admin s) (s\<lparr>policy_name := t\<rparr>)"
| "ui_policies (Check_firewall b) s = offered (con_is_admin s) (s\<lparr>policy_fw := b\<rparr>)"
| "ui_policies (Check_usb b) s = offered (con_is_admin s) (s\<lparr>policy_usb := b\<rparr>)"
| "ui_policies Create_named s = offered (con_is_admin s) (if policy_name s = [] then s
     else send_work (W_CreatePolicy (policy_name s) (policy_rules_of s)) s)"
| "ui_policies (Toggle n) s = on_row (con_policies s) n (\<lambda>p.
     offered (con_is_admin s) (send_work (W_TogglePolicy (pol_id p) (\<not> pol_enabled p)) s))"
| "ui_policies (Delete_listed n) s = on_row (con_policies s) n (\<lambda>p.
     offered (con_is_admin s) (send_work (W_DeletePolicy (pol_id p)) s))"
| "ui_policies (Assign n m) s = on_row (con_policies s) n (\<lambda>p. on_row (con_devices s) m (\<lambda>d.
     offered (con_is_admin s) (send_work (W_AssignPolicy (pol_id p) (Some (dev_id d)) None) s)))"

datatype groups_widget = Type_group_name string | Create_the_group | Delete_the_group nat | Remove nat nat
  | Add nat nat

fun ui_groups :: "groups_widget \<Rightarrow> console \<Rightarrow> console option" where
  "ui_groups (Type_group_name t) s = offered (con_is_admin s) (s\<lparr>group_name := t\<rparr>)"
| "ui_groups Create_the_group s = offered (con_is_admin s) (if group_name s = [] then s
     else send_work (W_CreateGroup (group_name s) []) s)"
| "ui_groups (Delete_the_group n) s = on_row (con_groups s) n (\<lambda>g.
     offered (con_is_admin s) (send_work (W_DeleteGroup (grp_id g)) s))"
| "ui_groups (Remove n m) s = on_row (con_groups s) n (\<lambda>g. on_row (members_shown s (grp_id g)) m (\<lambda>d.
     offered (con_is_admin s) (send_work (W_RemoveMember (grp_id g) (mem_device_id d)) s)))"
| "ui_groups (Add n m) s = on_row (con_groups s) n (\<lambda>g. on_row (con_devices s) m (\<lambda>d.
     offered (con_is_admin s) (send_work (W_AddMember (grp_id g) (dev_id d)) s)))"

datatype alerts_widget = Flip_unresolved | Type_alert_name string | Choose_metric nat | Drag_threshold f64
  | Add_rule | Delete_the_rule nat | Resolve nat

fun ui_alerts :: "alerts_widget \<Rightarrow> console \<Rightarrow> console option" where
  "ui_alerts Flip_unresolved s = (let t = s\<lparr>unresolved_only := \<not> unresolved_only s\<rparr>
     in Some (send_work (W_LoadAlerts (unresolved_only t)) t))"
| "ui_alerts (Type_alert_name t) s = offered (con_is_admin s) (s\<lparr>alert_name := t\<rparr>)"
| "ui_alerts (Choose_metric n) s = offered (con_is_admin s \<and> n < length metric_names) (s\<lparr>alert_metric := n\<rparr>)"
| "ui_alerts (Drag_threshold x) s = offered (con_is_admin s \<and> f64_le (F_fin 0) x \<and> f64_le x (F_fin 100))
     (s\<lparr>alert_threshold := x\<rparr>)"
| "ui_alerts Add_rule s = offered (con_is_admin s) (send_work (W_CreateAlert (alert_name s)
     (metric_names ! alert_metric s) ''>'' (alert_threshold s) ''warning'') s)"
| "ui_alerts (Delete_the_rule n) s = on_row (con_rules s) n (\<lambda>r.
     offered (con_is_admin s) (send_work (W_DeleteAlert (rul_id r)) s))"
| "ui_alerts (Resolve n) s = on_row (con_events s) n (\<lambda>e.
     offered (con_is_admin s \<and> evt_resolved_at e = None) (send_work (W_ResolveEvent (evt_id e)) s))"

datatype settings_widget = Generate_token | Start_totp | Type_mfa_code string | Enable_totp

fun ui_settings :: "settings_widget \<Rightarrow> console \<Rightarrow> console option" where
  "ui_settings Generate_token s = offered (con_is_admin s) (send_work W_EnrollToken s)"
| "ui_settings Start_totp s = Some (send_work W_MfaSetup s)"
| "ui_settings (Type_mfa_code t) s = offered (mfa_url s \<noteq> None) (s\<lparr>mfa_code := t\<rparr>)"
| "ui_settings Enable_totp s = offered (mfa_url s \<noteq> None) (send_work (W_MfaVerify (mfa_code s)) s)"

datatype shell_widget = Open_session | Close_session | Type_line string | Send_line

fun ui_shell :: "shell_widget \<Rightarrow> console \<Rightarrow> console option" where
  "ui_shell p s = (case selected_device s of None \<Rightarrow> None | Some i \<Rightarrow> (case p of
       Open_session \<Rightarrow> offered (shell_session s = None) (send_work (W_OpenShell i) s)
     | Close_session \<Rightarrow> map_option (\<lambda>sid. send_work (W_CloseShell sid) s) (shell_session s)
     | Type_line t \<Rightarrow> Some (s\<lparr>shell_in := t\<rparr>)
     | Send_line \<Rightarrow> Some (case shell_session s of
           None \<Rightarrow> s
         | Some sid \<Rightarrow> (send_work (W_ShellInput sid (with_newline (shell_in s))) s)\<lparr>shell_in := []\<rparr>)))"

subsection \<open>The window\<close>

datatype widget = On_login login_widget | On_nav nav_widget | On_overview overview_widget | On_devices nat
  | On_device device_widget | On_jobs jobs_widget | On_job job_widget | On_policies policies_widget
  | On_groups groups_widget | On_alerts alerts_widget | On_settings settings_widget | On_shell shell_widget

definition on_screen :: "screen \<Rightarrow> console \<Rightarrow> console option \<Rightarrow> console option" where
  "on_screen sc s r = (if con_user s \<noteq> None \<and> con_screen s = sc then r else None)"

fun press :: "bool \<Rightarrow> widget \<Rightarrow> console \<Rightarrow> console option" where
  "press w (On_login p) s = (if con_user s = None then login_ui p s else None)"
| "press w (On_nav p) s = (if con_user s \<noteq> None then side_panel p s else None)"
| "press w (On_overview p) s = on_screen Overview s (ui_overview p s)"
| "press w (On_devices p) s = on_screen Devices s (ui_devices p s)"
| "press w (On_device p) s = on_screen Device s (ui_device p s)"
| "press w (On_jobs p) s = on_screen Jobs s (ui_jobs w p s)"
| "press w (On_job p) s = on_screen Job s (ui_job p s)"
| "press w (On_policies p) s = on_screen Policies s (ui_policies p s)"
| "press w (On_groups p) s = on_screen Groups s (ui_groups p s)"
| "press w (On_alerts p) s = on_screen Alerts s (ui_alerts p s)"
| "press w (On_settings p) s = on_screen Settings s (ui_settings p s)"
| "press w (On_shell p) s = on_screen Shell s (ui_shell p s)"

subsection \<open>What a widget can change\<close>

lemma offered_Some [simp]: "offered c t = Some u \<longleftrightarrow> c \<and> u = t"
  by (auto simp: offered_def)

lemma on_row_Some [simp]: "on_row xs n f = Some u \<longleftrightarrow> n < length xs \<and> f (xs ! n) = Some u"
  by (auto simp: on_row_def)

lemma on_screen_Some [simp]: "on_screen sc s r = Some u \<longleftrightarrow> con_user s \<noteq> None \<and> con_screen s = sc \<and> r = Some u"
  by (auto simp: on_screen_def)

text \<open>A widget sends at most one work; sending marks the window busy, and nothing else does.\<close>

definition one_work :: "console \<Rightarrow> console \<Rightarrow> bool" where
  "one_work s t \<longleftrightarrow> works t = works s \<and> busy t = busy s \<or> (\<exists>x. works t = works s @ [x] \<and> busy t)"

lemma nav_btn_one_work: "one_work s (nav_btn sc s)"
  by (cases sc) (simp_all add: nav_btn_def Let_def one_work_def)

lemma nav_btn_replies [simp]: "replies (nav_btn sc s) = replies s"
  by (cases sc) (simp_all add: nav_btn_def Let_def)

lemma press_one_work: "press w p s = Some t \<Longrightarrow> one_work s t \<and> replies t = replies s"
proof (cases p)
  case (On_login q)
  then show "press w p s = Some t \<Longrightarrow> ?thesis" by (cases q) (auto simp: one_work_def split: if_splits)
next
  case (On_nav q)
  then show "press w p s = Some t \<Longrightarrow> ?thesis"
    using nav_btn_one_work by (cases q) (auto simp: one_work_def split: if_splits)
next
  case (On_overview q)
  then show "press w p s = Some t \<Longrightarrow> ?thesis" by (cases q) (auto simp: one_work_def)
next
  case (On_devices n)
  then show "press w p s = Some t \<Longrightarrow> ?thesis" by (auto simp: one_work_def ui_devices_def)
next
  case (On_device q)
  then show "press w p s = Some t \<Longrightarrow> ?thesis" by (cases q) (auto simp: one_work_def split: option.splits)
next
  case (On_jobs q)
  then show "press w p s = Some t \<Longrightarrow> ?thesis" by (cases q) (auto simp: one_work_def split: list.splits)
next
  case (On_job q)
  then show "press w p s = Some t \<Longrightarrow> ?thesis" by (cases q) (auto simp: one_work_def split: option.splits)
next
  case (On_policies q)
  then show "press w p s = Some t \<Longrightarrow> ?thesis" by (cases q) (auto simp: one_work_def)
next
  case (On_groups q)
  then show "press w p s = Some t \<Longrightarrow> ?thesis" by (cases q) (auto simp: one_work_def)
next
  case (On_alerts q)
  then show "press w p s = Some t \<Longrightarrow> ?thesis" by (cases q) (auto simp: one_work_def Let_def)
next
  case (On_settings q)
  then show "press w p s = Some t \<Longrightarrow> ?thesis" by (cases q) (auto simp: one_work_def)
next
  case (On_shell q)
  then show "press w p s = Some t \<Longrightarrow> ?thesis" by (cases q) (auto simp: one_work_def split: option.splits)
qed

end
