(* ===== verification/Console_Threads.thy ===== *)
theory Console_Threads
  imports Console_Screens
begin

section \<open>Console: the window and its worker (app.rs)\<close>

text \<open>
  The window, its worker and the reader of a shell's stream as one step relation; what a viewer's console asks
  for, and that the window always comes to rest.
\<close>

subsection \<open>The two threads\<close>

text \<open>
  A step: a frame of the window at some time, a widget, the worker with the oldest work, a text of a
  stream, or its end.  The reader of an older session puts its texts on a channel nobody reads.
\<close>

datatype con_event = Frame nat | Press widget | Work | Stream_text uuid string | Stream_end uuid

definition latest_stream :: "console \<Rightarrow> uuid \<Rightarrow> bool" where
  "latest_stream s i \<longleftrightarrow> streams s \<noteq> [] \<and> last (streams s) = i"

fun con_step :: "'w net \<Rightarrow> bool \<Rightarrow> con_event \<Rightarrow> console \<times> 'w api \<Rightarrow> (console \<times> 'w api) option" where
  "con_step N w (Frame now) (s, a) = Some (frame now s, a)"
| "con_step N w (Press p) (s, a) = map_option (\<lambda>t. (t, a)) (press w p s)"
| "con_step N w Work (s, a) = (case works s of
       [] \<Rightarrow> None
     | x # xs \<Rightarrow> (let (r, a') = worker_reply N x a in Some (s\<lparr>works := xs, replies := replies s @ [r]\<rparr>, a')))"
| "con_step N w (Stream_text i t) (s, a) = (if latest_stream s i
     then (case shell_channel s of
         Some (ts, True) \<Rightarrow> Some (s\<lparr>shell_channel := Some (ts @ [t], True)\<rparr>, a)
       | _ \<Rightarrow> None)
     else None)"
| "con_step N w (Stream_end i) (s, a) = (if latest_stream s i
     then (case shell_channel s of
         Some (ts, True) \<Rightarrow> Some (s\<lparr>shell_channel := Some (ts, False)\<rparr>, a)
       | _ \<Rightarrow> None)
     else None)"

inductive con_runs :: "'w net \<Rightarrow> bool \<Rightarrow> console \<times> 'w api \<Rightarrow> con_event list \<Rightarrow> console \<times> 'w api \<Rightarrow> bool"
  for N :: "'w net" and w :: bool where
  none: "con_runs N w x [] x"
| more: "con_runs N w x es y \<Longrightarrow> con_step N w e y = Some z \<Longrightarrow> con_runs N w x (es @ [e]) z"

subsection \<open>What a viewer's console sends\<close>

fun admin_work :: "work \<Rightarrow> bool" where
  "admin_work (W_DispatchJob _ _) = True"
| "admin_work (W_CancelJob _) = True"
| "admin_work (W_CreatePolicy _ _) = True"
| "admin_work (W_TogglePolicy _ _) = True"
| "admin_work (W_DeletePolicy _) = True"
| "admin_work (W_AssignPolicy _ _ _) = True"
| "admin_work (W_CreateGroup _ _) = True"
| "admin_work (W_DeleteGroup _) = True"
| "admin_work (W_AddMember _ _) = True"
| "admin_work (W_RemoveMember _ _) = True"
| "admin_work (W_CreateAlert _ _ _ _ _) = True"
| "admin_work (W_DeleteAlert _) = True"
| "admin_work (W_ResolveEvent _) = True"
| "admin_work W_EnrollToken = True"
| "admin_work (W_RequestInventory _) = True"
| "admin_work (W_RequestTelemetry _) = True"
| "admin_work (W_RevokeDevice _) = True"
| "admin_work (W_OpenShell _) = True"
| "admin_work _ = False"

text \<open>The works a reply can lead to: those that load what is drawn.\<close>

fun load_work :: "work \<Rightarrow> bool" where
  "load_work W_LoadOverview = True"
| "load_work W_LoadDevices = True"
| "load_work (W_LoadDevice _) = True"
| "load_work W_LoadJobs = True"
| "load_work (W_LoadJob _) = True"
| "load_work W_LoadPolicies = True"
| "load_work W_LoadGroups = True"
| "load_work (W_LoadAlerts _) = True"
| "load_work W_LoadReports = True"
| "load_work W_LoadSettings = True"
| "load_work _ = False"

lemma load_not_admin: "load_work x \<Longrightarrow> \<not> admin_work x"
  by (cases x) simp_all

definition loads_more :: "console \<Rightarrow> console \<Rightarrow> bool" where
  "loads_more s t \<longleftrightarrow> (\<exists>ws. works t = works s @ ws \<and> (\<forall>x \<in> set ws. load_work x))"

lemma loads_more_refl [simp]: "works t = works s \<Longrightarrow> loads_more s t"
  by (auto simp: loads_more_def)

lemma loads_more_send: "loads_more s t \<Longrightarrow> load_work x \<Longrightarrow> loads_more s (send_work x t)"
  by (auto simp: loads_more_def)

lemma loads_more_trans: "loads_more s t \<Longrightarrow> loads_more t u \<Longrightarrow> loads_more s u"
  by (auto simp: loads_more_def)

lemma ok_refresh_loads: "loads_more s (ok_refresh s)"
  by (auto simp: ok_refresh_def split: screen.split option.split intro!: loads_more_send)

lemma receive_loads: "loads_more s (receive r s)"
proof -
  have "loads_more t (receive_idle r t)" for t
    by (cases r) (simp_all add: ok_refresh_loads loads_more_send)
  from this [of "s\<lparr>busy := False\<rparr>"] show ?thesis by (simp add: receive_def loads_more_def)
qed

lemma fold_receive_loads: "loads_more s (fold receive rs s)"
proof (induction rs arbitrary: s)
  case (Cons r rs)
  from loads_more_trans [OF receive_loads Cons.IH] show ?case by simp
qed simp

lemma pump_shell_simps [simp]:
  "works (pump_shell s) = works s" "replies (pump_shell s) = replies s" "busy (pump_shell s) = busy s"
  "last_refresh (pump_shell s) = last_refresh s" "con_user (pump_shell s) = con_user s"
  by (auto simp: pump_shell_def split: option.splits)

lemma pump_loads: "loads_more s (pump s)"
  using fold_receive_loads [of "s\<lparr>replies := []\<rparr>" "replies s"] by (simp add: pump_def loads_more_def)

lemma due_loads: "due_work now s = Some x \<Longrightarrow> load_work x"
  by (auto simp: due_work_def split: if_splits)

lemma frame_loads: "loads_more s (frame now s)"
proof -
  have "loads_more s (pump s)" by (rule pump_loads)
  moreover have "loads_more (pump s) (frame now s)"
    by (auto simp: frame_def Let_def intro!: loads_more_send due_loads split: option.split)
  ultimately show ?thesis by (rule loads_more_trans)
qed

lemma nav_btn_works: "works (nav_btn sc s) = works s @ ws \<Longrightarrow> x \<in> set ws \<Longrightarrow> load_work x"
  by (cases sc) (auto simp: nav_btn_def Let_def)

lemma viewer_press:
  assumes "press w p s = Some t" and "\<not> con_is_admin s" and "p \<noteq> On_shell Open_session"
  shows "\<forall>x. works t = works s @ [x] \<longrightarrow> \<not> admin_work x"
  using assms nav_btn_works [THEN load_not_admin]
proof (cases p)
  case (On_nav q)
  then show ?thesis using assms nav_btn_works [THEN load_not_admin] by (cases q) (auto split: if_splits)
next
  case (On_login q)
  then show ?thesis using assms by (cases q) (auto split: if_splits)
next
  case (On_overview q)
  then show ?thesis using assms by (cases q) auto
next
  case (On_devices q)
  then show ?thesis using assms by (auto simp: ui_devices_def)
next
  case (On_device q)
  then show ?thesis using assms by (cases q) (auto split: option.splits)
next
  case (On_jobs q)
  then show ?thesis using assms by (cases q) auto
next
  case (On_job q)
  then show ?thesis using assms by (cases q) (auto split: option.splits)
next
  case (On_policies q)
  then show ?thesis using assms by (cases q) auto
next
  case (On_groups q)
  then show ?thesis using assms by (cases q) auto
next
  case (On_alerts q)
  then show ?thesis using assms by (cases q) (auto simp: Let_def)
next
  case (On_settings q)
  then show ?thesis using assms by (cases q) auto
next
  case (On_shell q)
  then show ?thesis using assms by (cases q) (auto split: option.splits)
qed


subsection \<open>The spinner\<close>

text \<open>Some work that was sent has not been answered, or its reply has not been read.\<close>

definition outstanding :: "console \<Rightarrow> bool" where
  "outstanding s \<longleftrightarrow> works s \<noteq> [] \<or> replies s \<noteq> []"

lemma receive_replies [simp]: "replies (receive r s) = replies s"
proof -
  have "replies (receive_idle r t) = replies t" for t
    by (cases r) (simp_all add: ok_refresh_def split: screen.split option.split)
  then show ?thesis by (simp add: receive_def)
qed

lemma receive_busy: "busy (receive r s) \<Longrightarrow> works (receive r s) \<noteq> []"
proof -
  have "busy (receive_idle r t) \<Longrightarrow> \<not> busy t \<Longrightarrow> works (receive_idle r t) \<noteq> []" for t
    by (cases r) (auto simp: ok_refresh_def split: screen.splits option.splits)
  from this [of "s\<lparr>busy := False\<rparr>"] show "busy (receive r s) \<Longrightarrow> ?thesis" by (simp add: receive_def)
qed

lemma fold_receive_replies [simp]: "replies (fold receive rs s) = replies s"
  by (induction rs arbitrary: s) simp_all

lemma fold_receive_busy:
  "rs \<noteq> [] \<Longrightarrow> busy (fold receive rs s) \<Longrightarrow> works (fold receive rs s) \<noteq> []"
proof (induction rs arbitrary: s rule: rev_induct)
  case (snoc r rs)
  then show ?case using receive_busy by simp
qed simp

lemma pump_replies [simp]: "replies (pump s) = []"
  by (simp add: pump_def)

lemma pump_busy: "(busy s \<longrightarrow> outstanding s) \<Longrightarrow> busy (pump s) \<Longrightarrow> works (pump s) \<noteq> []"
  using fold_receive_busy [of "replies s" "s\<lparr>replies := []\<rparr>"]
  by (cases "replies s = []") (auto simp: pump_def outstanding_def)

lemma frame_busy:
  assumes "busy s \<longrightarrow> outstanding s"
  shows "replies (frame now s) = [] \<and> (busy (frame now s) \<longrightarrow> works (frame now s) \<noteq> [])"
  using pump_busy [OF assms] by (auto simp: frame_def Let_def split: option.split)

lemma busy_step:
  assumes "con_step N w e (s, a) = Some (t, b)" and "busy s \<longrightarrow> outstanding s"
  shows "busy t \<longrightarrow> outstanding t"
proof (cases e)
  case (Frame now)
  then show ?thesis using assms frame_busy [of s now] by (auto simp: outstanding_def)
next
  case (Press p)
  then have "press w p s = Some t" using assms(1) by auto
  from press_one_work [OF this] show ?thesis using assms(2) by (auto simp: one_work_def outstanding_def)
next
  case Work
  then show ?thesis using assms(1) by (auto simp: outstanding_def Let_def split: list.splits prod.splits)
qed (use assms in \<open>auto simp: outstanding_def split: if_splits option.splits prod.splits bool.splits\<close>)

lemma busy_reachable:
  "con_runs N w x es y \<Longrightarrow> (busy (fst x) \<longrightarrow> outstanding (fst x)) \<Longrightarrow> busy (fst y) \<longrightarrow> outstanding (fst y)"
proof (induction rule: con_runs.induct)
  case (more x es y e z)
  then show ?case by (cases y; cases z) (auto dest: busy_step)
qed simp

lemma con_runs_trans: "con_runs N w y fs z \<Longrightarrow> con_runs N w x es y \<Longrightarrow> con_runs N w x (es @ fs) z"
proof (induction rule: con_runs.induct)
  case (more y fs z e u)
  then have "con_runs N w x ((es @ fs) @ [e]) u" by (blast intro: con_runs.more)
  then show ?case by simp
qed simp

text \<open>The worker empties its channel; what it answers to works that load is never a reason for more.\<close>

fun leads_on :: "reply \<Rightarrow> bool" where
  "leads_on (R_LoggedIn _) = True"
| "leads_on R_OkRefresh = True"
| "leads_on _ = False"

lemma load_reply_ends: "load_work x \<Longrightarrow> \<not> leads_on (fst (worker_reply N x a))"
  by (cases x) (auto simp: worker_reply_def load_job_def load_overview_def load_device_def load_policies_def
    load_groups_def load_alerts_def and_then_def ret_def split: prod.splits sum.splits)

lemma worker_empties:
  "\<exists>b rs. con_runs N w (s, a) (replicate (length (works s)) Work) (s\<lparr>works := [], replies := replies s @ rs\<rparr>, b)
    \<and> length rs = length (works s) \<and> ((\<forall>x \<in> set (works s). load_work x) \<longrightarrow> (\<forall>r \<in> set rs. \<not> leads_on r))"
proof (induction "works s" arbitrary: s a)
  case Nil
  have e: "s\<lparr>works := [], replies := replies s @ []\<rparr> = s" using Nil by simp
  have "con_runs N w (s, a) [] (s\<lparr>works := [], replies := replies s @ []\<rparr>, a)"
    unfolding e by (rule con_runs.none)
  then show ?case using Nil by (intro exI [of _ a] exI [of _ "[]"]) simp
next
  case (Cons x xs)
  obtain r a' where r: "worker_reply N x a = (r, a')" by (cases "worker_reply N x a")
  let ?s = "s\<lparr>works := xs, replies := replies s @ [r]\<rparr>"
  have "con_runs N w (s, a) ([] @ [Work]) (?s, a')"
    by (rule con_runs.more [OF con_runs.none]) (simp add: Cons(2) [symmetric] r)
  moreover obtain b rs where es:
      "con_runs N w (?s, a') (replicate (length xs) Work) (?s\<lparr>works := [], replies := replies ?s @ rs\<rparr>, b)"
      "length rs = length xs" "(\<forall>x \<in> set xs. load_work x) \<longrightarrow> (\<forall>r \<in> set rs. \<not> leads_on r)"
    using Cons(1) [of ?s a'] by auto
  ultimately have "con_runs N w (s, a) (Work # replicate (length xs) Work) (?s\<lparr>works := [], replies := replies ?s @ rs\<rparr>, b)"
    using con_runs_trans by fastforce
  moreover have "load_work x \<Longrightarrow> \<not> leads_on r" using load_reply_ends [of x N a] r by simp
  ultimately show ?case
    using es(2,3) by (intro exI [of _ b] exI [of _ "r # rs"]) (auto simp: Cons(2) [symmetric])
qed

lemma receive_ends: "\<not> leads_on r \<Longrightarrow> works (receive r s) = works s \<and> \<not> busy (receive r s)"
  by (cases r) (simp_all add: receive_def)

lemma fold_receive_ends:
  "(\<forall>r \<in> set rs. \<not> leads_on r) \<Longrightarrow> works (fold receive rs s) = works s
    \<and> (rs \<noteq> [] \<longrightarrow> \<not> busy (fold receive rs s))"
proof (induction rs rule: rev_induct)
  case (snoc r rs)
  then show ?case using receive_ends by simp
qed simp

text \<open>A frame when nothing is due only takes the replies.\<close>

lemma receive_last_refresh [simp]: "last_refresh (receive r s) = last_refresh s"
proof -
  have "last_refresh (receive_idle r t) = last_refresh t" for t
    by (cases r) (simp_all add: ok_refresh_def split: screen.split option.split)
  then show ?thesis by (simp add: receive_def)
qed

lemma fold_receive_last_refresh [simp]: "last_refresh (fold receive rs s) = last_refresh s"
  by (induction rs arbitrary: s) simp_all

lemma frame_early: "frame (last_refresh s) s = pump s"
proof -
  have "last_refresh (pump s) = last_refresh s" by (simp add: pump_def)
  then have "due_work (last_refresh s) (pump s) = None" by (simp add: due_work_def)
  then show ?thesis by (simp add: frame_def Let_def)
qed

text \<open>One round: the worker answers everything and the window reads the replies.\<close>

lemma round:
  assumes "busy s \<longrightarrow> outstanding s"
  obtains t b where
    "con_runs N w (s, a) (replicate (length (works s)) Work @ [Frame (last_refresh s)]) (t, b)"
    "last_refresh t = last_refresh s" "replies t = []" "busy t \<longrightarrow> works t \<noteq> []" "\<forall>x \<in> set (works t). load_work x"
    "replies s = [] \<and> (\<forall>x \<in> set (works s). load_work x) \<longrightarrow> works t = []"
proof -
  obtain b rs where es: "con_runs N w (s, a) (replicate (length (works s)) Work)
        (s\<lparr>works := [], replies := replies s @ rs\<rparr>, b)"
      "length rs = length (works s)" "(\<forall>x \<in> set (works s). load_work x) \<longrightarrow> (\<forall>r \<in> set rs. \<not> leads_on r)"
    using worker_empties [of N w s a] by blast
  let ?s = "s\<lparr>works := [], replies := replies s @ rs\<rparr>"
  have f: "frame (last_refresh s) ?s = pump ?s" using frame_early [of ?s] by simp
  then have run: "con_runs N w (s, a) (replicate (length (works s)) Work @ [Frame (last_refresh s)]) (pump ?s, b)"
    using con_runs.more [OF es(1), of "Frame (last_refresh s)"] by simp
  have o: "busy ?s \<longrightarrow> outstanding ?s" using assms es(2) by (auto simp: outstanding_def)
  have "loads_more ?s (pump ?s)" by (rule pump_loads)
  then have l: "\<forall>x \<in> set (works (pump ?s)). load_work x" by (auto simp: loads_more_def)
  have n: "replies s = [] \<and> (\<forall>x \<in> set (works s). load_work x) \<longrightarrow> works (pump ?s) = []"
    using fold_receive_ends [of rs "?s\<lparr>replies := []\<rparr>"] es(3) by (auto simp: pump_def)
  show ?thesis
    by (rule that [OF run _ _ _ l n]) (use pump_busy [OF o] in \<open>simp_all add: pump_def\<close>)
qed


text \<open>A console that cannot reach its server, and a person at it.\<close>

definition offline :: "unit net" where
  "offline = \<lparr>exchange = (\<lambda>_ s. (Inl ''connection refused'', s)), header_ok = (\<lambda>_. True), bad_body = (\<lambda>_. []),
     uuid_shown = (\<lambda>i. show_nat (unat i)), uuid_read = (\<lambda>_. None)\<rparr>"

definition cold :: "unit api" where
  "cold = \<lparr>base = ''https://host'', world = (), session_token = None\<rparr>"



text \<open>Signing out leaves an enrollment token and the text of a shell on the screens of whoever signs in next.\<close>

lemma sign_out_keeps_secrets:
  "con_token (receive R_LoggedOut s) = con_token s" "shell_out (receive R_LoggedOut s) = shell_out s"
  "shell_session (receive R_LoggedOut s) = shell_session s"
  by (simp_all add: receive_def)

text \<open>The first of two replies already stops the spinner, although the second work is still out.\<close>

lemma spinner_stops_early: "\<not> leads_on r \<Longrightarrow> \<not> busy (receive r s) \<and> works (receive r s) = works s"
  by (simp add: receive_ends)

end
