(* ===== verification/Console_Wire.thy ===== *)
theory Console_Wire
  imports Console_Model Api_Wire
begin

section \<open>What the console reads of what the server writes\<close>

text \<open>
  The server's rows and the console's records are declared apart, in two crates: the console reads fewer fields,
  keeps times as text and counts as \<^verbatim>\<open>i64\<close>.  For each pair of types \<open>shown_*\<close> is the record the
  console ought to have, and the locale \<open>reader\<close> the contract that it has it.
\<close>

locale reader =
  fixes enc :: "'a \<Rightarrow> json" and dec :: "json \<Rightarrow> 'b option" and view :: "'a \<Rightarrow> 'b" and ok :: "'a \<Rightarrow> bool"
  assumes reads: "ok x \<Longrightarrow> dec (enc x) = Some (view x)"
    and written: "enc x \<noteq> JNull"
begin

lemma reads_list: "list_all ok xs \<Longrightarrow> dec_list dec (enc_list enc xs) = Some (map view xs)"
  by (induction xs) (simp_all add: enc_list_def reads)

lemma reads_fld: "map_of ob k = Some (enc x) \<Longrightarrow> ok x \<Longrightarrow> fld dec k ob = Some (view x)"
  by (simp add: fld_def reads)

lemma reads_list_fld:
  "map_of ob k = Some (enc_list enc xs) \<Longrightarrow> list_all ok xs \<Longrightarrow> fld (dec_list dec) k ob = Some (map view xs)"
  by (simp add: fld_def reads_list)

lemma reads_opt_fld:
  "map_of ob k = Some (enc_opt enc v) \<Longrightarrow> pred_option ok v \<Longrightarrow> opt_fld dec k ob = Some (map_option view v)"
  by (cases v) (simp_all add: opt_fld_def reads written)

text \<open>In the envelope of a successful answer, alone and as a list.\<close>

lemma reads_envelope: "ok x \<Longrightarrow> dec_envelope dec (envelope (enc x) JNull) = Some (Some (view x), None)"
  by (simp add: dec_envelope_def envelope_def opt_fld_def reads written)

lemma reads_list_envelope:
  "list_all ok xs \<Longrightarrow> dec_envelope (dec_list dec) (envelope (enc_list enc xs) JNull) = Some (Some (map view xs), None)"
  using reads_list [of xs] by (simp add: dec_envelope_def envelope_def opt_fld_def enc_list_def)

end

subsection \<open>Fields\<close>

interpretation time_reader: reader "enc_time X" dec_str "time_text X" "\<lambda>_. True" for X
  by unfold_locales (simp_all add: enc_time_def)

interpretation str_reader: reader enc_str dec_str "\<lambda>s. s" "\<lambda>_. True"
  by unfold_locales simp_all

interpretation bool_reader: reader enc_bool dec_bool "\<lambda>b. b" "\<lambda>_. True"
  by unfold_locales simp_all

interpretation i_reader: reader enc_i "dec_i :: json \<Rightarrow> 'a::len word option" "\<lambda>w. w" "\<lambda>_. True"
  by unfold_locales (simp_all add: i_codec.dec_enc i_codec.enc_nonnull)

interpretation u_reader: reader enc_u "dec_u :: json \<Rightarrow> 'a::len word option" "\<lambda>w. w" "\<lambda>_. True"
  by unfold_locales (simp_all add: u_codec.dec_enc u_codec.enc_nonnull)

definition reads_uuids :: "ext \<Rightarrow> (string \<Rightarrow> uuid option) \<Rightarrow> bool" where
  "reads_uuids E up \<longleftrightarrow> (\<forall>u. up (uuid_text E u) = Some u)"

interpretation uuid_reader: reader "enc_uuid (uuid_text E)" "dec_uuid up" "\<lambda>u. u" "\<lambda>_. reads_uuids E up" for E up
  by unfold_locales (simp_all add: enc_uuid_def dec_uuid_def reads_uuids_def)

text \<open>A count that fits an \<^verbatim>\<open>i64\<close>, an \<^verbatim>\<open>int4\<close> of the database.\<close>

interpretation count_reader: reader enc_nat "dec_i :: json \<Rightarrow> i64 option" of_nat "\<lambda>n. n < 2 ^ 63"
  by unfold_locales (auto simp: enc_nat_def)

lemma opt_f64: "map_of ob k = Some (enc_opt enc_f64 v) \<Longrightarrow> pred_option f64_finite v \<Longrightarrow> opt_fld dec_f64 k ob = Some v"
  by (rule f64_codec.opt_fld_enc)

lemma fld_f64: "map_of ob k = Some (enc_f64 x) \<Longrightarrow> f64_finite x \<Longrightarrow> fld dec_f64 k ob = Some x"
  by (rule f64_codec.fld_enc)

lemma message_fld:
  "map_of ob k = Some (enc_opt (\<lambda>m. JStr (fmt_text E X m)) v) \<Longrightarrow> opt_fld dec_str k ob = Some (map_option (fmt_text E X) v)"
  by (cases v) (simp_all add: opt_fld_def)

lemma raw_fld: "map_of ob k = Some v \<Longrightarrow> fld Some k ob = Some v"
  by (simp add: fld_def)

lemma default_given: "map_of ob k = Some v \<Longrightarrow> default_fld dec d k ob = dec v"
  by (simp add: default_fld_def)

lemmas field_readers = time_reader.reads_fld time_reader.reads_opt_fld str_reader.reads_fld str_reader.reads_opt_fld
  bool_reader.reads_fld i_reader.reads_fld i_reader.reads_opt_fld u_reader.reads_fld uuid_reader.reads_fld
  count_reader.reads_fld raw_fld option.map_ident option.map_id0

subsection \<open>Records\<close>

definition shown_user :: "user_info \<Rightarrow> c_user" where
  "shown_user u = \<lparr>usr_id = ui_id u, usr_username = ui_username u, usr_role = ui_role u,
     usr_totp_enabled = ui_totp_enabled u\<rparr>"

definition shown_device :: "http_ext \<Rightarrow> device_view \<Rightarrow> c_device" where
  "shown_device X d = \<lparr>dev_id = dv_id d, dev_hostname = dv_hostname d, dev_os = dv_os d,
     dev_os_version = dv_os_version d, dev_arch = dv_arch d, dev_agent_version = dv_agent_version d,
     dev_last_seen = map_option (time_text X) (dv_last_seen d), dev_status = dv_status d\<rparr>"

definition shown_metric :: "http_ext \<Rightarrow> metric_row \<Rightarrow> c_metric" where
  "shown_metric X m = \<lparr>met_time = time_text X (m_time m), met_cpu_pct = m_cpu_pct m, met_ram_used_mb = m_ram_used_mb m,
     met_ram_total_mb = m_ram_total_mb m, met_disk_used_gb = m_disk_used_gb m, met_disk_total_gb = m_disk_total_gb m,
     met_uptime_secs = m_uptime_secs m\<rparr>"

definition metric_finite :: "metric_row \<Rightarrow> bool" where
  "metric_finite m \<longleftrightarrow> pred_option f64_finite (m_cpu_pct m) \<and> pred_option f64_finite (m_disk_used_gb m)
     \<and> pred_option f64_finite (m_disk_total_gb m)"

definition shown_log :: "job_log_view \<Rightarrow> c_job_log" where
  "shown_log l = \<lparr>jbl_line = lv_line l, jbl_stream = lv_stream l\<rparr>"

definition shown_job :: "http_ext \<Rightarrow> job_row \<Rightarrow> job_log_view list \<Rightarrow> c_job" where
  "shown_job X j ls = \<lparr>jb_id = j_id j, jb_device_id = j_device_id j, jb_payload = j_payload j, jb_status = j_status j,
     jb_exit_code = j_exit_code j, jb_created_at = map_option (time_text X) (j_created_at j),
     jb_finished_at = map_option (time_text X) (j_finished_at j), jb_logs = map shown_log ls\<rparr>"

definition shown_policy :: "policy_row \<Rightarrow> c_policy" where
  "shown_policy p = \<lparr>pol_id = p_id p, pol_name = p_name p, pol_description = p_description p, pol_rules = p_rules p,
     pol_version = of_int (p_version p), pol_enabled = p_enabled p\<rparr>"

definition shown_group :: "group_row \<Rightarrow> c_group" where
  "shown_group g = \<lparr>grp_id = g_id g, grp_name = g_name g, grp_description = g_description g\<rparr>"

definition shown_member :: "member_view \<Rightarrow> c_member" where
  "shown_member m = \<lparr>mem_device_id = mv_device_id m, mem_hostname = mv_hostname m, mem_os = mv_os m,
     mem_status = mv_status m\<rparr>"

definition shown_rule :: "alert_rule_row \<Rightarrow> c_alert_rule" where
  "shown_rule r = \<lparr>rul_id = ar_id r, rul_name = ar_name r, rul_metric = ar_metric r, rul_operator = ar_operator r,
     rul_threshold = ar_threshold r, rul_severity = ar_severity r, rul_enabled = ar_enabled r\<rparr>"

definition shown_event :: "ext \<Rightarrow> http_ext \<Rightarrow> alert_event_row \<Rightarrow> c_alert_event" where
  "shown_event E X e = \<lparr>evt_id = ae_id e, evt_message = map_option (fmt_text E X) (ae_message e),
     evt_severity = ae_severity e, evt_triggered_at = map_option (time_text X) (ae_triggered_at e),
     evt_resolved_at = map_option (time_text X) (ae_resolved_at e)\<rparr>"

definition shown_software :: "software_row \<Rightarrow> c_software" where
  "shown_software r = \<lparr>sft_name = sw_name r, sft_version = sw_version r, sft_publisher = sw_publisher r\<rparr>"

definition shown_patch :: "patch_row \<Rightarrow> c_patch" where
  "shown_patch p = \<lparr>pit_patch_id = pt_patch_id p, pit_title = pt_title p, pit_status = pt_status p,
     pit_severity = pt_severity p\<rparr>"

definition shown_patches :: "patch_status \<Rightarrow> c_device_patches" where
  "shown_patches r = \<lparr>dpt_pending_count = of_nat (ps_pending_count r), dpt_patches = map shown_patch (ps_patches r)\<rparr>"

definition shown_status :: "status_view \<Rightarrow> c_server_status" where
  "shown_status r = \<lparr>sst_total_devices = of_nat (stv_total_devices r), sst_online_devices = of_nat (stv_online_devices r),
     sst_connected_agents = of_nat (stv_connected_agents r), sst_total_policies = of_nat (stv_total_policies r),
     sst_pending_jobs = of_nat (stv_pending_jobs r), sst_version = server_version\<rparr>"

definition counts_fit :: "status_view \<Rightarrow> bool" where
  "counts_fit r \<longleftrightarrow> stv_total_devices r < 2 ^ 63 \<and> stv_online_devices r < 2 ^ 63 \<and> stv_connected_agents r < 2 ^ 63
     \<and> stv_total_policies r < 2 ^ 63 \<and> stv_pending_jobs r < 2 ^ 63"

definition shown_compliance :: "http_ext \<Rightarrow> compliance_row \<Rightarrow> c_compliance_row" where
  "shown_compliance X c = \<lparr>cpr_device_id = cr_device_id c, cpr_policy_id = cr_policy_id c, cpr_compliant = cr_compliant c,
     cpr_reported_at = map_option (time_text X) (cr_reported_at c)\<rparr>"

definition shown_fleet :: "http_ext \<Rightarrow> fleet_report \<Rightarrow> c_compliance_fleet" where
  "shown_fleet X r = \<lparr>cpf_compliance_rate = fr_rate r, cpf_compliant = of_int (fr_compliant r),
     cpf_non_compliant = of_int (fr_non_compliant r), cpf_recent_violations = map (shown_compliance X) (fr_recent r)\<rparr>"

definition fleet_fits :: "fleet_report \<Rightarrow> bool" where
  "fleet_fits r \<longleftrightarrow> f64_finite (fr_rate r) \<and> 0 \<le> fr_compliant r \<and> fr_compliant r < 2 ^ 63
     \<and> 0 \<le> fr_non_compliant r \<and> fr_non_compliant r < 2 ^ 63"

definition shown_settings :: "settings_view \<Rightarrow> c_settings" where
  "shown_settings r = \<lparr>stg_server_url = sv_server_url r, stg_server_port = sv_server_port r,
     stg_tls_configured = sv_tls_configured r, stg_ca_initialized = sv_ca_initialized r\<rparr>"

definition shown_token :: "http_ext \<Rightarrow> string \<times> time \<Rightarrow> c_enroll_token" where
  "shown_token X r = \<lparr>etk_token = fst r, etk_expires_at = time_text X (snd r)\<rparr>"

definition shown_session :: "uuid \<times> uuid \<Rightarrow> c_shell_open" where
  "shown_session r = \<lparr>sho_session_id = fst r\<rparr>"

text \<open>Every record the console shows is read from what the server writes of it.\<close>

lemma fld_int: "map_of ob k = Some (JInt i) \<Longrightarrow> - (2 ^ (LENGTH('a) - 1)) \<le> i \<Longrightarrow> i < 2 ^ (LENGTH('a) - 1)
   \<Longrightarrow> fld (dec_i :: json \<Rightarrow> 'a::len word option) k ob = Some (of_int i)"
  by (simp add: fld_def)

interpretation user_reader: reader "enc_user_info E X" "dec_c_user up" "shown_user" "\<lambda>_. reads_uuids E up" for E X up
  by unfold_locales (simp_all add: enc_user_info_def dec_c_user_def shown_user_def field_readers)

interpretation device_reader: reader "enc_device E X" "dec_c_device up" "shown_device X" "\<lambda>_. reads_uuids E up" for E X up
  by unfold_locales (simp_all add: enc_device_def dec_c_device_def shown_device_def field_readers)

interpretation metric_reader: reader "enc_metric E X" "dec_c_metric" "shown_metric X" "metric_finite" for E X
  by unfold_locales (simp_all add: enc_metric_def dec_c_metric_def shown_metric_def metric_finite_def opt_f64 field_readers)

interpretation log_reader: reader "enc_job_log X" "dec_c_job_log" "shown_log" "\<lambda>_. True" for X
  by unfold_locales (simp_all add: enc_job_log_def dec_c_job_log_def shown_log_def field_readers)

interpretation policy_reader: reader "enc_policy_row E X" "dec_c_policy up" "shown_policy" "\<lambda>p. reads_uuids E up \<and> - (2 ^ 31) \<le> p_version p \<and> p_version p < 2 ^ 31" for E X up
  by unfold_locales (simp_all add: enc_policy_row_def dec_c_policy_def shown_policy_def fld_int field_readers)

interpretation group_reader: reader "enc_group E X" "dec_c_group up" "shown_group" "\<lambda>_. reads_uuids E up" for E X up
  by unfold_locales (simp_all add: enc_group_def dec_c_group_def shown_group_def field_readers)

interpretation member_reader: reader "enc_member E" "dec_c_member up" "shown_member" "\<lambda>_. reads_uuids E up" for E up
  by unfold_locales (simp_all add: enc_member_def dec_c_member_def shown_member_def field_readers)

interpretation rule_reader: reader "enc_alert_rule E X" "dec_c_alert_rule up" "shown_rule" "\<lambda>r. reads_uuids E up \<and> pred_option f64_finite (ar_threshold r)" for E X up
  by unfold_locales (simp_all add: enc_alert_rule_def dec_c_alert_rule_def shown_rule_def opt_f64 field_readers)

interpretation event_reader: reader "enc_alert_event E X" "dec_c_alert_event up" "shown_event E X" "\<lambda>_. reads_uuids E up" for E X up
  by unfold_locales (simp_all add: enc_alert_event_def dec_c_alert_event_def shown_event_def message_fld field_readers)

interpretation software_reader: reader "enc_software_row E" "dec_c_software" "shown_software" "\<lambda>_. True" for E
  by unfold_locales (simp_all add: enc_software_row_def dec_c_software_def shown_software_def field_readers)

interpretation patch_reader: reader "enc_patch_row X" "dec_c_patch" "shown_patch" "\<lambda>_. True" for X
  by unfold_locales (simp_all add: enc_patch_row_def dec_c_patch_def shown_patch_def field_readers)

interpretation patches_reader: reader "enc_patch_status E X" "dec_c_device_patches" "shown_patches" "\<lambda>r. ps_pending_count r < 2 ^ 63" for E X
  by unfold_locales (simp_all add: enc_patch_status_def dec_c_device_patches_def shown_patches_def patch_reader.reads_list_fld field_readers)

interpretation status_reader: reader "enc_status" "dec_c_server_status" "shown_status" "counts_fit"
  by unfold_locales (simp_all add: enc_status_def dec_c_server_status_def shown_status_def counts_fit_def field_readers)

interpretation compliance_reader: reader "enc_compliance E X" "dec_c_compliance_row up" "shown_compliance X" "\<lambda>_. reads_uuids E up" for E X up
  by unfold_locales (simp_all add: enc_compliance_def dec_c_compliance_row_def shown_compliance_def field_readers)

interpretation fleet_reader: reader "enc_fleet_report E X" "dec_c_compliance_fleet up" "shown_fleet X" "\<lambda>r. reads_uuids E up \<and> fleet_fits r" for E X up
  by unfold_locales (simp_all add: enc_fleet_report_def dec_c_compliance_fleet_def shown_fleet_def fleet_fits_def fld_f64 fld_int compliance_reader.reads_list_fld field_readers)

interpretation settings_reader: reader "enc_settings" "dec_c_settings" "shown_settings" "\<lambda>_. True"
  by unfold_locales (simp_all add: enc_settings_def dec_c_settings_def shown_settings_def default_given u_codec.dec_enc field_readers)

interpretation token_reader: reader "enc_enrollment_token X" "dec_c_enroll_token" "shown_token X" "\<lambda>_. True" for X
  by unfold_locales (simp_all add: enc_enrollment_token_def dec_c_enroll_token_def shown_token_def field_readers)

interpretation session_reader: reader "enc_shell_opened E" "dec_c_shell_open up" "shown_session" "\<lambda>_. reads_uuids E up" for E up
  by unfold_locales (simp_all add: enc_shell_opened_def dec_c_shell_open_def shown_session_def field_readers)

text \<open>A job of the list has no logs, a job asked for by id has them.\<close>

interpretation job_reader: reader "enc_job E X" "dec_c_job up" "\<lambda>j. shown_job X j []" "\<lambda>_. reads_uuids E up" for E X up
  by unfold_locales (simp_all add: enc_job_def job_fields_def dec_c_job_def shown_job_def default_fld_def field_readers)

interpretation detail_reader: reader "enc_job_detail E X" "dec_c_job up" "\<lambda>r. shown_job X (fst r) (snd r)"
  "\<lambda>_. reads_uuids E up" for E X up
  by unfold_locales (simp_all add: enc_job_detail_def job_fields_def dec_c_job_def shown_job_def default_given
    log_reader.reads_list list_all_iff field_readers)

text \<open>
  C23.  The console reads every answer of the server as what it is.  Of the data of a successful answer the
  console's decoder gives the record with the same contents, times as the text the server wrote, for every type the two
  exchange: also where the console leaves fields out, has other integer types or defaults.
\<close>

theorem console_reads_server:
  assumes "reads_uuids E up"
  shows "dec_c_user up (enc_user_info E X u) = Some (shown_user u)
    \<and> dec_list (dec_c_device up) (enc_list (enc_device E X) ds) = Some (map (shown_device X) ds)
    \<and> dec_c_device up (enc_device E X d) = Some (shown_device X d)
    \<and> (list_all metric_finite ms \<longrightarrow> dec_list dec_c_metric (enc_list (enc_metric E X) ms) = Some (map (shown_metric X) ms))
    \<and> dec_list dec_c_software (enc_list (enc_software_row E) sw) = Some (map shown_software sw)
    \<and> (ps_pending_count ps < 2 ^ 63 \<longrightarrow> dec_c_device_patches (enc_patch_status E X ps) = Some (shown_patches ps))
    \<and> dec_list (dec_c_job up) (enc_list (enc_job E X) js) = Some (map (\<lambda>j. shown_job X j []) js)
    \<and> dec_c_job up (enc_job_detail E X (j, ls)) = Some (shown_job X j ls)
    \<and> (list_all (\<lambda>p. - (2 ^ 31) \<le> p_version p \<and> p_version p < 2 ^ 31) pol
        \<longrightarrow> dec_list (dec_c_policy up) (enc_list (enc_policy_row E X) pol) = Some (map shown_policy pol))
    \<and> dec_list (dec_c_group up) (enc_list (enc_group E X) gs) = Some (map shown_group gs)
    \<and> dec_list (dec_c_member up) (enc_list (enc_member E) mem) = Some (map shown_member mem)
    \<and> (list_all (\<lambda>r. pred_option f64_finite (ar_threshold r)) rs
        \<longrightarrow> dec_list (dec_c_alert_rule up) (enc_list (enc_alert_rule E X) rs) = Some (map shown_rule rs))
    \<and> dec_list (dec_c_alert_event up) (enc_list (enc_alert_event E X) es) = Some (map (shown_event E X) es)
    \<and> (fleet_fits fr \<longrightarrow> dec_c_compliance_fleet up (enc_fleet_report E X fr) = Some (shown_fleet X fr))
    \<and> dec_c_settings (enc_settings sv) = Some (shown_settings sv)
    \<and> (counts_fit st \<longrightarrow> dec_c_server_status (enc_status st) = Some (shown_status st))
    \<and> dec_c_enroll_token (enc_enrollment_token X tk) = Some (shown_token X tk)
    \<and> dec_c_shell_open up (enc_shell_opened E so) = Some (shown_session so)"
  using assms detail_reader.reads [of E up X "(j, ls)"]
  by (simp add: user_reader.reads device_reader.reads device_reader.reads_list metric_reader.reads_list
      software_reader.reads_list patches_reader.reads job_reader.reads_list policy_reader.reads_list
      group_reader.reads_list member_reader.reads_list rule_reader.reads_list event_reader.reads_list
      fleet_reader.reads settings_reader.reads status_reader.reads token_reader.reads session_reader.reads list_all_iff)

text \<open>A metric that is not a number reads as missing.\<close>

lemma infinite_metric_missing:
  "opt_fld dec_f64 ''cpu_pct'' [(''cpu_pct'', enc_opt enc_f64 (Some F_nan))] = Some None"
  by (simp add: opt_fld_def)

text \<open>A parser of the UUIDs the sample server writes.\<close>

definition sample_uuid_of :: "string \<Rightarrow> uuid option" where
  "sample_uuid_of s = map_option of_nat (parse_uint 128 s)"

lemma sample_reads_uuids: "reads_uuids no_ext sample_uuid_of"
proof -
  have "unat (u :: uuid) < 2 ^ 128" for u
    using unsigned_less [of u, where ?'a = nat] by simp
  then show ?thesis
    by (simp add: reads_uuids_def sample_uuid_of_def no_ext_def parse_uint_show_nat)
qed

theorem console_reads_server_witness:
  "\<forall>X. dec_list (dec_c_device sample_uuid_of) (enc_list (enc_device no_ext X) [view_device device_1])
    = Some [shown_device X (view_device device_1)]"
  using console_reads_server [OF sample_reads_uuids, where ds = "[view_device device_1]"] by simp

end
