(* ===== verification/Console_Server.thy ===== *)
theory Console_Server
  imports Console_Wire Console_App Server_Access
begin

section \<open>The console and the server\<close>

text \<open>
  The console's HTTP client with the server of \<^verbatim>\<open>Server_Routes\<close> behind it.  Bodies travel as the JSON values
  they stand for.  \<open>client_lib\<close> is what the client library does: the cookie store (\<open>stored_cookie\<close> gives the
  \<^verbatim>\<open>Cookie\<close> header after a \<^verbatim>\<open>Set-Cookie\<close>), the length of a body, the check of a header value, the refusal of a
  body that is no JSON or no value of the type, and the parser of UUIDs.
\<close>

record client_lib =
  stored_cookie :: "string \<Rightarrow> string option \<Rightarrow> string option"
  body_length :: "json \<Rightarrow> nat"
  header_valid :: "string \<Rightarrow> bool"
  no_json :: string
  wrong_type :: "json \<Rightarrow> string"
  uuid_of :: "string \<Rightarrow> uuid option"
  own_address :: string

record link =
  server_side :: app_state
  jar :: "string option"

fun method_of :: "con_method \<Rightarrow> http_method" where
  "method_of C_GET = GET"
| "method_of C_POST = POST"
| "method_of C_PATCH = PATCH"
| "method_of C_DELETE = DELETE"

definition headers_of :: "string option \<Rightarrow> string option \<Rightarrow> headers" where
  "headers_of bearer cookie h =
     (if h = ''Authorization'' then map_option Visible bearer
      else if h = ''Cookie'' then map_option Visible cookie
      else if h = ''Content-Type'' then Some (Visible ''application/json'')
      else None)"

text \<open>The path is what follows the base in the URL, up to the question mark.\<close>

definition http_of :: "client_lib \<Rightarrow> string \<Rightarrow> string option \<Rightarrow> con_request \<Rightarrow> http_request" where
  "http_of L b cookie q = (let target = drop (length b) (cr_url q);
       (path, query) = (case cut_at ''?'' target of Some r \<Rightarrow> r | None \<Rightarrow> (target, [])) in
     \<lparr>rq_method = method_of (cr_method q), rq_path = path, rq_query = query,
      rq_headers = headers_of (cr_bearer q) cookie,
      rq_body = (case cr_json q of None \<Rightarrow> Broken_json | Some v \<Rightarrow> Json_value v),
      rq_content_length = map_option (body_length L) (cr_json q), rq_peer = Some (own_address L)\<rparr>)"

definition link_net :: "ext \<Rightarrow> http_ext \<Rightarrow> client_lib \<Rightarrow> string \<Rightarrow> link net" where
  "link_net E X L b = \<lparr>
     exchange = (\<lambda>q w. let (r, s) = serve E X (http_of L b (jar w) q) (server_side w) in
       (Inr (rs_status r, case rs_body r of Json_content v \<Rightarrow> Inr v | _ \<Rightarrow> Inl (no_json L)),
        \<lparr>server_side = s, jar = (case rs_cookie r of None \<Rightarrow> jar w | Some c \<Rightarrow> stored_cookie L c (jar w))\<rparr>)),
     header_ok = header_valid L, bad_body = wrong_type L, uuid_shown = uuid_text E, uuid_read = uuid_of L\<rparr>"

subsection \<open>One exchange\<close>

lemma serve_get:
  assumes "rq_method rq = GET" and "rq_content_length rq = None" and "route GET (rq_path rq) = Found e"
  shows "serve E X rq s = (case run_endpoint E X rq e s of (Inl r, t) \<Rightarrow> (r, t) | (Inr r, t) \<Rightarrow> (r, t))"
  using assms
  by (auto simp: serve_def audit_layer_def Let_def should_audit_def limited_def too_long_def routed_def
      split: prod.splits sum.splits)

lemma envelope_ok:
  assumes "dec d = Some x" and "d \<noteq> JNull"
  shows "read_envelope N dec 200 (envelope d JNull) = Inr x"
  using assms by (simp add: read_envelope_def dec_envelope_def envelope_def opt_fld_def)

lemma envelope_refused:
  assumes "rs_body (into_response E X e) = Json_content v"
  shows "\<exists>m. read_envelope N dec (rs_status (into_response E X e)) v = Inl (Http (status_code e) m)"
  using assms
  by (auto simp: into_response_def read_envelope_def dec_envelope_def envelope_def opt_fld_def dec_api_err_body_def fld_def)

subsection \<open>A session that has expired\<close>

text \<open>A request without the query, as the console sends it.\<close>

definition plain_request :: "client_lib \<Rightarrow> con_method \<Rightarrow> string \<Rightarrow> string option \<Rightarrow> string option \<Rightarrow> http_request" where
  "plain_request L m path bearer cookie = \<lparr>rq_method = method_of m, rq_path = path, rq_query = [],
     rq_headers = headers_of bearer cookie, rq_body = Broken_json, rq_content_length = None,
     rq_peer = Some (own_address L)\<rparr>"

definition bearer_of :: "client_lib \<Rightarrow> string option \<Rightarrow> string option" where
  "bearer_of L t = (case t of None \<Rightarrow> None | Some t \<Rightarrow> if header_valid L t then Some (''Bearer '' @ t) else None)"

lemma call_once_link:
  assumes "base a = b" and "cut_at ''?'' path = None"
  shows "call_once (link_net E X L b) m path None dec a =
    (let w = world a; (r, s) = serve E X (plain_request L m path (bearer_of L (session_token a)) (jar w)) (server_side w) in
     (case rs_body r of
        Json_content v \<Rightarrow> read_envelope (link_net E X L b) dec (rs_status r) v
      | _ \<Rightarrow> Inl (Message (no_json L)),
      a\<lparr>world := \<lparr>server_side = s, jar = (case rs_cookie r of None \<Rightarrow> jar w | Some c \<Rightarrow> stored_cookie L c (jar w))\<rparr>\<rparr>))"
proof -
  have "http_of L b (jar (world a)) (request_of (link_net E X L b) m path None a)
      = plain_request L m path (bearer_of L (session_token a)) (jar (world a))"
    using assms by (simp add: http_of_def request_of_def plain_request_def bearer_of_def link_net_def split: option.split)
  then show ?thesis
    by (simp add: call_once_def link_net_def Let_def split: prod.splits content.splits)
qed

lemma segments_devices: "segments ''/api/v1/devices'' = [''api'', ''v1'', ''devices'']"
  and segments_refresh: "segments ''/api/v1/auth/refresh'' = [''api'', ''v1'', ''auth'', ''refresh'']"
  by code_simp+

lemma route_devices: "route GET ''/api/v1/devices'' = Found (Device_route List_devices)"
  by (simp add: route_def segments_devices app_router_def api_router_def devices_router_def mounted_def Let_def)

lemma route_refresh: "route POST refresh_path = Found (Auth_route Refresh)"
  by (simp add: refresh_path_def route_def segments_refresh app_router_def api_router_def auth_router_def mounted_def Let_def)

lemma plain_request_simps [simp]:
  "rq_method (plain_request L m p t c) = method_of m" "rq_path (plain_request L m p t c) = p"
  "rq_headers (plain_request L m p t c) = headers_of t c" "rq_content_length (plain_request L m p t c) = None"
  "too_long (plain_request L m p t c) = False"
  by (simp_all add: plain_request_def too_long_def)

lemma headers_of_bearer: "extract_bearer_token (headers_of (Some (''Bearer '' @ t)) c) = Inr t"
  by (simp add: extract_bearer_token_def headers_of_def starts_with_def)

lemma refresh_token_any_bearer: "refresh_token_of (headers_of t c) = refresh_token_of (headers_of None c)"
  by (simp add: refresh_token_of_def cookie_header_def headers_of_def)

text \<open>A refresh token the server would accept, and the access token it would issue for it.\<close>

definition renewable :: "ext \<Rightarrow> app_state \<Rightarrow> string option \<Rightarrow> user_row \<Rightarrow> string \<Rightarrow> bool" where
  "renewable E s cookie u new \<longleftrightarrow>
     (\<exists>tok r. refresh_token_of (headers_of None cookie) = Some tok \<and> refresh_row_of (sha256_hex E tok) (db s) = Some r
        \<and> \<not> rt_revoked r \<and> wall_ms s \<le> rt_expires_at r \<and> user_by_id (rt_user_id r) (db s) = Some u)
     \<and> jwt_encode E (jwt_secret (cfg s)) (access_claims u (wall_ms s)) = Inr new
     \<and> jwt_decode E (jwt_secret (cfg s)) (wall_ms s) new = Inr (access_claims u (wall_ms s))"

lemma refresh_renewable:
  assumes "faults s = []" and "renewable E s cookie u new"
  shows "refresh E (headers_of t cookie) s = (Inr \<lparr>access_token = new, token_type = ''Bearer'', expires_in = 15 * 60\<rparr>, s)"
  using assms
  by (auto simp: renewable_def refresh_def refresh_token_any_bearer [of t] issue_access_token_def and_then_assoc action_simps)

text \<open>Writing to the audit log changes nothing else.\<close>

lemma write_audit_rest:
  assumes "faults s = []"
  shows "\<exists>ls. snd (write_audit r s) = s\<lparr>db := (db s)\<lparr>audit_log := ls\<rparr>\<rparr>"
proof -
  have same: "s\<lparr>db := (db s)\<lparr>audit_log := audit_log (db s)\<rparr>\<rparr> = s" by simp
  have "snd (write_audit r s) = s\<lparr>db := (db s)\<lparr>audit_log := audit_log (db s) @ [r]\<rparr>\<rparr> \<or> snd (write_audit r s) = s"
    using assms by (cases "al_user_id r") (simp_all add: write_audit_def ignore_def perform_if_no_fault)
  then show ?thesis
  proof
    assume "snd (write_audit r s) = s"
    then show ?thesis using same by (intro exI [of _ "audit_log (db s)"]) (simp only:)
  qed blast
qed

lemma serve_refresh:
  assumes "faults s = []" and "renewable E s cookie u new"
  shows "\<exists>ls. serve E X (plain_request L C_POST refresh_path t cookie) s
    = (data_ok enc_login_response \<lparr>access_token = new, token_type = ''Bearer'', expires_in = 15 * 60\<rparr>,
       s\<lparr>db := (db s)\<lparr>audit_log := ls\<rparr>\<rparr>)"
proof -
  let ?rq = "plain_request L C_POST refresh_path t cookie"
  have "limited E X ?rq s = (data_ok enc_login_response \<lparr>access_token = new, token_type = ''Bearer'', expires_in = 15 * 60\<rparr>, s)"
    by (simp add: limited_def routed_def route_refresh answer_def api_def and_then_def refresh_renewable [OF assms] ret_def)
  then show ?thesis using write_audit_rest [OF assms(1)]
    by (simp add: serve_def audit_layer_def should_audit_def Let_def)
qed

lemma serve_devices_expired:
  assumes "jwt_decode E (jwt_secret (cfg s)) (wall_ms s) old = Inl e"
  shows "serve E X (plain_request L C_GET ''/api/v1/devices'' (Some (''Bearer '' @ old)) cookie) s
    = (into_response E X (Unauthorized [Str ''Invalid token: '', Str e]), s)"
  using assms
  by (subst serve_get [where e = "Device_route List_devices"])
    (simp_all add: route_devices authed_def api_def from_request_parts_def headers_of_bearer [simplified] and_then_def
      lift_result_def gets_def raise_def)

lemma serve_devices:
  assumes "faults s = []" and "jwt_decode E (jwt_secret (cfg s)) (wall_ms s) t = Inr c" and "user_by_id (cl_sub c) (db s) = Some u"
  shows "serve E X (plain_request L C_GET ''/api/v1/devices'' (Some (''Bearer '' @ t)) cookie) s
    = (data_ok (enc_list (enc_device E X)) (map view_device (order_desc_nulls d_enrolled_at (devices (db s)))), s)"
  using assms
  by (subst serve_get [where e = "Device_route List_devices"])
    (simp_all add: route_devices authed_def api_def from_request_parts_def headers_of_bearer [simplified] and_then_def answer_def
      lift_result_def gets_def ret_def list_devices_def select_no_fault)

lemma no_query: "cut_at ''?'' ''/api/v1/devices'' = None" "cut_at ''?'' refresh_path = None"
  by (simp_all add: refresh_path_def starts_with_def)

lemma world_same: "a\<lparr>world := \<lparr>server_side = server_side (world a), jar = jar (world a)\<rparr>\<rparr> = (a :: link api)"
  by simp

lemma link_uuid_read: "uuid_read (link_net E X L b) = uuid_of L"
  by (simp add: link_net_def)

lemma set_token_after: "set_token t (a\<lparr>world := w\<rparr>) = a\<lparr>session_token := t, world := w\<rparr>"
  by (simp add: set_token_def)

lemma call_expired:
  fixes a :: "link api"
  assumes "base a = b" and "session_token a = Some old" and "header_valid L old"
    and "jwt_decode E (jwt_secret (cfg (server_side (world a)))) (wall_ms (server_side (world a))) old = Inl e"
  shows "\<exists>m. call_once (link_net E X L b) C_GET ''/api/v1/devices'' None dec a = (Inl (Http 401 m), a)"
proof -
  let ?r = "into_response E X (Unauthorized [Str ''Invalid token: '', Str e])"
  have "call_once (link_net E X L b) C_GET ''/api/v1/devices'' None dec a
      = (case rs_body ?r of Json_content v \<Rightarrow> read_envelope (link_net E X L b) dec (rs_status ?r) v | _ \<Rightarrow> Inl (Message (no_json L)), a)"
    unfolding call_once_link [OF assms(1) no_query(1)] assms(2) Let_def bearer_of_def
    using serve_devices_expired [OF assms(4), of X L "jar (world a)"] assms(3)
    by (simp add: world_same into_response_def del: append_Cons)
  moreover obtain v where v: "rs_body ?r = Json_content v" by (simp add: into_response_def)
  ultimately show ?thesis using envelope_refused [OF v, of "link_net E X L b" dec] by auto
qed

lemma call_refresh:
  fixes a :: "link api"
  assumes "base a = b" and "faults (server_side (world a)) = []"
    and "renewable E (server_side (world a)) (jar (world a)) u new"
  shows "\<exists>ls. call_once (link_net E X L b) C_POST refresh_path None dec_login_data a = (Inr new,
    a\<lparr>world := (world a)\<lparr>server_side := (server_side (world a))\<lparr>db := (db (server_side (world a)))\<lparr>audit_log := ls\<rparr>\<rparr>\<rparr>\<rparr>)"
proof -
  let ?d = "enc_login_response \<lparr>access_token = new, token_type = ''Bearer'', expires_in = 900\<rparr>"
  have env: "read_envelope (link_net E X L b) dec_login_data 200 (envelope ?d JNull) = Inr new"
    by (rule envelope_ok) (simp_all add: dec_login_data_def enc_login_response_def fld_def)
  obtain ls where "serve E X (plain_request L C_POST refresh_path (bearer_of L (session_token a)) (jar (world a))) (server_side (world a))
      = (data_ok enc_login_response \<lparr>access_token = new, token_type = ''Bearer'', expires_in = 15 * 60\<rparr>,
         (server_side (world a))\<lparr>db := (db (server_side (world a)))\<lparr>audit_log := ls\<rparr>\<rparr>)"
    using serve_refresh [OF assms(2,3)] by blast
  then show ?thesis
    by (intro exI [of _ ls])
      (simp add: call_once_link [OF assms(1) no_query(2)] Let_def data_ok_def data_response_def env)
qed

lemma call_devices:
  fixes a :: "link api"
  assumes "base a = b" and "reads_uuids E (uuid_of L)" and "faults (server_side (world a)) = []"
    and "session_token a = Some t" and "header_valid L t"
    and "jwt_decode E (jwt_secret (cfg (server_side (world a)))) (wall_ms (server_side (world a))) t = Inr c"
    and "user_by_id (cl_sub c) (db (server_side (world a))) = Some u"
  shows "call_once (link_net E X L b) C_GET ''/api/v1/devices'' None (dec_list (dec_c_device (uuid_of L))) a =
    (Inr (map (\<lambda>d. shown_device X (view_device d)) (order_desc_nulls d_enrolled_at (devices (db (server_side (world a)))))), a)"
proof -
  let ?ds = "map view_device (order_desc_nulls d_enrolled_at (devices (db (server_side (world a)))))"
  have "dec_list (dec_c_device (uuid_of L)) (enc_list (enc_device E X) ?ds) = Some (map (shown_device X) ?ds)"
    by (rule device_reader.reads_list) (simp add: assms list_all_iff)
  moreover have "enc_list (enc_device E X) ?ds \<noteq> JNull" by (simp add: enc_list_def)
  ultimately have "read_envelope (link_net E X L b) (dec_list (dec_c_device (uuid_of L))) 200
      (envelope (enc_list (enc_device E X) ?ds) JNull) = Inr (map (shown_device X) ?ds)"
    by (rule envelope_ok)
  then show ?thesis
    unfolding call_once_link [OF assms(1) no_query(1)] assms(4) Let_def bearer_of_def
    using serve_devices [OF assms(3,6,7), of X L "jar (world a)"] assms(5)
    by (simp add: world_same data_ok_def data_response_def comp_def del: append_Cons)
qed

text \<open>
  C22.  A console whose access token has expired, but whose refresh cookie the server still accepts, shows its user
  the devices as the server's database has them, without asking for a password: it is refused once, gets a new
  token, asks again, and reads what the server writes; on the server only the audit log changes.
\<close>

theorem console_survives_expiry:
  fixes a :: "link api"
  assumes "reads_uuids E (uuid_of L)" and "faults (server_side (world a)) = []"
    and "session_token a = Some old" and "header_valid L old" and "header_valid L new"
    and "jwt_decode E (jwt_secret (cfg (server_side (world a)))) (wall_ms (server_side (world a))) old = Inl e"
    and "renewable E (server_side (world a)) (jar (world a)) u new"
  shows "\<exists>ls. run_work (link_net E X L (base a)) W_LoadDevices a =
    (Inr (R_Devices (map (\<lambda>d. shown_device X (view_device d))
       (order_desc_nulls d_enrolled_at (devices (db (server_side (world a))))))),
     a\<lparr>session_token := Some new, world := (world a)\<lparr>server_side := (server_side (world a))
       \<lparr>db := (db (server_side (world a)))\<lparr>audit_log := ls\<rparr>\<rparr>\<rparr>\<rparr>)"
proof -
  let ?N = "link_net E X L (base a)" and ?s = "server_side (world a)"
  let ?dec = "dec_list (dec_c_device (uuid_of L))" and ?p = "''/api/v1/devices''"
  obtain m where one: "call_once ?N C_GET ?p None ?dec a = (Inl (Http 401 m), a)"
    using call_expired [OF refl assms(3,4,6)] by blast
  obtain ls where two: "call_once ?N C_POST refresh_path None dec_login_data a = (Inr new,
      a\<lparr>world := (world a)\<lparr>server_side := ?s\<lparr>db := (db ?s)\<lparr>audit_log := ls\<rparr>\<rparr>\<rparr>\<rparr>)"
    using call_refresh [OF refl assms(2,7)] by blast
  let ?a = "a\<lparr>session_token := Some new, world := (world a)\<lparr>server_side := ?s\<lparr>db := (db ?s)\<lparr>audit_log := ls\<rparr>\<rparr>\<rparr>\<rparr>"
  obtain r :: refresh_row where "user_by_id (rt_user_id r) (db ?s) = Some u"
    and j: "jwt_decode E (jwt_secret (cfg ?s)) (wall_ms ?s) new = Inr (access_claims u (wall_ms ?s))"
    using assms(7) by (auto simp: renewable_def)
  moreover from this(1) have "u_id u = rt_user_id r" using find_SomeD unfolding user_by_id_def by fastforce
  ultimately have u: "user_by_id (cl_sub (access_claims u (wall_ms ?s))) (db ?s) = Some u"
    by (simp add: access_claims_def)
  have three: "call_once ?N C_GET ?p None ?dec ?a =
      (Inr (map (\<lambda>d. shown_device X (view_device d)) (order_desc_nulls d_enrolled_at (devices (db ?s)))), ?a)"
    using call_devices [of ?a "base a" E L new "access_claims u (wall_ms ?s)" u X] assms j u
    by (simp add: user_by_id_def)
  have "\<not> starts_with ''/api/v1/auth/'' ?p" by (simp add: starts_with_def)
  then have "load_devices ?N a = (Inr (map (\<lambda>d. shown_device X (view_device d)) (order_desc_nulls d_enrolled_at (devices (db ?s)))), ?a)"
    using one two three
    by (simp add: load_devices_def get_json_def call_def refresh_session_def link_uuid_read set_token_after)
  then show ?thesis by (intro exI [of _ ls]) (simp add: and_then_def ret_def)
qed

definition sample_client :: client_lib where
  "sample_client = \<lparr>stored_cookie = (\<lambda>c _. Some c), body_length = (\<lambda>_. 0), header_valid = (\<lambda>_. True), no_json = [],
     wrong_type = (\<lambda>_. []), uuid_of = sample_uuid_of, own_address = ''10.0.0.2''\<rparr>"

definition later_ext :: ext where
  "later_ext = no_ext\<lparr>jwt_decode := (\<lambda>_ _ t. if t = ''root'' then Inr (access_claims admin_row 1000) else Inl ''ExpiredSignature'')\<rparr>"

definition waiting :: "link api" where
  "waiting = \<lparr>base = ''https://host'', world = \<lparr>server_side = some_state, jar = Some ''refresh_token=r''\<rparr>,
     session_token = Some ''old''\<rparr>"

lemma waiting_cookie: "refresh_token_of (headers_of None (Some ''refresh_token=r'')) = Some ''r''"
proof -
  have "cookie_header (headers_of None (Some ''refresh_token=r'')) = ''refresh_token=r''"
    by (simp add: cookie_header_def headers_of_def)
  moreover have "find_map (\<lambda>c. strip_prefix ''refresh_token='' (trim c)) (split_on CHR '';'' ''refresh_token=r'') = Some ''r''"
    by code_simp
  ultimately show ?thesis by (simp add: refresh_token_of_def)
qed

theorem console_survives_expiry_witness:
  "\<exists>t. run_work (link_net later_ext some_http sample_client ''https://host'') W_LoadDevices waiting
      = (Inr (R_Devices [shown_device some_http (view_device device_1)]), t) \<and> session_token t = Some ''root''"
proof -
  have "reads_uuids later_ext (uuid_of sample_client)"
    using sample_reads_uuids by (simp add: reads_uuids_def later_ext_def sample_client_def)
  moreover have "renewable later_ext (server_side (world waiting)) (jar (world waiting)) admin_row ''root''"
    by (simp add: renewable_def waiting_def waiting_cookie refresh_row_of_def user_by_id_def later_ext_def sample_defs access_claims_def)
  ultimately obtain ls where "run_work (link_net later_ext some_http sample_client (base waiting)) W_LoadDevices waiting =
    (Inr (R_Devices (map (\<lambda>d. shown_device some_http (view_device d))
       (order_desc_nulls d_enrolled_at (devices (db (server_side (world waiting))))))),
     waiting\<lparr>session_token := Some ''root'', world := (world waiting)\<lparr>server_side := (server_side (world waiting))
       \<lparr>db := (db (server_side (world waiting)))\<lparr>audit_log := ls\<rparr>\<rparr>\<rparr>\<rparr>)"
    using console_survives_expiry [of later_ext sample_client waiting "''old''" "''root''" "''ExpiredSignature''" admin_row some_http]
    by (auto simp: sample_client_def waiting_def later_ext_def sample_defs)
  moreover have "devices (db (server_side (world waiting))) = [device_1]" and "base waiting = ''https://host''"
    by (simp_all add: waiting_def sample_defs)
  moreover have "order_desc_nulls d_enrolled_at [device_1] = [device_1]" by (simp add: order_desc_nulls_def)
  ultimately show ?thesis by auto
qed

end
