(* ===== verification/Spec2Isabelle.thy ===== *)
theory Spec2Isabelle
  imports Auth_Api Enroll_Api Policies_Api Alerts Jobs_Api Shell_Api Reports_Api Agent_Hub Agent_Policy
    Agent_Runs Agent_Sessions Agent_Sources Agent_Link Whole_System Server_Answers Server_Start Console_Stream
    Console_Threads Console_Server
begin

text \<open>
  A verification development for osfm-edm, an endpoint management platform: a server with a REST
  API and a WebSocket hub, an agent that runs on every managed machine and a native console for
  administrators.  All paths below are relative to \<^verbatim>\<open>src/crates/\<close>.

  \<^bold>\<open>The parts and how they interact.\<close>  An administrator signs in to the server and creates an
  enrollment token; an agent exchanges it, over TLS pinned to the server's CA, for a device row, a
  certificate, a device token and the server's signing key.  From then on the agent keeps a
  WebSocket open, authenticated by the device token.  The server sends signed jobs, policies,
  revocations, shell sessions and requests for reports; the agent verifies, runs and enforces them and
  reports telemetry, logs, completions, inventories, policy reports, events and shell output, which
  the server stores, checks against alert rules and notifies about.

  \<^bold>\<open>How programs are modelled.\<close>  A request handler or background task is an action
  (\<^verbatim>\<open>Prelude\<close>): a function of the state to an error or a value and the new state.  \<open>and_then\<close> is
  the sequencing of statements with \<^verbatim>\<open>?\<close>, so that every early return is a branch, and
  what was done before an error stays done.  The state of the server (\<^verbatim>\<open>Server_State\<close>) is the
  record \<open>app_state\<close> of its in-memory maps, channels, clocks and database, the tables being
  lists of rows in order of insertion; \<open>faults\<close> decides, statement by statement, which database
  operations fail, so every theorem that does not mention it covers a failing database.  The agent
  (\<^verbatim>\<open>Agent_Core\<close>) is a state machine: \<open>agent_step\<close> is one step of one of its concurrent tasks,
  \<open>runs_to\<close> any interleaving of them, with the machine it runs on as a free type \<open>'h\<close>.
  Third-party code is a record of functions: \<open>ext\<close> for the server (hashing, JWT, TOTP,
  certificates, text of UUIDs and JSON), \<open>os\<close>, \<open>crypto\<close> and \<open>web\<close> for the agent.

  \<^bold>\<open>Shared code\<close> (\<^verbatim>\<open>osfm-edm-common/src/\<close>).
  \<^item> \<^verbatim>\<open>Text\<close>, \<^verbatim>\<open>Json\<close>: the string operations of Rust's \<^verbatim>\<open>str\<close> that the program uses, and
    \<^verbatim>\<open>serde_json::Value\<close> with the conversions that derived serde code composes; the locale \<open>codec\<close> is the
    law of such a pair of conversions, interpreted for every type that is sent.
  \<^item> \<^verbatim>\<open>Protocol\<close>: \<^verbatim>\<open>device.rs\<close>, \<^verbatim>\<open>jobs.rs\<close> and the bytes a job signature covers;
    \<^verbatim>\<open>Messages\<close>: \<^verbatim>\<open>policy.rs\<close>, \<^verbatim>\<open>events.rs\<close>, \<^verbatim>\<open>protocol.rs\<close>.  Both message types decode to
    what was encoded, and the signed bytes determine the job.

  \<^bold>\<open>Server\<close> (\<^verbatim>\<open>osfm-edm-server/src/\<close>).
  \<^item> \<^verbatim>\<open>Server_State\<close> (\<^verbatim>\<open>state.rs\<close>, \<^verbatim>\<open>error.rs\<close>, the migrations), \<^verbatim>\<open>Samples\<close> (concrete states
    for witnesses), \<^verbatim>\<open>Server_Config\<close> (\<^verbatim>\<open>config.rs\<close>).
  \<^item> \<^verbatim>\<open>Auth\<close> (\<^verbatim>\<open>middleware/auth.rs\<close> and the login throttle), \<^verbatim>\<open>Auth_Api\<close> (\<^verbatim>\<open>api/auth.rs\<close>):
    what a login, a refresh and a logout grant and end.
  \<^item> \<^verbatim>\<open>Enroll_Api\<close>, \<^verbatim>\<open>Devices_Api\<close>, \<^verbatim>\<open>Groups_Api\<close>, \<^verbatim>\<open>Reports_Api\<close> (reports, patches, software, settings):
    the files of \<^verbatim>\<open>api/\<close> with these names.
  \<^item> \<^verbatim>\<open>Policies_Api\<close> (\<^verbatim>\<open>api/policies.rs\<close>, \<^verbatim>\<open>services/policy_engine.rs\<close>): exactly who is pushed
    which policy.  \<^verbatim>\<open>Alerts\<close> (\<^verbatim>\<open>api/alerts.rs\<close>, \<^verbatim>\<open>services/alert_engine.rs\<close>,
    \<^verbatim>\<open>services/notifications.rs\<close>): exactly which events a telemetry check opens.
  \<^item> \<^verbatim>\<open>Jobs_Api\<close> (\<^verbatim>\<open>api/jobs.rs\<close>, \<^verbatim>\<open>services/job_queue.rs\<close>, signing): creation, dispatch,
    cancellation.  \<^verbatim>\<open>Shell_Api\<close> (\<^verbatim>\<open>api/shell.rs\<close>): who may use which session.
  \<^item> \<^verbatim>\<open>Agent_Hub\<close> (\<^verbatim>\<open>ws/agent_hub.rs\<close>): authentication of agents, opening and closing a connection and
    every incoming message, with the invariants all of them keep.

  \<^item> \<^verbatim>\<open>Api_Wire\<close> (\<^verbatim>\<open>error.rs\<close> and the serde types of \<^verbatim>\<open>api/*.rs\<close>): the JSON of requests and responses;
    \<^verbatim>\<open>Server_Routes\<close> (\<^verbatim>\<open>main.rs\<close>, \<^verbatim>\<open>api/mod.rs\<close>, every \<^verbatim>\<open>router\<close>, \<^verbatim>\<open>middleware/audit.rs\<close>): from a request to its
    response, \<open>serve\<close>; \<^verbatim>\<open>Server_Access\<close>: what a request of somebody who is no administrator can change,
    route by route, and exactly what the audit log holds afterwards; \<^verbatim>\<open>Server_Answers\<close>: the shape and status of
    every answer.
  \<^item> \<^verbatim>\<open>Server_Keys\<close> (\<^verbatim>\<open>services/pki.rs\<close> and the key file of \<^verbatim>\<open>services/signing.rs\<close>): the CA, the certificates it
    issues and the signing key, on files whose operations may fail or be cut; \<^verbatim>\<open>Server_Start\<close> (\<^verbatim>\<open>main.rs\<close>): from
    the environment to the listening socket, and that a restart keeps CA, signing key and certificate.

  \<^bold>\<open>Agent\<close> (\<^verbatim>\<open>osfm-edm-agent/src/\<close>).
  \<^item> \<^verbatim>\<open>Agent_Host\<close>: the questions and commands put to the operating system.
  \<^item> \<^verbatim>\<open>Agent_Policy\<close> (\<^verbatim>\<open>policy/\<close>): checks and enforcers of the three platforms.
  \<^item> \<^verbatim>\<open>Agent_Commands\<close> and \<^verbatim>\<open>Agent_Jobs\<close> (\<^verbatim>\<open>jobs/executor.rs\<close>, \<^verbatim>\<open>jobs/registry.rs\<close>): the command lines, with
    a reference scanner of shell words (\<open>sh_lex\<close>), and the life of a run.
  \<^item> \<^verbatim>\<open>Agent_Telemetry\<close> (\<^verbatim>\<open>telemetry/\<close>): collectors and parsers.  \<^verbatim>\<open>Agent_Shell\<close>
    (\<^verbatim>\<open>shell/session.rs\<close>): the threads of a remote shell.
  \<^item> \<^verbatim>\<open>Agent_Core\<close> (\<^verbatim>\<open>main.rs\<close>): verification and handling of messages, the spawned loops, the state
    machine.  \<^verbatim>\<open>Agent_Runs\<close> and \<^verbatim>\<open>Agent_Sessions\<close> hold its invariants: what each step touches
    (\<open>run_effect\<close>, \<open>no_run_effect\<close>, \<open>same_sessions\<close>), then inductions over \<open>runs_to\<close>.
  \<^item> \<^verbatim>\<open>Agent_Monitor\<close> (\<^verbatim>\<open>system_monitor/\<close>): the pollers, as refinements of ``replaying the events on the old
    snapshot gives the new one'' (locale \<open>snapshot_diff\<close>), the parsers of the kernel's tables and
    messages, and batching; \<^verbatim>\<open>Agent_Sources\<close>: the system calls that open the Linux sources and the whole monitor as a
    state machine \<open>mon_move\<close> of its loops, from which nothing is lost.
  \<^item> \<^verbatim>\<open>Agent_Link\<close> (\<^verbatim>\<open>config.rs\<close>, \<^verbatim>\<open>enrollment.rs\<close>, \<^verbatim>\<open>tls.rs\<close>, \<^verbatim>\<open>transport/\<close>): configuration file,
    pinning, enrollment, the WebSocket session and the reconnect loop.

  \<^bold>\<open>Console\<close> (\<^verbatim>\<open>osfm-edm-console/src/\<close>).
  \<^item> \<^verbatim>\<open>Console_Model\<close> (\<^verbatim>\<open>model.rs\<close>): the records and how they are read from JSON.  \<^verbatim>\<open>Console_Api\<close>
    (\<^verbatim>\<open>api.rs\<close>, \<^verbatim>\<open>main.rs\<close>): one call, the retry after a refresh, and the trust the console starts with;
    \<open>net\<close> is the HTTP client with everything behind it.  \<^verbatim>\<open>Console_Stream\<close>: the reader of a
    shell's event stream, whose result does not depend on how the stream is cut.
  \<^item> \<^verbatim>\<open>Console_App\<close> (the worker), \<^verbatim>\<open>Console_Window\<close> (state and replies), \<^verbatim>\<open>Console_Screens\<close> (widgets) of
    \<^verbatim>\<open>app.rs\<close>; \<^verbatim>\<open>Console_Threads\<close>: window, worker and stream reader as the step relation \<open>con_step\<close>, what a
    viewer's console can ask for, and that the window always comes to rest.
  \<^item> \<^verbatim>\<open>Console_Wire\<close>: the console's reader of every JSON type after the server's writer (locale \<open>reader\<close>);
    \<^verbatim>\<open>Console_Server\<close>: the console's HTTP client with \<open>serve\<close> behind it, and a session that expires.

  \<^bold>\<open>Both sides\<close> (\<^verbatim>\<open>Whole_System\<close>): what the server grants the agent accepts and the other way
  round.  \<open>keys_fit\<close> says that the crates of the two sides implement the same base64, Ed25519 and
  JSON; the witnesses give an instance of it.

  \<^bold>\<open>Bounds and fuel.\<close>  Loops over lists are structural.  The directory walk of the file monitor
  has the depth limit 6 of the code as fuel 7 (the root is level 0); the reconnect loop is a
  function of the list of outcomes of its connections, so it needs none; the agent's loops are
  histories of any length.  Integers keep their width as words where they are sent or can wrap;
  clocks, counts of rows and lengths are natural numbers.

  \<^bold>\<open>Not modelled.\<close>  Bounded channels (an outbound queue of the server or the agent that is full), the
  text of log lines and the log filter, delivery of mail and HTTP notifications after they are handed over, the
  bytes of certificates (their parameters are modelled), the texts axum writes for a rejected request, CORS and trace headers, and what the screens of the console look like.
\<close>

end
